(* ===== verification/Prelude.thy ===== *)
theory Prelude
  imports Main "HOL-Library.Word"
begin

text \<open>
  Shared vocabulary of the development: the unsigned machine integers of the Rust sources, the
  result type with Rust's \<open>?\<close> operator, the checked and saturating operations of the standard
  library on unsigned integers, and the little-endian byte encodings that every on-chain layout
  uses.

  Collections of facts: \<open>res_simps\<close> opens a computation in the result type (which guards
  held when a handler returned), \<open>codec_simps\<close> evaluates encoders and decoders.
\<close>

named_theorems res_simps
named_theorems codec_simps

type_synonym u8 = "8 word"
type_synonym u16 = "16 word"
type_synonym u32 = "32 word"
type_synonym u64 = "64 word"

type_synonym bytes = "u8 list"


section \<open>Results and early returns\<close>

text \<open>
  A fallible computation is a value of \<open>'e + 'a\<close>. \<^term>\<open>Inl\<close> is \<open>Err\<close>,
  \<^term>\<open>Inr\<close> is \<open>Ok\<close>. The \<open>?\<close> operator is \<open>and_then\<close>.
\<close>

abbreviation Ok :: "'a \<Rightarrow> 'e + 'a" where "Ok \<equiv> Inr"

fun and_then :: "'e + 'a \<Rightarrow> ('a \<Rightarrow> 'e + 'b) \<Rightarrow> 'e + 'b" where
  "and_then (Inl e) f = Inl e"
| "and_then (Inr x) f = f x"

fun map_err :: "('e \<Rightarrow> 'f) \<Rightarrow> 'e + 'a \<Rightarrow> 'f + 'a" where
  "map_err g (Inl e) = Inl (g e)"
| "map_err g (Inr x) = Inr x"

fun ok_or :: "'a option \<Rightarrow> 'e \<Rightarrow> 'e + 'a" where
  "ok_or None e = Inl e"
| "ok_or (Some x) e = Inr x"

definition require :: "bool \<Rightarrow> 'e \<Rightarrow> 'e + unit" where
  "require c e = (if c then Inr () else Inl e)"

fun is_ok :: "'e + 'a \<Rightarrow> bool" where
  "is_ok (Inl e) = False"
| "is_ok (Inr x) = True"

lemma and_then_Inr_iff [res_simps]:
  "and_then m f = Inr y \<longleftrightarrow> (\<exists>x. m = Inr x \<and> f x = Inr y)"
  by (cases m) auto

lemma and_then_Inl_iff:
  "and_then m f = Inl e \<longleftrightarrow> m = Inl e \<or> (\<exists>x. m = Inr x \<and> f x = Inl e)"
  by (cases m) auto

lemma map_err_Inr_iff [res_simps]: "map_err g m = Inr x \<longleftrightarrow> m = Inr x"
  by (cases m) auto

lemma ok_or_Inr_iff [res_simps]: "ok_or m e = Inr x \<longleftrightarrow> m = Some x"
  by (cases m) auto

lemma ok_or_Inl_iff: "ok_or m e = Inl e' \<longleftrightarrow> m = None \<and> e' = e"
  by (cases m) auto

lemma require_Inr_iff [res_simps]: "require c e = Inr u \<longleftrightarrow> c"
  by (simp add: require_def)

lemma require_Inl_iff: "require c e = Inl e' \<longleftrightarrow> \<not> c \<and> e' = e"
  by (auto simp: require_def)

lemma require_simps [simp]: "require True e = Inr ()" "require False e = Inl e"
  by (simp_all add: require_def)

lemma is_ok_iff [simp]: "is_ok m \<longleftrightarrow> (\<exists>x. m = Inr x)"
  by (cases m) auto

lemma if_Inl_Inr_iff: "(if c then Inl e else m) = Inr x \<longleftrightarrow> \<not> c \<and> m = Inr x"
  by simp

lemma and_then_assoc: "and_then (and_then m f) g = and_then m (\<lambda>x. and_then (f x) g)"
  by (cases m) auto

lemma and_then_cong [fundef_cong]:
  "m = m' \<Longrightarrow> (\<And>x. m' = Inr x \<Longrightarrow> f x = f' x) \<Longrightarrow> and_then m f = and_then m' f'"
  by (cases m) auto


text \<open>
  Fallible code with a mutable receiver is a function from the state to a result and the state
  left behind, on errors as well: \<open>sbind\<close> is the \<open>?\<close> operator there.
\<close>

type_synonym ('s, 'e, 'a) action = "'s \<Rightarrow> ('e + 'a) \<times> 's"

definition sret :: "'a \<Rightarrow> ('s, 'e, 'a) action" where
  "sret x s = (Inr x, s)"

definition sfail :: "'e \<Rightarrow> ('s, 'e, 'a) action" where
  "sfail e s = (Inl e, s)"

definition sread :: "('s \<Rightarrow> 'e + 'a) \<Rightarrow> ('s, 'e, 'a) action" where
  "sread f s = (f s, s)"

definition smodify :: "('s \<Rightarrow> 's) \<Rightarrow> ('s, 'e, unit) action" where
  "smodify f s = (Inr (), f s)"

definition sbind :: "('s, 'e, 'a) action \<Rightarrow> ('a \<Rightarrow> ('s, 'e, 'b) action) \<Rightarrow> ('s, 'e, 'b) action" where
  "sbind m f s = (case m s of (Inl e, s') \<Rightarrow> (Inl e, s') | (Inr x, s') \<Rightarrow> f x s')"

lemma sbind_Inr_iff [res_simps]:
  "sbind m f s = (Inr y, s') \<longleftrightarrow> (\<exists>x s1. m s = (Inr x, s1) \<and> f x s1 = (Inr y, s'))"
  by (auto simp: sbind_def split: prod.splits sum.splits)

lemma sread_Inr_iff [res_simps]: "sread f s = (Inr x, s') \<longleftrightarrow> f s = Inr x \<and> s' = s"
  by (auto simp: sread_def)

lemma smodify_Inr_iff [res_simps]: "smodify f s = (r, s') \<longleftrightarrow> r = Inr () \<and> s' = f s"
  by (auto simp: smodify_def)

lemma sret_Inr_iff [res_simps]: "sret x s = (r, s') \<longleftrightarrow> r = Inr x \<and> s' = s"
  by (auto simp: sret_def)

lemma sfail_iff [res_simps]: "sfail e s = (r, s') \<longleftrightarrow> r = Inl e \<and> s' = s"
  by (auto simp: sfail_def)

lemma sbind_cases:
  assumes "sbind m f s = (r, s')"
  obtains (fail) e where "m s = (Inl e, s')" "r = Inl e"
  | (step) x s1 where "m s = (Inr x, s1)" "f x s1 = (r, s')"
  using assms by (auto simp: sbind_def split: prod.splits sum.splits)

lemma sbind_cong [fundef_cong]:
  assumes "m s = m' s'" and "\<And>x s1. m' s' = (Inr x, s1) \<Longrightarrow> f x s1 = g x s1"
  shows "sbind m f s = sbind m' g s'"
  using assms by (auto simp: sbind_def split: prod.splits sum.splits)

text \<open>
  An action is \<open>stable\<close> under a relation if the state it leaves behind is related to the one it
  started from, and \<open>stable_ok\<close> if this holds when it succeeds. For a preorder both compose.
\<close>

definition stable :: "('s \<Rightarrow> 's \<Rightarrow> bool) \<Rightarrow> ('s, 'e, 'a) action \<Rightarrow> bool" where
  "stable R m \<longleftrightarrow> (\<forall>s r s'. m s = (r, s') \<longrightarrow> R s s')"

definition stable_ok :: "('s \<Rightarrow> 's \<Rightarrow> bool) \<Rightarrow> ('s, 'e, 'a) action \<Rightarrow> bool" where
  "stable_ok R m \<longleftrightarrow> (\<forall>s x s'. m s = (Inr x, s') \<longrightarrow> R s s')"

lemma stableD: "stable R m \<Longrightarrow> m s = (r, s') \<Longrightarrow> R s s'"
  by (auto simp: stable_def)

lemma stable_okD: "stable_ok R m \<Longrightarrow> m s = (Inr x, s') \<Longrightarrow> R s s'"
  by (auto simp: stable_ok_def)

locale state_preorder =
  fixes R :: "'s \<Rightarrow> 's \<Rightarrow> bool"
  assumes refl: "R s s"
    and trans: "R s t \<Longrightarrow> R t u \<Longrightarrow> R s u"
begin

lemma stable_sread: "stable R (sread f)"
  by (auto simp: stable_def sread_def intro: refl)

lemma stable_sret: "stable R (sret x)"
  by (auto simp: stable_def sret_def intro: refl)

lemma stable_sfail: "stable R (sfail e)"
  by (auto simp: stable_def sfail_def intro: refl)

lemma stable_smodify: "(\<And>s. R s (f s)) \<Longrightarrow> stable R (smodify f)"
  by (auto simp: stable_def smodify_def)

lemma stable_sbind:
  assumes "stable R m" and "\<And>x. stable R (f x)"
  shows "stable R (sbind m f)"
  unfolding stable_def
proof (intro allI impI)
  fix s r s' assume "sbind m f s = (r, s')"
  then show "R s s'"
    by (cases rule: sbind_cases) (use assms in \<open>auto dest: stableD intro: trans\<close>)
qed

lemma stable_apply: "(\<And>s. stable R (f s)) \<Longrightarrow> stable R (\<lambda>s. f s s)"
  by (auto simp: stable_def)

lemma stable_if_state: "stable R m \<Longrightarrow> stable R m' \<Longrightarrow> stable R (\<lambda>s. if P s then m s else m' s)"
  by (auto simp: stable_def)

lemma stable_if: "stable R m \<Longrightarrow> stable R m' \<Longrightarrow> stable R (if b then m else m')"
  by simp

lemmas stable_intros = stable_sread stable_sret stable_sfail stable_smodify stable_sbind stable_if

lemma stable_imp_ok: "stable R m \<Longrightarrow> stable_ok R m"
  by (auto simp: stable_def stable_ok_def)

lemma stable_ok_sbind:
  assumes "stable_ok R m" and "\<And>x. stable_ok R (f x)"
  shows "stable_ok R (sbind m f)"
  using assms unfolding stable_ok_def by (clarsimp simp: sbind_Inr_iff) (meson trans)

end


section \<open>Unsigned integers\<close>

text \<open>
  \<open>checked_add\<close>, \<open>checked_sub\<close>, \<open>saturating_add\<close> and \<open>saturating_sub\<close> of the
  Rust standard library at any width. The plain operators of a release build are the
  wrapping operators of \<^typ>\<open>'a word\<close>.
\<close>

definition checked_add :: "'a::len word \<Rightarrow> 'a word \<Rightarrow> 'a word option" where
  "checked_add a b = (if unat a + unat b < 2 ^ LENGTH('a) then Some (a + b) else None)"

definition checked_sub :: "'a::len word \<Rightarrow> 'a word \<Rightarrow> 'a word option" where
  "checked_sub a b = (if b \<le> a then Some (a - b) else None)"

definition saturating_add :: "'a::len word \<Rightarrow> 'a word \<Rightarrow> 'a word" where
  "saturating_add a b = (if unat a + unat b < 2 ^ LENGTH('a) then a + b else - 1)"

definition saturating_sub :: "'a::len word \<Rightarrow> 'a word \<Rightarrow> 'a word" where
  "saturating_sub a b = (if b \<le> a then a - b else 0)"

lemma unat_word_of_nat_id:
  "n < 2 ^ LENGTH('a) \<Longrightarrow> unat (word_of_nat n :: 'a::len word) = n"
  by (simp add: unat_of_nat)

lemma unat_less_2_64 [simp]: "unat (x :: u64) < 18446744073709551616"
  using unsigned_less [of x, where 'a = nat] by simp

lemma unat_ucast_32_64: "unat (ucast (x :: u32) :: u64) = unat x"
  using unsigned_less [of x, where 'a = nat] by (simp add: unsigned_ucast_eq take_bit_nat_eq_self)

lemma unat_add_no_overflow:
  fixes a b :: "'a::len word"
  assumes "unat a + unat b < 2 ^ LENGTH('a)"
  shows "unat (a + b) = unat a + unat b"
  using assms by (simp add: unat_word_ariths)

lemma unat_mult_no_overflow:
  fixes a b :: "'a::len word"
  assumes "unat a * unat b < 2 ^ LENGTH('a)"
  shows "unat (a * b) = unat a * unat b"
  using assms by (simp add: unat_word_ariths)

lemma checked_add_Some_iff:
  fixes a b :: "'a::len word"
  shows "checked_add a b = Some c
    \<longleftrightarrow> unat c = unat a + unat b"
proof
  assume "checked_add a b = Some c"
  then show "unat c = unat a + unat b"
    by (auto simp: checked_add_def unat_add_no_overflow split: if_splits)
next
  assume c: "unat c = unat a + unat b"
  then have lt: "unat a + unat b < 2 ^ LENGTH('a)"
    by (metis unsigned_less)
  with c have "unat (a + b) = unat c"
    by (simp add: unat_add_no_overflow)
  then have "a + b = c" by (rule unsigned_word_eqI)
  with lt show "checked_add a b = Some c" by (simp add: checked_add_def)
qed

lemma checked_sub_Some_iff:
  fixes a b :: "'a::len word"
  shows "checked_sub a b = Some c \<longleftrightarrow> unat a = unat c + unat b"
proof
  assume "checked_sub a b = Some c"
  then have "b \<le> a" and "c = a - b"
    by (auto simp: checked_sub_def split: if_splits)
  then show "unat a = unat c + unat b"
    by (simp add: unat_sub word_le_nat_alt)
next
  assume a: "unat a = unat c + unat b"
  then have le: "b \<le> a" by (simp add: word_le_nat_alt)
  then have "unat (a - b) = unat c" using a by (simp add: unat_sub)
  then have "a - b = c" by (rule unsigned_word_eqI)
  with le show "checked_sub a b = Some c" by (simp add: checked_sub_def)
qed

lemma checked_sub_None_iff: "checked_sub a b = None \<longleftrightarrow> a < b"
  by (auto simp: checked_sub_def)

lemma checked_add_None_iff:
  fixes a b :: "'a::len word"
  shows "checked_add a b = None \<longleftrightarrow> 2 ^ LENGTH('a) \<le> unat a + unat b"
  by (auto simp: checked_add_def)

lemma unat_saturating_add:
  fixes a b :: "'a::len word"
  shows "unat (saturating_add a b) = min (unat a + unat b) (2 ^ LENGTH('a) - 1)"
  by (auto simp: saturating_add_def unat_add_no_overflow unsigned_minus_1_eq_mask mask_eq_exp_minus_1)

lemma unat_saturating_sub: "unat (saturating_sub a b) = unat a - unat b"
  by (auto simp: saturating_sub_def unat_sub word_le_nat_alt)


section \<open>Little-endian byte encodings\<close>

fun nat_to_le :: "nat \<Rightarrow> nat \<Rightarrow> bytes" where
  "nat_to_le 0 n = []"
| "nat_to_le (Suc k) n = word_of_nat n # nat_to_le k (n div 256)"

fun le_to_nat :: "bytes \<Rightarrow> nat" where
  "le_to_nat [] = 0"
| "le_to_nat (b # bs) = unat b + 256 * le_to_nat bs"

lemma length_nat_to_le [simp, codec_simps]: "length (nat_to_le k n) = k"
  by (induction k arbitrary: n) auto

lemma unat_of_nat_u8: "unat (word_of_nat n :: u8) = n mod 256"
  by (simp add: unat_of_nat)

lemma le_to_nat_nat_to_le: "le_to_nat (nat_to_le k n) = n mod 256 ^ k"
proof (induction k arbitrary: n)
  case (Suc k)
  have "n mod 256 + 256 * (n div 256 mod 256 ^ k) = n mod 256 ^ Suc k"
    by (simp add: mod_mult2_eq)
  with Suc show ?case by (simp add: unat_of_nat_u8)
qed simp

lemma nat_to_le_le_to_nat: "nat_to_le (length bs) (le_to_nat bs) = bs"
proof (induction bs)
  case (Cons b bs)
  have lt: "unat b < 256" using unsigned_less [of b] by simp
  have z: "(256 :: u8) = 0" by (simp add: word_eq_iff_unsigned)
  have "word_of_nat (unat b + 256 * le_to_nat bs) = b + 256 * word_of_nat (le_to_nat bs)"
    by simp
  also have "\<dots> = b" by (simp only: z mult_zero_left add_0_right)
  finally have "word_of_nat (unat b + 256 * le_to_nat bs) = b" .
  moreover have "(unat b + 256 * le_to_nat bs) div 256 = le_to_nat bs"
    using lt by simp
  ultimately show ?case using Cons by simp
qed simp

lemma le_to_nat_less: "le_to_nat bs < 256 ^ length bs"
proof (induction bs)
  case (Cons b bs)
  have "unat b < 256" using unsigned_less [of b] by simp
  with Cons show ?case by simp
qed simp

definition u16_to_le_bytes :: "u16 \<Rightarrow> bytes" where
  "u16_to_le_bytes w = nat_to_le 2 (unat w)"

definition u32_to_le_bytes :: "u32 \<Rightarrow> bytes" where
  "u32_to_le_bytes w = nat_to_le 4 (unat w)"

definition u64_to_le_bytes :: "u64 \<Rightarrow> bytes" where
  "u64_to_le_bytes w = nat_to_le 8 (unat w)"

definition u16_from_le_bytes :: "bytes \<Rightarrow> u16" where
  "u16_from_le_bytes bs = word_of_nat (le_to_nat bs)"

definition u32_from_le_bytes :: "bytes \<Rightarrow> u32" where
  "u32_from_le_bytes bs = word_of_nat (le_to_nat bs)"

definition u64_from_le_bytes :: "bytes \<Rightarrow> u64" where
  "u64_from_le_bytes bs = word_of_nat (le_to_nat bs)"

lemma length_le_bytes [simp, codec_simps]:
  "length (u16_to_le_bytes a) = 2" "length (u32_to_le_bytes b) = 4"
  "length (u64_to_le_bytes c) = 8"
  by (simp_all add: u16_to_le_bytes_def u32_to_le_bytes_def u64_to_le_bytes_def)

lemma word_of_nat_mod_unat:
  fixes w :: "'a::len word"
  assumes "n = 2 ^ LENGTH('a)"
  shows "word_of_nat (unat w mod n) = w"
  using assms unsigned_less [of w] by simp

lemma u16_from_to_le_bytes [simp, codec_simps]: "u16_from_le_bytes (u16_to_le_bytes w) = w"
  by (simp add: u16_from_le_bytes_def u16_to_le_bytes_def le_to_nat_nat_to_le word_of_nat_mod_unat)

lemma u32_from_to_le_bytes [simp, codec_simps]: "u32_from_le_bytes (u32_to_le_bytes w) = w"
  by (simp add: u32_from_le_bytes_def u32_to_le_bytes_def le_to_nat_nat_to_le word_of_nat_mod_unat)

lemma u64_from_to_le_bytes [simp, codec_simps]: "u64_from_le_bytes (u64_to_le_bytes w) = w"
  by (simp add: u64_from_le_bytes_def u64_to_le_bytes_def le_to_nat_nat_to_le word_of_nat_mod_unat)

lemma u64_to_from_le_bytes:
  assumes "length bs = 8"
  shows "u64_to_le_bytes (u64_from_le_bytes bs) = bs"
proof -
  have "le_to_nat bs < 2 ^ 64" using le_to_nat_less [of bs] assms by simp
  then have "unat (word_of_nat (le_to_nat bs) :: u64) = le_to_nat bs"
    by (simp add: unat_of_nat)
  then show ?thesis
    using nat_to_le_le_to_nat [of bs] assms
    by (simp add: u64_to_le_bytes_def u64_from_le_bytes_def)
qed


section \<open>Sub-slices\<close>

text \<open>\<open>slice off n xs\<close> is \<open>&xs[off .. off + n]\<close>; callers check the bounds.\<close>

definition slice :: "nat \<Rightarrow> nat \<Rightarrow> 'a list \<Rightarrow> 'a list" where
  "slice off n xs = take n (drop off xs)"

lemma length_slice [simp, codec_simps]: "off + n \<le> length xs \<Longrightarrow> length (slice off n xs) = n"
  by (simp add: slice_def)

lemma slice_append_left:
  "length xs = n \<Longrightarrow> slice 0 n (xs @ ys) = xs"
  by (simp add: slice_def)

lemma slice_append_skip:
  "length xs = k \<Longrightarrow> slice (k + off) n (xs @ ys) = slice off n ys"
  by (simp add: slice_def)


section \<open>Lists of state updates\<close>

lemma sum_list_map_update:
  fixes f :: "'a \<Rightarrow> nat"
  assumes "i < length xs"
  shows "sum_list (map f (xs[i := v])) + f (xs ! i) = sum_list (map f xs) + f v"
  using assms
proof (induction xs arbitrary: i)
  case (Cons x xs)
  then show ?case by (cases i) auto
qed simp

lemma sum_fun_upd:
  fixes g :: "'k \<Rightarrow> nat"
  assumes "finite A" and "k \<in> A"
  shows "(\<Sum>x\<in>A. (g(k := v)) x) + g k = (\<Sum>x\<in>A. g x) + v"
proof -
  have A: "A = insert k (A - {k})" using assms by auto
  have "(\<Sum>x\<in>A. (g(k := v)) x) = v + (\<Sum>x\<in>A - {k}. g x)"
    using assms by (subst A, subst sum.insert) auto
  moreover have "(\<Sum>x\<in>A. g x) = g k + (\<Sum>x\<in>A - {k}. g x)"
    using assms by (subst A, subst sum.insert) auto
  ultimately show ?thesis by simp
qed



section \<open>Searching\<close>

text \<open>\<open>Iterator::position\<close> and \<open>rposition\<close>: the first and the last index that satisfies a predicate.\<close>

fun find_position :: "('a \<Rightarrow> bool) \<Rightarrow> 'a list \<Rightarrow> nat option" where
  "find_position P [] = None"
| "find_position P (x # xs) = (if P x then Some 0 else map_option Suc (find_position P xs))"

definition find_rposition :: "('a \<Rightarrow> bool) \<Rightarrow> 'a list \<Rightarrow> nat option" where
  "find_rposition P xs = map_option (\<lambda>i. length xs - 1 - i) (find_position P (rev xs))"

definition get :: "'a list \<Rightarrow> nat \<Rightarrow> 'a option" where
  "get xs i = (if i < length xs then Some (xs ! i) else None)"

lemma find_position_Some:
  "find_position P xs = Some i \<Longrightarrow> i < length xs \<and> P (xs ! i) \<and> (\<forall>j < i. \<not> P (xs ! j))"
proof (induction xs arbitrary: i)
  case (Cons x xs)
  then show ?case
    by (auto simp: nth_Cons' less_Suc_eq_0_disj split: if_splits)
qed simp

lemma find_position_None: "find_position P xs = None \<longleftrightarrow> (\<forall>x\<in>set xs. \<not> P x)"
  by (induction xs) auto

lemma find_rposition_Some: "find_rposition P xs = Some i \<Longrightarrow> i < length xs \<and> P (xs ! i)"
  by (auto simp: find_rposition_def rev_nth dest!: find_position_Some)

lemma get_Some_iff [simp]: "get xs i = Some x \<longleftrightarrow> i < length xs \<and> xs ! i = x"
  by (auto simp: get_def)

lemma get_None_iff [simp]: "get xs i = None \<longleftrightarrow> length xs \<le> i"
  by (auto simp: get_def)

end
