(* ===== verification/Sdk.thy ===== *)
theory Sdk
  imports Prelude
begin

text \<open>
  The vocabulary of the Solana SDK that every program and the runtime share
  (\<open>solana-1.11.2/sdk\<close>): addresses and program-derived addresses (\<open>pubkey.rs\<close>),
  program and instruction errors with their \<open>u64\<close> encoding (\<open>program_error.rs\<close>,
  \<open>instruction.rs\<close>), accounts (\<open>account.rs\<close>), the account views programs receive
  (\<open>account_info.rs\<close>) and instructions (\<open>instruction.rs\<close>).

  The hash function (SHA-256, crate \<open>sha2\<close>) and the curve test (crate
  \<open>curve25519-dalek\<close>) are not part of the repository: they are the fields of
  the record \<open>crypto\<close>, an argument of the definitions that use them.
\<close>

section \<open>Addresses\<close>

text \<open>
  A \<open>Pubkey\<close> is an array of 32 bytes, here a 256-bit word whose most significant byte is the
  first byte of the array, so that the derived lexicographic order is the order of the words.
\<close>

type_synonym Pubkey = "256 word"

definition to_bytes :: "Pubkey \<Rightarrow> bytes" where
  "to_bytes k = rev (nat_to_le 32 (unat k))"

definition new_from_array :: "bytes \<Rightarrow> Pubkey" where
  "new_from_array bs = word_of_nat (le_to_nat (rev bs))"

lemma length_to_bytes [simp, codec_simps]: "length (to_bytes k) = 32"
  by (simp add: to_bytes_def)

lemma new_from_array_to_bytes [simp, codec_simps]: "new_from_array (to_bytes k) = k"
  by (simp add: new_from_array_def to_bytes_def le_to_nat_nat_to_le word_of_nat_mod_unat)

lemma to_bytes_new_from_array:
  assumes "length bs = 32"
  shows "to_bytes (new_from_array bs) = bs"
proof -
  have "le_to_nat (rev bs) < 2 ^ 256" using le_to_nat_less [of "rev bs"] assms by simp
  then have "unat (word_of_nat (le_to_nat (rev bs)) :: Pubkey) = le_to_nat (rev bs)"
    by (simp add: unat_of_nat)
  then show ?thesis
    using nat_to_le_le_to_nat [of "rev bs"] assms by (simp add: to_bytes_def new_from_array_def)
qed

lemma to_bytes_inject [simp]: "to_bytes a = to_bytes b \<longleftrightarrow> a = b"
  by (metis new_from_array_to_bytes)

text \<open>Identifiers fixed by \<open>declare_id!\<close> (the base-58 literals decoded).\<close>

definition system_program_id :: Pubkey where
  "system_program_id = 0"

definition rent_sysvar_id :: Pubkey where
  "rent_sysvar_id = 0x06a7d517192c5c51218cc94c3d4af17f58daee089ba1fd44e3dbd98a00000000"

definition native_loader_id :: Pubkey where
  "native_loader_id = 0x058784bf148ba4282fb012574888a9f153a07dadf765c0455c9a970380000000"

definition bpf_loader_upgradeable_id :: Pubkey where
  "bpf_loader_upgradeable_id = 0x02a8f6914e88a1b0e210153ef763ae2b00c2b93d16c124d2c0537a1004800000"

definition spl_token_id :: Pubkey where
  "spl_token_id = 0x06ddf6e1d765a193d9cbe146ceeb79ac1cb485ed5f5b37913a8cf5857eff00a9"

definition native_mint_id :: Pubkey where
  "native_mint_id = 0x069b8857feab8184fb687f634618c035dac439dc1aeb3b5598a0f00000000001"


subsection \<open>Program-derived addresses\<close>

record crypto =
  sha256 :: "bytes \<Rightarrow> Pubkey"
  bytes_are_curve_point :: "Pubkey \<Rightarrow> bool"

datatype PubkeyError = MaxSeedLengthExceeded | InvalidSeeds | IllegalOwner

definition PDA_MARKER :: bytes where
  "PDA_MARKER = map (\<lambda>c. word_of_nat (of_char c)) ''ProgramDerivedAddress''"

definition MAX_SEED_LEN :: nat where "MAX_SEED_LEN = 32"
definition MAX_SEEDS :: nat where "MAX_SEEDS = 16"

definition create_program_address ::
  "crypto \<Rightarrow> bytes list \<Rightarrow> Pubkey \<Rightarrow> PubkeyError + Pubkey" where
  "create_program_address cr seeds program_id =
     (if MAX_SEEDS < length seeds then Inl MaxSeedLengthExceeded
      else if \<exists>seed\<in>set seeds. MAX_SEED_LEN < length seed then Inl MaxSeedLengthExceeded
      else let hash = sha256 cr (concat seeds @ to_bytes program_id @ PDA_MARKER)
           in if bytes_are_curve_point cr hash then Inl InvalidSeeds else Ok hash)"

text \<open>The loop of \<open>try_find_program_address\<close>: \<open>n\<close> rounds are left.\<close>

fun find_bump ::
  "crypto \<Rightarrow> bytes list \<Rightarrow> Pubkey \<Rightarrow> nat \<Rightarrow> u8 \<Rightarrow> (Pubkey \<times> u8) option" where
  "find_bump cr seeds program_id 0 bump = None"
| "find_bump cr seeds program_id (Suc n) bump =
     (case create_program_address cr (seeds @ [[bump]]) program_id of
        Inr address \<Rightarrow> Some (address, bump)
      | Inl InvalidSeeds \<Rightarrow> find_bump cr seeds program_id n (bump - 1)
      | Inl _ \<Rightarrow> None)"

definition try_find_program_address ::
  "crypto \<Rightarrow> bytes list \<Rightarrow> Pubkey \<Rightarrow> (Pubkey \<times> u8) option" where
  "try_find_program_address cr seeds program_id = find_bump cr seeds program_id 255 255"

definition create_with_seed ::
  "crypto \<Rightarrow> Pubkey \<Rightarrow> bytes \<Rightarrow> Pubkey \<Rightarrow> PubkeyError + Pubkey" where
  "create_with_seed cr base seed owner =
     (if MAX_SEED_LEN < length seed then Inl MaxSeedLengthExceeded
      else if drop (32 - length PDA_MARKER) (to_bytes owner) = PDA_MARKER then Inl IllegalOwner
      else Ok (sha256 cr (to_bytes base @ seed @ to_bytes owner)))"

lemma create_program_address_off_curve:
  "create_program_address cr seeds pid = Inr a \<Longrightarrow> \<not> bytes_are_curve_point cr a"
  by (auto simp: create_program_address_def Let_def split: if_splits)

text \<open>
  A program-derived address depends on the concatenation of its seeds only: the seeds carry no
  length or separator.
\<close>

lemma create_program_address_concat:
  assumes "concat seeds = concat seeds'"
    and "create_program_address cr seeds pid = Inr a"
    and "length seeds' \<le> MAX_SEEDS" and "\<forall>s\<in>set seeds'. length s \<le> MAX_SEED_LEN"
  shows "create_program_address cr seeds' pid = Inr a"
  using assms by (auto simp: create_program_address_def Let_def split: if_splits)

lemma find_bump_Some:
  assumes "find_bump cr seeds pid n b = Some (a, bump)" and "n \<le> unat b"
  shows "create_program_address cr (seeds @ [[bump]]) pid = Inr a
    \<and> unat b - n < unat bump \<and> unat bump \<le> unat b
    \<and> (\<forall>b'. bump < b' \<and> b' \<le> b \<longrightarrow>
         create_program_address cr (seeds @ [[b']]) pid = Inl InvalidSeeds)"
  using assms
proof (induction n arbitrary: b)
  case (Suc n)
  show ?case
  proof (cases "create_program_address cr (seeds @ [[b]]) pid")
    case (Inr x)
    with Suc.prems show ?thesis by auto
  next
    case (Inl e)
    with Suc.prems have e: "e = InvalidSeeds"
      and rest: "find_bump cr seeds pid n (b - 1) = Some (a, bump)"
      by (auto split: PubkeyError.splits)
    from Suc.prems(2) have "b \<noteq> 0" by (auto simp: unat_eq_0)
    then have b1: "unat (b - 1) = unat b - 1" by (simp add: unat_minus_one)
    have IH: "create_program_address cr (seeds @ [[bump]]) pid = Inr a
      \<and> unat (b - 1) - n < unat bump \<and> unat bump \<le> unat (b - 1)
      \<and> (\<forall>b'. bump < b' \<and> b' \<le> b - 1 \<longrightarrow>
           create_program_address cr (seeds @ [[b']]) pid = Inl InvalidSeeds)"
      by (rule Suc.IH [OF rest]) (use b1 Suc.prems(2) in simp)
    have above: "b' = b \<or> b' \<le> b - 1" if "b' \<le> b" for b'
      using that b1 by (auto simp: word_le_nat_alt word_unat_eq_iff)
    show ?thesis
      using IH Inl e above b1 Suc.prems(2) by fastforce
  qed
qed simp


section \<open>Errors\<close>

datatype (plugins only: code size) ProgramError =
    Custom u32 | InvalidArgument | InvalidInstructionData | InvalidAccountData
  | AccountDataTooSmall | InsufficientFunds | IncorrectProgramId | MissingRequiredSignature
  | AccountAlreadyInitialized | UninitializedAccount | NotEnoughAccountKeys
  | AccountBorrowFailed | MaxSeedLengthExceeded | InvalidSeeds | BorshIoError string
  | AccountNotRentExempt | UnsupportedSysvar | IllegalOwner | MaxAccountsDataSizeExceeded
  | InvalidRealloc

datatype (plugins only: code size) InstructionError =
    GenericError | InvalidArgument | InvalidInstructionData | InvalidAccountData
  | AccountDataTooSmall | InsufficientFunds | IncorrectProgramId | MissingRequiredSignature
  | AccountAlreadyInitialized | UninitializedAccount | UnbalancedInstruction
  | ModifiedProgramId | ExternalAccountLamportSpend | ExternalAccountDataModified
  | ReadonlyLamportChange | ReadonlyDataModified | DuplicateAccountIndex | ExecutableModified
  | RentEpochModified | NotEnoughAccountKeys | AccountDataSizeChanged | AccountNotExecutable
  | AccountBorrowFailed | AccountBorrowOutstanding | DuplicateAccountOutOfSync | Custom u32
  | InvalidError | ExecutableDataModified | ExecutableLamportChange
  | ExecutableAccountNotRentExempt | UnsupportedProgramId | CallDepth | MissingAccount
  | ReentrancyNotAllowed | MaxSeedLengthExceeded | InvalidSeeds | InvalidRealloc
  | ComputationalBudgetExceeded | PrivilegeEscalation | ProgramEnvironmentSetupFailure
  | ProgramFailedToComplete | ProgramFailedToCompile | Immutable | IncorrectAuthority
  | BorshIoError string | AccountNotRentExempt | InvalidAccountOwner | ArithmeticOverflow
  | UnsupportedSysvar | IllegalOwner | MaxAccountsDataSizeExceeded | ActiveVoteAccountClose

definition to_builtin :: "nat \<Rightarrow> u64" where
  "to_builtin n = push_bit 32 (word_of_nat n)"

fun u64_of_program_error :: "ProgramError \<Rightarrow> u64" where
  "u64_of_program_error ProgramError.InvalidArgument = to_builtin 2"
| "u64_of_program_error ProgramError.InvalidInstructionData = to_builtin 3"
| "u64_of_program_error ProgramError.InvalidAccountData = to_builtin 4"
| "u64_of_program_error ProgramError.AccountDataTooSmall = to_builtin 5"
| "u64_of_program_error ProgramError.InsufficientFunds = to_builtin 6"
| "u64_of_program_error ProgramError.IncorrectProgramId = to_builtin 7"
| "u64_of_program_error ProgramError.MissingRequiredSignature = to_builtin 8"
| "u64_of_program_error ProgramError.AccountAlreadyInitialized = to_builtin 9"
| "u64_of_program_error ProgramError.UninitializedAccount = to_builtin 10"
| "u64_of_program_error ProgramError.NotEnoughAccountKeys = to_builtin 11"
| "u64_of_program_error ProgramError.AccountBorrowFailed = to_builtin 12"
| "u64_of_program_error ProgramError.MaxSeedLengthExceeded = to_builtin 13"
| "u64_of_program_error ProgramError.InvalidSeeds = to_builtin 14"
| "u64_of_program_error (ProgramError.BorshIoError _) = to_builtin 15"
| "u64_of_program_error ProgramError.AccountNotRentExempt = to_builtin 16"
| "u64_of_program_error ProgramError.UnsupportedSysvar = to_builtin 17"
| "u64_of_program_error ProgramError.IllegalOwner = to_builtin 18"
| "u64_of_program_error ProgramError.MaxAccountsDataSizeExceeded = to_builtin 19"
| "u64_of_program_error ProgramError.InvalidRealloc = to_builtin 20"
| "u64_of_program_error (ProgramError.Custom error) =
     (if error = 0 then to_builtin 1 else ucast error)"

definition program_error_of_u64 :: "u64 \<Rightarrow> ProgramError" where
  "program_error_of_u64 error =
     (if error = to_builtin 1 then ProgramError.Custom 0
      else if error = to_builtin 2 then ProgramError.InvalidArgument
      else if error = to_builtin 3 then ProgramError.InvalidInstructionData
      else if error = to_builtin 4 then ProgramError.InvalidAccountData
      else if error = to_builtin 5 then ProgramError.AccountDataTooSmall
      else if error = to_builtin 6 then ProgramError.InsufficientFunds
      else if error = to_builtin 7 then ProgramError.IncorrectProgramId
      else if error = to_builtin 8 then ProgramError.MissingRequiredSignature
      else if error = to_builtin 9 then ProgramError.AccountAlreadyInitialized
      else if error = to_builtin 10 then ProgramError.UninitializedAccount
      else if error = to_builtin 11 then ProgramError.NotEnoughAccountKeys
      else if error = to_builtin 12 then ProgramError.AccountBorrowFailed
      else if error = to_builtin 13 then ProgramError.MaxSeedLengthExceeded
      else if error = to_builtin 14 then ProgramError.InvalidSeeds
      else if error = to_builtin 15 then ProgramError.BorshIoError ''Unknown''
      else if error = to_builtin 16 then ProgramError.AccountNotRentExempt
      else if error = to_builtin 17 then ProgramError.UnsupportedSysvar
      else if error = to_builtin 18 then ProgramError.IllegalOwner
      else if error = to_builtin 19 then ProgramError.MaxAccountsDataSizeExceeded
      else if error = to_builtin 20 then ProgramError.InvalidRealloc
      else ProgramError.Custom (ucast error))"

definition instruction_error_of_u64 :: "u64 \<Rightarrow> InstructionError" where
  "instruction_error_of_u64 error =
     (if error = to_builtin 1 then InstructionError.Custom 0
      else if error = to_builtin 2 then InstructionError.InvalidArgument
      else if error = to_builtin 3 then InstructionError.InvalidInstructionData
      else if error = to_builtin 4 then InstructionError.InvalidAccountData
      else if error = to_builtin 5 then InstructionError.AccountDataTooSmall
      else if error = to_builtin 6 then InstructionError.InsufficientFunds
      else if error = to_builtin 7 then InstructionError.IncorrectProgramId
      else if error = to_builtin 8 then InstructionError.MissingRequiredSignature
      else if error = to_builtin 9 then InstructionError.AccountAlreadyInitialized
      else if error = to_builtin 10 then InstructionError.UninitializedAccount
      else if error = to_builtin 11 then InstructionError.NotEnoughAccountKeys
      else if error = to_builtin 12 then InstructionError.AccountBorrowFailed
      else if error = to_builtin 13 then InstructionError.MaxSeedLengthExceeded
      else if error = to_builtin 14 then InstructionError.InvalidSeeds
      else if error = to_builtin 15 then InstructionError.BorshIoError ''Unknown''
      else if error = to_builtin 16 then InstructionError.AccountNotRentExempt
      else if error = to_builtin 17 then InstructionError.UnsupportedSysvar
      else if error = to_builtin 18 then InstructionError.IllegalOwner
      else if error = to_builtin 19 then InstructionError.MaxAccountsDataSizeExceeded
      else if error = to_builtin 20 then InstructionError.InvalidRealloc
      else if drop_bit 32 error = 0 then InstructionError.Custom (ucast error)
      else InstructionError.InvalidError)"

fun program_error_of_pubkey_error :: "PubkeyError \<Rightarrow> ProgramError" where
  "program_error_of_pubkey_error PubkeyError.MaxSeedLengthExceeded =
     ProgramError.MaxSeedLengthExceeded"
| "program_error_of_pubkey_error PubkeyError.InvalidSeeds = ProgramError.InvalidSeeds"
| "program_error_of_pubkey_error PubkeyError.IllegalOwner = ProgramError.IllegalOwner"

text \<open>
  A handler of an on-chain program either returns a \<open>ProgramError\<close> or panics
  (\<open>assert!\<close>, \<open>unwrap\<close>, an index or slice out of range).
\<close>

datatype failure = Err ProgramError | Panic

type_synonym 'a ProgramResult = "failure + 'a"

abbreviation err :: "ProgramError \<Rightarrow> 'a ProgramResult" where
  "err e \<equiv> Inl (Err e)"

definition assert :: "bool \<Rightarrow> unit ProgramResult" where
  "assert c = require c Panic"

fun unwrap :: "'e + 'a \<Rightarrow> 'a ProgramResult" where
  "unwrap (Inl e) = Inl Panic"
| "unwrap (Inr x) = Ok x"

lemma assert_Inr_iff [res_simps]: "assert c = Inr u \<longleftrightarrow> c"
  by (simp add: assert_def require_Inr_iff)

lemma unwrap_Inr_iff [res_simps]: "unwrap m = Inr x \<longleftrightarrow> m = Inr x"
  by (cases m) auto


section \<open>Accounts and the views programs get of them\<close>

record Account =
  lamports :: u64
  data :: bytes
  owner :: Pubkey
  executable :: bool
  rent_epoch :: u64

definition default_account :: Account where
  "default_account = \<lparr>lamports = 0, data = [], owner = 0, executable = False, rent_epoch = 0\<rparr>"

text \<open>
  \<open>AccountInfo\<close> holds references: two views of one address share the \<open>RefCell\<close>s of its
  lamports and data, and the address decides the sharing. The shared cells are the store, a
  total map from addresses to accounts (an address without an account reads as the default
  account); the view keeps the address and the two privilege flags of its instruction.
\<close>

type_synonym store = "Pubkey \<Rightarrow> Account"

record AccountInfo =
  key :: Pubkey
  is_signer :: bool
  is_writable :: bool

abbreviation info_lamports :: "store \<Rightarrow> AccountInfo \<Rightarrow> u64" where
  "info_lamports st ai \<equiv> lamports (st (key ai))"

abbreviation info_data :: "store \<Rightarrow> AccountInfo \<Rightarrow> bytes" where
  "info_data st ai \<equiv> data (st (key ai))"

abbreviation info_owner :: "store \<Rightarrow> AccountInfo \<Rightarrow> Pubkey" where
  "info_owner st ai \<equiv> owner (st (key ai))"

definition set_info_lamports :: "AccountInfo \<Rightarrow> u64 \<Rightarrow> store \<Rightarrow> store" where
  "set_info_lamports ai v st = st(key ai := (st (key ai))\<lparr>lamports := v\<rparr>)"

definition set_info_data :: "AccountInfo \<Rightarrow> bytes \<Rightarrow> store \<Rightarrow> store" where
  "set_info_data ai bs st = st(key ai := (st (key ai))\<lparr>data := bs\<rparr>)"

text \<open>\<open>next_account_info\<close> takes the next view off the iterator.\<close>

fun next_account_info :: "AccountInfo list \<Rightarrow> (AccountInfo \<times> AccountInfo list) ProgramResult" where
  "next_account_info [] = err ProgramError.NotEnoughAccountKeys"
| "next_account_info (ai # rest) = Ok (ai, rest)"

lemma next_account_info_Inr_iff [res_simps]:
  "next_account_info infos = Inr p \<longleftrightarrow> infos = fst p # snd p"
  by (cases infos; cases p) auto

lemma set_info_lamports_apply:
  "set_info_lamports ai v st k = (if k = key ai then (st k)\<lparr>lamports := v\<rparr> else st k)"
  by (simp add: set_info_lamports_def)

lemma set_info_data_apply:
  "set_info_data ai bs st k = (if k = key ai then (st k)\<lparr>data := bs\<rparr> else st k)"
  by (simp add: set_info_data_def)

lemmas store_apply = set_info_lamports_apply set_info_data_apply


section \<open>Instructions\<close>

record AccountMeta =
  meta_pubkey :: Pubkey
  meta_is_signer :: bool
  meta_is_writable :: bool

definition meta_new :: "Pubkey \<Rightarrow> bool \<Rightarrow> AccountMeta" where
  "meta_new k s = \<lparr>meta_pubkey = k, meta_is_signer = s, meta_is_writable = True\<rparr>"

definition meta_new_readonly :: "Pubkey \<Rightarrow> bool \<Rightarrow> AccountMeta" where
  "meta_new_readonly k s = \<lparr>meta_pubkey = k, meta_is_signer = s, meta_is_writable = False\<rparr>"

record Instruction =
  instr_program_id :: Pubkey
  instr_accounts :: "AccountMeta list"
  instr_data :: bytes

end
