(* ===== verification/TokenState.thy ===== *)
theory TokenState
  imports Sdk
begin

text \<open>
  The on-chain state of the SPL token program (\<open>spl-token-3.3.0/src/state.rs\<close>), its byte
  layout, its errors (\<open>error.rs\<close>) and the \<open>Pack\<close> trait
  (\<open>sdk/program/src/program_pack.rs\<close>). \<open>COption\<close> is \<^typ>\<open>'a option\<close>.

  The locale \<open>packed_state\<close> is the contract of an implementation of \<open>Pack\<close>; it is
  interpreted on the three layouts of the program.
\<close>

section \<open>Errors\<close>

datatype (plugins only: code size) TokenError =
    NotRentExempt | InsufficientFunds | InvalidMint | MintMismatch | OwnerMismatch
  | FixedSupply | AlreadyInUse | InvalidNumberOfProvidedSigners
  | InvalidNumberOfRequiredSigners | UninitializedState
  | NativeNotSupported | NonNativeHasBalance | InvalidInstruction | InvalidState | Overflow
  | AuthorityTypeNotSupported | MintCannotFreeze | AccountFrozen | MintDecimalsMismatch
  | NonNativeNotSupported

fun token_error_code :: "TokenError \<Rightarrow> u32" where
  "token_error_code TokenError.NotRentExempt = 0"
| "token_error_code TokenError.InsufficientFunds = 1"
| "token_error_code TokenError.InvalidMint = 2"
| "token_error_code TokenError.MintMismatch = 3"
| "token_error_code TokenError.OwnerMismatch = 4"
| "token_error_code TokenError.FixedSupply = 5"
| "token_error_code TokenError.AlreadyInUse = 6"
| "token_error_code TokenError.InvalidNumberOfProvidedSigners = 7"
| "token_error_code TokenError.InvalidNumberOfRequiredSigners = 8"
| "token_error_code TokenError.UninitializedState = 9"
| "token_error_code TokenError.NativeNotSupported = 10"
| "token_error_code TokenError.NonNativeHasBalance = 11"
| "token_error_code TokenError.InvalidInstruction = 12"
| "token_error_code TokenError.InvalidState = 13"
| "token_error_code TokenError.Overflow = 14"
| "token_error_code TokenError.AuthorityTypeNotSupported = 15"
| "token_error_code TokenError.MintCannotFreeze = 16"
| "token_error_code TokenError.AccountFrozen = 17"
| "token_error_code TokenError.MintDecimalsMismatch = 18"
| "token_error_code TokenError.NonNativeNotSupported = 19"

definition token_error :: "TokenError \<Rightarrow> failure" where
  "token_error e = Err (ProgramError.Custom (token_error_code e))"

abbreviation token_err :: "TokenError \<Rightarrow> 'a ProgramResult" where
  "token_err e \<equiv> Inl (token_error e)"


section \<open>The \<open>Pack\<close> trait\<close>

definition pack_unpack_unchecked ::
  "nat \<Rightarrow> (bytes \<Rightarrow> 'a ProgramResult) \<Rightarrow> bytes \<Rightarrow> 'a ProgramResult" where
  "pack_unpack_unchecked LEN unpack_from_slice input =
     (if length input \<noteq> LEN then err ProgramError.InvalidAccountData
      else unpack_from_slice input)"

definition pack_unpack ::
  "nat \<Rightarrow> (bytes \<Rightarrow> 'a ProgramResult) \<Rightarrow> ('a \<Rightarrow> bool) \<Rightarrow> bytes \<Rightarrow> 'a ProgramResult" where
  "pack_unpack LEN unpack_from_slice is_initialized input =
     and_then (pack_unpack_unchecked LEN unpack_from_slice input) (\<lambda>value.
       if is_initialized value then Ok value else err ProgramError.UninitializedAccount)"

definition pack_pack ::
  "nat \<Rightarrow> ('a \<Rightarrow> bytes \<Rightarrow> bytes ProgramResult) \<Rightarrow> 'a \<Rightarrow> bytes \<Rightarrow> bytes ProgramResult" where
  "pack_pack LEN pack_into_slice src dst =
     (if length dst \<noteq> LEN then err ProgramError.InvalidAccountData
      else pack_into_slice src dst)"

locale packed_state =
  fixes LEN :: nat
    and pack_into_slice :: "'a \<Rightarrow> bytes \<Rightarrow> bytes ProgramResult"
    and unpack_from_slice :: "bytes \<Rightarrow> 'a ProgramResult"
    and is_init :: "'a \<Rightarrow> bool"
    and wf_state :: "'a \<Rightarrow> bool"
  assumes pack_ok: "length dst = LEN \<Longrightarrow> wf_state v \<Longrightarrow>
      \<exists>bs. pack_into_slice v dst = Inr bs \<and> length bs = LEN \<and> unpack_from_slice bs = Inr v"
    and unpack_pack: "length bs = LEN \<Longrightarrow> unpack_from_slice bs = Inr v \<Longrightarrow>
      wf_state v \<and> pack_into_slice v bs = Inr bs"
begin

lemma unpack_Inr_iff:
  "pack_unpack LEN unpack_from_slice is_init bs = Inr v \<longleftrightarrow>
     length bs = LEN \<and> unpack_from_slice bs = Inr v \<and> is_init v"
  by (auto simp: pack_unpack_def pack_unpack_unchecked_def res_simps split: if_splits)

lemma unpack_wf: "pack_unpack LEN unpack_from_slice is_init bs = Inr v \<Longrightarrow> wf_state v"
  using unpack_pack by (auto simp: unpack_Inr_iff)

lemma pack_Inr:
  assumes "wf_state v" and "length dst = LEN"
  obtains bs where "pack_pack LEN pack_into_slice v dst = Inr bs" and "length bs = LEN"
    and "pack_unpack_unchecked LEN unpack_from_slice bs = Inr v"
  using pack_ok [OF assms(2,1)] assms(2) that
  by (auto simp: pack_pack_def pack_unpack_unchecked_def)

lemma pack_then_unpack:
  assumes "pack_pack LEN pack_into_slice v dst = Inr bs" and "wf_state v"
  shows "length bs = LEN \<and> length dst = LEN \<and>
    pack_unpack_unchecked LEN unpack_from_slice bs = Inr v \<and>
    pack_unpack LEN unpack_from_slice is_init bs =
      (if is_init v then Inr v else err ProgramError.UninitializedAccount)"
  using assms pack_ok [of dst v]
  by (auto simp: pack_pack_def pack_unpack_def pack_unpack_unchecked_def split: if_splits)

lemma unpack_then_pack:
  "pack_unpack_unchecked LEN unpack_from_slice bs = Inr v \<Longrightarrow>
     pack_pack LEN pack_into_slice v bs = Inr bs"
  using unpack_pack by (auto simp: pack_pack_def pack_unpack_unchecked_def split: if_splits)

end


section \<open>Optional fields\<close>

definition pack_coption_key :: "Pubkey option \<Rightarrow> bytes \<Rightarrow> bytes" where
  "pack_coption_key src dst =
     (case src of
        Some k \<Rightarrow> [1, 0, 0, 0] @ to_bytes k
      | None \<Rightarrow> [0, 0, 0, 0] @ drop 4 dst)"

definition unpack_coption_key :: "bytes \<Rightarrow> Pubkey option ProgramResult" where
  "unpack_coption_key src =
     (let tag = take 4 src; body = drop 4 src
      in if tag = [0, 0, 0, 0] then Ok None
         else if tag = [1, 0, 0, 0] then Ok (Some (new_from_array body))
         else err ProgramError.InvalidAccountData)"

definition pack_coption_u64 :: "u64 option \<Rightarrow> bytes \<Rightarrow> bytes" where
  "pack_coption_u64 src dst =
     (case src of
        Some x \<Rightarrow> [1, 0, 0, 0] @ u64_to_le_bytes x
      | None \<Rightarrow> [0, 0, 0, 0] @ drop 4 dst)"

definition unpack_coption_u64 :: "bytes \<Rightarrow> u64 option ProgramResult" where
  "unpack_coption_u64 src =
     (let tag = take 4 src; body = drop 4 src
      in if tag = [0, 0, 0, 0] then Ok None
         else if tag = [1, 0, 0, 0] then Ok (Some (u64_from_le_bytes body))
         else err ProgramError.InvalidAccountData)"

lemma length_pack_coption_key [simp]:
  "length dst = 36 \<Longrightarrow> length (pack_coption_key k dst) = 36"
  by (simp add: pack_coption_key_def split: option.splits)

lemma length_pack_coption_u64 [simp]:
  "length dst = 12 \<Longrightarrow> length (pack_coption_u64 k dst) = 12"
  by (simp add: pack_coption_u64_def split: option.splits)

lemma unpack_pack_coption_key [simp]: "unpack_coption_key (pack_coption_key k dst) = Inr k"
  by (simp add: unpack_coption_key_def pack_coption_key_def split: option.splits)

lemma unpack_pack_coption_u64 [simp]: "unpack_coption_u64 (pack_coption_u64 k dst) = Inr k"
  by (simp add: unpack_coption_u64_def pack_coption_u64_def split: option.splits)

lemma four_byte_tag: "take 4 xs = [a, b, c, d] \<Longrightarrow> a # b # c # d # drop 4 xs = xs"
  using append_take_drop_id [of 4 xs] by (metis append_Cons append_Nil)

lemma pack_unpack_coption_key:
  assumes "length src = 36" and "unpack_coption_key src = Inr k"
  shows "pack_coption_key k src = src"
  using assms to_bytes_new_from_array [of "drop 4 src"]
  by (auto simp: unpack_coption_key_def pack_coption_key_def Let_def four_byte_tag split: if_splits)

lemma pack_unpack_coption_u64:
  assumes "length src = 12" and "unpack_coption_u64 src = Inr k"
  shows "pack_coption_u64 k src = src"
  using assms u64_to_from_le_bytes [of "drop 4 src"]
  by (auto simp: unpack_coption_u64_def pack_coption_u64_def Let_def four_byte_tag split: if_splits)

definition unpack_bool :: "u8 \<Rightarrow> bool ProgramResult" where
  "unpack_bool b =
     (if b = 0 then Ok False else if b = 1 then Ok True
      else err ProgramError.InvalidAccountData)"

lemma unpack_bool_of_bool [simp]: "unpack_bool (of_bool b) = Inr b"
  by (simp add: unpack_bool_def)

lemma unpack_bool_Inr: "unpack_bool b = Inr v \<Longrightarrow> of_bool v = b"
  by (auto simp: unpack_bool_def split: if_splits)


section \<open>Mints\<close>

record Mint =
  mint_authority :: "Pubkey option"
  mint_supply :: u64
  decimals :: u8
  mint_is_initialized :: bool
  freeze_authority :: "Pubkey option"

definition Mint_LEN :: nat where "Mint_LEN = 82"

definition mint_unpack_from_slice :: "bytes \<Rightarrow> Mint ProgramResult" where
  "mint_unpack_from_slice src =
     (if length src < 82 then Inl Panic
      else and_then (unpack_coption_key (slice 0 36 src)) (\<lambda>ma.
           and_then (unpack_bool (src ! 45)) (\<lambda>init.
           and_then (unpack_coption_key (slice 46 36 src)) (\<lambda>fa.
             Ok \<lparr>mint_authority = ma, mint_supply = u64_from_le_bytes (slice 36 8 src),
                 decimals = src ! 44, mint_is_initialized = init, freeze_authority = fa\<rparr>))))"

definition mint_pack_into_slice :: "Mint \<Rightarrow> bytes \<Rightarrow> bytes ProgramResult" where
  "mint_pack_into_slice self dst =
     (if length dst < 82 then Inl Panic
      else Ok (pack_coption_key (mint_authority self) (slice 0 36 dst)
             @ u64_to_le_bytes (mint_supply self)
             @ [decimals self]
             @ [of_bool (mint_is_initialized self)]
             @ pack_coption_key (freeze_authority self) (slice 46 36 dst)
             @ drop 82 dst))"

definition mint_unpack :: "bytes \<Rightarrow> Mint ProgramResult" where
  "mint_unpack = pack_unpack Mint_LEN mint_unpack_from_slice mint_is_initialized"

definition mint_unpack_unchecked :: "bytes \<Rightarrow> Mint ProgramResult" where
  "mint_unpack_unchecked = pack_unpack_unchecked Mint_LEN mint_unpack_from_slice"

definition mint_pack :: "Mint \<Rightarrow> bytes \<Rightarrow> bytes ProgramResult" where
  "mint_pack = pack_pack Mint_LEN mint_pack_into_slice"


section \<open>Token accounts\<close>

datatype AccountState = Uninitialized | Initialized | Frozen

record TokenAccount =
  mint :: Pubkey
  tok_owner :: Pubkey
  amount :: u64
  delegate :: "Pubkey option"
  state :: AccountState
  is_native :: "u64 option"
  delegated_amount :: u64
  close_authority :: "Pubkey option"

definition is_frozen :: "TokenAccount \<Rightarrow> bool" where
  "is_frozen a \<longleftrightarrow> state a = Frozen"

definition native :: "TokenAccount \<Rightarrow> bool" where
  "native a \<longleftrightarrow> is_native a \<noteq> None"

definition account_is_initialized :: "TokenAccount \<Rightarrow> bool" where
  "account_is_initialized a \<longleftrightarrow> state a \<noteq> Uninitialized"

fun account_state_byte :: "AccountState \<Rightarrow> u8" where
  "account_state_byte Uninitialized = 0"
| "account_state_byte Initialized = 1"
| "account_state_byte Frozen = 2"

definition unpack_account_state :: "u8 \<Rightarrow> AccountState ProgramResult" where
  "unpack_account_state b =
     (if b = 0 then Ok Uninitialized else if b = 1 then Ok Initialized
      else if b = 2 then Ok Frozen else err ProgramError.InvalidAccountData)"

definition TokenAccount_LEN :: nat where "TokenAccount_LEN = 165"

definition account_unpack_from_slice :: "bytes \<Rightarrow> TokenAccount ProgramResult" where
  "account_unpack_from_slice src =
     (if length src < 165 then Inl Panic
      else and_then (unpack_coption_key (slice 72 36 src)) (\<lambda>dg.
           and_then (unpack_account_state (src ! 108)) (\<lambda>ste.
           and_then (unpack_coption_u64 (slice 109 12 src)) (\<lambda>nat.
           and_then (unpack_coption_key (slice 129 36 src)) (\<lambda>ca.
             Ok \<lparr>mint = new_from_array (slice 0 32 src),
                 tok_owner = new_from_array (slice 32 32 src),
                 amount = u64_from_le_bytes (slice 64 8 src),
                 delegate = dg, state = ste, is_native = nat,
                 delegated_amount = u64_from_le_bytes (slice 121 8 src),
                 close_authority = ca\<rparr>)))))"

definition account_pack_into_slice :: "TokenAccount \<Rightarrow> bytes \<Rightarrow> bytes ProgramResult" where
  "account_pack_into_slice self dst =
     (if length dst < 165 then Inl Panic
      else Ok (to_bytes (mint self)
             @ to_bytes (tok_owner self)
             @ u64_to_le_bytes (amount self)
             @ pack_coption_key (delegate self) (slice 72 36 dst)
             @ [account_state_byte (state self)]
             @ pack_coption_u64 (is_native self) (slice 109 12 dst)
             @ u64_to_le_bytes (delegated_amount self)
             @ pack_coption_key (close_authority self) (slice 129 36 dst)
             @ drop 165 dst))"

definition account_unpack :: "bytes \<Rightarrow> TokenAccount ProgramResult" where
  "account_unpack = pack_unpack TokenAccount_LEN account_unpack_from_slice account_is_initialized"

definition account_unpack_unchecked :: "bytes \<Rightarrow> TokenAccount ProgramResult" where
  "account_unpack_unchecked = pack_unpack_unchecked TokenAccount_LEN account_unpack_from_slice"

definition account_pack :: "TokenAccount \<Rightarrow> bytes \<Rightarrow> bytes ProgramResult" where
  "account_pack = pack_pack TokenAccount_LEN account_pack_into_slice"


section \<open>Multisignature accounts\<close>

definition MIN_SIGNERS :: nat where "MIN_SIGNERS = 1"

definition MAX_SIGNERS :: nat where "MAX_SIGNERS = 11"

record Multisig =
  ms_m :: u8
  ms_n :: u8
  ms_is_initialized :: bool
  ms_signers :: "Pubkey list"

definition Multisig_LEN :: nat where "Multisig_LEN = 355"

definition multisig_unpack_from_slice :: "bytes \<Rightarrow> Multisig ProgramResult" where
  "multisig_unpack_from_slice src =
     (if length src < 355 then Inl Panic
      else and_then (unpack_bool (src ! 2)) (\<lambda>init.
             Ok \<lparr>ms_m = src ! 0, ms_n = src ! 1, ms_is_initialized = init,
                 ms_signers = map (\<lambda>i. new_from_array (slice (3 + 32 * i) 32 src))
                                [0..<MAX_SIGNERS]\<rparr>))"

definition multisig_pack_into_slice :: "Multisig \<Rightarrow> bytes \<Rightarrow> bytes ProgramResult" where
  "multisig_pack_into_slice self dst =
     (if length dst < 355 then Inl Panic
      else Ok ([ms_m self] @ [ms_n self] @ [of_bool (ms_is_initialized self)]
             @ concat (map to_bytes (ms_signers self)) @ drop 355 dst))"

definition multisig_unpack :: "bytes \<Rightarrow> Multisig ProgramResult" where
  "multisig_unpack = pack_unpack Multisig_LEN multisig_unpack_from_slice ms_is_initialized"

definition multisig_unpack_unchecked :: "bytes \<Rightarrow> Multisig ProgramResult" where
  "multisig_unpack_unchecked = pack_unpack_unchecked Multisig_LEN multisig_unpack_from_slice"

definition multisig_pack :: "Multisig \<Rightarrow> bytes \<Rightarrow> bytes ProgramResult" where
  "multisig_pack = pack_pack Multisig_LEN multisig_pack_into_slice"

definition wf_multisig :: "Multisig \<Rightarrow> bool" where
  "wf_multisig ms \<longleftrightarrow> length (ms_signers ms) = MAX_SIGNERS"

section \<open>The layouts keep the contract\<close>

lemma slice_join: "slice a n xs @ slice (a + n) k xs = slice a (n + k) xs"
  by (simp add: slice_def take_add add.commute [of a])

lemma slice_one: "i < length xs \<Longrightarrow> slice i (Suc 0) xs = [xs ! i]"
  by (simp add: slice_def take_Suc_conv_app_nth hd_drop_conv_nth)

lemma slice_all: "length xs = n \<Longrightarrow> slice 0 n xs = xs"
  by (simp add: slice_def)

lemma account_state_byte_roundtrip [simp]: "unpack_account_state (account_state_byte s) = Inr s"
  by (cases s) (simp_all add: unpack_account_state_def)

lemma account_state_byte_inv: "unpack_account_state b = Inr s \<Longrightarrow> account_state_byte s = b"
  by (auto simp: unpack_account_state_def split: if_splits)

interpretation mint_layout: packed_state Mint_LEN mint_pack_into_slice mint_unpack_from_slice
  mint_is_initialized "\<lambda>_. True"
proof unfold_locales
  fix dst :: bytes and v :: Mint
  assume "length dst = Mint_LEN"
  then show "\<exists>bs. mint_pack_into_slice v dst = Inr bs \<and> length bs = Mint_LEN \<and>
      mint_unpack_from_slice bs = Inr v"
    by (cases v)
      (simp add: Mint_LEN_def mint_pack_into_slice_def mint_unpack_from_slice_def slice_def
        nth_append res_simps)
next
  fix bs :: bytes and v :: Mint
  assume len: "length bs = Mint_LEN" and u: "mint_unpack_from_slice bs = Inr v"
  from len have l: "length bs = 82" by (simp add: Mint_LEN_def)
  have "slice 0 36 bs @ slice 36 8 bs @ slice 44 1 bs @ slice 45 1 bs @ slice 46 36 bs = bs"
    using slice_join [of 0 36 bs 8] slice_join [of 0 44 bs 1] slice_join [of 0 45 bs 1]
      slice_join [of 0 46 bs 36] slice_all [OF l] by (simp del: append_assoc add: append_assoc [symmetric])
  with u l show "True \<and> mint_pack_into_slice v bs = Inr bs"
    by (auto simp: mint_unpack_from_slice_def mint_pack_into_slice_def res_simps
        pack_unpack_coption_key u64_to_from_le_bytes slice_one dest!: unpack_bool_Inr)
qed


interpretation account_layout: packed_state TokenAccount_LEN account_pack_into_slice
  account_unpack_from_slice account_is_initialized "\<lambda>_. True"
proof unfold_locales
  fix dst :: bytes and v :: TokenAccount
  assume "length dst = TokenAccount_LEN"
  then show "\<exists>bs. account_pack_into_slice v dst = Inr bs \<and> length bs = TokenAccount_LEN \<and>
      account_unpack_from_slice bs = Inr v"
    by (cases v)
      (simp add: TokenAccount_LEN_def account_pack_into_slice_def account_unpack_from_slice_def
        slice_def nth_append res_simps)
next
  fix bs :: bytes and v :: TokenAccount
  assume len: "length bs = TokenAccount_LEN" and u: "account_unpack_from_slice bs = Inr v"
  from len have l: "length bs = 165" by (simp add: TokenAccount_LEN_def)
  have "slice 0 32 bs @ slice 32 32 bs @ slice 64 8 bs @ slice 72 36 bs @ slice 108 1 bs
      @ slice 109 12 bs @ slice 121 8 bs @ slice 129 36 bs = bs"
    using slice_join [of 0 32 bs 32] slice_join [of 0 64 bs 8] slice_join [of 0 72 bs 36]
      slice_join [of 0 108 bs 1] slice_join [of 0 109 bs 12] slice_join [of 0 121 bs 8]
      slice_join [of 0 129 bs 36] slice_all [OF l]
    by (simp del: append_assoc add: append_assoc [symmetric])
  with u l show "True \<and> account_pack_into_slice v bs = Inr bs"
    by (auto simp: account_unpack_from_slice_def account_pack_into_slice_def res_simps
        pack_unpack_coption_key pack_unpack_coption_u64 u64_to_from_le_bytes
        to_bytes_new_from_array slice_one dest!: account_state_byte_inv)
qed

lemma concat_blocks_slice:
  assumes "\<And>x. length (f x) = w" and "i < length xs"
  shows "slice (w * i) w (concat (map f xs) @ rest) = f (xs ! i)"
  using assms(2)
proof (induction xs arbitrary: i)
  case (Cons x xs)
  show ?case
  proof (cases i)
    case 0
    then show ?thesis using assms(1) by (simp add: slice_def)
  next
    case (Suc j)
    then have "slice (w * i) w (concat (map f (x # xs)) @ rest)
        = slice (w * j) w (concat (map f xs) @ rest)"
      using slice_append_skip [of "f x" w "w * j" w "concat (map f xs) @ rest"] assms(1)
      by (simp add: add.commute)
    then show ?thesis using Cons Suc by simp
  qed
qed simp

lemma length_concat_blocks: "(\<And>x. length (f x) = w) \<Longrightarrow> length (concat (map f xs)) = w * length xs"
  by (induction xs) auto

lemma concat_slices: "concat (map (\<lambda>i. slice (w * i) w xs) [0..<n]) = slice 0 (w * n) xs"
proof (induction n)
  case (Suc n)
  then show ?case using slice_join [of 0 "w * n" xs w] by (simp add: add.commute)
qed (simp add: slice_def)

interpretation multisig_layout: packed_state Multisig_LEN multisig_pack_into_slice
  multisig_unpack_from_slice ms_is_initialized wf_multisig
proof unfold_locales
  fix dst :: bytes and v :: Multisig
  assume l: "length dst = Multisig_LEN" and wf: "wf_multisig v"
  let ?flat = "concat (map to_bytes (ms_signers v))"
  have len: "length ?flat = 352"
    using wf by (simp add: length_concat_blocks wf_multisig_def MAX_SIGNERS_def)
  have "map (\<lambda>i. new_from_array (slice (32 * i) 32 ?flat)) [0..<MAX_SIGNERS] = ms_signers v"
  proof (rule nth_equalityI)
    fix i assume "i < length (map (\<lambda>i. new_from_array (slice (32 * i) 32 ?flat)) [0..<MAX_SIGNERS])"
    then show "map (\<lambda>i. new_from_array (slice (32 * i) 32 ?flat)) [0..<MAX_SIGNERS] ! i
        = ms_signers v ! i"
      using wf concat_blocks_slice [of to_bytes 32 i "ms_signers v" "[]"]
      by (simp add: wf_multisig_def)
  qed (use wf in \<open>simp add: wf_multisig_def\<close>)
  then show "\<exists>bs. multisig_pack_into_slice v dst = Inr bs \<and> length bs = Multisig_LEN \<and>
      multisig_unpack_from_slice bs = Inr v"
    using l len slice_append_skip [of "[ms_m v, ms_n v, of_bool (ms_is_initialized v)]" 3 _ 32 ?flat]
    by (simp add: Multisig_LEN_def multisig_pack_into_slice_def multisig_unpack_from_slice_def
        res_simps)
next
  fix bs :: bytes and v :: Multisig
  assume len: "length bs = Multisig_LEN" and u: "multisig_unpack_from_slice bs = Inr v"
  then have l: "length bs = 355" by (simp add: Multisig_LEN_def)
  have "to_bytes (new_from_array (slice (3 + 32 * i) 32 bs)) = slice (32 * i) 32 (drop 3 bs)"
    if "i < 11" for i
  proof -
    have "to_bytes (new_from_array (slice (3 + 32 * i) 32 bs)) = slice (3 + 32 * i) 32 bs"
      by (rule to_bytes_new_from_array) (use l that in simp)
    then show ?thesis by (simp add: slice_def add.commute)
  qed
  then have "concat (map (\<lambda>i. to_bytes (new_from_array (slice (3 + 32 * i) 32 bs))) [0..<11])
      = concat (map (\<lambda>i. slice (32 * i) 32 (drop 3 bs)) [0..<11])"
    by (intro arg_cong [where f = concat] map_cong) auto
  also have "\<dots> = slice 0 352 (drop 3 bs)" by (simp add: concat_slices)
  also have "\<dots> = drop 3 bs" using l by (simp add: slice_def)
  finally have flat: "concat (map (\<lambda>i. to_bytes (new_from_array (slice (3 + 32 * i) 32 bs))) [0..<11])
      = drop 3 bs" .
  have bs: "bs ! 0 # bs ! 1 # bs ! 2 # drop 3 bs = bs"
    using l by (simp add: Cons_nth_drop_Suc numeral_3_eq_3 numeral_2_eq_2)
  show "wf_multisig v \<and> multisig_pack_into_slice v bs = Inr bs"
    using u l bs flat
    by (auto simp: multisig_unpack_from_slice_def multisig_pack_into_slice_def res_simps
        wf_multisig_def MAX_SIGNERS_def comp_def dest!: unpack_bool_Inr)
qed

lemmas unpack_iff =
  mint_layout.unpack_Inr_iff [folded mint_unpack_def]
  account_layout.unpack_Inr_iff [folded account_unpack_def]
  multisig_layout.unpack_Inr_iff [folded multisig_unpack_def]

lemma account_pack_Inr:
  assumes "account_pack v dst = Inr bs"
  shows "length bs = TokenAccount_LEN" and "length dst = TokenAccount_LEN"
    and "account_is_initialized v \<Longrightarrow> account_unpack bs = Inr v"
  using account_layout.pack_then_unpack [of v dst bs] assms
  by (auto simp: account_pack_def account_unpack_def)

lemma mint_pack_Inr:
  assumes "mint_pack v dst = Inr bs"
  shows "length bs = Mint_LEN" and "length dst = Mint_LEN"
    and "mint_unpack_unchecked bs = Inr v"
    and "mint_is_initialized v \<Longrightarrow> mint_unpack bs = Inr v"
  using mint_layout.pack_then_unpack [of v dst bs] assms
  by (auto simp: mint_pack_def mint_unpack_def mint_unpack_unchecked_def)

lemma multisig_pack_Inr:
  assumes "multisig_pack v dst = Inr bs" and "wf_multisig v"
  shows "length bs = Multisig_LEN" and "length dst = Multisig_LEN"
    and "ms_is_initialized v \<Longrightarrow> multisig_unpack bs = Inr v"
  using multisig_layout.pack_then_unpack [of v dst bs] assms
  by (auto simp: multisig_pack_def multisig_unpack_def)

lemma account_unpack_init: "account_unpack bs = Inr v \<Longrightarrow> account_is_initialized v"
  by (simp add: unpack_iff)

lemma mint_unpack_init: "mint_unpack bs = Inr v \<Longrightarrow> mint_is_initialized v"
  by (simp add: unpack_iff)

lemma account_pack_unpacked: "account_unpack bs = Inr v \<Longrightarrow> account_pack v bs = Inr bs"
  using account_layout.unpack_then_pack [of bs v]
  by (simp add: account_unpack_def account_pack_def account_layout.unpack_Inr_iff
      pack_unpack_unchecked_def)

end
