(* ===== verification/TokenInstruction.thy ===== *)
theory TokenInstruction
  imports TokenState
begin

text \<open>
  The instructions of the SPL token program (\<open>spl-token-3.3.0/src/instruction.rs\<close>) and
  their wire format, \<open>TokenInstruction::pack\<close> and \<open>TokenInstruction::unpack\<close>. A slice
  operation of the source that is out of range (\<open>split_at\<close>) is a panic.
\<close>

datatype AuthorityType = MintTokens | FreezeAccount | AccountOwner | CloseAccount

datatype (plugins only: code size) TokenInstruction =
    InitializeMint u8 Pubkey "Pubkey option"
  | InitializeAccount
  | InitializeMultisig u8
  | Transfer u64
  | Approve u64
  | Revoke
  | SetAuthority AuthorityType "Pubkey option"
  | MintTo u64
  | Burn u64
  | CloseAccount
  | FreezeAccount
  | ThawAccount
  | TransferChecked u64 u8
  | ApproveChecked u64 u8
  | MintToChecked u64 u8
  | BurnChecked u64 u8
  | InitializeAccount2 Pubkey
  | SyncNative
  | InitializeAccount3 Pubkey
  | InitializeMultisig2 u8
  | InitializeMint2 u8 Pubkey "Pubkey option"

fun authority_type_into :: "AuthorityType \<Rightarrow> u8" where
  "authority_type_into MintTokens = 0"
| "authority_type_into AuthorityType.FreezeAccount = 1"
| "authority_type_into AccountOwner = 2"
| "authority_type_into AuthorityType.CloseAccount = 3"

definition authority_type_from :: "u8 \<Rightarrow> AuthorityType ProgramResult" where
  "authority_type_from index =
     (if index = 0 then Ok MintTokens
      else if index = 1 then Ok AuthorityType.FreezeAccount
      else if index = 2 then Ok AccountOwner
      else if index = 3 then Ok AuthorityType.CloseAccount
      else token_err TokenError.InvalidInstruction)"

fun split_first :: "bytes \<Rightarrow> (u8 \<times> bytes) ProgramResult" where
  "split_first [] = token_err TokenError.InvalidInstruction"
| "split_first (b # rest) = Ok (b, rest)"

definition unpack_pubkey :: "bytes \<Rightarrow> (Pubkey \<times> bytes) ProgramResult" where
  "unpack_pubkey input =
     (if 32 \<le> length input then Ok (new_from_array (take 32 input), drop 32 input)
      else token_err TokenError.InvalidInstruction)"

definition unpack_pubkey_option :: "bytes \<Rightarrow> (Pubkey option \<times> bytes) ProgramResult" where
  "unpack_pubkey_option input =
     (case input of
        [] \<Rightarrow> token_err TokenError.InvalidInstruction
      | b # rest \<Rightarrow>
          if b = 0 then Ok (None, rest)
          else if b = 1 \<and> 32 \<le> length rest
               then Ok (Some (new_from_array (take 32 rest)), drop 32 rest)
          else token_err TokenError.InvalidInstruction)"

definition pack_pubkey_option :: "Pubkey option \<Rightarrow> bytes" where
  "pack_pubkey_option v = (case v of Some k \<Rightarrow> 1 # to_bytes k | None \<Rightarrow> [0])"

text \<open>\<open>rest.get(..8)\<close> of the tags 3, 4, 7 and 8.\<close>

definition unpack_amount :: "bytes \<Rightarrow> u64 ProgramResult" where
  "unpack_amount rest =
     (if 8 \<le> length rest then Ok (u64_from_le_bytes (take 8 rest))
      else token_err TokenError.InvalidInstruction)"

text \<open>\<open>rest.split_at(8)\<close> of the tags 12 to 15 panics on fewer than 8 bytes.\<close>

definition unpack_amount_decimals :: "bytes \<Rightarrow> (u64 \<times> u8) ProgramResult" where
  "unpack_amount_decimals rest =
     (if length rest < 8 then Inl Panic
      else and_then (split_first (drop 8 rest)) (\<lambda>(decimals, _).
             Ok (u64_from_le_bytes (take 8 rest), decimals)))"

definition unpack_mint_fields :: "bytes \<Rightarrow> (u8 \<times> Pubkey \<times> Pubkey option) ProgramResult" where
  "unpack_mint_fields rest =
     and_then (split_first rest) (\<lambda>(decimals, rest).
     and_then (unpack_pubkey rest) (\<lambda>(mint_authority, rest).
     and_then (unpack_pubkey_option rest) (\<lambda>(freeze_authority, _).
       Ok (decimals, mint_authority, freeze_authority))))"

definition token_instruction_unpack :: "bytes \<Rightarrow> TokenInstruction ProgramResult" where
  "token_instruction_unpack input =
     and_then (split_first input) (\<lambda>(tag, rest).
       if tag = 0 then and_then (unpack_mint_fields rest) (\<lambda>(d, ma, fa). Ok (InitializeMint d ma fa))
       else if tag = 1 then Ok InitializeAccount
       else if tag = 2 then and_then (split_first rest) (\<lambda>(m, _). Ok (InitializeMultisig m))
       else if tag = 3 then and_then (unpack_amount rest) (\<lambda>amount. Ok (Transfer amount))
       else if tag = 4 then and_then (unpack_amount rest) (\<lambda>amount. Ok (Approve amount))
       else if tag = 7 then and_then (unpack_amount rest) (\<lambda>amount. Ok (MintTo amount))
       else if tag = 8 then and_then (unpack_amount rest) (\<lambda>amount. Ok (Burn amount))
       else if tag = 5 then Ok Revoke
       else if tag = 6 then
         and_then (split_first rest) (\<lambda>(t, rest).
         and_then (authority_type_from t) (\<lambda>authority_type.
         and_then (unpack_pubkey_option rest) (\<lambda>(new_authority, _).
           Ok (SetAuthority authority_type new_authority))))
       else if tag = 9 then Ok CloseAccount
       else if tag = 10 then Ok FreezeAccount
       else if tag = 11 then Ok ThawAccount
       else if tag = 12 then and_then (unpack_amount_decimals rest) (\<lambda>(a, d). Ok (TransferChecked a d))
       else if tag = 13 then and_then (unpack_amount_decimals rest) (\<lambda>(a, d). Ok (ApproveChecked a d))
       else if tag = 14 then and_then (unpack_amount_decimals rest) (\<lambda>(a, d). Ok (MintToChecked a d))
       else if tag = 15 then and_then (unpack_amount_decimals rest) (\<lambda>(a, d). Ok (BurnChecked a d))
       else if tag = 16 then and_then (unpack_pubkey rest) (\<lambda>(w, _). Ok (InitializeAccount2 w))
       else if tag = 17 then Ok SyncNative
       else if tag = 18 then and_then (unpack_pubkey rest) (\<lambda>(w, _). Ok (InitializeAccount3 w))
       else if tag = 19 then and_then (split_first rest) (\<lambda>(m, _). Ok (InitializeMultisig2 m))
       else if tag = 20 then and_then (unpack_mint_fields rest) (\<lambda>(d, ma, fa). Ok (InitializeMint2 d ma fa))
       else token_err TokenError.InvalidInstruction)"

fun token_instruction_pack :: "TokenInstruction \<Rightarrow> bytes" where
  "token_instruction_pack (InitializeMint d ma fa) =
     0 # d # to_bytes ma @ pack_pubkey_option fa"
| "token_instruction_pack InitializeAccount = [1]"
| "token_instruction_pack (InitializeMultisig m) = [2, m]"
| "token_instruction_pack (Transfer a) = 3 # u64_to_le_bytes a"
| "token_instruction_pack (Approve a) = 4 # u64_to_le_bytes a"
| "token_instruction_pack (MintTo a) = 7 # u64_to_le_bytes a"
| "token_instruction_pack (Burn a) = 8 # u64_to_le_bytes a"
| "token_instruction_pack Revoke = [5]"
| "token_instruction_pack (SetAuthority t na) =
     6 # authority_type_into t # pack_pubkey_option na"
| "token_instruction_pack CloseAccount = [9]"
| "token_instruction_pack FreezeAccount = [10]"
| "token_instruction_pack ThawAccount = [11]"
| "token_instruction_pack (TransferChecked a d) = 12 # u64_to_le_bytes a @ [d]"
| "token_instruction_pack (ApproveChecked a d) = 13 # u64_to_le_bytes a @ [d]"
| "token_instruction_pack (MintToChecked a d) = 14 # u64_to_le_bytes a @ [d]"
| "token_instruction_pack (BurnChecked a d) = 15 # u64_to_le_bytes a @ [d]"
| "token_instruction_pack (InitializeAccount2 w) = 16 # to_bytes w"
| "token_instruction_pack SyncNative = [17]"
| "token_instruction_pack (InitializeAccount3 w) = 18 # to_bytes w"
| "token_instruction_pack (InitializeMultisig2 m) = [19, m]"
| "token_instruction_pack (InitializeMint2 d ma fa) =
     20 # d # to_bytes ma @ pack_pubkey_option fa"

lemma authority_type_roundtrip [simp]:
  "authority_type_from (authority_type_into t) = Inr t"
  by (cases t) (simp_all add: authority_type_from_def)

lemma unpack_pubkey_append [simp]: "unpack_pubkey (to_bytes k @ rest) = Inr (k, rest)"
  by (simp add: unpack_pubkey_def)

lemma unpack_pubkey_option_append [simp]:
  "unpack_pubkey_option (pack_pubkey_option v @ rest) = Inr (v, rest)"
  by (cases v) (simp_all add: unpack_pubkey_option_def pack_pubkey_option_def)

lemma unpack_amount_append [simp]: "unpack_amount (u64_to_le_bytes a @ rest) = Inr a"
  by (simp add: unpack_amount_def)

lemma unpack_amount_decimals_append [simp]:
  "unpack_amount_decimals (u64_to_le_bytes a @ d # rest) = Inr (a, d)"
  by (simp add: unpack_amount_decimals_def)

lemma unpack_mint_fields_append [simp]:
  "unpack_mint_fields (d # to_bytes ma @ pack_pubkey_option fa @ rest) = Inr (d, ma, fa)"
  by (simp add: unpack_mint_fields_def)

lemma token_instruction_roundtrip_append:
  "token_instruction_unpack (token_instruction_pack i @ rest) = Inr i"
  by (cases i) (simp_all add: token_instruction_unpack_def)


section \<open>Instruction builders\<close>

definition check_program_account :: "Pubkey \<Rightarrow> unit ProgramResult" where
  "check_program_account spl_token_program_id =
     (if spl_token_program_id \<noteq> spl_token_id then err ProgramError.IncorrectProgramId else Ok ())"

definition is_valid_signer_index :: "nat \<Rightarrow> bool" where
  "is_valid_signer_index index \<longleftrightarrow> MIN_SIGNERS \<le> index \<and> index \<le> MAX_SIGNERS"

text \<open>
  The builders share their last step: the authority is a signer exactly when no multisignature
  signers are given, and every given signer is a read-only signer.
\<close>

definition authority_metas :: "Pubkey \<Rightarrow> Pubkey list \<Rightarrow> AccountMeta list" where
  "authority_metas authority signer_pubkeys =
     meta_new_readonly authority (signer_pubkeys = []) #
     map (\<lambda>k. meta_new_readonly k True) signer_pubkeys"

definition token_ix :: "Pubkey \<Rightarrow> AccountMeta list \<Rightarrow> TokenInstruction \<Rightarrow> Instruction ProgramResult" where
  "token_ix token_program_id accounts i =
     and_then (check_program_account token_program_id) (\<lambda>_.
       Ok \<lparr>instr_program_id = token_program_id, instr_accounts = accounts,
           instr_data = token_instruction_pack i\<rparr>)"

definition initialize_mint_ix ::
  "Pubkey \<Rightarrow> Pubkey \<Rightarrow> Pubkey \<Rightarrow> Pubkey option \<Rightarrow> u8 \<Rightarrow> Instruction ProgramResult" where
  "initialize_mint_ix token_program_id mint_pubkey mint_authority_pubkey freeze_authority_pubkey dec =
     token_ix token_program_id
       [meta_new mint_pubkey False, meta_new_readonly rent_sysvar_id False]
       (InitializeMint dec mint_authority_pubkey freeze_authority_pubkey)"

definition initialize_mint2_ix ::
  "Pubkey \<Rightarrow> Pubkey \<Rightarrow> Pubkey \<Rightarrow> Pubkey option \<Rightarrow> u8 \<Rightarrow> Instruction ProgramResult" where
  "initialize_mint2_ix token_program_id mint_pubkey mint_authority_pubkey freeze_authority_pubkey dec =
     token_ix token_program_id
       [meta_new mint_pubkey False]
       (InitializeMint2 dec mint_authority_pubkey freeze_authority_pubkey)"

definition initialize_account_ix ::
  "Pubkey \<Rightarrow> Pubkey \<Rightarrow> Pubkey \<Rightarrow> Pubkey \<Rightarrow> Instruction ProgramResult" where
  "initialize_account_ix token_program_id account_pubkey mint_pubkey owner_pubkey =
     token_ix token_program_id
       [meta_new account_pubkey False, meta_new_readonly mint_pubkey False,
        meta_new_readonly owner_pubkey False, meta_new_readonly rent_sysvar_id False]
       InitializeAccount"

definition initialize_account2_ix ::
  "Pubkey \<Rightarrow> Pubkey \<Rightarrow> Pubkey \<Rightarrow> Pubkey \<Rightarrow> Instruction ProgramResult" where
  "initialize_account2_ix token_program_id account_pubkey mint_pubkey owner_pubkey =
     token_ix token_program_id
       [meta_new account_pubkey False, meta_new_readonly mint_pubkey False,
        meta_new_readonly rent_sysvar_id False]
       (InitializeAccount2 owner_pubkey)"

definition initialize_account3_ix ::
  "Pubkey \<Rightarrow> Pubkey \<Rightarrow> Pubkey \<Rightarrow> Pubkey \<Rightarrow> Instruction ProgramResult" where
  "initialize_account3_ix token_program_id account_pubkey mint_pubkey owner_pubkey =
     token_ix token_program_id
       [meta_new account_pubkey False, meta_new_readonly mint_pubkey False]
       (InitializeAccount3 owner_pubkey)"

definition transfer_ix ::
  "Pubkey \<Rightarrow> Pubkey \<Rightarrow> Pubkey \<Rightarrow> Pubkey \<Rightarrow> Pubkey list \<Rightarrow> u64 \<Rightarrow> Instruction ProgramResult" where
  "transfer_ix token_program_id source_pubkey destination_pubkey authority_pubkey signer_pubkeys amt =
     token_ix token_program_id
       (meta_new source_pubkey False # meta_new destination_pubkey False # authority_metas authority_pubkey signer_pubkeys)
       (Transfer amt)"

definition approve_ix ::
  "Pubkey \<Rightarrow> Pubkey \<Rightarrow> Pubkey \<Rightarrow> Pubkey \<Rightarrow> Pubkey list \<Rightarrow> u64 \<Rightarrow> Instruction ProgramResult" where
  "approve_ix token_program_id source_pubkey delegate_pubkey owner_pubkey signer_pubkeys amt =
     token_ix token_program_id
       (meta_new source_pubkey False # meta_new_readonly delegate_pubkey False # authority_metas owner_pubkey signer_pubkeys)
       (Approve amt)"

definition revoke_ix ::
  "Pubkey \<Rightarrow> Pubkey \<Rightarrow> Pubkey \<Rightarrow> Pubkey list \<Rightarrow> Instruction ProgramResult" where
  "revoke_ix token_program_id source_pubkey owner_pubkey signer_pubkeys =
     token_ix token_program_id
       (meta_new source_pubkey False # authority_metas owner_pubkey signer_pubkeys)
       Revoke"

definition set_authority_ix ::
  "Pubkey \<Rightarrow> Pubkey \<Rightarrow> Pubkey option \<Rightarrow> AuthorityType \<Rightarrow> Pubkey \<Rightarrow> Pubkey list \<Rightarrow> Instruction ProgramResult" where
  "set_authority_ix token_program_id owned_pubkey new_authority authority_type owner_pubkey signer_pubkeys =
     token_ix token_program_id
       (meta_new owned_pubkey False # authority_metas owner_pubkey signer_pubkeys)
       (SetAuthority authority_type new_authority)"

definition mint_to_ix ::
  "Pubkey \<Rightarrow> Pubkey \<Rightarrow> Pubkey \<Rightarrow> Pubkey \<Rightarrow> Pubkey list \<Rightarrow> u64 \<Rightarrow> Instruction ProgramResult" where
  "mint_to_ix token_program_id mint_pubkey account_pubkey owner_pubkey signer_pubkeys amt =
     token_ix token_program_id
       (meta_new mint_pubkey False # meta_new account_pubkey False # authority_metas owner_pubkey signer_pubkeys)
       (MintTo amt)"

definition burn_ix ::
  "Pubkey \<Rightarrow> Pubkey \<Rightarrow> Pubkey \<Rightarrow> Pubkey \<Rightarrow> Pubkey list \<Rightarrow> u64 \<Rightarrow> Instruction ProgramResult" where
  "burn_ix token_program_id account_pubkey mint_pubkey authority_pubkey signer_pubkeys amt =
     token_ix token_program_id
       (meta_new account_pubkey False # meta_new mint_pubkey False # authority_metas authority_pubkey signer_pubkeys)
       (Burn amt)"

definition close_account_ix ::
  "Pubkey \<Rightarrow> Pubkey \<Rightarrow> Pubkey \<Rightarrow> Pubkey \<Rightarrow> Pubkey list \<Rightarrow> Instruction ProgramResult" where
  "close_account_ix token_program_id account_pubkey destination_pubkey owner_pubkey signer_pubkeys =
     token_ix token_program_id
       (meta_new account_pubkey False # meta_new destination_pubkey False # authority_metas owner_pubkey signer_pubkeys)
       CloseAccount"

definition freeze_account_ix ::
  "Pubkey \<Rightarrow> Pubkey \<Rightarrow> Pubkey \<Rightarrow> Pubkey \<Rightarrow> Pubkey list \<Rightarrow> Instruction ProgramResult" where
  "freeze_account_ix token_program_id account_pubkey mint_pubkey owner_pubkey signer_pubkeys =
     token_ix token_program_id
       (meta_new account_pubkey False # meta_new_readonly mint_pubkey False # authority_metas owner_pubkey signer_pubkeys)
       FreezeAccount"

definition thaw_account_ix ::
  "Pubkey \<Rightarrow> Pubkey \<Rightarrow> Pubkey \<Rightarrow> Pubkey \<Rightarrow> Pubkey list \<Rightarrow> Instruction ProgramResult" where
  "thaw_account_ix token_program_id account_pubkey mint_pubkey owner_pubkey signer_pubkeys =
     token_ix token_program_id
       (meta_new account_pubkey False # meta_new_readonly mint_pubkey False # authority_metas owner_pubkey signer_pubkeys)
       ThawAccount"

definition transfer_checked_ix ::
  "Pubkey \<Rightarrow> Pubkey \<Rightarrow> Pubkey \<Rightarrow> Pubkey \<Rightarrow> Pubkey \<Rightarrow> Pubkey list \<Rightarrow> u64 \<Rightarrow> u8 \<Rightarrow> Instruction ProgramResult" where
  "transfer_checked_ix token_program_id source_pubkey mint_pubkey destination_pubkey authority_pubkey signer_pubkeys amt dec =
     token_ix token_program_id
       (meta_new source_pubkey False # meta_new_readonly mint_pubkey False # meta_new destination_pubkey False #
        authority_metas authority_pubkey signer_pubkeys)
       (TransferChecked amt dec)"

definition approve_checked_ix ::
  "Pubkey \<Rightarrow> Pubkey \<Rightarrow> Pubkey \<Rightarrow> Pubkey \<Rightarrow> Pubkey \<Rightarrow> Pubkey list \<Rightarrow> u64 \<Rightarrow> u8 \<Rightarrow> Instruction ProgramResult" where
  "approve_checked_ix token_program_id source_pubkey mint_pubkey delegate_pubkey owner_pubkey signer_pubkeys amt dec =
     token_ix token_program_id
       (meta_new source_pubkey False # meta_new_readonly mint_pubkey False # meta_new_readonly delegate_pubkey False #
        authority_metas owner_pubkey signer_pubkeys)
       (ApproveChecked amt dec)"

definition mint_to_checked_ix ::
  "Pubkey \<Rightarrow> Pubkey \<Rightarrow> Pubkey \<Rightarrow> Pubkey \<Rightarrow> Pubkey list \<Rightarrow> u64 \<Rightarrow> u8 \<Rightarrow> Instruction ProgramResult" where
  "mint_to_checked_ix token_program_id mint_pubkey account_pubkey owner_pubkey signer_pubkeys amt dec =
     token_ix token_program_id
       (meta_new mint_pubkey False # meta_new account_pubkey False # authority_metas owner_pubkey signer_pubkeys)
       (MintToChecked amt dec)"

definition burn_checked_ix ::
  "Pubkey \<Rightarrow> Pubkey \<Rightarrow> Pubkey \<Rightarrow> Pubkey \<Rightarrow> Pubkey list \<Rightarrow> u64 \<Rightarrow> u8 \<Rightarrow> Instruction ProgramResult" where
  "burn_checked_ix token_program_id account_pubkey mint_pubkey authority_pubkey signer_pubkeys amt dec =
     token_ix token_program_id
       (meta_new account_pubkey False # meta_new mint_pubkey False # authority_metas authority_pubkey signer_pubkeys)
       (BurnChecked amt dec)"

definition sync_native_ix ::
  "Pubkey \<Rightarrow> Pubkey \<Rightarrow> Instruction ProgramResult" where
  "sync_native_ix token_program_id account_pubkey =
     token_ix token_program_id
       [meta_new account_pubkey False]
       SyncNative"

definition multisig_ix ::
  "Pubkey \<Rightarrow> AccountMeta list \<Rightarrow> Pubkey list \<Rightarrow> u8 \<Rightarrow> TokenInstruction \<Rightarrow> Instruction ProgramResult" where
  "multisig_ix token_program_id metas signer_pubkeys m i =
     and_then (check_program_account token_program_id) (\<lambda>_.
       if \<not> is_valid_signer_index (unat m) \<or> \<not> is_valid_signer_index (length signer_pubkeys) \<or>
          length signer_pubkeys < unat m
       then err ProgramError.MissingRequiredSignature
       else Ok \<lparr>instr_program_id = token_program_id,
                instr_accounts = metas @ map (\<lambda>k. meta_new_readonly k False) signer_pubkeys,
                instr_data = token_instruction_pack i\<rparr>)"

definition initialize_multisig_ix ::
  "Pubkey \<Rightarrow> Pubkey \<Rightarrow> Pubkey list \<Rightarrow> u8 \<Rightarrow> Instruction ProgramResult" where
  "initialize_multisig_ix token_program_id multisig_pubkey signer_pubkeys m =
     multisig_ix token_program_id
       [meta_new multisig_pubkey False, meta_new_readonly rent_sysvar_id False]
       signer_pubkeys m (InitializeMultisig m)"

definition initialize_multisig2_ix ::
  "Pubkey \<Rightarrow> Pubkey \<Rightarrow> Pubkey list \<Rightarrow> u8 \<Rightarrow> Instruction ProgramResult" where
  "initialize_multisig2_ix token_program_id multisig_pubkey signer_pubkeys m =
     multisig_ix token_program_id [meta_new multisig_pubkey False]
       signer_pubkeys m (InitializeMultisig2 m)"

lemma check_program_account_Inr_iff [res_simps]:
  "check_program_account p = Inr u \<longleftrightarrow> p = spl_token_id"
  by (simp add: check_program_account_def)

lemma token_ix_Inr_iff [res_simps]:
  "token_ix p accounts i = Inr ix \<longleftrightarrow> p = spl_token_id \<and>
     ix = \<lparr>instr_program_id = spl_token_id, instr_accounts = accounts,
           instr_data = token_instruction_pack i\<rparr>"
  by (auto simp: token_ix_def res_simps)

lemmas token_builder_defs =
  initialize_mint_ix_def
  initialize_mint2_ix_def
  initialize_account_ix_def
  initialize_account2_ix_def
  initialize_account3_ix_def
  transfer_ix_def
  approve_ix_def
  revoke_ix_def
  set_authority_ix_def
  mint_to_ix_def
  burn_ix_def
  close_account_ix_def
  freeze_account_ix_def
  thaw_account_ix_def
  transfer_checked_ix_def
  approve_checked_ix_def
  mint_to_checked_ix_def
  burn_checked_ix_def
  sync_native_ix_def

end
