(* ===== verification/Float64.thy ===== *)
theory Float64
  imports Prelude
begin

text \<open>
  The part of IEEE-754 binary64 arithmetic the rent calculation uses: Rust's \<open>as f64\<close> on
  \<open>u64\<close>, multiplication, and the saturating \<open>as u64\<close>. A value is its bit pattern; the
  operations decode it, compute exactly on integers and round once to nearest, ties to even.
\<close>

type_synonym f64 = "64 word"

datatype fp = NaN | Inf bool | Fin bool nat int

text \<open>\<open>Fin s m e\<close> is \<open>(-1)^s * m * 2^e\<close>.\<close>

definition f64_decode :: "f64 \<Rightarrow> fp" where
  "f64_decode w =
     (let n = unat w; s = (2 ^ 63 \<le> n); b = n div 2 ^ 52 mod 2 ^ 11; f = n mod 2 ^ 52
      in if b = 2047 then (if f = 0 then Inf s else NaN)
         else if b = 0 then Fin s f (- 1074)
         else Fin s (2 ^ 52 + f) (int b - 1075))"

definition f64_pack :: "bool \<Rightarrow> nat \<Rightarrow> nat \<Rightarrow> f64" where
  "f64_pack s b f = word_of_nat ((if s then 2 ^ 63 else 0) + b * 2 ^ 52 + f)"

fun bit_length :: "nat \<Rightarrow> nat" where
  "bit_length n = (if n = 0 then 0 else Suc (bit_length (n div 2)))"

declare bit_length.simps [simp del]

definition shift_rne :: "nat \<Rightarrow> nat \<Rightarrow> nat" where
  "shift_rne m d =
     (let q = m div 2 ^ d; r = m mod 2 ^ d
      in if 2 ^ d < 2 * r \<or> (2 * r = 2 ^ d \<and> odd q) then q + 1 else q)"

definition f64_encode :: "bool \<Rightarrow> nat \<Rightarrow> int \<Rightarrow> f64" where
  "f64_encode s m e =
     (let (m, e) = (if m = 2 ^ 53 then (2 ^ 52, e + 1) else (m, e))
      in if m < 2 ^ 52 then f64_pack s 0 m
         else if 971 < e then f64_pack s 2047 0
         else f64_pack s (nat (e + 1075)) (m - 2 ^ 52))"

text \<open>The binary64 number nearest to \<open>m * 2^e\<close>.\<close>

definition f64_round :: "bool \<Rightarrow> nat \<Rightarrow> int \<Rightarrow> f64" where
  "f64_round s m e =
     (let q = max (e + int (bit_length m) - 53) (- 1074)
      in if q \<le> e then f64_encode s (m * 2 ^ nat (e - q)) q
         else f64_encode s (shift_rne m (nat (q - e))) q)"

definition f64_of_u64 :: "u64 \<Rightarrow> f64" where
  "f64_of_u64 x = f64_round False (unat x) 0"

definition f64_mul :: "f64 \<Rightarrow> f64 \<Rightarrow> f64" where
  "f64_mul a b =
     (case (f64_decode a, f64_decode b) of
        (Fin s m e, Fin s' m' e') \<Rightarrow> f64_round (s \<noteq> s') (m * m') (e + e')
      | (Inf s, Inf s') \<Rightarrow> f64_pack (s \<noteq> s') 2047 0
      | (Inf s, Fin s' m' e') \<Rightarrow>
          (if m' = 0 then f64_pack False 2047 (2 ^ 51) else f64_pack (s \<noteq> s') 2047 0)
      | (Fin s m e, Inf s') \<Rightarrow>
          (if m = 0 then f64_pack False 2047 (2 ^ 51) else f64_pack (s \<noteq> s') 2047 0)
      | _ \<Rightarrow> f64_pack False 2047 (2 ^ 51))"

definition u64_of_f64 :: "f64 \<Rightarrow> u64" where
  "u64_of_f64 a =
     (case f64_decode a of
        NaN \<Rightarrow> 0
      | Inf s \<Rightarrow> (if s then 0 else - 1)
      | Fin s m e \<Rightarrow>
          (if s then 0
           else let v = (if 0 \<le> e then m * 2 ^ nat e else m div 2 ^ nat (- e))
                in if v < 2 ^ 64 then word_of_nat v else - 1))"

lemma bit_length_bounds:
  "0 < n \<Longrightarrow> 2 ^ (bit_length n - 1) \<le> n \<and> n < 2 ^ bit_length n \<and> 0 < bit_length n"
proof (induction n rule: bit_length.induct)
  case (1 n)
  have step: "bit_length n = Suc (bit_length (n div 2))"
    using "1.prems" by (subst bit_length.simps) simp
  show ?case
  proof (cases "n div 2 = 0")
    case True
    then have "n = 1" using "1.prems" by linarith
    then show ?thesis using step True by (simp add: bit_length.simps)
  next
    case False
    with "1.IH" "1.prems" have IH: "2 ^ (bit_length (n div 2) - 1) \<le> n div 2"
      "n div 2 < 2 ^ bit_length (n div 2)" "0 < bit_length (n div 2)" by auto
    have "2 * 2 ^ (bit_length (n div 2) - 1) = (2::nat) ^ bit_length (n div 2)"
      using IH(3) by (metis Suc_diff_1 power_Suc)
    then have "2 ^ bit_length (n div 2) \<le> n" using IH(1) by linarith
    moreover have "n < 2 * 2 ^ bit_length (n div 2)" using IH(2) by linarith
    ultimately show ?thesis using step by simp
  qed
qed

lemma bit_length_unique:
  assumes "2 ^ k \<le> n" and "n < 2 ^ Suc k"
  shows "bit_length n = Suc k"
proof -
  have "0 < n" using assms(1) by (metis less_le_trans zero_less_numeral zero_less_power)
  then have b: "2 ^ (bit_length n - 1) \<le> n" "n < 2 ^ bit_length n" "0 < bit_length n"
    using bit_length_bounds by auto
  have "(2::nat) ^ (bit_length n - 1) < 2 ^ Suc k" using b(1) assms(2) by linarith
  then have "bit_length n - 1 < Suc k" by (rule power_less_imp_less_exp [rotated]) simp
  moreover have "(2::nat) ^ k < 2 ^ bit_length n" using b(2) assms(1) by linarith
  then have "k < bit_length n" by (rule power_less_imp_less_exp [rotated]) simp
  ultimately show ?thesis using b(3) by linarith
qed

lemma f64_decode_pack:
  assumes "b < 2 ^ 11" and "f < 2 ^ 52"
  shows "f64_decode (f64_pack False b f) =
    (if b = 2047 then (if f = 0 then Inf False else NaN)
     else if b = 0 then Fin False f (- 1074) else Fin False (2 ^ 52 + f) (int b - 1075))"
proof -
  let ?n = "b * 2 ^ 52 + f"
  have "b \<le> 2047" using assms(1) by simp
  then have "b * 2 ^ 52 \<le> 2047 * 2 ^ 52" by (intro mult_right_mono) auto
  with assms(2) have lt: "?n < 2 ^ 63" by simp
  then have "unat (word_of_nat ?n :: f64) = ?n" by (intro unat_word_of_nat_id) simp
  then have u: "unat (f64_pack False b f) = ?n" by (simp add: f64_pack_def)
  have "?n div 2 ^ 52 = b" "?n mod 2 ^ 52 = f" using assms(2) by simp_all
  then have d: "?n div 2 ^ 52 mod 2 ^ 11 = b" and m: "?n mod 2 ^ 52 = f"
    and s: "\<not> 2 ^ 63 \<le> ?n"
    using assms(1) lt by simp_all
  show ?thesis unfolding f64_decode_def u Let_def d m using s by simp
qed

lemma f64_decode_encode:
  assumes "2 ^ 52 \<le> m" and "m < 2 ^ 53" and "- 1074 \<le> e" and "e \<le> 971"
  shows "f64_decode (f64_encode False m e) = Fin False m e"
proof -
  have "f64_encode False m e = f64_pack False (nat (e + 1075)) (m - 2 ^ 52)"
    using assms by (simp add: f64_encode_def)
  moreover have "nat (e + 1075) < 2 ^ 11" "nat (e + 1075) \<noteq> 2047" "nat (e + 1075) \<noteq> 0"
    "int (nat (e + 1075)) = e + 1075"
    using assms(3,4) by auto
  moreover have "m - 2 ^ 52 < 2 ^ 52" "2 ^ 52 + (m - 2 ^ 52) = m" using assms(1,2) by auto
  ultimately show ?thesis by (simp add: f64_decode_pack)
qed

lemma f64_round_wide:
  assumes "2 ^ 52 \<le> m" and "m < 2 ^ 53" and "- 1074 \<le> e + int d"
  shows "f64_round s (m * 2 ^ d) e = f64_encode s m (e + int d)"
proof -
  have "2 ^ (52 + d) \<le> m * 2 ^ d" using assms(1) by (simp add: power_add)
  moreover have "m * 2 ^ d < 2 ^ Suc (52 + d)"
    using mult_strict_right_mono [OF assms(2), of "2 ^ d"] by (simp add: power_add)
  ultimately have "bit_length (m * 2 ^ d) = Suc (52 + d)" by (rule bit_length_unique)
  then have q: "max (e + int (bit_length (m * 2 ^ d)) - 53) (- 1074) = e + int d"
    using assms(3) by simp
  show ?thesis
  proof (cases "d = 0")
    case True
    with q show ?thesis by (simp add: f64_round_def)
  next
    case False
    with q show ?thesis by (simp add: f64_round_def Let_def shift_rne_def)
  qed
qed

lemma f64_round_narrow:
  assumes "0 < m" and "m < 2 ^ 53"
  obtains k where "k \<le> 52" and "2 ^ 52 \<le> m * 2 ^ k" and "m * 2 ^ k < 2 ^ 53"
    and "f64_round s m 0 = f64_encode s (m * 2 ^ k) (- int k)"
proof -
  let ?b = "bit_length m"
  from assms(1) have b: "2 ^ (?b - 1) \<le> m" "m < 2 ^ ?b" "0 < ?b"
    using bit_length_bounds by auto
  have "(2::nat) ^ (?b - 1) < 2 ^ 53" using b(1) assms(2) by linarith
  then have "?b - 1 < 53" by (rule power_less_imp_less_exp [rotated]) simp
  then have b53: "?b \<le> 53" by simp
  let ?k = "53 - ?b"
  have "(2::nat) ^ 52 = 2 ^ (?b - 1) * 2 ^ ?k"
    using b(3) b53 by (simp add: power_add [symmetric])
  moreover have "2 ^ (?b - 1) * 2 ^ ?k \<le> m * 2 ^ ?k" using b(1) by (rule mult_right_mono) simp
  ultimately have lo: "2 ^ 52 \<le> m * 2 ^ ?k" by linarith
  have "(2::nat) ^ 53 = 2 ^ ?b * 2 ^ ?k" using b53 by (simp add: power_add [symmetric])
  moreover have "m * 2 ^ ?k < 2 ^ ?b * 2 ^ ?k" using b(2) by (rule mult_strict_right_mono) simp
  ultimately have hi: "m * 2 ^ ?k < 2 ^ 53" by linarith
  have "nat (53 - int ?b) = ?k" using b53 by simp
  then have "f64_round s m 0 = f64_encode s (m * 2 ^ ?k) (- int ?k)"
    using b53 by (simp add: f64_round_def max_def)
  with lo hi b(3) show thesis by (intro that [of ?k]) auto
qed

text \<open>Integers below \<open>2^53\<close> survive the round trip through \<open>f64\<close>.\<close>

lemma u64_of_f64_of_u64:
  assumes "unat x < 2 ^ 53"
  shows "u64_of_f64 (f64_of_u64 x) = x"
proof (cases "x = 0")
  case True
  then show ?thesis by (simp add: f64_of_u64_def f64_round_def bit_length.simps f64_encode_def
        f64_decode_pack u64_of_f64_def)
next
  case False
  then have "0 < unat x" by (simp add: unat_gt_0)
  from this assms obtain k where k: "k \<le> 52" "2 ^ 52 \<le> unat x * 2 ^ k" "unat x * 2 ^ k < 2 ^ 53"
    "f64_round False (unat x) 0 = f64_encode False (unat x * 2 ^ k) (- int k)"
    by (rule f64_round_narrow)
  then have "f64_decode (f64_of_u64 x) = Fin False (unat x * 2 ^ k) (- int k)"
    by (simp add: f64_of_u64_def f64_decode_encode)
  then show ?thesis by (simp add: u64_of_f64_def)
qed

definition f64_two :: f64 where
  "f64_two = 0x4000000000000000"

lemma f64_decode_two: "f64_decode f64_two = Fin False (2 ^ 52) (- 51)"
  by (simp add: f64_decode_def f64_two_def)

text \<open>Doubling an integer below \<open>2^53\<close> in \<open>f64\<close> is exact.\<close>

lemma u64_of_f64_mul_two:
  assumes "unat x < 2 ^ 53"
  shows "u64_of_f64 (f64_mul (f64_of_u64 x) f64_two) = 2 * x"
proof (cases "x = 0")
  case True
  then show ?thesis
    by (simp add: f64_of_u64_def f64_round_def bit_length.simps f64_encode_def
        f64_decode_pack u64_of_f64_def f64_mul_def f64_decode_two shift_rne_def)
next
  case False
  then have "0 < unat x" by (simp add: unat_gt_0)
  from this assms obtain k where k: "k \<le> 52" "2 ^ 52 \<le> unat x * 2 ^ k" "unat x * 2 ^ k < 2 ^ 53"
    "f64_round False (unat x) 0 = f64_encode False (unat x * 2 ^ k) (- int k)"
    by (rule f64_round_narrow)
  then have dec: "f64_decode (f64_of_u64 x) = Fin False (unat x * 2 ^ k) (- int k)"
    by (simp add: f64_of_u64_def f64_decode_encode)
  have "f64_mul (f64_of_u64 x) f64_two
      = f64_encode False (unat x * 2 ^ k) (- 51 - int k + int 52)"
    using k(1) f64_round_wide [OF k(2,3), where e = "- 51 - int k" and d = 52 and s = False]
    by (simp add: f64_mul_def dec f64_decode_two)
  then have dec2: "f64_decode (f64_mul (f64_of_u64 x) f64_two)
      = Fin False (unat x * 2 ^ k) (1 - int k)"
    using k by (simp add: f64_decode_encode)
  have v: "(if 0 \<le> 1 - int k then unat x * 2 ^ k * 2 ^ nat (1 - int k)
      else unat x * 2 ^ k div 2 ^ nat (- (1 - int k))) = 2 * unat x"
  proof (cases k)
    case (Suc j)
    then have "- (1 - int k) = int j" by simp
    moreover have "unat x * 2 ^ k div 2 ^ j = 2 * unat x" using Suc by simp
    ultimately show ?thesis using Suc by simp
  qed simp
  have "2 * unat x < 2 ^ 64" using assms by simp
  then show ?thesis
    unfolding u64_of_f64_def dec2 fp.case v by (simp add: v)
qed

end
