(* ===== verification/Rent.thy ===== *)
theory Rent
  imports Sdk Float64
begin

text \<open>
  Rent (\<open>sdk/program/src/rent.rs\<close>) and the \<open>Rent\<close> sysvar account
  (\<open>sdk/program/src/sysvar/mod.rs\<close>, \<open>Sysvar::from_account_info\<close>). The exemption
  threshold is a binary64 number, so the minimum balance goes through \<open>f64\<close> arithmetic;
  the integer products wrap, as in the release builds that run on chain.
\<close>

record Rent =
  lamports_per_byte_year :: u64
  exemption_threshold :: f64
  burn_percent :: u8

definition DEFAULT_LAMPORTS_PER_BYTE_YEAR :: u64 where
  "DEFAULT_LAMPORTS_PER_BYTE_YEAR = 1000000000 div 100 * 365 div (1024 * 1024)"

definition ACCOUNT_STORAGE_OVERHEAD :: u64 where
  "ACCOUNT_STORAGE_OVERHEAD = 128"

definition rent_default :: Rent where
  "rent_default =
     \<lparr>lamports_per_byte_year = DEFAULT_LAMPORTS_PER_BYTE_YEAR,
      exemption_threshold = f64_two, burn_percent = 50\<rparr>"

definition calculate_burn :: "Rent \<Rightarrow> u64 \<Rightarrow> u64 \<times> u64" where
  "calculate_burn r rent_collected =
     (let burned_portion = (rent_collected * ucast (burn_percent r)) div 100
      in (burned_portion, rent_collected - burned_portion))"

definition minimum_balance :: "Rent \<Rightarrow> nat \<Rightarrow> u64" where
  "minimum_balance r data_len =
     (let bytes = word_of_nat data_len
      in u64_of_f64 (f64_mul
           (f64_of_u64 ((ACCOUNT_STORAGE_OVERHEAD + bytes) * lamports_per_byte_year r))
           (exemption_threshold r)))"

definition is_exempt :: "Rent \<Rightarrow> u64 \<Rightarrow> nat \<Rightarrow> bool" where
  "is_exempt r balance data_len \<longleftrightarrow> minimum_balance r data_len \<le> balance"

datatype RentDue = Exempt | Paying u64

definition due_amount :: "Rent \<Rightarrow> nat \<Rightarrow> f64 \<Rightarrow> u64" where
  "due_amount r data_len years_elapsed =
     (let actual_data_len = word_of_nat data_len + ACCOUNT_STORAGE_OVERHEAD;
          lamports_per_year = lamports_per_byte_year r * actual_data_len
      in u64_of_f64 (f64_mul (f64_of_u64 lamports_per_year) years_elapsed))"

definition due :: "Rent \<Rightarrow> u64 \<Rightarrow> nat \<Rightarrow> f64 \<Rightarrow> RentDue" where
  "due r balance data_len years_elapsed =
     (if is_exempt r balance data_len then Exempt
      else Paying (due_amount r data_len years_elapsed))"

definition rent_free :: Rent where
  "rent_free = rent_default\<lparr>lamports_per_byte_year := 0\<rparr>"

text \<open>
  \<open>Rent::from_account_info\<close>: the bincode layout is \<open>u64\<close>, \<open>f64\<close>, \<open>u8\<close>, little
  endian, and bytes after it are ignored.
\<close>

definition rent_deserialize :: "bytes \<Rightarrow> Rent option" where
  "rent_deserialize bs =
     (if length bs < 17 then None
      else Some \<lparr>lamports_per_byte_year = u64_from_le_bytes (slice 0 8 bs),
                 exemption_threshold = u64_from_le_bytes (slice 8 8 bs),
                 burn_percent = bs ! 16\<rparr>)"

definition rent_serialize :: "Rent \<Rightarrow> bytes" where
  "rent_serialize r =
     u64_to_le_bytes (lamports_per_byte_year r) @ u64_to_le_bytes (exemption_threshold r)
       @ [burn_percent r]"

definition rent_from_account_info :: "store \<Rightarrow> AccountInfo \<Rightarrow> Rent ProgramResult" where
  "rent_from_account_info st ai =
     (if key ai \<noteq> rent_sysvar_id then err ProgramError.InvalidArgument
      else ok_or (rent_deserialize (info_data st ai)) (Err ProgramError.InvalidArgument))"

lemma rent_deserialize_serialize: "rent_deserialize (rent_serialize r @ rest) = Some r"
  by (cases r) (simp add: rent_deserialize_def rent_serialize_def slice_def nth_append)

lemma rent_from_account_info_Inr [res_simps]:
  "rent_from_account_info st ai = Inr r \<longleftrightarrow>
     key ai = rent_sysvar_id \<and> rent_deserialize (info_data st ai) = Some r"
  by (auto simp: rent_from_account_info_def res_simps)

lemma default_rate [simp]: "DEFAULT_LAMPORTS_PER_BYTE_YEAR = 3480"
  by (simp add: DEFAULT_LAMPORTS_PER_BYTE_YEAR_def)

text \<open>
  With the default threshold of two years the detour through \<open>f64\<close> is exact for every
  account the runtime admits.
\<close>

lemma minimum_balance_two_years:
  assumes "exemption_threshold r = f64_two"
    and "(128 + n) * unat (lamports_per_byte_year r) < 2 ^ 53" and "n < 2 ^ 63"
  shows "unat (minimum_balance r n) = 2 * (128 + n) * unat (lamports_per_byte_year r)"
proof -
  define x where "x = (ACCOUNT_STORAGE_OVERHEAD + word_of_nat n) * lamports_per_byte_year r"
  have "unat (ACCOUNT_STORAGE_OVERHEAD + word_of_nat n :: u64) = 128 + n"
    using assms(3)
    by (subst unat_add_no_overflow) (simp_all add: ACCOUNT_STORAGE_OVERHEAD_def unat_word_of_nat_id)
  then have x: "unat x = (128 + n) * unat (lamports_per_byte_year r)"
    using assms(2) unfolding x_def by (subst unat_mult_no_overflow) simp_all
  have "minimum_balance r n = 2 * x"
    using assms(1,2) x u64_of_f64_mul_two [of x] by (simp add: minimum_balance_def x_def)
  moreover have "unat x < 2 ^ 53" using x assms(2) by simp
  then have "unat (2 * x) = 2 * unat x" by (subst unat_mult_no_overflow) simp_all
  ultimately show ?thesis using x by simp
qed

end
