(* ===== verification/TokenProcessor.thy ===== *)
theory TokenProcessor
  imports TokenInstruction Rent
begin

text \<open>
  The instruction handlers of the SPL token program (\<open>spl-token-3.3.0/src/processor.rs\<close>), one
  definition per handler and in the order of the source. A handler takes the account views, its
  arguments and the store of accounts, and returns the store after the instruction; an error
  aborts the instruction, so it carries no store. \<open>Rent::get()\<close>, a syscall, is the argument
  \<open>rent\<close>. The iterator of the account views is threaded as \<open>it\<close>.
\<close>

section \<open>Checks shared by the handlers\<close>

definition cmp_pubkeys :: "Pubkey \<Rightarrow> Pubkey \<Rightarrow> bool" where
  "cmp_pubkeys a b \<longleftrightarrow> to_bytes a = to_bytes b"

definition check_account_owner :: "Pubkey \<Rightarrow> AccountInfo \<Rightarrow> store \<Rightarrow> unit ProgramResult" where
  "check_account_owner program_id account_info st =
     (if \<not> cmp_pubkeys program_id (info_owner st account_info)
      then err ProgramError.IncorrectProgramId else Ok ())"

text \<open>
  The two loops of \<open>validate_owner\<close>. The state is the array \<open>matched\<close> and the counter
  \<open>num_signers\<close>; slicing \<open>multisig.signers[0..n]\<close> panics when \<open>n\<close> exceeds the array.
\<close>

fun match_signer ::
  "AccountInfo \<Rightarrow> nat \<Rightarrow> Pubkey list \<Rightarrow> bool list \<times> u8 \<Rightarrow> (bool list \<times> u8) ProgramResult" where
  "match_signer signer position [] (matched, num_signers) = Ok (matched, num_signers)"
| "match_signer signer position (k # keys) (matched, num_signers) =
     (if cmp_pubkeys k (key signer) \<and> \<not> matched ! position
      then if \<not> is_signer signer then err ProgramError.MissingRequiredSignature
           else match_signer signer (Suc position) keys (matched[position := True], num_signers + 1)
      else match_signer signer (Suc position) keys (matched, num_signers))"

fun match_signers ::
  "Multisig \<Rightarrow> AccountInfo list \<Rightarrow> bool list \<times> u8 \<Rightarrow> (bool list \<times> u8) ProgramResult" where
  "match_signers multisig [] acc = Ok acc"
| "match_signers multisig (signer # signers) acc =
     (if length (ms_signers multisig) < unat (ms_n multisig) then Inl Panic
      else and_then (match_signer signer 0 (take (unat (ms_n multisig)) (ms_signers multisig)) acc)
             (match_signers multisig signers))"

definition validate_owner ::
  "Pubkey \<Rightarrow> Pubkey \<Rightarrow> AccountInfo \<Rightarrow> AccountInfo list \<Rightarrow> store \<Rightarrow> unit ProgramResult" where
  "validate_owner program_id expected_owner owner_account_info signers st =
     (if \<not> cmp_pubkeys expected_owner (key owner_account_info)
      then token_err TokenError.OwnerMismatch
      else if cmp_pubkeys program_id (info_owner st owner_account_info) \<and>
              length (info_data st owner_account_info) = Multisig_LEN
      then and_then (multisig_unpack (info_data st owner_account_info)) (\<lambda>multisig.
           and_then (match_signers multisig signers (replicate MAX_SIGNERS False, 0))
             (\<lambda>(matched, num_signers).
                if num_signers < ms_m multisig then err ProgramError.MissingRequiredSignature
                else Ok ()))
      else if \<not> is_signer owner_account_info then err ProgramError.MissingRequiredSignature
      else Ok ())"

text \<open>Packing a value into the data of an account.\<close>

definition write_account :: "AccountInfo \<Rightarrow> TokenAccount \<Rightarrow> store \<Rightarrow> store ProgramResult" where
  "write_account ai v st =
     and_then (account_pack v (info_data st ai)) (\<lambda>bs. Ok (set_info_data ai bs st))"

definition write_mint :: "AccountInfo \<Rightarrow> Mint \<Rightarrow> store \<Rightarrow> store ProgramResult" where
  "write_mint ai v st =
     and_then (mint_pack v (info_data st ai)) (\<lambda>bs. Ok (set_info_data ai bs st))"

definition write_multisig :: "AccountInfo \<Rightarrow> Multisig \<Rightarrow> store \<Rightarrow> store ProgramResult" where
  "write_multisig ai v st =
     and_then (multisig_pack v (info_data st ai)) (\<lambda>bs. Ok (set_info_data ai bs st))"

text \<open>The rent of an initialising instruction: the sysvar account, or \<open>Rent::get()\<close>.\<close>

definition next_rent ::
  "bool \<Rightarrow> Rent \<Rightarrow> AccountInfo list \<Rightarrow> store \<Rightarrow> (Rent \<times> AccountInfo list) ProgramResult" where
  "next_rent rent_sysvar_account rent it st =
     (if rent_sysvar_account
      then and_then (next_account_info it) (\<lambda>(rent_info, it).
           and_then (rent_from_account_info st rent_info) (\<lambda>r. Ok (r, it)))
      else Ok (rent, it))"

text \<open>The mint of the \<open>Checked\<close> variants of transfer and approve.\<close>

definition next_expected_mint ::
  "u8 option \<Rightarrow> AccountInfo list \<Rightarrow>
     ((AccountInfo \<times> u8) option \<times> AccountInfo list) ProgramResult" where
  "next_expected_mint expected_decimals it =
     (case expected_decimals of
        Some dec \<Rightarrow> and_then (next_account_info it) (\<lambda>(mint_info, it). Ok (Some (mint_info, dec), it))
      | None \<Rightarrow> Ok (None, it))"

definition check_expected_mint ::
  "(AccountInfo \<times> u8) option \<Rightarrow> TokenAccount \<Rightarrow> store \<Rightarrow> unit ProgramResult" where
  "check_expected_mint expected_mint_info source_account st =
     (case expected_mint_info of
        Some (mint_info, expected_decimals) \<Rightarrow>
          if \<not> cmp_pubkeys (key mint_info) (mint source_account)
          then token_err TokenError.MintMismatch
          else and_then (mint_unpack (info_data st mint_info)) (\<lambda>m.
            if expected_decimals \<noteq> decimals m then token_err TokenError.MintDecimalsMismatch
            else Ok ())
      | None \<Rightarrow> Ok ())"

definition check_decimals :: "u8 option \<Rightarrow> Mint \<Rightarrow> unit ProgramResult" where
  "check_decimals expected_decimals m =
     (case expected_decimals of
        Some d \<Rightarrow> if d \<noteq> decimals m then token_err TokenError.MintDecimalsMismatch else Ok ()
      | None \<Rightarrow> Ok ())"

text \<open>
  The authority of a transfer or a burn: the delegate, within its allowance, or the owner. The
  allowance is left alone by a transfer of an account to itself (\<open>self_transfer\<close>).
\<close>

definition authorize_debit ::
  "Pubkey \<Rightarrow> bool \<Rightarrow> AccountInfo \<Rightarrow> AccountInfo list \<Rightarrow> u64 \<Rightarrow> TokenAccount \<Rightarrow> store \<Rightarrow>
     TokenAccount ProgramResult" where
  "authorize_debit program_id self_transfer authority_info signers amt source_account st =
     (if (case delegate source_account of Some d \<Rightarrow> cmp_pubkeys (key authority_info) d | None \<Rightarrow> False)
      then and_then (validate_owner program_id (the (delegate source_account)) authority_info signers st) (\<lambda>_.
           if delegated_amount source_account < amt then token_err TokenError.InsufficientFunds
           else if self_transfer then Ok source_account
           else and_then (ok_or (checked_sub (delegated_amount source_account) amt)
                            (token_error TokenError.Overflow)) (\<lambda>left.
             Ok (if left = 0 then source_account\<lparr>delegated_amount := left, delegate := None\<rparr>
                 else source_account\<lparr>delegated_amount := left\<rparr>)))
      else and_then (validate_owner program_id (tok_owner source_account) authority_info signers st)
             (\<lambda>_. Ok source_account))"


section \<open>Initialisation\<close>

definition process_initialize_mint_inner ::
  "Rent \<Rightarrow> AccountInfo list \<Rightarrow> u8 \<Rightarrow> Pubkey \<Rightarrow> Pubkey option \<Rightarrow> bool \<Rightarrow> store \<Rightarrow> store ProgramResult" where
  "process_initialize_mint_inner rent accounts dec authority freeze rent_sysvar_account st =
     and_then (next_account_info accounts) (\<lambda>(mint_info, it).
     and_then (next_rent rent_sysvar_account rent it st) (\<lambda>(rent, it).
     and_then (mint_unpack_unchecked (info_data st mint_info)) (\<lambda>m.
     and_then (require (\<not> mint_is_initialized m) (token_error TokenError.AlreadyInUse)) (\<lambda>_.
     and_then (require (is_exempt rent (info_lamports st mint_info) (length (info_data st mint_info)))
                (token_error TokenError.NotRentExempt)) (\<lambda>_.
       write_mint mint_info
         (m\<lparr>mint_authority := Some authority, decimals := dec, mint_is_initialized := True,
            freeze_authority := freeze\<rparr>) st)))))"

definition process_initialize_mint ::
  "Rent \<Rightarrow> AccountInfo list \<Rightarrow> u8 \<Rightarrow> Pubkey \<Rightarrow> Pubkey option \<Rightarrow> store \<Rightarrow> store ProgramResult" where
  "process_initialize_mint rent accounts dec authority freeze =
     process_initialize_mint_inner rent accounts dec authority freeze True"

definition process_initialize_mint2 ::
  "Rent \<Rightarrow> AccountInfo list \<Rightarrow> u8 \<Rightarrow> Pubkey \<Rightarrow> Pubkey option \<Rightarrow> store \<Rightarrow> store ProgramResult" where
  "process_initialize_mint2 rent accounts dec authority freeze =
     process_initialize_mint_inner rent accounts dec authority freeze False"

definition process_initialize_account_inner ::
  "Rent \<Rightarrow> Pubkey \<Rightarrow> AccountInfo list \<Rightarrow> Pubkey option \<Rightarrow> bool \<Rightarrow> store \<Rightarrow> store ProgramResult" where
  "process_initialize_account_inner rent program_id accounts wallet rent_sysvar_account st =
     and_then (next_account_info accounts) (\<lambda>(new_account_info, it).
     and_then (next_account_info it) (\<lambda>(mint_info, it).
     and_then (case wallet of
                 Some k \<Rightarrow> Ok (k, it)
               | None \<Rightarrow> and_then (next_account_info it) (\<lambda>(ai, it). Ok (key ai, it))) (\<lambda>(wallet, it).
     and_then (next_rent rent_sysvar_account rent it st) (\<lambda>(rent, it).
     and_then (account_unpack_unchecked (info_data st new_account_info)) (\<lambda>a.
     and_then (require (\<not> account_is_initialized a) (token_error TokenError.AlreadyInUse)) (\<lambda>_.
     let data_len = length (info_data st new_account_info);
         is_native_mint = cmp_pubkeys (key mint_info) native_mint_id
     in
     and_then (require (is_exempt rent (info_lamports st new_account_info) data_len)
                (token_error TokenError.NotRentExempt)) (\<lambda>_.
     and_then (if is_native_mint then Ok ()
               else and_then (check_account_owner program_id mint_info st) (\<lambda>_.
                    and_then (map_err (\<lambda>_. token_error TokenError.InvalidMint)
                                (mint_unpack (info_data st mint_info))) (\<lambda>_. Ok ()))) (\<lambda>_.
     let a = a\<lparr>mint := key mint_info, tok_owner := wallet, delegate := None,
               delegated_amount := 0, state := AccountState.Initialized\<rparr>;
         rent_exempt_reserve = minimum_balance rent data_len
     in
     and_then (if is_native_mint
               then and_then (ok_or (checked_sub (info_lamports st new_account_info) rent_exempt_reserve)
                                (token_error TokenError.Overflow)) (\<lambda>amt.
                      Ok (a\<lparr>is_native := Some rent_exempt_reserve, amount := amt\<rparr>))
               else Ok (a\<lparr>is_native := None, amount := 0\<rparr>)) (\<lambda>a.
       write_account new_account_info a st)))))))))"

definition process_initialize_account ::
  "Rent \<Rightarrow> Pubkey \<Rightarrow> AccountInfo list \<Rightarrow> store \<Rightarrow> store ProgramResult" where
  "process_initialize_account rent program_id accounts =
     process_initialize_account_inner rent program_id accounts None True"

definition process_initialize_account2 ::
  "Rent \<Rightarrow> Pubkey \<Rightarrow> AccountInfo list \<Rightarrow> Pubkey \<Rightarrow> store \<Rightarrow> store ProgramResult" where
  "process_initialize_account2 rent program_id accounts wallet =
     process_initialize_account_inner rent program_id accounts (Some wallet) True"

definition process_initialize_account3 ::
  "Rent \<Rightarrow> Pubkey \<Rightarrow> AccountInfo list \<Rightarrow> Pubkey \<Rightarrow> store \<Rightarrow> store ProgramResult" where
  "process_initialize_account3 rent program_id accounts wallet =
     process_initialize_account_inner rent program_id accounts (Some wallet) False"

text \<open>
  \<open>multisig.signers[i] = key\<close> for every view left on the iterator: an index past the array
  panics. The number of views is truncated to a byte before it is checked.
\<close>

definition process_initialize_multisig_inner ::
  "Rent \<Rightarrow> AccountInfo list \<Rightarrow> u8 \<Rightarrow> bool \<Rightarrow> store \<Rightarrow> store ProgramResult" where
  "process_initialize_multisig_inner rent accounts m rent_sysvar_account st =
     and_then (next_account_info accounts) (\<lambda>(multisig_info, it).
     and_then (next_rent rent_sysvar_account rent it st) (\<lambda>(rent, signer_infos).
     and_then (multisig_unpack_unchecked (info_data st multisig_info)) (\<lambda>ms.
     and_then (require (\<not> ms_is_initialized ms) (token_error TokenError.AlreadyInUse)) (\<lambda>_.
     and_then (require (is_exempt rent (info_lamports st multisig_info)
                          (length (info_data st multisig_info)))
                (token_error TokenError.NotRentExempt)) (\<lambda>_.
     let n = (of_nat (length signer_infos) :: u8) in
     and_then (require (is_valid_signer_index (unat n))
                (token_error TokenError.InvalidNumberOfProvidedSigners)) (\<lambda>_.
     and_then (require (is_valid_signer_index (unat m))
                (token_error TokenError.InvalidNumberOfRequiredSigners)) (\<lambda>_.
     and_then (require (length signer_infos \<le> length (ms_signers ms)) Panic) (\<lambda>_.
       write_multisig multisig_info
         (ms\<lparr>ms_m := m, ms_n := n, ms_is_initialized := True,
             ms_signers := map key signer_infos @ drop (length signer_infos) (ms_signers ms)\<rparr>) st))))))))"

definition process_initialize_multisig ::
  "Rent \<Rightarrow> AccountInfo list \<Rightarrow> u8 \<Rightarrow> store \<Rightarrow> store ProgramResult" where
  "process_initialize_multisig rent accounts m =
     process_initialize_multisig_inner rent accounts m True"

definition process_initialize_multisig2 ::
  "Rent \<Rightarrow> AccountInfo list \<Rightarrow> u8 \<Rightarrow> store \<Rightarrow> store ProgramResult" where
  "process_initialize_multisig2 rent accounts m =
     process_initialize_multisig_inner rent accounts m False"


section \<open>Transfers and allowances\<close>

text \<open>A transfer of wrapped lamports moves the lamports as well.\<close>

definition move_lamports :: "AccountInfo \<Rightarrow> AccountInfo \<Rightarrow> u64 \<Rightarrow> store \<Rightarrow> store ProgramResult" where
  "move_lamports source_info dest_info amt st =
     and_then (ok_or (checked_sub (info_lamports st source_info) amt)
                (token_error TokenError.Overflow)) (\<lambda>source_lamports.
     let st = set_info_lamports source_info source_lamports st in
     and_then (ok_or (checked_add (info_lamports st dest_info) amt)
                (token_error TokenError.Overflow)) (\<lambda>dest_lamports.
       Ok (set_info_lamports dest_info dest_lamports st)))"

definition process_transfer ::
  "Pubkey \<Rightarrow> AccountInfo list \<Rightarrow> u64 \<Rightarrow> u8 option \<Rightarrow> store \<Rightarrow> store ProgramResult" where
  "process_transfer program_id accounts amt expected_decimals st =
     and_then (next_account_info accounts) (\<lambda>(source_info, it).
     and_then (next_expected_mint expected_decimals it) (\<lambda>(expected_mint_info, it).
     and_then (next_account_info it) (\<lambda>(dest_info, it).
     and_then (next_account_info it) (\<lambda>(authority_info, signers).
     and_then (account_unpack (info_data st source_info)) (\<lambda>source.
     and_then (account_unpack (info_data st dest_info)) (\<lambda>dest.
     and_then (require (\<not> (is_frozen source \<or> is_frozen dest))
                (token_error TokenError.AccountFrozen)) (\<lambda>_.
     and_then (require (\<not> amount source < amt) (token_error TokenError.InsufficientFunds)) (\<lambda>_.
     and_then (require (cmp_pubkeys (mint source) (mint dest))
                (token_error TokenError.MintMismatch)) (\<lambda>_.
     and_then (check_expected_mint expected_mint_info source st) (\<lambda>_.
     let self_transfer = cmp_pubkeys (key source_info) (key dest_info) in
     and_then (authorize_debit program_id self_transfer authority_info signers amt source st) (\<lambda>source.
     and_then (if self_transfer \<or> amt = 0
               then and_then (check_account_owner program_id source_info st)
                      (\<lambda>_. check_account_owner program_id dest_info st)
               else Ok ()) (\<lambda>_.
     if self_transfer then Ok st
     else
     and_then (ok_or (checked_sub (amount source) amt) (token_error TokenError.Overflow)) (\<lambda>source_amount.
     and_then (ok_or (checked_add (amount dest) amt) (token_error TokenError.Overflow)) (\<lambda>dest_amount.
     and_then (if native source then move_lamports source_info dest_info amt st else Ok st) (\<lambda>st.
     and_then (write_account source_info (source\<lparr>amount := source_amount\<rparr>) st) (\<lambda>st.
       write_account dest_info (dest\<lparr>amount := dest_amount\<rparr>) st))))))))))))))))"

definition process_approve ::
  "Pubkey \<Rightarrow> AccountInfo list \<Rightarrow> u64 \<Rightarrow> u8 option \<Rightarrow> store \<Rightarrow> store ProgramResult" where
  "process_approve program_id accounts amt expected_decimals st =
     and_then (next_account_info accounts) (\<lambda>(source_info, it).
     and_then (next_expected_mint expected_decimals it) (\<lambda>(expected_mint_info, it).
     and_then (next_account_info it) (\<lambda>(delegate_info, it).
     and_then (next_account_info it) (\<lambda>(owner_info, signers).
     and_then (account_unpack (info_data st source_info)) (\<lambda>source.
     and_then (require (\<not> is_frozen source) (token_error TokenError.AccountFrozen)) (\<lambda>_.
     and_then (check_expected_mint expected_mint_info source st) (\<lambda>_.
     and_then (validate_owner program_id (tok_owner source) owner_info signers st) (\<lambda>_.
       write_account source_info
         (source\<lparr>delegate := Some (key delegate_info), delegated_amount := amt\<rparr>) st))))))))"

definition process_revoke :: "Pubkey \<Rightarrow> AccountInfo list \<Rightarrow> store \<Rightarrow> store ProgramResult" where
  "process_revoke program_id accounts st =
     and_then (next_account_info accounts) (\<lambda>(source_info, it).
     and_then (account_unpack (info_data st source_info)) (\<lambda>source.
     and_then (next_account_info it) (\<lambda>(owner_info, signers).
     and_then (require (\<not> is_frozen source) (token_error TokenError.AccountFrozen)) (\<lambda>_.
     and_then (validate_owner program_id (tok_owner source) owner_info signers st) (\<lambda>_.
       write_account source_info (source\<lparr>delegate := None, delegated_amount := 0\<rparr>) st)))))"


section \<open>Authorities\<close>

definition set_account_authority ::
  "Pubkey \<Rightarrow> AuthorityType \<Rightarrow> Pubkey option \<Rightarrow> AccountInfo \<Rightarrow> AccountInfo list \<Rightarrow> TokenAccount \<Rightarrow> store \<Rightarrow>
     TokenAccount ProgramResult" where
  "set_account_authority program_id authority_type new_authority authority_info signers a st =
     (case authority_type of
        AccountOwner \<Rightarrow>
          and_then (validate_owner program_id (tok_owner a) authority_info signers st) (\<lambda>_.
          and_then (ok_or new_authority (token_error TokenError.InvalidInstruction)) (\<lambda>authority.
          let a = a\<lparr>tok_owner := authority, delegate := None, delegated_amount := 0\<rparr> in
            Ok (if native a then a\<lparr>close_authority := None\<rparr> else a)))
      | AuthorityType.CloseAccount \<Rightarrow>
          and_then (validate_owner program_id
                      (case close_authority a of Some k \<Rightarrow> k | None \<Rightarrow> tok_owner a)
                      authority_info signers st) (\<lambda>_.
            Ok (a\<lparr>close_authority := new_authority\<rparr>))
      | _ \<Rightarrow> token_err TokenError.AuthorityTypeNotSupported)"

definition set_mint_authority ::
  "Pubkey \<Rightarrow> AuthorityType \<Rightarrow> Pubkey option \<Rightarrow> AccountInfo \<Rightarrow> AccountInfo list \<Rightarrow> Mint \<Rightarrow> store \<Rightarrow>
     Mint ProgramResult" where
  "set_mint_authority program_id authority_type new_authority authority_info signers m st =
     (case authority_type of
        MintTokens \<Rightarrow>
          and_then (ok_or (mint_authority m) (token_error TokenError.FixedSupply)) (\<lambda>k.
          and_then (validate_owner program_id k authority_info signers st) (\<lambda>_.
            Ok (m\<lparr>mint_authority := new_authority\<rparr>)))
      | AuthorityType.FreezeAccount \<Rightarrow>
          and_then (ok_or (freeze_authority m) (token_error TokenError.MintCannotFreeze)) (\<lambda>k.
          and_then (validate_owner program_id k authority_info signers st) (\<lambda>_.
            Ok (m\<lparr>freeze_authority := new_authority\<rparr>)))
      | _ \<Rightarrow> token_err TokenError.AuthorityTypeNotSupported)"

definition process_set_authority ::
  "Pubkey \<Rightarrow> AccountInfo list \<Rightarrow> AuthorityType \<Rightarrow> Pubkey option \<Rightarrow> store \<Rightarrow> store ProgramResult" where
  "process_set_authority program_id accounts authority_type new_authority st =
     and_then (next_account_info accounts) (\<lambda>(account_info, it).
     and_then (next_account_info it) (\<lambda>(authority_info, signers).
     if length (info_data st account_info) = TokenAccount_LEN then
       and_then (account_unpack (info_data st account_info)) (\<lambda>a.
       and_then (require (\<not> is_frozen a) (token_error TokenError.AccountFrozen)) (\<lambda>_.
       and_then (set_account_authority program_id authority_type new_authority authority_info signers a st) (\<lambda>a.
         write_account account_info a st)))
     else if length (info_data st account_info) = Mint_LEN then
       and_then (mint_unpack (info_data st account_info)) (\<lambda>m.
       and_then (set_mint_authority program_id authority_type new_authority authority_info signers m st) (\<lambda>m.
         write_mint account_info m st))
     else err ProgramError.InvalidArgument))"


section \<open>Supply\<close>

definition process_mint_to ::
  "Pubkey \<Rightarrow> AccountInfo list \<Rightarrow> u64 \<Rightarrow> u8 option \<Rightarrow> store \<Rightarrow> store ProgramResult" where
  "process_mint_to program_id accounts amt expected_decimals st =
     and_then (next_account_info accounts) (\<lambda>(mint_info, it).
     and_then (next_account_info it) (\<lambda>(dest_info, it).
     and_then (next_account_info it) (\<lambda>(owner_info, signers).
     and_then (account_unpack (info_data st dest_info)) (\<lambda>dest.
     and_then (require (\<not> is_frozen dest) (token_error TokenError.AccountFrozen)) (\<lambda>_.
     and_then (require (\<not> native dest) (token_error TokenError.NativeNotSupported)) (\<lambda>_.
     and_then (require (cmp_pubkeys (key mint_info) (mint dest))
                (token_error TokenError.MintMismatch)) (\<lambda>_.
     and_then (mint_unpack (info_data st mint_info)) (\<lambda>m.
     and_then (check_decimals expected_decimals m) (\<lambda>_.
     and_then (case mint_authority m of
                 Some k \<Rightarrow> validate_owner program_id k owner_info signers st
               | None \<Rightarrow> token_err TokenError.FixedSupply) (\<lambda>_.
     and_then (if amt = 0
               then and_then (check_account_owner program_id mint_info st)
                      (\<lambda>_. check_account_owner program_id dest_info st)
               else Ok ()) (\<lambda>_.
     and_then (ok_or (checked_add (amount dest) amt) (token_error TokenError.Overflow)) (\<lambda>dest_amount.
     and_then (ok_or (checked_add (mint_supply m) amt) (token_error TokenError.Overflow)) (\<lambda>new_supply.
     and_then (write_account dest_info (dest\<lparr>amount := dest_amount\<rparr>) st) (\<lambda>st.
       write_mint mint_info (m\<lparr>mint_supply := new_supply\<rparr>) st))))))))))))))"

definition process_burn ::
  "Pubkey \<Rightarrow> AccountInfo list \<Rightarrow> u64 \<Rightarrow> u8 option \<Rightarrow> store \<Rightarrow> store ProgramResult" where
  "process_burn program_id accounts amt expected_decimals st =
     and_then (next_account_info accounts) (\<lambda>(source_info, it).
     and_then (next_account_info it) (\<lambda>(mint_info, it).
     and_then (next_account_info it) (\<lambda>(authority_info, signers).
     and_then (account_unpack (info_data st source_info)) (\<lambda>source.
     and_then (mint_unpack (info_data st mint_info)) (\<lambda>m.
     and_then (require (\<not> is_frozen source) (token_error TokenError.AccountFrozen)) (\<lambda>_.
     and_then (require (\<not> native source) (token_error TokenError.NativeNotSupported)) (\<lambda>_.
     and_then (require (\<not> amount source < amt) (token_error TokenError.InsufficientFunds)) (\<lambda>_.
     and_then (require (cmp_pubkeys (key mint_info) (mint source))
                (token_error TokenError.MintMismatch)) (\<lambda>_.
     and_then (check_decimals expected_decimals m) (\<lambda>_.
     and_then (authorize_debit program_id False authority_info signers amt source st) (\<lambda>source.
     and_then (if amt = 0
               then and_then (check_account_owner program_id source_info st)
                      (\<lambda>_. check_account_owner program_id mint_info st)
               else Ok ()) (\<lambda>_.
     and_then (ok_or (checked_sub (amount source) amt) (token_error TokenError.Overflow)) (\<lambda>source_amount.
     and_then (ok_or (checked_sub (mint_supply m) amt) (token_error TokenError.Overflow)) (\<lambda>new_supply.
     and_then (write_account source_info (source\<lparr>amount := source_amount\<rparr>) st) (\<lambda>st.
       write_mint mint_info (m\<lparr>mint_supply := new_supply\<rparr>) st)))))))))))))))"


section \<open>Closing, freezing and wrapping\<close>

definition process_close_account :: "Pubkey \<Rightarrow> AccountInfo list \<Rightarrow> store \<Rightarrow> store ProgramResult" where
  "process_close_account program_id accounts st =
     and_then (next_account_info accounts) (\<lambda>(source_info, it).
     and_then (next_account_info it) (\<lambda>(dest_info, it).
     and_then (next_account_info it) (\<lambda>(authority_info, signers).
     and_then (require (\<not> cmp_pubkeys (key source_info) (key dest_info))
                (Err ProgramError.InvalidAccountData)) (\<lambda>_.
     and_then (account_unpack (info_data st source_info)) (\<lambda>source.
     and_then (require (\<not> (\<not> native source \<and> amount source \<noteq> 0))
                (token_error TokenError.NonNativeHasBalance)) (\<lambda>_.
     and_then (validate_owner program_id
                 (case close_authority source of Some k \<Rightarrow> k | None \<Rightarrow> tok_owner source)
                 authority_info signers st) (\<lambda>_.
     and_then (ok_or (checked_add (info_lamports st dest_info) (info_lamports st source_info))
                (token_error TokenError.Overflow)) (\<lambda>dest_lamports.
     let st = set_info_lamports dest_info dest_lamports st;
         st = set_info_lamports source_info 0 st
     in Ok (set_info_data source_info
              (replicate TokenAccount_LEN 0 @ drop TokenAccount_LEN (info_data st source_info)) st)))))))))"

definition process_toggle_freeze_account ::
  "Pubkey \<Rightarrow> AccountInfo list \<Rightarrow> bool \<Rightarrow> store \<Rightarrow> store ProgramResult" where
  "process_toggle_freeze_account program_id accounts freeze st =
     and_then (next_account_info accounts) (\<lambda>(source_info, it).
     and_then (next_account_info it) (\<lambda>(mint_info, it).
     and_then (next_account_info it) (\<lambda>(authority_info, signers).
     and_then (account_unpack (info_data st source_info)) (\<lambda>source.
     and_then (require (\<not> (freeze \<and> is_frozen source \<or> \<not> freeze \<and> \<not> is_frozen source))
                (token_error TokenError.InvalidState)) (\<lambda>_.
     and_then (require (\<not> native source) (token_error TokenError.NativeNotSupported)) (\<lambda>_.
     and_then (require (cmp_pubkeys (key mint_info) (mint source))
                (token_error TokenError.MintMismatch)) (\<lambda>_.
     and_then (mint_unpack (info_data st mint_info)) (\<lambda>m.
     and_then (case freeze_authority m of
                 Some k \<Rightarrow> validate_owner program_id k authority_info signers st
               | None \<Rightarrow> token_err TokenError.MintCannotFreeze) (\<lambda>_.
       write_account source_info
         (source\<lparr>state := if freeze then AccountState.Frozen else AccountState.Initialized\<rparr>) st)))))))))"

definition process_sync_native :: "Pubkey \<Rightarrow> AccountInfo list \<Rightarrow> store \<Rightarrow> store ProgramResult" where
  "process_sync_native program_id accounts st =
     and_then (next_account_info accounts) (\<lambda>(native_info, it).
     and_then (check_account_owner program_id native_info st) (\<lambda>_.
     and_then (account_unpack (info_data st native_info)) (\<lambda>a.
     and_then (ok_or (is_native a) (token_error TokenError.NonNativeNotSupported)) (\<lambda>rent_exempt_reserve.
     and_then (ok_or (checked_sub (info_lamports st native_info) rent_exempt_reserve)
                (token_error TokenError.Overflow)) (\<lambda>new_amount.
     and_then (require (\<not> new_amount < amount a) (token_error TokenError.InvalidState)) (\<lambda>_.
       write_account native_info (a\<lparr>amount := new_amount\<rparr>) st))))))"


section \<open>Dispatch\<close>

fun process_token_instruction ::
  "Rent \<Rightarrow> Pubkey \<Rightarrow> AccountInfo list \<Rightarrow> TokenInstruction \<Rightarrow> store \<Rightarrow> store ProgramResult" where
  "process_token_instruction r p accs (InitializeMint d ma fa) = process_initialize_mint r accs d ma fa"
| "process_token_instruction r p accs (InitializeMint2 d ma fa) = process_initialize_mint2 r accs d ma fa"
| "process_token_instruction r p accs InitializeAccount = process_initialize_account r p accs"
| "process_token_instruction r p accs (InitializeAccount2 w) = process_initialize_account2 r p accs w"
| "process_token_instruction r p accs (InitializeAccount3 w) = process_initialize_account3 r p accs w"
| "process_token_instruction r p accs (InitializeMultisig m) = process_initialize_multisig r accs m"
| "process_token_instruction r p accs (InitializeMultisig2 m) = process_initialize_multisig2 r accs m"
| "process_token_instruction r p accs (Transfer a) = process_transfer p accs a None"
| "process_token_instruction r p accs (Approve a) = process_approve p accs a None"
| "process_token_instruction r p accs Revoke = process_revoke p accs"
| "process_token_instruction r p accs (SetAuthority t na) = process_set_authority p accs t na"
| "process_token_instruction r p accs (MintTo a) = process_mint_to p accs a None"
| "process_token_instruction r p accs (Burn a) = process_burn p accs a None"
| "process_token_instruction r p accs CloseAccount = process_close_account p accs"
| "process_token_instruction r p accs FreezeAccount = process_toggle_freeze_account p accs True"
| "process_token_instruction r p accs ThawAccount = process_toggle_freeze_account p accs False"
| "process_token_instruction r p accs (TransferChecked a d) = process_transfer p accs a (Some d)"
| "process_token_instruction r p accs (ApproveChecked a d) = process_approve p accs a (Some d)"
| "process_token_instruction r p accs (MintToChecked a d) = process_mint_to p accs a (Some d)"
| "process_token_instruction r p accs (BurnChecked a d) = process_burn p accs a (Some d)"
| "process_token_instruction r p accs SyncNative = process_sync_native p accs"

definition token_process ::
  "Rent \<Rightarrow> Pubkey \<Rightarrow> AccountInfo list \<Rightarrow> bytes \<Rightarrow> store \<Rightarrow> store ProgramResult" where
  "token_process rent program_id accounts input st =
     and_then (token_instruction_unpack input) (\<lambda>i.
       process_token_instruction rent program_id accounts i st)"


section \<open>Basic facts\<close>

lemma cmp_pubkeys_iff [simp]: "cmp_pubkeys a b \<longleftrightarrow> a = b"
  by (simp add: cmp_pubkeys_def to_bytes_inject)

lemma check_account_owner_Inr_iff [res_simps]:
  "check_account_owner program_id ai st = Inr u \<longleftrightarrow> info_owner st ai = program_id"
  by (auto simp: check_account_owner_def)

lemma check_expected_mint_None [simp]: "check_expected_mint None a st = Inr ()"
  by (simp add: check_expected_mint_def)

lemma next_expected_mint_subset:
  "next_expected_mint e it = Inr (em, it') \<Longrightarrow> set it' \<subseteq> set it"
  by (auto simp: next_expected_mint_def res_simps split: option.splits)

text \<open>Writing a packed value changes the data of one account, and no other field.\<close>

lemma write_account_Inr:
  assumes "write_account ai v st = Inr st'"
  shows "\<exists>bs. st' = set_info_data ai bs st \<and> length bs = TokenAccount_LEN \<and>
    length (info_data st ai) = TokenAccount_LEN \<and>
    (account_is_initialized v \<longrightarrow> account_unpack bs = Inr v)"
  using assms account_pack_Inr [of v "info_data st ai"] by (auto simp: write_account_def res_simps)

lemma write_mint_Inr:
  assumes "write_mint ai v st = Inr st'"
  shows "\<exists>bs. st' = set_info_data ai bs st \<and> length bs = Mint_LEN \<and>
    length (info_data st ai) = Mint_LEN \<and> mint_unpack_unchecked bs = Inr v \<and>
    (mint_is_initialized v \<longrightarrow> mint_unpack bs = Inr v)"
  using assms mint_pack_Inr [of v "info_data st ai"] by (auto simp: write_mint_def res_simps)

lemma write_multisig_Inr:
  assumes "write_multisig ai v st = Inr st'" and "wf_multisig v"
  shows "\<exists>bs. st' = set_info_data ai bs st \<and> length bs = Multisig_LEN \<and>
    length (info_data st ai) = Multisig_LEN \<and>
    (ms_is_initialized v \<longrightarrow> multisig_unpack bs = Inr v)"
  using assms multisig_pack_Inr [of v "info_data st ai"] by (auto simp: write_multisig_def res_simps)


section \<open>Multisignature validation\<close>

definition signed_positions :: "Multisig \<Rightarrow> AccountInfo list \<Rightarrow> nat set" where
  "signed_positions multisig signers =
     {i. i < unat (ms_n multisig) \<and>
         (\<exists>s\<in>set signers. is_signer s \<and> key s = ms_signers multisig ! i)}"

text \<open>
  The state of the loops: which of the first \<open>n\<close> positions were matched, and their number.
\<close>

abbreviation num_matched :: "bool list \<Rightarrow> nat" where
  "num_matched matched \<equiv> length (filter id matched)"

lemma num_matched_update:
  "i < length matched \<Longrightarrow> \<not> matched ! i \<Longrightarrow> num_matched (matched[i := True]) = Suc (num_matched matched)"
  by (induction matched arbitrary: i) (auto split: nat.splits)

lemma num_matched_card: "num_matched matched = card {i. i < length matched \<and> matched ! i}"
  by (simp add: length_filter_conv_card)

definition match_at :: "AccountInfo \<Rightarrow> nat \<Rightarrow> Pubkey list \<Rightarrow> nat \<Rightarrow> bool" where
  "match_at s pos keys i \<longleftrightarrow>
     pos \<le> i \<and> i < pos + length keys \<and> is_signer s \<and> keys ! (i - pos) = key s"

lemma match_at_Nil [simp]: "\<not> match_at s pos [] i"
  by (simp add: match_at_def)

lemma match_at_Cons:
  "match_at s pos (k # keys) i \<longleftrightarrow>
     (i = pos \<and> is_signer s \<and> k = key s) \<or> match_at s (Suc pos) keys i"
  by (cases "i = pos"; cases "pos \<le> i") (auto simp: match_at_def nth_Cons' diff_Suc split: nat.splits)

lemma match_signer_step:
  assumes "match_signer s pos keys (matched, num) = Inr (matched', num')"
    and "pos + length keys \<le> length matched" and "length matched \<le> 11"
    and "unat num = num_matched matched"
  shows "length matched' = length matched \<and> unat num' = num_matched matched' \<and>
    (\<forall>i. matched' ! i \<longleftrightarrow> matched ! i \<or> match_at s pos keys i)"
  using assms
proof (induction s pos keys "(matched, num)" arbitrary: matched num rule: match_signer.induct)
  case (2 signer position k keys matched num)
  have pos: "position < length matched" using 2(4) by simp
  show ?case
  proof (cases "k = key signer \<and> \<not> matched ! position")
    case False
    have "length matched' = length matched \<and> unat num' = num_matched matched' \<and>
      (\<forall>i. matched' ! i \<longleftrightarrow> matched ! i \<or> match_at signer (Suc position) keys i)"
      using False 2(3-6) by (intro 2(2)) (auto split: if_splits)
    with False show ?thesis by (auto simp: match_at_Cons)
  next
    case True
    have "num_matched matched < 11"
      using pos True 2(5) length_filter_less [of "matched ! position" matched id] nth_mem [OF pos]
      by (auto simp del: nth_mem)
    then have "unat (num + 1) = num_matched (matched[position := True])"
      using 2(6) pos True by (simp add: num_matched_update unat_word_ariths)
    moreover have "is_signer signer" using True 2(3) by (simp split: if_splits)
    ultimately have "length matched' = length (matched[position := True]) \<and>
      unat num' = num_matched matched' \<and>
      (\<forall>i. matched' ! i \<longleftrightarrow> matched[position := True] ! i \<or> match_at signer (Suc position) keys i)"
      using True 2(3-5) by (intro 2(1)) simp_all
    with True \<open>is_signer signer\<close> pos show ?thesis
      by (auto simp: match_at_Cons nth_list_update)
  qed
qed simp_all

lemma match_signers_step:
  assumes "match_signers multisig signers (matched, num) = Inr (matched', num')"
    and "length matched = 11" and "unat num = num_matched matched"
    and "length (ms_signers multisig) = 11"
  shows "length matched' = 11 \<and> unat num' = num_matched matched' \<and>
    (\<forall>i. matched' ! i \<longleftrightarrow> matched ! i \<or> i \<in> signed_positions multisig signers)"
  using assms
proof (induction multisig signers "(matched, num)" arbitrary: matched num rule: match_signers.induct)
  case (2 multisig signer signers matched num)
  let ?keys = "take (unat (ms_n multisig)) (ms_signers multisig)"
  from 2(2) obtain m1 n1 where one: "match_signer signer 0 ?keys (matched, num) = Inr (m1, n1)"
    and rest: "match_signers multisig signers (m1, n1) = Inr (matched', num')"
    and n: "\<not> length (ms_signers multisig) < unat (ms_n multisig)"
    by (auto simp: res_simps split: if_splits)
  have s1: "length m1 = length matched \<and> unat n1 = num_matched m1 \<and>
      (\<forall>i. m1 ! i \<longleftrightarrow> matched ! i \<or> match_at signer 0 ?keys i)"
    using 2(3-5) n by (intro match_signer_step [OF one]) simp_all
  then have len: "length m1 = 11" and cnt: "unat n1 = num_matched m1" using 2(3) by simp_all
  have "length matched' = 11 \<and> unat num' = num_matched matched' \<and>
      (\<forall>i. matched' ! i \<longleftrightarrow> m1 ! i \<or> i \<in> signed_positions multisig signers)"
    by (rule 2(1) [OF n one rest len cnt 2(5)])
  with s1 n 2(5) show ?case
    by (auto simp: match_at_def signed_positions_def)
qed (simp add: signed_positions_def)

text \<open>Loops that meet only signing views do not fail.\<close>

lemma match_signer_total:
  "is_signer s \<Longrightarrow> \<exists>p. match_signer s pos keys acc = Inr p"
  by (induction s pos keys acc rule: match_signer.induct) auto

lemma match_signer_none:
  "key s \<notin> set keys \<Longrightarrow> match_signer s pos keys acc = Inr acc"
  by (induction s pos keys acc rule: match_signer.induct) auto

lemma match_signers_total:
  assumes "unat (ms_n multisig) \<le> length (ms_signers multisig)"
    and "\<forall>s\<in>set signers. key s \<in> set (take (unat (ms_n multisig)) (ms_signers multisig)) \<longrightarrow> is_signer s"
  shows "\<exists>p. match_signers multisig signers acc = Inr p"
  using assms(2)
proof (induction signers arbitrary: acc)
  case (Cons s signers)
  obtain p where "match_signer s 0 (take (unat (ms_n multisig)) (ms_signers multisig)) acc = Inr p"
    using Cons.prems match_signer_total match_signer_none by (metis list.set_intros(1))
  with Cons assms(1) show ?case by simp
qed simp

lemma match_signers_count:
  assumes "match_signers multisig signers (replicate MAX_SIGNERS False, 0) = Inr (matched, num)"
    and "wf_multisig multisig"
  shows "unat num = card (signed_positions multisig signers)"
proof -
  have len: "length (ms_signers multisig) = 11"
    using assms(2) by (simp add: wf_multisig_def MAX_SIGNERS_def)
  have inv: "length matched = 11 \<and> unat num = num_matched matched \<and>
    (\<forall>i. matched ! i \<longleftrightarrow> replicate 11 False ! i \<or> i \<in> signed_positions multisig signers)"
    using len assms(1) match_signers_step [of multisig signers "replicate 11 False" 0 matched num]
    by (simp add: MAX_SIGNERS_def)
  have "signers = [] \<or> unat (ms_n multisig) \<le> 11"
    using assms(1) len by (cases signers) (auto split: if_splits)
  then have "signed_positions multisig signers \<subseteq> {..<11}"
    by (auto simp: signed_positions_def)
  then have "{i. i < 11 \<and> matched ! i} = signed_positions multisig signers"
    using inv by auto
  with inv show ?thesis by (simp add: num_matched_card)
qed

text \<open>
  What \<open>validate_owner\<close> promises: the view is the expected owner, and it signed or, when it is
  a multisignature account of the program, at least \<open>m\<close> of its positions are held by signing
  views.
\<close>

definition is_multisig :: "Pubkey \<Rightarrow> AccountInfo \<Rightarrow> store \<Rightarrow> bool" where
  "is_multisig program_id ai st \<longleftrightarrow>
     program_id = info_owner st ai \<and> length (info_data st ai) = Multisig_LEN"

definition authorized :: "Pubkey \<Rightarrow> Pubkey \<Rightarrow> AccountInfo \<Rightarrow> AccountInfo list \<Rightarrow> store \<Rightarrow> bool" where
  "authorized program_id k ai signers st \<longleftrightarrow> key ai = k \<and>
     (if is_multisig program_id ai st
      then \<exists>ms. multisig_unpack (info_data st ai) = Inr ms \<and>
             unat (ms_m ms) \<le> card (signed_positions ms signers)
      else is_signer ai)"

lemma multisig_unpack_wf: "multisig_unpack bs = Inr ms \<Longrightarrow> wf_multisig ms"
  unfolding multisig_unpack_def by (rule multisig_layout.unpack_wf)

lemma validate_owner_multisig:
  assumes "validate_owner program_id k ai signers st = Inr u" and "is_multisig program_id ai st"
  obtains ms matched num where "k = key ai" and "multisig_unpack (info_data st ai) = Inr ms"
    and "match_signers ms signers (replicate MAX_SIGNERS False, 0) = Inr (matched, num)"
    and "\<not> num < ms_m ms"
proof -
  have "k = key ai" and "\<exists>ms matched num. multisig_unpack (info_data st ai) = Inr ms \<and>
      match_signers ms signers (replicate MAX_SIGNERS False, 0) = Inr (matched, num) \<and>
      \<not> num < ms_m ms"
    using assms unfolding validate_owner_def is_multisig_def
    by (simp_all add: res_simps split_paired_Ex split: if_splits) blast
  then show thesis using that by blast
qed

lemma validate_owner_authorized:
  assumes "validate_owner program_id k ai signers st = Inr u"
  shows "authorized program_id k ai signers st"
proof (cases "is_multisig program_id ai st")
  case True
  obtain ms matched num where k: "k = key ai" and ms: "multisig_unpack (info_data st ai) = Inr ms"
    and loop: "match_signers ms signers (replicate MAX_SIGNERS False, 0) = Inr (matched, num)"
    and "\<not> num < ms_m ms"
    using validate_owner_multisig [OF assms True] .
  with match_signers_count [OF loop multisig_unpack_wf [OF ms]]
  have "unat (ms_m ms) \<le> card (signed_positions ms signers)"
    by (simp add: word_less_nat_alt not_less)
  with True k ms show ?thesis by (simp add: authorized_def)
next
  case False
  with assms have "k = key ai \<and> is_signer ai"
    unfolding validate_owner_def is_multisig_def by (simp split: if_splits)
  with False show ?thesis by (simp add: authorized_def)
qed

lemma authorized_validate_owner:
  assumes "authorized program_id k ai signers st"
    and "\<And>ms s. is_multisig program_id ai st \<Longrightarrow> multisig_unpack (info_data st ai) = Inr ms \<Longrightarrow>
        unat (ms_n ms) \<le> MAX_SIGNERS \<and>
        (s \<in> set signers \<longrightarrow> key s \<in> set (take (unat (ms_n ms)) (ms_signers ms)) \<longrightarrow> is_signer s)"
  shows "validate_owner program_id k ai signers st = Inr ()"
proof (cases "is_multisig program_id ai st")
  case True
  with assms(1) obtain ms where ms: "multisig_unpack (info_data st ai) = Inr ms"
    "unat (ms_m ms) \<le> card (signed_positions ms signers)" by (auto simp: authorized_def)
  have "unat (ms_n ms) \<le> length (ms_signers ms)"
    using assms(2) [OF True ms(1)] multisig_unpack_wf [OF ms(1)] by (simp add: wf_multisig_def)
  then obtain matched num where
    loop: "match_signers ms signers (replicate MAX_SIGNERS False, 0) = Inr (matched, num)"
    using match_signers_total assms(2) [OF True ms(1)] by (metis prod.exhaust)
  have "\<not> num < ms_m ms"
    using ms(2) match_signers_count [OF loop multisig_unpack_wf [OF ms(1)]]
    by (simp add: word_less_nat_alt)
  with ms(1) loop assms(1) True show ?thesis
    unfolding validate_owner_def authorized_def is_multisig_def by simp
next
  case False
  with assms(1) show ?thesis
    unfolding validate_owner_def authorized_def is_multisig_def by auto
qed

end
