(* ===== verification/TokenLedger.thy ===== *)
theory TokenLedger
  imports TokenProcessor
begin

text \<open>
  A successful handler, seen from outside: the inversion lemmas of the handlers, the ledger that
  the token program keeps, and the refinement of the handlers to steps of the ledger.
\<close>

section \<open>Inversion of the handlers\<close>

lemma process_transfer_Inr:
  assumes "process_transfer pid accounts amt dec st = Inr st'"
  obtains source_info dest_info authority_info signers source dest source' where
    "{source_info, dest_info, authority_info} \<union> set signers \<subseteq> set accounts"
    and "account_unpack (info_data st source_info) = Inr source"
    and "account_unpack (info_data st dest_info) = Inr dest"
    and "\<not> is_frozen source" and "\<not> is_frozen dest" and "mint source = mint dest"
    and "authorize_debit pid (key source_info = key dest_info) authority_info signers amt source st = Inr source'"
    and "key source_info = key dest_info \<or> amt = 0 \<Longrightarrow>
      info_owner st source_info = pid \<and> info_owner st dest_info = pid"
    and "key source_info = key dest_info \<Longrightarrow> st' = st"
    and "key source_info \<noteq> key dest_info \<Longrightarrow> \<exists>sa da st1 st2.
      checked_sub (amount source') amt = Some sa \<and> checked_add (amount dest) amt = Some da \<and>
      (if native source' then move_lamports source_info dest_info amt st else Inr st) = Inr st1 \<and>
      write_account source_info (source'\<lparr>amount := sa\<rparr>) st1 = Inr st2 \<and>
      write_account dest_info (dest\<lparr>amount := da\<rparr>) st2 = Inr st'"
  using assms that unfolding process_transfer_def
  apply (clarsimp simp: res_simps Let_def)
  apply (drule next_expected_mint_subset)
  apply (rule that; (assumption | simp)?)
  apply (auto simp: res_simps split: if_splits)
  done

lemma process_approve_Inr:
  assumes "process_approve pid accounts amt dec st = Inr st'"
  obtains source_info delegate_info owner_info signers source where
    "{source_info, delegate_info, owner_info} \<union> set signers \<subseteq> set accounts"
    and "account_unpack (info_data st source_info) = Inr source" and "\<not> is_frozen source"
    and "validate_owner pid (tok_owner source) owner_info signers st = Inr ()"
    and "write_account source_info
      (source\<lparr>delegate := Some (key delegate_info), delegated_amount := amt\<rparr>) st = Inr st'"
  using assms unfolding process_approve_def
  apply (clarsimp simp: res_simps)
  apply (drule next_expected_mint_subset)
  apply (rule that; (assumption | auto)?)
  done

lemma process_revoke_Inr:
  assumes "process_revoke pid accounts st = Inr st'"
  obtains source_info owner_info signers source where
    "{source_info, owner_info} \<union> set signers \<subseteq> set accounts"
    and "account_unpack (info_data st source_info) = Inr source" and "\<not> is_frozen source"
    and "validate_owner pid (tok_owner source) owner_info signers st = Inr ()"
    and "write_account source_info (source\<lparr>delegate := None, delegated_amount := 0\<rparr>) st = Inr st'"
  using assms unfolding process_revoke_def
  by (clarsimp simp: res_simps) (rule that; (assumption | auto)?)

text \<open>A change of authority keeps the balance, the mint and the reserve of an account.\<close>

definition same_funds :: "TokenAccount \<Rightarrow> TokenAccount \<Rightarrow> bool" where
  "same_funds a a' \<longleftrightarrow> mint a' = mint a \<and> amount a' = amount a \<and> is_native a' = is_native a"

lemma set_account_authority_funds:
  assumes "set_account_authority pid t na authority_info signers a st = Inr a'"
  shows "same_funds a a' \<and> state a' = state a"
  using assms
  by (auto simp: set_account_authority_def same_funds_def res_simps Let_def split: AuthorityType.splits)

lemma set_mint_authority_supply:
  assumes "set_mint_authority pid t na authority_info signers m st = Inr m'"
  shows "mint_supply m' = mint_supply m \<and> mint_is_initialized m' = mint_is_initialized m \<and>
    decimals m' = decimals m \<and>
    (mint_authority m = None \<longrightarrow> mint_authority m' = None) \<and>
    (freeze_authority m = None \<longrightarrow> freeze_authority m' = None)"
  using assms
  by (auto simp: set_mint_authority_def res_simps split: AuthorityType.splits)

lemma process_set_authority_Inr:
  assumes "process_set_authority pid accounts t na st = Inr st'"
  obtains (account) account_info authority_info signers a a' where
    "{account_info, authority_info} \<union> set signers \<subseteq> set accounts"
    and "account_unpack (info_data st account_info) = Inr a" and "\<not> is_frozen a"
    and "set_account_authority pid t na authority_info signers a st = Inr a'"
    and "write_account account_info a' st = Inr st'"
  | (mint) account_info authority_info signers m m' where
    "{account_info, authority_info} \<union> set signers \<subseteq> set accounts"
    and "mint_unpack (info_data st account_info) = Inr m"
    and "set_mint_authority pid t na authority_info signers m st = Inr m'"
    and "write_mint account_info m' st = Inr st'"
proof -
  from assms obtain account_info authority_info signers where
    accounts: "accounts = account_info # authority_info # signers"
    by (auto simp: process_set_authority_def res_simps)
  show thesis
  proof (cases "length (info_data st account_info) = TokenAccount_LEN")
    case True
    with assms accounts show ?thesis
      by (clarsimp simp: process_set_authority_def res_simps) (rule account; (assumption | auto)?)
  next
    case False
    with assms accounts show ?thesis
      by (clarsimp simp: process_set_authority_def res_simps split: if_splits)
        (rule mint; (assumption | auto)?)
  qed
qed

lemma process_mint_to_Inr:
  assumes "process_mint_to pid accounts amt dec st = Inr st'"
  obtains mint_info dest_info owner_info signers dest m k da ns st1 where
    "{mint_info, dest_info, owner_info} \<union> set signers \<subseteq> set accounts"
    and "account_unpack (info_data st dest_info) = Inr dest"
    and "mint_unpack (info_data st mint_info) = Inr m"
    and "\<not> is_frozen dest" and "\<not> native dest" and "mint dest = key mint_info"
    and "mint_authority m = Some k" and "validate_owner pid k owner_info signers st = Inr ()"
    and "amt = 0 \<Longrightarrow> info_owner st mint_info = pid \<and> info_owner st dest_info = pid"
    and "checked_add (amount dest) amt = Some da" and "checked_add (mint_supply m) amt = Some ns"
    and "write_account dest_info (dest\<lparr>amount := da\<rparr>) st = Inr st1"
    and "write_mint mint_info (m\<lparr>mint_supply := ns\<rparr>) st1 = Inr st'"
  using assms unfolding process_mint_to_def
  by (clarsimp simp: res_simps split: option.splits)
    (rule that; (assumption | (auto simp: res_simps split: if_splits)[])?)

lemma process_burn_Inr:
  assumes "process_burn pid accounts amt dec st = Inr st'"
  obtains source_info mint_info authority_info signers source source' m sa ns st1 where
    "{source_info, mint_info, authority_info} \<union> set signers \<subseteq> set accounts"
    and "account_unpack (info_data st source_info) = Inr source"
    and "mint_unpack (info_data st mint_info) = Inr m"
    and "\<not> is_frozen source" and "\<not> native source" and "mint source = key mint_info"
    and "authorize_debit pid False authority_info signers amt source st = Inr source'"
    and "amt = 0 \<Longrightarrow> info_owner st mint_info = pid \<and> info_owner st source_info = pid"
    and "checked_sub (amount source') amt = Some sa" and "checked_sub (mint_supply m) amt = Some ns"
    and "write_account source_info (source'\<lparr>amount := sa\<rparr>) st = Inr st1"
    and "write_mint mint_info (m\<lparr>mint_supply := ns\<rparr>) st1 = Inr st'"
  using assms unfolding process_burn_def
  by (clarsimp simp: res_simps)
    (rule that; (assumption | (auto simp: res_simps split: if_splits)[])?)

lemma process_close_account_Inr:
  assumes "process_close_account pid accounts st = Inr st'"
  obtains source_info dest_info authority_info signers source dl where
    "{source_info, dest_info, authority_info} \<union> set signers \<subseteq> set accounts"
    and "key source_info \<noteq> key dest_info"
    and "account_unpack (info_data st source_info) = Inr source"
    and "native source \<or> amount source = 0"
    and "validate_owner pid (case close_authority source of Some k \<Rightarrow> k | None \<Rightarrow> tok_owner source)
      authority_info signers st = Inr ()"
    and "checked_add (info_lamports st dest_info) (info_lamports st source_info) = Some dl"
    and "st' = set_info_data source_info (replicate TokenAccount_LEN 0)
      (set_info_lamports source_info 0 (set_info_lamports dest_info dl st))"
proof -
  have len: "length (info_data st ai) = TokenAccount_LEN"
    if "account_unpack (info_data st ai) = Inr source" for ai source
    using that by (simp add: unpack_iff)
  show thesis
    using assms unfolding process_close_account_def
    apply (clarsimp simp: res_simps Let_def)
    apply (rule that; (assumption | (auto simp: res_simps store_apply dest!: len)[])?)
    done
qed

lemma process_toggle_freeze_account_Inr:
  assumes "process_toggle_freeze_account pid accounts freeze st = Inr st'"
  obtains source_info authority_info signers source m k where
    "{source_info, authority_info} \<union> set signers \<subseteq> set accounts"
    and "account_unpack (info_data st source_info) = Inr source"
    and "is_frozen source \<longleftrightarrow> \<not> freeze" and "\<not> native source"
    and "mint_unpack (data (st (mint source))) = Inr m"
    and "freeze_authority m = Some k" and "validate_owner pid k authority_info signers st = Inr ()"
    and "write_account source_info
      (source\<lparr>state := if freeze then AccountState.Frozen else AccountState.Initialized\<rparr>) st = Inr st'"
  using assms unfolding process_toggle_freeze_account_def
  by (clarsimp simp: res_simps split: option.splits) (rule that; (assumption | (auto)[])?)

lemma process_sync_native_Inr:
  assumes "process_sync_native pid accounts st = Inr st'"
  obtains native_info a r na where
    "native_info \<in> set accounts" and "info_owner st native_info = pid"
    and "account_unpack (info_data st native_info) = Inr a" and "is_native a = Some r"
    and "checked_sub (info_lamports st native_info) r = Some na" and "amount a \<le> na"
    and "write_account native_info (a\<lparr>amount := na\<rparr>) st = Inr st'"
  using assms unfolding process_sync_native_def
  by (clarsimp simp: res_simps) (rule that; (assumption | (auto)[])?)

lemma process_initialize_mint_Inr:
  assumes "process_initialize_mint_inner rent accounts dec authority freeze sysvar st = Inr st'"
  obtains mint_info m where
    "mint_info \<in> set accounts" and "mint_unpack_unchecked (info_data st mint_info) = Inr m"
    and "\<not> mint_is_initialized m"
    and "write_mint mint_info (m\<lparr>mint_authority := Some authority, decimals := dec,
      mint_is_initialized := True, freeze_authority := freeze\<rparr>) st = Inr st'"
  using assms unfolding process_initialize_mint_inner_def
  by (clarsimp simp: res_simps) (rule that; (assumption | (auto)[])?)

lemma process_initialize_multisig_Inr:
  assumes "process_initialize_multisig_inner rent accounts m sysvar st = Inr st'"
  obtains multisig_info ms and signer_infos :: "AccountInfo list" where
    "multisig_info \<in> set accounts"
    and "multisig_unpack_unchecked (info_data st multisig_info) = Inr ms"
    and "\<not> ms_is_initialized ms" and "length signer_infos \<le> length (ms_signers ms)"
    and "is_valid_signer_index (unat m)"
    and "is_valid_signer_index (unat (of_nat (length signer_infos) :: u8))"
    and "write_multisig multisig_info (ms\<lparr>ms_m := m, ms_n := of_nat (length signer_infos),
      ms_is_initialized := True,
      ms_signers := map key signer_infos @ drop (length signer_infos) (ms_signers ms)\<rparr>) st = Inr st'"
  using assms unfolding process_initialize_multisig_inner_def
  by (clarsimp simp: res_simps Let_def) (rule that; (assumption | (auto)[])?)

lemma process_initialize_account_Inr:
  assumes "process_initialize_account_inner rent pid accounts wallet sysvar st = Inr st'"
  obtains new_info mint_info a a' r where
    "{new_info, mint_info} \<subseteq> set accounts"
    and "account_unpack_unchecked (info_data st new_info) = Inr a"
    and "\<not> account_is_initialized a" and "account_is_initialized a'" and "mint a' = key mint_info"
    and "if key mint_info = native_mint_id
      then is_native a' = Some r \<and> checked_sub (info_lamports st new_info) r = Some (amount a')
      else is_native a' = None \<and> amount a' = 0 \<and> info_owner st mint_info = pid \<and>
        (\<exists>m. mint_unpack (info_data st mint_info) = Inr m)"
    and "write_account new_info a' st = Inr st'"
proof -
  from assms obtain new_info mint_info it where acc: "accounts = new_info # mint_info # it"
    unfolding process_initialize_account_inner_def by (clarsimp simp: res_simps)
  show thesis
  proof (cases "key mint_info = native_mint_id")
    case True
    with assms acc show ?thesis
      unfolding process_initialize_account_inner_def
      by (clarsimp simp: res_simps Let_def)
        (erule that [of new_info mint_info, rotated -1]; auto simp: account_is_initialized_def)
  next
    case False
    with assms acc show ?thesis
      unfolding process_initialize_account_inner_def
      by (clarsimp simp: res_simps Let_def)
        (erule that [of new_info mint_info, rotated -1]; auto simp: account_is_initialized_def)
  qed
qed

lemma authorize_debit_Inr:
  assumes "authorize_debit pid self authority_info signers amt a st = Inr a'"
  shows "same_funds a a' \<and> state a' = state a \<and> tok_owner a' = tok_owner a"
    and "(\<exists>k. delegate a = Some k \<and> authorized pid k authority_info signers st \<and>
          amt \<le> delegated_amount a \<and>
          (\<not> self \<longrightarrow> unat (delegated_amount a') + unat amt = unat (delegated_amount a))) \<or>
      authorized pid (tok_owner a) authority_info signers st \<and> a' = a"
  using assms validate_owner_authorized
  by (auto simp: authorize_debit_def same_funds_def res_simps checked_sub_Some_iff
      split: option.splits if_splits)


section \<open>The ledger\<close>

text \<open>
  What the token program keeps, without the byte layout: the initialised token accounts, the
  mints (initialised or blank) and the lamports of every address. Accounts that the program does
  not own are not part of it, whatever their bytes are.
\<close>

record ledger =
  accts :: "Pubkey \<Rightarrow> TokenAccount option"
  mints :: "Pubkey \<Rightarrow> Mint option"
  bal :: "Pubkey \<Rightarrow> u64"

fun ok :: "'e + 'a \<Rightarrow> 'a option" where
  "ok (Inl e) = None"
| "ok (Inr x) = Some x"

lemma ok_eq_Some [simp]: "ok r = Some x \<longleftrightarrow> r = Inr x"
  by (cases r) auto

definition ledger_of :: "Pubkey \<Rightarrow> store \<Rightarrow> ledger" where
  "ledger_of pid st =
     \<lparr>accts = (\<lambda>k. if owner (st k) = pid then ok (account_unpack (data (st k))) else None),
      mints = (\<lambda>k. if owner (st k) = pid then ok (mint_unpack_unchecked (data (st k))) else None),
      bal = (\<lambda>k. lamports (st k))\<rparr>"

inductive ledger_step :: "ledger \<Rightarrow> ledger \<Rightarrow> bool" where
  idle: "ledger_step L L"
| open_account:
    "accts L k = None \<Longrightarrow> mint a \<noteq> native_mint_id \<Longrightarrow> is_native a = None \<Longrightarrow> amount a = 0 \<Longrightarrow>
     mints L (mint a) = Some m \<Longrightarrow> mint_is_initialized m \<Longrightarrow>
     ledger_step L (L\<lparr>accts := (accts L)(k := Some a)\<rparr>)"
| open_native:
    "accts L k = None \<Longrightarrow> mint a = native_mint_id \<Longrightarrow> is_native a = Some r \<Longrightarrow>
     unat (bal L k) = unat r + unat (amount a) \<Longrightarrow>
     ledger_step L (L\<lparr>accts := (accts L)(k := Some a)\<rparr>)"
| set_account:
    "accts L k = Some a \<Longrightarrow> same_funds a a' \<Longrightarrow>
     ledger_step L (L\<lparr>accts := (accts L)(k := Some a')\<rparr>)"
| set_mint:
    "mints L k = Some m \<Longrightarrow> mint_supply m' = mint_supply m \<Longrightarrow>
     (mint_is_initialized m \<longrightarrow> mint_is_initialized m') \<Longrightarrow>
     ledger_step L (L\<lparr>mints := (mints L)(k := Some m')\<rparr>)"
| move:
    "s \<noteq> d \<Longrightarrow> accts L s = Some a \<Longrightarrow> accts L d = Some b \<Longrightarrow> mint a = mint b \<Longrightarrow>
     same_funds a a1 \<Longrightarrow> checked_sub (amount a) amt = Some x \<Longrightarrow> checked_add (amount b) amt = Some y \<Longrightarrow>
     is_native a = None \<Longrightarrow>
     ledger_step L (L\<lparr>accts := (accts L)(s := Some (a1\<lparr>amount := x\<rparr>), d := Some (b\<lparr>amount := y\<rparr>))\<rparr>)"
| move_native:
    "s \<noteq> d \<Longrightarrow> accts L s = Some a \<Longrightarrow> accts L d = Some b \<Longrightarrow> mint a = mint b \<Longrightarrow>
     same_funds a a1 \<Longrightarrow> checked_sub (amount a) amt = Some x \<Longrightarrow> checked_add (amount b) amt = Some y \<Longrightarrow>
     is_native a \<noteq> None \<Longrightarrow>
     checked_sub (bal L s) amt = Some bs \<Longrightarrow> checked_add (bal L d) amt = Some bd \<Longrightarrow>
     ledger_step L (L\<lparr>accts := (accts L)(s := Some (a1\<lparr>amount := x\<rparr>), d := Some (b\<lparr>amount := y\<rparr>)),
                      bal := (bal L)(s := bs, d := bd)\<rparr>)"
| issue:
    "accts L k = Some a \<Longrightarrow> mints L (mint a) = Some m \<Longrightarrow> mint_is_initialized m \<Longrightarrow> is_native a = None \<Longrightarrow>
     mint_authority m \<noteq> None \<Longrightarrow>
     checked_add (amount a) amt = Some x \<Longrightarrow> checked_add (mint_supply m) amt = Some y \<Longrightarrow>
     ledger_step L (L\<lparr>accts := (accts L)(k := Some (a\<lparr>amount := x\<rparr>)),
                      mints := (mints L)(mint a := Some (m\<lparr>mint_supply := y\<rparr>))\<rparr>)"
| retire:
    "accts L k = Some a \<Longrightarrow> mints L (mint a) = Some m \<Longrightarrow> mint_is_initialized m \<Longrightarrow> is_native a = None \<Longrightarrow>
     same_funds a a1 \<Longrightarrow>
     checked_sub (amount a) amt = Some x \<Longrightarrow> checked_sub (mint_supply m) amt = Some y \<Longrightarrow>
     ledger_step L (L\<lparr>accts := (accts L)(k := Some (a1\<lparr>amount := x\<rparr>)),
                      mints := (mints L)(mint a := Some (m\<lparr>mint_supply := y\<rparr>))\<rparr>)"
| close:
    "s \<noteq> d \<Longrightarrow> accts L s = Some a \<Longrightarrow> is_native a \<noteq> None \<or> amount a = 0 \<Longrightarrow>
     checked_add (bal L d) (bal L s) = Some bd \<Longrightarrow>
     ledger_step L (L\<lparr>accts := (accts L)(s := None), bal := (bal L)(d := bd, s := 0)\<rparr>)"
| sync:
    "accts L k = Some a \<Longrightarrow> is_native a = Some r \<Longrightarrow> checked_sub (bal L k) r = Some x \<Longrightarrow> amount a \<le> x \<Longrightarrow>
     ledger_step L (L\<lparr>accts := (accts L)(k := Some (a\<lparr>amount := x\<rparr>))\<rparr>)"

text \<open>The runtime lets a program change the data of its own accounts only.\<close>

definition owned_writes :: "Pubkey \<Rightarrow> store \<Rightarrow> store \<Rightarrow> bool" where
  "owned_writes pid st st' \<longleftrightarrow> (\<forall>k. data (st' k) \<noteq> data (st k) \<longrightarrow> owner (st k) = pid)"


section \<open>Effect of the writes on the ledger\<close>

lemma write_account_frame:
  assumes "write_account ai v st = Inr st'"
  shows "owner (st' k) = owner (st k)" and "lamports (st' k) = lamports (st k)"
    and "k \<noteq> key ai \<Longrightarrow> st' k = st k"
    and "account_is_initialized v \<Longrightarrow> account_unpack (data (st' (key ai))) = Inr v"
  using write_account_Inr [OF assms] by (auto simp: store_apply)

lemma write_mint_frame:
  assumes "write_mint ai v st = Inr st'"
  shows "owner (st' k) = owner (st k)" and "lamports (st' k) = lamports (st k)"
    and "k \<noteq> key ai \<Longrightarrow> st' k = st k"
    and "mint_unpack_unchecked (data (st' (key ai))) = Inr v"
  using write_mint_Inr [OF assms] by (auto simp: store_apply)

lemma move_lamports_frame:
  assumes "move_lamports si di amt st = Inr st'"
  shows "owner (st' k) = owner (st k)" and "data (st' k) = data (st k)"
  using assms by (auto simp: move_lamports_def res_simps Let_def store_apply)

lemma unpack_wrong_length:
  "length bs \<noteq> TokenAccount_LEN \<Longrightarrow> ok (account_unpack bs) = None"
  "length bs \<noteq> Mint_LEN \<Longrightarrow> ok (mint_unpack_unchecked bs) = None"
  by (simp_all add: account_unpack_def mint_unpack_unchecked_def pack_unpack_def
      pack_unpack_unchecked_def)

lemma layout_lengths:
  "Mint_LEN \<noteq> TokenAccount_LEN" "TokenAccount_LEN \<noteq> Mint_LEN"
  "Multisig_LEN \<noteq> TokenAccount_LEN" "Multisig_LEN \<noteq> Mint_LEN"
  by (simp_all add: Mint_LEN_def TokenAccount_LEN_def Multisig_LEN_def)

lemmas ledger_upd = ledger_of_def store_apply unpack_wrong_length layout_lengths fun_eq_iff

lemma ledger_write_account:
  assumes "write_account ai v st = Inr st'" and "account_is_initialized v"
  shows "ledger_of pid st' =
    (if info_owner st ai = pid
     then (ledger_of pid st)\<lparr>accts := (accts (ledger_of pid st))(key ai := Some v)\<rparr>
     else ledger_of pid st)"
  using write_account_Inr [OF assms(1)] assms(2) by clarsimp (auto simp: ledger_upd split: if_splits)

lemma ledger_write_mint:
  assumes "write_mint ai v st = Inr st'"
  shows "ledger_of pid st' =
    (if info_owner st ai = pid
     then (ledger_of pid st)\<lparr>mints := (mints (ledger_of pid st))(key ai := Some v)\<rparr>
     else ledger_of pid st)"
  using write_mint_Inr [OF assms] by clarsimp (auto simp: ledger_upd split: if_splits)

lemma ledger_write_multisig:
  assumes "write_multisig ai v st = Inr st'" and "wf_multisig v"
  shows "ledger_of pid st' = ledger_of pid st"
  using write_multisig_Inr [OF assms] by clarsimp (auto simp: ledger_upd split: if_splits)

lemma ledger_accts:
  "accts (ledger_of pid st) k = Some a \<longleftrightarrow> owner (st k) = pid \<and> account_unpack (data (st k)) = Inr a"
  "accts (ledger_of pid st) k = None \<longleftrightarrow> owner (st k) \<noteq> pid \<or> ok (account_unpack (data (st k))) = None"
  by (auto simp: ledger_of_def)

lemma ledger_mints:
  "mints (ledger_of pid st) k = Some m \<longleftrightarrow>
     owner (st k) = pid \<and> mint_unpack_unchecked (data (st k)) = Inr m"
  by (auto simp: ledger_of_def)

lemma ledger_bal [simp]: "bal (ledger_of pid st) k = lamports (st k)"
  by (simp add: ledger_of_def)

lemma mint_unpack_unchecked_of_unpack:
  "mint_unpack bs = Inr m \<Longrightarrow> mint_unpack_unchecked bs = Inr m \<and> mint_is_initialized m"
  by (simp add: unpack_iff mint_unpack_unchecked_def pack_unpack_unchecked_def)

lemma same_funds_refl [simp]: "same_funds a a"
  by (simp add: same_funds_def)

lemma native_same_funds: "same_funds a a' \<Longrightarrow> native a' = native a"
  by (simp add: same_funds_def native_def)

text \<open>A handler that rewrites one account and keeps its funds.\<close>

lemma set_account_step:
  assumes "account_unpack (info_data st ai) = Inr a" and "write_account ai a' st = Inr st'"
    and "same_funds a a'" and "account_is_initialized a \<Longrightarrow> account_is_initialized a'"
  shows "ledger_step (ledger_of pid st) (ledger_of pid st')"
  using assms ledger_write_account [OF assms(2) assms(4) [OF account_unpack_init [OF assms(1)]], of pid]
  by (auto simp: ledger_accts intro: ledger_step.idle ledger_step.set_account)

lemma set_mint_step:
  assumes "mint_unpack_unchecked (info_data st ai) = Inr m" and "write_mint ai m' st = Inr st'"
    and "mint_supply m' = mint_supply m" and "mint_is_initialized m'"
  shows "ledger_step (ledger_of pid st) (ledger_of pid st')"
  using assms ledger_write_mint [OF assms(2), of pid]
  by (auto simp: ledger_mints intro: ledger_step.idle ledger_step.set_mint)


section \<open>Every handler is a step of the ledger\<close>

lemma account_unpack_state_byte: "account_unpack bs = Inr a \<Longrightarrow> bs ! 108 \<noteq> 0"
  by (auto simp: unpack_iff account_unpack_from_slice_def res_simps account_is_initialized_def
      unpack_account_state_def split: if_splits)

lemma account_unpack_zero: "ok (account_unpack (replicate TokenAccount_LEN 0)) = None"
  using account_unpack_state_byte [of "replicate TokenAccount_LEN 0"]
  by (cases "account_unpack (replicate TokenAccount_LEN 0)") (auto simp: TokenAccount_LEN_def)

lemma init_upd:
  "account_is_initialized (a\<lparr>amount := x\<rparr>) = account_is_initialized a"
  "account_is_initialized (a\<lparr>delegated_amount := y\<rparr>) = account_is_initialized a"
  "account_is_initialized (a\<lparr>delegate := z\<rparr>) = account_is_initialized a"
  by (simp_all add: account_is_initialized_def)

lemma init_of_state: "state a' = state a \<Longrightarrow> account_is_initialized a' = account_is_initialized a"
  by (simp add: account_is_initialized_def)

lemma checked_sub_changes: "checked_sub x y = Some z \<Longrightarrow> y \<noteq> 0 \<Longrightarrow> z \<noteq> x"
  by (auto simp: checked_sub_Some_iff unat_eq_0)

lemma checked_add_changes: "checked_add x y = Some z \<Longrightarrow> y \<noteq> 0 \<Longrightarrow> z \<noteq> x"
  by (auto simp: checked_add_Some_iff unat_eq_0)

lemma field_upd_eq [simp]:
  "a = a\<lparr>amount := x\<rparr> \<longleftrightarrow> amount a = x" "m = m\<lparr>mint_supply := y\<rparr> \<longleftrightarrow> mint_supply m = y"
  by (cases a, auto, cases m, auto)

lemma transfer_step:
  assumes "process_transfer pid accounts amt dec st = Inr st'" and "owned_writes pid st st'"
  shows "ledger_step (ledger_of pid st) (ledger_of pid st')"
  using assms(1)
proof (rule process_transfer_Inr)
  fix si di ai signers a b a'
  assume a: "account_unpack (info_data st si) = Inr a" and b: "account_unpack (info_data st di) = Inr b"
    and mints: "mint a = mint b" and auth: "authorize_debit pid (key si = key di) ai signers amt a st = Inr a'"
    and owned0: "key si = key di \<or> amt = 0 \<Longrightarrow> info_owner st si = pid \<and> info_owner st di = pid"
    and self: "key si = key di \<Longrightarrow> st' = st"
    and upd: "key si \<noteq> key di \<Longrightarrow> \<exists>sa da st1 st2.
      checked_sub (amount a') amt = Some sa \<and> checked_add (amount b) amt = Some da \<and>
      (if native a' then move_lamports si di amt st else Inr st) = Inr st1 \<and>
      write_account si (a'\<lparr>amount := sa\<rparr>) st1 = Inr st2 \<and>
      write_account di (b\<lparr>amount := da\<rparr>) st2 = Inr st'"
  show ?thesis
  proof (cases "key si = key di")
    case True
    with self show ?thesis by (simp add: ledger_step.idle)
  next
    case False
    note f = authorize_debit_Inr(1) [OF auth]
    from upd [OF False] obtain sa da st1 st2 where
      sa: "checked_sub (amount a) amt = Some sa" and da: "checked_add (amount b) amt = Some da"
      and st1: "(if native a then move_lamports si di amt st else Inr st) = Inr st1"
      and st2: "write_account si (a'\<lparr>amount := sa\<rparr>) st1 = Inr st2"
      and st': "write_account di (b\<lparr>amount := da\<rparr>) st2 = Inr st'"
      using f native_same_funds [of a a'] by (auto simp: same_funds_def)
    have init: "account_is_initialized (a'\<lparr>amount := sa\<rparr>)" "account_is_initialized (b\<lparr>amount := da\<rparr>)"
      using account_unpack_init [OF a] account_unpack_init [OF b] f init_of_state [of a' a]
      by (simp_all add: init_upd)
    have own: "owner (st1 k) = owner (st k)" "data (st1 k) = data (st k)" for k
      using st1 move_lamports_frame by (auto split: if_splits)
    have owned: "owner (st (key si)) = pid" "owner (st (key di)) = pid"
    proof -
      have "data (st' (key si)) \<noteq> data (st (key si)) \<and> data (st' (key di)) \<noteq> data (st (key di))"
        if "amt \<noteq> 0"
        using write_account_frame(3) [OF st', of "key si"] write_account_frame(4) [OF st2 init(1)]
          write_account_frame(4) [OF st' init(2)] False a b checked_sub_changes [OF sa that]
          checked_add_changes [OF da that] by auto
      then show "owner (st (key si)) = pid" "owner (st (key di)) = pid"
        using owned0 assms(2) by (cases "amt = 0"; simp add: owned_writes_def)+
    qed
    have L: "ledger_of pid st' = (ledger_of pid st1)\<lparr>accts := (accts (ledger_of pid st1))
        (key si := Some (a'\<lparr>amount := sa\<rparr>), key di := Some (b\<lparr>amount := da\<rparr>))\<rparr>"
      using ledger_write_account [OF st' init(2), of pid] ledger_write_account [OF st2 init(1), of pid]
        owned own write_account_frame(1) [OF st2] by simp
    have acc: "accts (ledger_of pid st) (key si) = Some a" "accts (ledger_of pid st) (key di) = Some b"
      using owned a b by (simp_all add: ledger_accts)
    show ?thesis
    proof (cases "native a")
      case True
      then obtain x y where x: "checked_sub (bal (ledger_of pid st) (key si)) amt = Some x"
        and y: "checked_add (bal (ledger_of pid st) (key di)) amt = Some y"
        and st1: "st1 = set_info_lamports di y (set_info_lamports si x st)"
        using st1 False by (auto simp: move_lamports_def res_simps Let_def store_apply)
      have "ledger_of pid st' = (ledger_of pid st)\<lparr>accts := (accts (ledger_of pid st))
          (key si := Some (a'\<lparr>amount := sa\<rparr>), key di := Some (b\<lparr>amount := da\<rparr>)),
          bal := (bal (ledger_of pid st))(key si := x, key di := y)\<rparr>"
        unfolding L using st1 False by (auto simp: ledger_of_def store_apply fun_eq_iff)
      then show ?thesis
        using ledger_step.move_native [OF False acc mints _ sa da _ x y] f True
        by (simp add: native_def)
    next
      case nonnative: False
      with st1 have "st1 = st" by simp
      with L show ?thesis
        using ledger_step.move [OF False acc mints _ sa da] f nonnative by (simp add: native_def)
    qed
  qed
qed

lemma mint_to_step:
  assumes "process_mint_to pid accounts amt dec st = Inr st'" and "owned_writes pid st st'"
  shows "ledger_step (ledger_of pid st) (ledger_of pid st')"
  using assms(1)
proof (rule process_mint_to_Inr)
  fix mi di oi signers a m k da ns st1
  assume a: "account_unpack (info_data st di) = Inr a" and m: "mint_unpack (info_data st mi) = Inr m"
    and nat: "\<not> native a" and mint: "mint a = key mi" and auth: "mint_authority m = Some k"
    and owned0: "amt = 0 \<Longrightarrow> info_owner st mi = pid \<and> info_owner st di = pid"
    and da: "checked_add (amount a) amt = Some da" and ns: "checked_add (mint_supply m) amt = Some ns"
    and st1: "write_account di (a\<lparr>amount := da\<rparr>) st = Inr st1"
    and st': "write_mint mi (m\<lparr>mint_supply := ns\<rparr>) st1 = Inr st'"
  have m': "mint_unpack_unchecked (info_data st mi) = Inr m" "mint_is_initialized m"
    using mint_unpack_unchecked_of_unpack [OF m] by auto
  have init: "account_is_initialized (a\<lparr>amount := da\<rparr>)"
    using account_unpack_init [OF a] by (simp add: init_upd)
  have diff: "key mi \<noteq> key di" using a m layout_lengths by (auto simp: unpack_iff)
  have "data (st' (key di)) \<noteq> data (st (key di)) \<and> data (st' (key mi)) \<noteq> data (st (key mi))"
    if "amt \<noteq> 0"
    using write_mint_frame(3) [OF st', of "key di"] write_account_frame(4) [OF st1 init]
      write_mint_frame(4) [OF st'] diff a m' checked_add_changes [OF da that]
      checked_add_changes [OF ns that] by auto
  then have owned: "owner (st (key di)) = pid" "owner (st (key mi)) = pid"
    using owned0 assms(2) by (cases "amt = 0"; simp add: owned_writes_def)+
  have "ledger_of pid st' = (ledger_of pid st)
    \<lparr>accts := (accts (ledger_of pid st))(key di := Some (a\<lparr>amount := da\<rparr>)),
     mints := (mints (ledger_of pid st))(mint a := Some (m\<lparr>mint_supply := ns\<rparr>))\<rparr>"
    using ledger_write_mint [OF st', of pid] ledger_write_account [OF st1 init, of pid]
      owned write_account_frame(1) [OF st1] mint by simp
  then show ?thesis
    using ledger_step.issue [of "ledger_of pid st" "key di" a m amt da ns] owned a m' nat mint auth da ns
    by (simp add: ledger_accts ledger_mints native_def)
qed

lemma burn_step:
  assumes "process_burn pid accounts amt dec st = Inr st'" and "owned_writes pid st st'"
  shows "ledger_step (ledger_of pid st) (ledger_of pid st')"
  using assms(1)
proof (rule process_burn_Inr)
  fix si mi ai signers a a' m sa ns st1
  assume a: "account_unpack (info_data st si) = Inr a" and m: "mint_unpack (info_data st mi) = Inr m"
    and nat: "\<not> native a" and mint: "mint a = key mi"
    and auth: "authorize_debit pid False ai signers amt a st = Inr a'"
    and owned0: "amt = 0 \<Longrightarrow> info_owner st mi = pid \<and> info_owner st si = pid"
    and sa': "checked_sub (amount a') amt = Some sa" and ns: "checked_sub (mint_supply m) amt = Some ns"
    and st1: "write_account si (a'\<lparr>amount := sa\<rparr>) st = Inr st1"
    and st': "write_mint mi (m\<lparr>mint_supply := ns\<rparr>) st1 = Inr st'"
  note f = authorize_debit_Inr(1) [OF auth]
  have sa: "checked_sub (amount a) amt = Some sa" using sa' f by (simp add: same_funds_def)
  have m': "mint_unpack_unchecked (info_data st mi) = Inr m" "mint_is_initialized m"
    using mint_unpack_unchecked_of_unpack [OF m] by auto
  have init: "account_is_initialized (a'\<lparr>amount := sa\<rparr>)"
    using account_unpack_init [OF a] f init_of_state [of a' a] by (simp add: init_upd)
  have diff: "key mi \<noteq> key si" using a m layout_lengths by (auto simp: unpack_iff)
  have "data (st' (key si)) \<noteq> data (st (key si)) \<and> data (st' (key mi)) \<noteq> data (st (key mi))"
    if "amt \<noteq> 0"
    using write_mint_frame(3) [OF st', of "key si"] write_account_frame(4) [OF st1 init]
      write_mint_frame(4) [OF st'] diff a m' checked_sub_changes [OF sa that]
      checked_sub_changes [OF ns that] by auto
  then have owned: "owner (st (key si)) = pid" "owner (st (key mi)) = pid"
    using owned0 assms(2) by (cases "amt = 0"; simp add: owned_writes_def)+
  have "ledger_of pid st' = (ledger_of pid st)
    \<lparr>accts := (accts (ledger_of pid st))(key si := Some (a'\<lparr>amount := sa\<rparr>)),
     mints := (mints (ledger_of pid st))(mint a := Some (m\<lparr>mint_supply := ns\<rparr>))\<rparr>"
    using ledger_write_mint [OF st', of pid] ledger_write_account [OF st1 init, of pid]
      owned write_account_frame(1) [OF st1] mint by simp
  then show ?thesis
    using ledger_step.retire [of "ledger_of pid st" "key si" a m a' amt sa ns] owned a m' nat mint f sa ns
    by (simp add: ledger_accts ledger_mints native_def)
qed

lemma close_step:
  assumes "process_close_account pid accounts st = Inr st'" and "owned_writes pid st st'"
  shows "ledger_step (ledger_of pid st) (ledger_of pid st')"
  using assms(1)
proof (rule process_close_account_Inr)
  fix si di ai signers a dl
  assume diff: "key si \<noteq> key di" and a: "account_unpack (info_data st si) = Inr a"
    and empty: "native a \<or> amount a = 0"
    and dl: "checked_add (info_lamports st di) (info_lamports st si) = Some dl"
    and st': "st' = set_info_data si (replicate TokenAccount_LEN 0)
      (set_info_lamports si 0 (set_info_lamports di dl st))"
  have "data (st' (key si)) \<noteq> data (st (key si))"
    using a st' account_unpack_zero by (auto simp: store_apply)
  then have owned: "owner (st (key si)) = pid" using assms(2) by (auto simp: owned_writes_def)
  have len: "length (info_data st si) = TokenAccount_LEN" using a by (simp add: unpack_iff)
  have "ledger_of pid st' = (ledger_of pid st)
    \<lparr>accts := (accts (ledger_of pid st))(key si := None),
     bal := (bal (ledger_of pid st))(key di := dl, key si := 0)\<rparr>"
    using st' diff owned len by (auto simp: ledger_upd account_unpack_zero split: if_splits)
  then show ?thesis
    using ledger_step.close [of "key si" "key di" "ledger_of pid st" a dl] diff owned a empty dl
    by (simp add: ledger_accts native_def)
qed

lemma sync_step:
  assumes "process_sync_native pid accounts st = Inr st'"
  shows "ledger_step (ledger_of pid st) (ledger_of pid st')"
  using assms
proof (rule process_sync_native_Inr)
  fix ni a r na
  assume owned: "info_owner st ni = pid" and a: "account_unpack (info_data st ni) = Inr a"
    and r: "is_native a = Some r" "checked_sub (info_lamports st ni) r = Some na" "amount a \<le> na"
    and st': "write_account ni (a\<lparr>amount := na\<rparr>) st = Inr st'"
  have "account_is_initialized (a\<lparr>amount := na\<rparr>)"
    using account_unpack_init [OF a] by (simp add: init_upd)
  with ledger_write_account [OF st', of pid] owned
  show ?thesis
    using ledger_step.sync [of "ledger_of pid st" "key ni" a r na] a r by (simp add: ledger_accts)
qed

lemma initialize_mint_step:
  assumes "process_initialize_mint_inner rent accounts dec authority freeze sysvar st = Inr st'"
  shows "ledger_step (ledger_of pid st) (ledger_of pid st')"
  using assms by (rule process_initialize_mint_Inr) (erule (1) set_mint_step; simp)

lemma initialize_multisig_step:
  assumes "process_initialize_multisig_inner rent accounts m sysvar st = Inr st'"
  shows "ledger_of pid st' = ledger_of pid st"
  using assms
proof (rule process_initialize_multisig_Inr)
  fix mi and ms :: Multisig and signer_infos :: "AccountInfo list"
  let ?ms = "ms\<lparr>ms_m := m, ms_n := of_nat (length signer_infos), ms_is_initialized := True,
      ms_signers := map key signer_infos @ drop (length signer_infos) (ms_signers ms)\<rparr>"
  assume "multisig_unpack_unchecked (info_data st mi) = Inr ms"
    and len: "length signer_infos \<le> length (ms_signers ms)"
    and w: "write_multisig mi ?ms st = Inr st'"
  then have "wf_multisig ms"
    using multisig_layout.unpack_pack [of "info_data st mi" ms]
    by (auto simp: multisig_unpack_unchecked_def pack_unpack_unchecked_def split: if_splits)
  with len have "wf_multisig ?ms" by (simp add: wf_multisig_def)
  from ledger_write_multisig [OF w this] show ?thesis .
qed

lemma initialize_account_step:
  assumes "process_initialize_account_inner rent pid accounts wallet sysvar st = Inr st'"
  shows "ledger_step (ledger_of pid st) (ledger_of pid st')"
  using assms
proof (rule process_initialize_account_Inr)
  fix ni mi a a' r
  assume a: "account_unpack_unchecked (info_data st ni) = Inr a" "\<not> account_is_initialized a"
    and init: "account_is_initialized a'" and mint: "mint a' = key mi"
    and fields: "if key mi = native_mint_id
      then is_native a' = Some r \<and> checked_sub (info_lamports st ni) r = Some (amount a')
      else is_native a' = None \<and> amount a' = 0 \<and> info_owner st mi = pid \<and>
        (\<exists>m. mint_unpack (info_data st mi) = Inr m)"
    and st': "write_account ni a' st = Inr st'"
  have new: "accts (ledger_of pid st) (key ni) = None"
    using a by (simp add: ledger_accts account_unpack_def account_unpack_unchecked_def pack_unpack_def)
  show ?thesis
  proof (cases "info_owner st ni = pid")
    case True
    with ledger_write_account [OF st' init, of pid]
    have L: "ledger_of pid st' = (ledger_of pid st)\<lparr>accts := (accts (ledger_of pid st))(key ni := Some a')\<rparr>"
      by simp
    show ?thesis
    proof (cases "key mi = native_mint_id")
      case True
      with fields mint L show ?thesis
        using ledger_step.open_native [OF new, of a' r] by (simp add: checked_sub_Some_iff add.commute)
    next
      case False
      with fields obtain m where "mint_unpack (info_data st mi) = Inr m" by auto
      from mint_unpack_unchecked_of_unpack [OF this] fields mint L False show ?thesis
        using ledger_step.open_account [OF new, of a' m] by (simp add: ledger_mints)
    qed
  qed (use ledger_write_account [OF st' init, of pid] in \<open>simp add: ledger_step.idle\<close>)
qed

lemma approve_step:
  assumes "process_approve pid accounts amt dec st = Inr st'"
  shows "ledger_step (ledger_of pid st) (ledger_of pid st')"
  using assms
  by (rule process_approve_Inr)
    (erule (1) set_account_step; simp add: same_funds_def init_upd)

lemma revoke_step:
  assumes "process_revoke pid accounts st = Inr st'"
  shows "ledger_step (ledger_of pid st) (ledger_of pid st')"
  using assms
  by (rule process_revoke_Inr)
    (erule (1) set_account_step; simp add: same_funds_def init_upd)

lemma toggle_freeze_step:
  assumes "process_toggle_freeze_account pid accounts freeze st = Inr st'"
  shows "ledger_step (ledger_of pid st) (ledger_of pid st')"
  using assms
  by (rule process_toggle_freeze_account_Inr)
    (erule (1) set_account_step; auto simp: same_funds_def account_is_initialized_def)

lemma set_authority_step:
  assumes "process_set_authority pid accounts t na st = Inr st'"
  shows "ledger_step (ledger_of pid st) (ledger_of pid st')"
  using assms
proof (cases rule: process_set_authority_Inr)
  case (account account_info authority_info signers a a')
  with set_account_authority_funds [OF account(4)] show ?thesis
    using init_of_state [of a' a] by (intro set_account_step [OF account(2,5)]) auto
next
  case (mint account_info authority_info signers m m')
  with set_mint_authority_supply [OF mint(3)] mint_unpack_unchecked_of_unpack [OF mint(2)]
  show ?thesis by (intro set_mint_step [OF _ mint(4), of m]) auto
qed

lemmas handler_steps =
  transfer_step mint_to_step burn_step close_step sync_step initialize_mint_step
  initialize_account_step approve_step revoke_step toggle_freeze_step set_authority_step

lemma process_token_instruction_step:
  assumes "process_token_instruction rent pid accounts i st = Inr st'" and "owned_writes pid st st'"
  shows "ledger_step (ledger_of pid st) (ledger_of pid st')"
  using assms
  by (cases i)
    (simp_all add: handler_steps initialize_multisig_step ledger_step.idle
      process_initialize_mint_def process_initialize_mint2_def process_initialize_account_def
      process_initialize_account2_def process_initialize_account3_def
      process_initialize_multisig_def process_initialize_multisig2_def)


section \<open>The invariant of the ledger\<close>

definition worth :: "Pubkey \<Rightarrow> TokenAccount option \<Rightarrow> nat" where
  "worth m v = (case v of Some a \<Rightarrow> if mint a = m then unat (amount a) else 0 | None \<Rightarrow> 0)"

definition circulating :: "ledger \<Rightarrow> Pubkey \<Rightarrow> nat" where
  "circulating L m = (\<Sum>k\<in>UNIV. worth m (accts L k))"

text \<open>
  The supply of a mint is the sum of the balances of its accounts; wrapped lamports are backed
  by the lamports of their account, above the rent reserve.
\<close>

definition account_inv :: "ledger \<Rightarrow> Pubkey \<Rightarrow> TokenAccount \<Rightarrow> bool" where
  "account_inv L k a \<longleftrightarrow>
     (is_native a = None \<longleftrightarrow> mint a \<noteq> native_mint_id) \<and>
     (mint a \<noteq> native_mint_id \<longrightarrow> (\<exists>m. mints L (mint a) = Some m \<and> mint_is_initialized m)) \<and>
     (\<forall>r. is_native a = Some r \<longrightarrow> unat r + unat (amount a) \<le> unat (bal L k))"

definition ledger_inv :: "ledger \<Rightarrow> bool" where
  "ledger_inv L \<longleftrightarrow>
     (\<forall>k a. accts L k = Some a \<longrightarrow> account_inv L k a) \<and>
     (\<forall>k m. mints L k = Some m \<longrightarrow> k \<noteq> native_mint_id \<longrightarrow> unat (mint_supply m) = circulating L k)"

lemma worth_simps [simp]:
  "worth m None = 0" "worth m (Some a) = (if mint a = m then unat (amount a) else 0)"
  by (simp_all add: worth_def)

lemma circulating_upd [simp]:
  "circulating (L\<lparr>mints := ms\<rparr>) m = circulating L m" "circulating (L\<lparr>bal := bs\<rparr>) m = circulating L m"
  by (simp_all add: circulating_def)

lemma circulating_upd1:
  "circulating (L\<lparr>accts := (accts L)(k := v)\<rparr>) m + worth m (accts L k) = circulating L m + worth m v"
  using sum_fun_upd [of UNIV k "\<lambda>x. worth m (accts L x)" "worth m v"]
  by (simp add: circulating_def fun_upd_def if_distrib cong: if_cong)

lemma circulating_upd2:
  assumes "s \<noteq> d"
  shows "circulating (L\<lparr>accts := (accts L)(s := v, d := w)\<rparr>) m +
      worth m (accts L s) + worth m (accts L d) = circulating L m + worth m v + worth m w"
  using circulating_upd1 [of L s v m] circulating_upd1 [of "L\<lparr>accts := (accts L)(s := v)\<rparr>" d w m] assms
  by simp

lemma ledger_invD:
  assumes "ledger_inv L" and "accts L k = Some a"
  shows "account_inv L k a"
  using assms by (simp add: ledger_inv_def)

lemma ledger_inv_supply:
  "ledger_inv L \<Longrightarrow> mints L k = Some m \<Longrightarrow> k \<noteq> native_mint_id \<Longrightarrow> unat (mint_supply m) = circulating L k"
  by (simp add: ledger_inv_def)

lemma account_inv_native:
  "account_inv L k a \<Longrightarrow> is_native a = None \<longleftrightarrow> mint a \<noteq> native_mint_id"
  by (simp add: account_inv_def)

text \<open>
  An account keeps its clause of the invariant when the mints stay initialised and its lamports
  do not fall.
\<close>

lemma account_inv_mono:
  assumes "account_inv L k a"
    and "\<And>m. mints L (mint a) = Some m \<Longrightarrow> mint_is_initialized m \<Longrightarrow>
      \<exists>m'. mints L' (mint a) = Some m' \<and> mint_is_initialized m'"
    and "is_native a \<noteq> None \<Longrightarrow> bal L k \<le> bal L' k"
  shows "account_inv L' k a"
  using assms by (fastforce simp: account_inv_def word_le_nat_alt)

lemma account_inv_funds:
  assumes "account_inv L k a" and "same_funds a a'"
  shows "account_inv L k a'"
  using assms by (simp add: account_inv_def same_funds_def)

lemma ledger_invI:
  assumes "\<And>k a. accts L k = Some a \<Longrightarrow> account_inv L k a"
    and "\<And>k m. mints L k = Some m \<Longrightarrow> k \<noteq> native_mint_id \<Longrightarrow> unat (mint_supply m) = circulating L k"
  shows "ledger_inv L"
  using assms by (simp add: ledger_inv_def)

lemma account_inv_accts [simp]: "account_inv (L\<lparr>accts := f\<rparr>) k a = account_inv L k a"
  by (simp add: account_inv_def)

text \<open>One account is replaced, and its worth in every mint is kept.\<close>

lemma ledger_inv_set_account:
  assumes inv: "ledger_inv L" and a: "account_inv L k a"
    and w: "\<And>m. m \<noteq> native_mint_id \<Longrightarrow> worth m (accts L k) = worth m (Some a)"
  shows "ledger_inv (L\<lparr>accts := (accts L)(k := Some a)\<rparr>)"
proof (rule ledger_invI)
  fix k' m assume "mints (L\<lparr>accts := (accts L)(k := Some a)\<rparr>) k' = Some m" and k': "k' \<noteq> native_mint_id"
  then show "unat (mint_supply m) = circulating (L\<lparr>accts := (accts L)(k := Some a)\<rparr>) k'"
    using ledger_inv_supply [OF inv] circulating_upd1 [of L k "Some a" k'] w [OF k'] by simp
qed (use ledger_invD [OF inv] a in \<open>auto split: if_splits\<close>)

lemma ledger_inv_move:
  assumes inv: "ledger_inv L" and "s \<noteq> d" and a: "accts L s = Some a" and b: "accts L d = Some b"
    and mint: "mint a = mint b" and f: "same_funds a a1" and nat: "is_native a = None"
    and x: "checked_sub (amount a) amt = Some x" and y: "checked_add (amount b) amt = Some y"
  shows "ledger_inv (L\<lparr>accts := (accts L)(s := Some (a1\<lparr>amount := x\<rparr>), d := Some (b\<lparr>amount := y\<rparr>))\<rparr>)"
    (is "ledger_inv ?L'")
proof (rule ledger_invI)
  note ai = ledger_invD [OF inv a] and bi = ledger_invD [OF inv b]
  fix k c assume "accts ?L' k = Some c"
  then show "account_inv ?L' k c"
    using ledger_invD [OF inv] ai bi mint f nat
    by (auto simp: account_inv_def same_funds_def split: if_splits)
next
  fix k m assume "mints ?L' k = Some m" and "k \<noteq> native_mint_id"
  then show "unat (mint_supply m) = circulating ?L' k"
    using ledger_inv_supply [OF inv] assms(2) a b mint f x y
      circulating_upd2 [of s d L "Some (a1\<lparr>amount := x\<rparr>)" "Some (b\<lparr>amount := y\<rparr>)" k]
    by (auto simp: same_funds_def checked_sub_Some_iff checked_add_Some_iff split: if_splits)
qed

lemma ledger_inv_move_native:
  assumes inv: "ledger_inv L" and "s \<noteq> d" and a: "accts L s = Some a" and b: "accts L d = Some b"
    and mint: "mint a = mint b" and f: "same_funds a a1" and nat: "is_native a \<noteq> None"
    and x: "checked_sub (amount a) amt = Some x" and y: "checked_add (amount b) amt = Some y"
    and bs: "checked_sub (bal L s) amt = Some bs" and bd: "checked_add (bal L d) amt = Some bd"
  shows "ledger_inv (L\<lparr>accts := (accts L)(s := Some (a1\<lparr>amount := x\<rparr>), d := Some (b\<lparr>amount := y\<rparr>)),
      bal := (bal L)(s := bs, d := bd)\<rparr>)"
    (is "ledger_inv ?L'")
proof (rule ledger_invI)
  note ai = ledger_invD [OF inv a] and bi = ledger_invD [OF inv b]
  have nat_mint: "mint a = native_mint_id" using account_inv_native [OF ai] nat by auto
  fix k c assume "accts ?L' k = Some c"
  then show "account_inv ?L' k c"
    using ledger_invD [OF inv, of k c] ai bi mint f nat_mint assms(2) x y bs bd
    by (auto simp: account_inv_def same_funds_def checked_sub_Some_iff checked_add_Some_iff
        split: if_splits)
next
  note ai = ledger_invD [OF inv a] and bi = ledger_invD [OF inv b]
  fix k m assume "mints ?L' k = Some m" and "k \<noteq> native_mint_id"
  moreover have "mint a = native_mint_id" using account_inv_native [OF ai] nat by auto
  moreover have "circulating ?L' k =
      circulating (L\<lparr>accts := (accts L)(s := Some (a1\<lparr>amount := x\<rparr>), d := Some (b\<lparr>amount := y\<rparr>))\<rparr>) k"
    by (simp add: circulating_def)
  ultimately show "unat (mint_supply m) = circulating ?L' k"
    using ledger_inv_supply [OF inv] assms(2) a b mint f
      circulating_upd2 [of s d L "Some (a1\<lparr>amount := x\<rparr>)" "Some (b\<lparr>amount := y\<rparr>)" k]
    by (simp add: same_funds_def)
qed

text \<open>Issuing and retiring change the supply and one balance by the same amount.\<close>

lemma ledger_inv_supply_change:
  assumes inv: "ledger_inv L" and a: "accts L k = Some a" and m: "mints L (mint a) = Some m"
    and init: "mint_is_initialized m" "mint_is_initialized m'" and nat: "is_native a = None"
    and f: "mint a' = mint a" "is_native a' = is_native a"
    and change: "unat (amount a) + unat (mint_supply m') = unat (amount a') + unat (mint_supply m)"
  shows "ledger_inv (L\<lparr>accts := (accts L)(k := Some a'), mints := (mints L)(mint a := Some m')\<rparr>)"
    (is "ledger_inv ?L'")
proof (rule ledger_invI)
  fix k' c assume "accts ?L' k' = Some c"
  then have "account_inv L k' c"
    using ledger_invD [OF inv] ledger_invD [OF inv a] f nat
    by (auto simp: account_inv_def split: if_splits)
  then show "account_inv ?L' k' c"
    by (rule account_inv_mono) (use init in auto)
next
  fix k' n assume n: "mints ?L' k' = Some n" and "k' \<noteq> native_mint_id"
  moreover have "circulating ?L' k' = circulating (L\<lparr>accts := (accts L)(k := Some a')\<rparr>) k'"
    by (simp add: circulating_def)
  ultimately show "unat (mint_supply n) = circulating ?L' k'"
    using ledger_inv_supply [OF inv] ledger_inv_supply [OF inv m] a f change
      circulating_upd1 [of L k "Some a'" k']
    by (auto split: if_splits)
qed

lemma ledger_inv_close:
  assumes inv: "ledger_inv L" and "s \<noteq> d" and a: "accts L s = Some a"
    and empty: "is_native a \<noteq> None \<or> amount a = 0"
    and bd: "checked_add (bal L d) (bal L s) = Some bd"
  shows "ledger_inv (L\<lparr>accts := (accts L)(s := None), bal := (bal L)(d := bd, s := 0)\<rparr>)"
    (is "ledger_inv ?L'")
proof (rule ledger_invI)
  fix k c assume c: "accts ?L' k = Some c"
  then have "account_inv L k c" and "k \<noteq> s"
    using ledger_invD [OF inv] by (auto split: if_splits)
  then show "account_inv ?L' k c"
    by (rule_tac account_inv_mono) (use bd in \<open>auto simp: word_le_nat_alt checked_add_Some_iff\<close>)
next
  fix k m assume "mints ?L' k = Some m" and "k \<noteq> native_mint_id"
  moreover have "circulating ?L' k = circulating (L\<lparr>accts := (accts L)(s := None)\<rparr>) k"
    by (simp add: circulating_def)
  ultimately show "unat (mint_supply m) = circulating ?L' k"
    using ledger_inv_supply [OF inv] a empty account_inv_native [OF ledger_invD [OF inv a]]
      circulating_upd1 [of L s None k]
    by (auto split: if_splits)
qed

lemma ledger_inv_step:
  assumes "ledger_step L L'" and inv: "ledger_inv L"
  shows "ledger_inv L'"
  using assms
proof (cases rule: ledger_step.cases)
  case idle
  with inv show ?thesis by simp
next
  case (open_account k a m)
  then show ?thesis unfolding open_account(1)
    by (intro ledger_inv_set_account inv) (auto simp: account_inv_def)
next
  case (open_native k a r)
  then show ?thesis unfolding open_native(1)
    by (intro ledger_inv_set_account inv) (auto simp: account_inv_def)
next
  case (set_account k a a')
  then show ?thesis unfolding set_account(1)
    using account_inv_funds [OF ledger_invD [OF inv set_account(2)]]
    by (intro ledger_inv_set_account inv) (auto simp: same_funds_def)
next
  case (sync k a r x)
  then show ?thesis unfolding sync(1)
    using ledger_invD [OF inv sync(2)]
    by (intro ledger_inv_set_account inv) (auto simp: account_inv_def checked_sub_Some_iff)
next
  case (set_mint k m m')
  show ?thesis unfolding set_mint(1)
  proof (rule ledger_invI)
    fix k' a assume "accts (L\<lparr>mints := (mints L)(k := Some m')\<rparr>) k' = Some a"
    then show "account_inv (L\<lparr>mints := (mints L)(k := Some m')\<rparr>) k' a"
      using set_mint by (intro account_inv_mono [OF ledger_invD [OF inv]]) auto
  qed (use set_mint ledger_inv_supply [OF inv] in \<open>auto split: if_splits\<close>)
next
  case (move s d a b a1 amt x y)
  then show ?thesis using ledger_inv_move [OF inv move(2-5)] by simp
next
  case (move_native s d a b a1 amt x y bs bd)
  then show ?thesis using ledger_inv_move_native [OF inv move_native(2-5)] by simp
next
  case (issue k a m amt x y)
  then show ?thesis unfolding issue(1)
    by (intro ledger_inv_supply_change [OF inv issue(2,3)]) (auto simp: checked_add_Some_iff)
next
  case (retire k a m a1 amt x y)
  then show ?thesis unfolding retire(1)
    by (intro ledger_inv_supply_change [OF inv retire(2,3)])
      (auto simp: checked_sub_Some_iff same_funds_def)
next
  case (close s d a bd)
  then show ?thesis using ledger_inv_close [OF inv close(2-5)] by simp
qed

end
