(* ===== verification/TokenSafety.thy ===== *)
theory TokenSafety
  imports TokenLedger
begin

text \<open>
  What one instruction of the token program may do to the data of one address, and the
  properties of the program that follow: authorisation of debits, frozen accounts, fixed
  supplies, conservation of tokens and of lamports.
\<close>

section \<open>The effect of an instruction on one address\<close>

text \<open>Some account among the views of the instruction was validated as the authority \<open>k\<close>.\<close>

definition signed_by :: "Pubkey \<Rightarrow> AccountInfo list \<Rightarrow> store \<Rightarrow> Pubkey \<Rightarrow> bool" where
  "signed_by pid accounts st k \<longleftrightarrow>
     (\<exists>ai signers. ai \<in> set accounts \<and> set signers \<subseteq> set accounts \<and> authorized pid k ai signers st)"

text \<open>Who may close an account: its close authority, or its owner when it has none.\<close>

definition closing_authority :: "TokenAccount \<Rightarrow> Pubkey" where
  "closing_authority a = (case close_authority a of Some k \<Rightarrow> k | None \<Rightarrow> tok_owner a)"

inductive data_effect ::
  "Pubkey \<Rightarrow> AccountInfo list \<Rightarrow> store \<Rightarrow> TokenInstruction \<Rightarrow> bytes \<Rightarrow> bytes \<Rightarrow> bool"
  for pid accounts st i where
  same: "data_effect pid accounts st i bs bs"
| debit:
    "account_unpack bs = Inr a \<Longrightarrow> account_unpack bs' = Inr a' \<Longrightarrow> \<not> is_frozen a \<Longrightarrow>
     mint a' = mint a \<Longrightarrow> unat (amount a) = unat (amount a') + unat amt \<Longrightarrow>
     signed_by pid accounts st (tok_owner a) \<or>
     (\<exists>d. delegate a = Some d \<and> signed_by pid accounts st d \<and> amt \<le> delegated_amount a) \<Longrightarrow>
     data_effect pid accounts st i bs bs'"
| credit:
    "account_unpack bs = Inr a \<Longrightarrow> account_unpack bs' = Inr a' \<Longrightarrow> \<not> is_frozen a \<Longrightarrow>
     mint a' = mint a \<Longrightarrow> amount a \<le> amount a' \<Longrightarrow>
     data_effect pid accounts st i bs bs'"
| adjust:
    "account_unpack bs = Inr a \<Longrightarrow> account_unpack bs' = Inr a' \<Longrightarrow> \<not> is_frozen a \<Longrightarrow> same_funds a a' \<Longrightarrow>
     data_effect pid accounts st i bs bs'"
| toggle:
    "account_unpack bs = Inr a \<Longrightarrow> account_unpack bs' = Inr a' \<Longrightarrow> same_funds a a' \<Longrightarrow>
     (is_frozen a \<longrightarrow> i = ThawAccount) \<Longrightarrow>
     data_effect pid accounts st i bs bs'"
| sync:
    "i = SyncNative \<Longrightarrow> account_unpack bs = Inr a \<Longrightarrow> account_unpack bs' = Inr a' \<Longrightarrow> native a \<Longrightarrow>
     a' = a\<lparr>amount := n\<rparr> \<Longrightarrow> amount a \<le> n \<Longrightarrow> data_effect pid accounts st i bs bs'"
| closed:
    "i = CloseAccount \<Longrightarrow> account_unpack bs = Inr a \<Longrightarrow> native a \<or> amount a = 0 \<Longrightarrow>
     signed_by pid accounts st (closing_authority a) \<Longrightarrow>
     data_effect pid accounts st i bs (replicate TokenAccount_LEN 0)"
| opened:
    "ok (account_unpack bs) = None \<Longrightarrow> ok (mint_unpack bs) = None \<Longrightarrow>
     data_effect pid accounts st i bs bs'"
| mint_adjust:
    "mint_unpack bs = Inr m \<Longrightarrow> mint_unpack bs' = Inr m' \<Longrightarrow> decimals m' = decimals m \<Longrightarrow>
     (mint_authority m = None \<longrightarrow> mint_authority m' = None \<and> mint_supply m' \<le> mint_supply m) \<Longrightarrow>
     (freeze_authority m = None \<longrightarrow> freeze_authority m' = None) \<Longrightarrow>
     data_effect pid accounts st i bs bs'"

lemma write_account_effect:
  assumes "write_account ai v st1 = Inr st2" and "account_is_initialized v"
    and "\<And>bs'. account_unpack bs' = Inr v \<Longrightarrow> data_effect pid accounts st i (data (st1 (key ai))) bs'"
  shows "data_effect pid accounts st i (data (st1 k)) (data (st2 k))"
  using assms write_account_frame(3,4) [OF assms(1)] by (cases "k = key ai") (auto intro: data_effect.same)

lemma write_mint_effect:
  assumes "write_mint ai v st1 = Inr st2" and "mint_is_initialized v"
    and "\<And>bs'. mint_unpack bs' = Inr v \<Longrightarrow> data_effect pid accounts st i (data (st1 (key ai))) bs'"
  shows "data_effect pid accounts st i (data (st1 k)) (data (st2 k))"
  using assms write_mint_Inr [OF assms(1)]
  by (cases "k = key ai") (auto simp: store_apply intro: data_effect.same)

lemma signed_byI:
  "authorized pid k ai signers st \<Longrightarrow> ai \<in> set accounts \<Longrightarrow> set signers \<subseteq> set accounts \<Longrightarrow>
     signed_by pid accounts st k"
  by (auto simp: signed_by_def)

lemma unpack_disjoint:
  "account_unpack bs = Inr a \<Longrightarrow> mint_unpack bs \<noteq> Inr m"
  by (auto simp: unpack_iff layout_lengths)

lemma account_unpack_zero_neq [simp]: "account_unpack (replicate TokenAccount_LEN 0) \<noteq> Inr a"
  using account_unpack_zero by auto

abbreviation effect_at ::
  "Pubkey \<Rightarrow> AccountInfo list \<Rightarrow> TokenInstruction \<Rightarrow> store \<Rightarrow> store \<Rightarrow> bool" where
  "effect_at pid accounts i st st' \<equiv> \<forall>k. data_effect pid accounts st i (data (st k)) (data (st' k))"

lemma debit_effect:
  assumes "account_unpack bs = Inr a" and "account_unpack bs' = Inr (a'\<lparr>amount := x\<rparr>)"
    and "\<not> is_frozen a" and auth: "authorize_debit pid self ai signers amt a st = Inr a'"
    and "checked_sub (amount a') amt = Some x"
    and "ai \<in> set accounts" and "set signers \<subseteq> set accounts"
  shows "data_effect pid accounts st i bs bs'"
proof (rule data_effect.debit [OF assms(1,2,3), where amt = amt])
  show "mint (a'\<lparr>amount := x\<rparr>) = mint a"
    using authorize_debit_Inr(1) [OF auth] by (simp add: same_funds_def)
  show "unat (amount a) = unat (amount (a'\<lparr>amount := x\<rparr>)) + unat amt"
    using authorize_debit_Inr(1) [OF auth] assms(5) by (simp add: same_funds_def checked_sub_Some_iff)
  show "signed_by pid accounts st (tok_owner a) \<or>
      (\<exists>d. delegate a = Some d \<and> signed_by pid accounts st d \<and> amt \<le> delegated_amount a)"
    using authorize_debit_Inr(2) [OF auth] assms(6,7) signed_byI by blast
qed

lemma credit_effect:
  assumes "account_unpack bs = Inr a" and "account_unpack bs' = Inr (a\<lparr>amount := x\<rparr>)"
    and "\<not> is_frozen a" and "checked_add (amount a) amt = Some x"
  shows "data_effect pid accounts st i bs bs'"
  using assms(4)
  by (intro data_effect.credit [OF assms(1-3)]) (simp_all add: checked_add_Some_iff word_le_nat_alt)

lemma transfer_effect:
  assumes "process_transfer pid accounts amt dec st = Inr st'"
  shows "effect_at pid accounts i st st'"
  using assms
proof (rule process_transfer_Inr)
  fix si di ai signers a b a'
  assume sub: "{si, di, ai} \<union> set signers \<subseteq> set accounts"
    and a: "account_unpack (info_data st si) = Inr a" "\<not> is_frozen a"
    and b: "account_unpack (info_data st di) = Inr b" "\<not> is_frozen b"
    and auth: "authorize_debit pid (key si = key di) ai signers amt a st = Inr a'"
    and self: "key si = key di \<Longrightarrow> st' = st"
    and upd: "key si \<noteq> key di \<Longrightarrow> \<exists>sa da st1 st2.
      checked_sub (amount a') amt = Some sa \<and> checked_add (amount b) amt = Some da \<and>
      (if native a' then move_lamports si di amt st else Inr st) = Inr st1 \<and>
      write_account si (a'\<lparr>amount := sa\<rparr>) st1 = Inr st2 \<and>
      write_account di (b\<lparr>amount := da\<rparr>) st2 = Inr st'"
  show ?thesis
  proof (cases "key si = key di")
    case True
    with self show ?thesis by (simp add: data_effect.same)
  next
    case False
    from upd [OF False] obtain sa da st1 st2 where
      sa: "checked_sub (amount a') amt = Some sa" and da: "checked_add (amount b) amt = Some da"
      and st1: "(if native a' then move_lamports si di amt st else Inr st) = Inr st1"
      and st2: "write_account si (a'\<lparr>amount := sa\<rparr>) st1 = Inr st2"
      and st': "write_account di (b\<lparr>amount := da\<rparr>) st2 = Inr st'" by blast
    have init: "account_is_initialized (a'\<lparr>amount := sa\<rparr>)" "account_is_initialized (b\<lparr>amount := da\<rparr>)"
      using account_unpack_init [OF a(1)] account_unpack_init [OF b(1)] authorize_debit_Inr(1) [OF auth]
        init_of_state [of a' a] by (simp_all add: init_upd)
    have same: "data (st1 k) = data (st k)" for k
      using st1 move_lamports_frame by (auto split: if_splits)
    have si: "data_effect pid accounts st i (data (st (key si))) (data (st2 (key si)))"
      using write_account_frame(4) [OF st2 init(1)] sub sa a auth by (auto intro!: debit_effect)
    have di: "data_effect pid accounts st i (data (st (key di))) (data (st' (key di)))"
      using write_account_frame(4) [OF st' init(2)] da b by (auto intro!: credit_effect)
    show ?thesis
      using write_account_frame(3) [OF st'] write_account_frame(3) [OF st2] same si di False
        data_effect.same by metis
  qed
qed

lemma mint_to_effect:
  assumes "process_mint_to pid accounts amt dec st = Inr st'"
  shows "effect_at pid accounts i st st'"
  using assms
proof (rule process_mint_to_Inr)
  fix mi di oi signers a m k da ns st1
  assume a: "account_unpack (info_data st di) = Inr a" "\<not> is_frozen a"
    and m: "mint_unpack (info_data st mi) = Inr m" and auth: "mint_authority m = Some k"
    and da: "checked_add (amount a) amt = Some da"
    and st1: "write_account di (a\<lparr>amount := da\<rparr>) st = Inr st1"
    and st': "write_mint mi (m\<lparr>mint_supply := ns\<rparr>) st1 = Inr st'"
  have diff: "key mi \<noteq> key di" using a m unpack_disjoint by metis
  have init: "account_is_initialized (a\<lparr>amount := da\<rparr>)"
    using account_unpack_init [OF a(1)] by (simp add: init_upd)
  have di: "data_effect pid accounts st i (data (st (key di))) (data (st1 (key di)))"
    using write_account_frame(4) [OF st1 init] da a by (auto intro!: credit_effect)
  have "data_effect pid accounts st i (data (st1 k)) (data (st' k))" for k
    using m auth diff write_account_frame(3) [OF st1]
    by (intro write_mint_effect [OF st']) (auto simp: mint_unpack_init intro: data_effect.mint_adjust)
  then show ?thesis
    using di diff write_account_frame(3) [OF st1] write_mint_frame(3) [OF st'] by metis
qed

lemma burn_effect:
  assumes "process_burn pid accounts amt dec st = Inr st'"
  shows "effect_at pid accounts i st st'"
  using assms
proof (rule process_burn_Inr)
  fix si mi ai signers a a' m sa ns st1
  assume sub: "{si, mi, ai} \<union> set signers \<subseteq> set accounts"
    and a: "account_unpack (info_data st si) = Inr a" "\<not> is_frozen a"
    and m: "mint_unpack (info_data st mi) = Inr m"
    and auth: "authorize_debit pid False ai signers amt a st = Inr a'"
    and sa: "checked_sub (amount a') amt = Some sa" and ns: "checked_sub (mint_supply m) amt = Some ns"
    and st1: "write_account si (a'\<lparr>amount := sa\<rparr>) st = Inr st1"
    and st': "write_mint mi (m\<lparr>mint_supply := ns\<rparr>) st1 = Inr st'"
  have diff: "key mi \<noteq> key si" using a m unpack_disjoint by metis
  have init: "account_is_initialized (a'\<lparr>amount := sa\<rparr>)"
    using account_unpack_init [OF a(1)] authorize_debit_Inr(1) [OF auth] init_of_state [of a' a]
    by (simp add: init_upd)
  have si: "data_effect pid accounts st i (data (st (key si))) (data (st1 (key si)))"
    using write_account_frame(4) [OF st1 init] sub sa a auth by (auto intro!: debit_effect)
  have "data_effect pid accounts st i (data (st1 k)) (data (st' k))" for k
    using m ns diff write_account_frame(3) [OF st1]
    by (intro write_mint_effect [OF st'])
      (auto simp: mint_unpack_init checked_sub_Some_iff word_le_nat_alt intro: data_effect.mint_adjust)
  then show ?thesis
    using si diff write_account_frame(3) [OF st1] write_mint_frame(3) [OF st'] by metis
qed

text \<open>Handlers that write one account or one mint.\<close>

lemma adjust_effect:
  assumes "account_unpack (info_data st ai) = Inr a" and "\<not> is_frozen a" and "same_funds a a'"
    and "account_is_initialized a \<Longrightarrow> account_is_initialized a'" and "write_account ai a' st = Inr st'"
  shows "effect_at pid accounts i st st'"
  using assms account_unpack_init [OF assms(1)]
  by (auto intro!: write_account_effect [OF assms(5)] intro: data_effect.adjust [OF assms(1)])

lemma approve_effect:
  "process_approve pid accounts amt dec st = Inr st' \<Longrightarrow> effect_at pid accounts i st st'"
  by (erule process_approve_Inr) (erule (1) adjust_effect; simp add: same_funds_def init_upd)

lemma revoke_effect:
  "process_revoke pid accounts st = Inr st' \<Longrightarrow> effect_at pid accounts i st st'"
  by (erule process_revoke_Inr) (erule (1) adjust_effect; simp add: same_funds_def init_upd)

lemma set_authority_effect:
  assumes "process_set_authority pid accounts t na st = Inr st'"
  shows "effect_at pid accounts i st st'"
  using assms
proof (cases rule: process_set_authority_Inr)
  case (account account_info authority_info signers a a')
  with set_account_authority_funds [OF account(4)] show ?thesis
    using init_of_state [of a' a] by (intro adjust_effect [OF account(2,3) _ _ account(5)]) auto
next
  case (mint account_info authority_info signers m m')
  note s = set_mint_authority_supply [OF mint(3)]
  have "data_effect pid accounts st i (info_data st account_info) bs'" if "mint_unpack bs' = Inr m'" for bs'
    using s by (intro data_effect.mint_adjust [OF mint(2) that]) auto
  then show ?thesis
    using s mint_unpack_init [OF mint(2)] by (auto intro!: write_mint_effect [OF mint(4)])
qed

lemma toggle_freeze_effect:
  assumes "process_toggle_freeze_account pid accounts freeze st = Inr st'"
    and "i = (if freeze then FreezeAccount else ThawAccount)"
  shows "effect_at pid accounts i st st'"
  using assms(1)
proof (rule process_toggle_freeze_account_Inr)
  fix si and a :: TokenAccount
  let ?a' = "a\<lparr>state := if freeze then AccountState.Frozen else AccountState.Initialized\<rparr>"
  assume a: "account_unpack (info_data st si) = Inr a" "is_frozen a \<longleftrightarrow> \<not> freeze"
    and st': "write_account si ?a' st = Inr st'"
  have "data_effect pid accounts st i (info_data st si) bs'" if "account_unpack bs' = Inr ?a'" for bs'
    using a(2) assms(2) by (intro data_effect.toggle [OF a(1) that]) (auto simp: same_funds_def)
  then show ?thesis
    by (auto intro!: write_account_effect [OF st'] simp: account_is_initialized_def)
qed

lemma sync_effect:
  assumes "process_sync_native pid accounts st = Inr st'"
  shows "effect_at pid accounts SyncNative st st'"
  using assms
proof (rule process_sync_native_Inr)
  fix ni a r na
  assume a: "account_unpack (info_data st ni) = Inr a" and r: "is_native a = Some r" "amount a \<le> na"
    and st': "write_account ni (a\<lparr>amount := na\<rparr>) st = Inr st'"
  have "data_effect pid accounts st SyncNative (info_data st ni) bs'"
    if "account_unpack bs' = Inr (a\<lparr>amount := na\<rparr>)" for bs'
    using r by (intro data_effect.sync [OF refl a that]) (auto simp: native_def)
  then show ?thesis
    using account_unpack_init [OF a] by (auto intro!: write_account_effect [OF st'] simp: init_upd)
qed

lemma close_effect:
  assumes "process_close_account pid accounts st = Inr st'"
  shows "effect_at pid accounts CloseAccount st st'"
  using assms
proof (rule process_close_account_Inr)
  fix si di ai signers a dl
  assume sub: "{si, di, ai} \<union> set signers \<subseteq> set accounts"
    and a: "account_unpack (info_data st si) = Inr a" "native a \<or> amount a = 0"
    and auth: "validate_owner pid (case close_authority a of Some k \<Rightarrow> k | None \<Rightarrow> tok_owner a) ai signers st = Inr ()"
    and st': "st' = set_info_data si (replicate TokenAccount_LEN 0)
      (set_info_lamports si 0 (set_info_lamports di dl st))"
  have "signed_by pid accounts st (closing_authority a)"
    using validate_owner_authorized [OF auth] sub unfolding closing_authority_def by (auto intro: signed_byI)
  with a st' show ?thesis by (auto simp: store_apply intro: data_effect.same data_effect.closed)
qed

lemma opened_effect:
  assumes "ok (account_unpack (info_data st ai)) = None" and "ok (mint_unpack (info_data st ai)) = None"
    and "st' = set_info_data ai bs st"
  shows "effect_at pid accounts i st st'"
  using assms by (auto simp: store_apply intro: data_effect.same data_effect.opened)

lemma unpack_other_layout:
  "length bs = Mint_LEN \<Longrightarrow> ok (account_unpack bs) = None"
  "length bs = TokenAccount_LEN \<Longrightarrow> ok (mint_unpack bs) = None"
  "length bs = Multisig_LEN \<Longrightarrow> ok (account_unpack bs) = None \<and> ok (mint_unpack bs) = None"
  by (simp_all add: account_unpack_def mint_unpack_def pack_unpack_def pack_unpack_unchecked_def
      layout_lengths)

lemma initialize_mint_effect:
  assumes "process_initialize_mint_inner rent accounts dec authority freeze sysvar st = Inr st'"
  shows "effect_at pid accounts i st st'"
  using assms
proof (rule process_initialize_mint_Inr)
  fix mi m m'
  assume m: "mint_unpack_unchecked (info_data st mi) = Inr m" "\<not> mint_is_initialized m"
    and st': "write_mint mi m' st = Inr st'"
  from write_mint_Inr [OF st'] obtain bs where "st' = set_info_data mi bs st"
    and "length (info_data st mi) = Mint_LEN" by auto
  moreover have "ok (mint_unpack (info_data st mi)) = None"
    using m by (simp add: mint_unpack_def mint_unpack_unchecked_def pack_unpack_def)
  ultimately show ?thesis by (intro opened_effect) (auto simp: unpack_other_layout)
qed

lemma initialize_account_effect:
  assumes "process_initialize_account_inner rent pid accounts wallet sysvar st = Inr st'"
  shows "effect_at pid accounts i st st'"
  using assms
proof (rule process_initialize_account_Inr)
  fix ni a a'
  assume a: "account_unpack_unchecked (info_data st ni) = Inr a" "\<not> account_is_initialized a"
    and st': "write_account ni a' st = Inr st'"
  from write_account_Inr [OF st'] obtain bs where "st' = set_info_data ni bs st"
    and "length (info_data st ni) = TokenAccount_LEN" by auto
  moreover have "ok (account_unpack (info_data st ni)) = None"
    using a by (simp add: account_unpack_def account_unpack_unchecked_def pack_unpack_def)
  ultimately show ?thesis by (intro opened_effect) (auto simp: unpack_other_layout)
qed

lemma initialize_multisig_effect:
  assumes "process_initialize_multisig_inner rent accounts m sysvar st = Inr st'"
  shows "effect_at pid accounts i st st'"
  using assms
proof (rule process_initialize_multisig_Inr)
  fix mi and ms ms' :: Multisig
  assume ms: "multisig_unpack_unchecked (info_data st mi) = Inr ms"
    and st': "write_multisig mi ms' st = Inr st'"
  have "length (info_data st mi) = Multisig_LEN"
    using ms by (auto simp: multisig_unpack_unchecked_def pack_unpack_unchecked_def split: if_splits)
  moreover obtain bs where "st' = set_info_data mi bs st"
    using st' by (auto simp: write_multisig_def res_simps)
  ultimately show ?thesis by (intro opened_effect) (auto simp: unpack_other_layout)
qed

lemmas handler_effects =
  transfer_effect mint_to_effect burn_effect approve_effect revoke_effect set_authority_effect
  toggle_freeze_effect sync_effect close_effect initialize_mint_effect initialize_account_effect
  initialize_multisig_effect

lemma process_token_instruction_effect:
  assumes "process_token_instruction rent pid accounts i st = Inr st'"
  shows "data_effect pid accounts st i (data (st k)) (data (st' k))"
  using assms
  by (cases i)
    (simp_all add: handler_effects
      process_initialize_mint_def process_initialize_mint2_def process_initialize_account_def
      process_initialize_account2_def process_initialize_account3_def
      process_initialize_multisig_def process_initialize_multisig2_def)


section \<open>Handlers that succeed\<close>

lemma write_account_succeeds:
  assumes "account_unpack (info_data st ai) = Inr a" and "account_is_initialized v"
  shows "\<exists>st'. write_account ai v st = Inr st' \<and> account_unpack (info_data st' ai) = Inr v \<and>
    (\<forall>k. k \<noteq> key ai \<longrightarrow> st' k = st k)"
proof -
  have "length (info_data st ai) = TokenAccount_LEN" using assms(1) by (simp add: unpack_iff)
  then obtain bs where "account_pack v (info_data st ai) = Inr bs"
    using account_layout.pack_Inr [where v = v and dst = "info_data st ai"]
    unfolding account_pack_def by metis
  then have w: "write_account ai v st = Inr (set_info_data ai bs st)" by (simp add: write_account_def)
  show ?thesis using write_account_frame [OF w] w assms(2) by blast
qed

text \<open>
  The conditions of a transfer between two different accounts, and what it leaves of the source:
  a delegate spends its allowance and is dropped when nothing of it is left.
\<close>

definition transfer_accounts ::
  "u8 option \<Rightarrow> AccountInfo \<Rightarrow> AccountInfo \<Rightarrow> AccountInfo \<Rightarrow> AccountInfo \<Rightarrow> AccountInfo list \<Rightarrow> AccountInfo list" where
  "transfer_accounts dec si mi di ai signers =
     (case dec of None \<Rightarrow> si # di # ai # signers | Some _ \<Rightarrow> si # mi # di # ai # signers)"

definition mint_expected :: "u8 option \<Rightarrow> AccountInfo \<Rightarrow> TokenAccount \<Rightarrow> store \<Rightarrow> bool" where
  "mint_expected dec mi a st =
     (case dec of None \<Rightarrow> True
      | Some n \<Rightarrow> key mi = mint a \<and>
          (case mint_unpack (info_data st mi) of Inr m \<Rightarrow> decimals m = n | Inl _ \<Rightarrow> False))"

definition may_spend ::
  "Pubkey \<Rightarrow> AccountInfo \<Rightarrow> AccountInfo list \<Rightarrow> u64 \<Rightarrow> TokenAccount \<Rightarrow> store \<Rightarrow> bool" where
  "may_spend pid ai signers amt a st \<longleftrightarrow>
     (if delegate a = Some (key ai)
      then validate_owner pid (key ai) ai signers st = Inr () \<and> amt \<le> delegated_amount a
      else validate_owner pid (tok_owner a) ai signers st = Inr ())"

definition spend_allowance :: "Pubkey \<Rightarrow> u64 \<Rightarrow> TokenAccount \<Rightarrow> TokenAccount" where
  "spend_allowance k amt a =
     (if delegate a = Some k
      then a\<lparr>delegated_amount := delegated_amount a - amt,
              delegate := (if delegated_amount a = amt then None else Some k)\<rparr>
      else a)"

definition transfer_admissible ::
  "Pubkey \<Rightarrow> u8 option \<Rightarrow> AccountInfo \<Rightarrow> AccountInfo \<Rightarrow> AccountInfo \<Rightarrow> AccountInfo \<Rightarrow> AccountInfo list \<Rightarrow>
     u64 \<Rightarrow> TokenAccount \<Rightarrow> TokenAccount \<Rightarrow> store \<Rightarrow> bool" where
  "transfer_admissible pid dec si mi di ai signers amt a b st \<longleftrightarrow>
     \<not> is_frozen a \<and> \<not> is_frozen b \<and> mint a = mint b \<and> mint_expected dec mi a st \<and>
     amt \<le> amount a \<and> unat (amount b) + unat amt < 2 ^ 64 \<and> may_spend pid ai signers amt a st \<and>
     (amt = 0 \<longrightarrow> info_owner st si = pid \<and> info_owner st di = pid) \<and>
     (native a \<longrightarrow> amt \<le> info_lamports st si \<and> unat (info_lamports st di) + unat amt < 2 ^ 64)"

lemma authorize_debit_may_spend:
  "authorize_debit pid False ai signers amt a st = Inr a' \<longleftrightarrow>
     may_spend pid ai signers amt a st \<and> a' = spend_allowance (key ai) amt a"
  by (cases "delegate a")
    (auto simp: authorize_debit_def may_spend_def spend_allowance_def res_simps checked_sub_def not_less)

lemma check_expected_mint_iff:
  "(\<exists>em. next_expected_mint dec (tl (transfer_accounts dec si mi di ai signers)) = Inr (em, di # ai # signers) \<and>
      check_expected_mint em a st = Inr ()) \<longleftrightarrow> mint_expected dec mi a st"
  by (cases dec)
    (auto simp: next_expected_mint_def check_expected_mint_def mint_expected_def transfer_accounts_def res_simps
      cmp_pubkeys_def split: sum.splits)

lemma spend_allowance_simps [simp]:
  "amount (spend_allowance k amt a) = amount a" "is_native (spend_allowance k amt a) = is_native a"
  "state (spend_allowance k amt a) = state a" "native (spend_allowance k amt a) = native a"
  by (simp_all add: spend_allowance_def native_def)

lemma move_lamports_iff:
  assumes "key si \<noteq> key di"
  shows "move_lamports si di amt st = Inr st' \<longleftrightarrow>
    amt \<le> info_lamports st si \<and> unat (info_lamports st di) + unat amt < 2 ^ 64 \<and>
    st' = set_info_lamports di (info_lamports st di + amt) (set_info_lamports si (info_lamports st si - amt) st)"
  using assms
  by (auto simp: move_lamports_def res_simps checked_sub_def checked_add_def Let_def store_apply)

lemma process_transfer_iff:
  assumes "account_unpack (info_data st si) = Inr a" and "account_unpack (info_data st di) = Inr b"
    and "key si \<noteq> key di"
  shows "process_transfer pid (transfer_accounts dec si mi di ai signers) amt dec st = Inr st' \<longleftrightarrow>
    \<not> is_frozen a \<and> \<not> is_frozen b \<and> mint a = mint b \<and> mint_expected dec mi a st \<and>
    amt \<le> amount a \<and> unat (amount b) + unat amt < 2 ^ 64 \<and> may_spend pid ai signers amt a st \<and>
    (amt = 0 \<longrightarrow> info_owner st si = pid \<and> info_owner st di = pid) \<and>
    (\<exists>st1 st2. (if native a then move_lamports si di amt st else Inr st) = Inr st1 \<and>
       write_account si ((spend_allowance (key ai) amt a)\<lparr>amount := amount a - amt\<rparr>) st1 = Inr st2 \<and>
       write_account di (b\<lparr>amount := amount b + amt\<rparr>) st2 = Inr st')"
  using assms check_expected_mint_iff [of dec si mi di ai signers a st]
  by (cases dec)
    (auto simp: process_transfer_def transfer_accounts_def next_expected_mint_def res_simps Let_def
      authorize_debit_may_spend checked_sub_def checked_add_def check_account_owner_def not_less)

text \<open>The lamports that a transfer leaves at an address, and the whole effect of it.\<close>

definition lamports_after :: "AccountInfo \<Rightarrow> AccountInfo \<Rightarrow> u64 \<Rightarrow> TokenAccount \<Rightarrow> store \<Rightarrow> Pubkey \<Rightarrow> u64" where
  "lamports_after si di amt a st k =
     (if \<not> native a then lamports (st k)
      else if k = key si then lamports (st k) - amt
      else if k = key di then lamports (st k) + amt
      else lamports (st k))"

definition transferred ::
  "AccountInfo \<Rightarrow> AccountInfo \<Rightarrow> AccountInfo \<Rightarrow> u64 \<Rightarrow> TokenAccount \<Rightarrow> TokenAccount \<Rightarrow> store \<Rightarrow> store \<Rightarrow> bool" where
  "transferred si di ai amt a b st st' \<longleftrightarrow>
     account_unpack (info_data st' si) = Inr ((spend_allowance (key ai) amt a)\<lparr>amount := amount a - amt\<rparr>) \<and>
     account_unpack (info_data st' di) = Inr (b\<lparr>amount := amount b + amt\<rparr>) \<and>
     (\<forall>k. owner (st' k) = owner (st k) \<and> lamports (st' k) = lamports_after si di amt a st k) \<and>
     (\<forall>k. k \<noteq> key si \<longrightarrow> k \<noteq> key di \<longrightarrow> st' k = st k)"

lemma transfer_writes:
  assumes a: "account_unpack (info_data st si) = Inr a" and b: "account_unpack (info_data st di) = Inr b"
    and diff: "key si \<noteq> key di"
    and m: "(if native a then move_lamports si di amt st else Inr st) = Inr st1"
  shows "\<exists>st2 st'. write_account si ((spend_allowance (key ai) amt a)\<lparr>amount := amount a - amt\<rparr>) st1 = Inr st2 \<and>
    write_account di (b\<lparr>amount := amount b + amt\<rparr>) st2 = Inr st' \<and> transferred si di ai amt a b st st'"
proof -
  let ?a = "(spend_allowance (key ai) amt a)\<lparr>amount := amount a - amt\<rparr>" and ?b = "b\<lparr>amount := amount b + amt\<rparr>"
  have init: "account_is_initialized ?a" "account_is_initialized ?b"
    using account_unpack_init [OF a] account_unpack_init [OF b] init_of_state [of "spend_allowance (key ai) amt a" a]
    by (simp_all add: init_upd)
  have st1: "owner (st1 k) = owner (st k)" "data (st1 k) = data (st k)" "lamports (st1 k) = lamports_after si di amt a st k"
    "k \<noteq> key si \<Longrightarrow> k \<noteq> key di \<Longrightarrow> st1 k = st k" for k
    using m diff by (auto simp: move_lamports_iff lamports_after_def store_apply split: if_splits)
  obtain st2 where st2: "write_account si ?a st1 = Inr st2" "account_unpack (info_data st2 si) = Inr ?a"
    "\<forall>k. k \<noteq> key si \<longrightarrow> st2 k = st1 k"
    using write_account_succeeds [of st1 si a ?a] a init(1) st1(2) by auto
  obtain st' where st': "write_account di ?b st2 = Inr st'" "account_unpack (info_data st' di) = Inr ?b"
    "\<forall>k. k \<noteq> key di \<longrightarrow> st' k = st2 k"
    using write_account_succeeds [of st2 di b ?b] b init(2) st1(2) st2(3) diff by auto
  have "transferred si di ai amt a b st st'"
    using st1 st2 st' diff write_account_frame(1,2) [OF st2(1)] write_account_frame(1,2) [OF st'(1)]
    by (simp add: transferred_def)
  with st2(1) st'(1) show ?thesis by blast
qed

lemma transfer_exact:
  assumes a: "account_unpack (info_data st si) = Inr a" and b: "account_unpack (info_data st di) = Inr b"
    and diff: "key si \<noteq> key di"
    and r_def: "r = process_transfer pid (transfer_accounts dec si mi di ai signers) amt dec st"
  shows "transfer_admissible pid dec si mi di ai signers amt a b st \<Longrightarrow>
      \<exists>st'. r = Inr st' \<and> transferred si di ai amt a b st st'"
    and "r = Inr st' \<Longrightarrow> transfer_admissible pid dec si mi di ai signers amt a b st"
proof -
  assume adm: "transfer_admissible pid dec si mi di ai signers amt a b st"
  then obtain st1 where m: "(if native a then move_lamports si di amt st else Inr st) = Inr st1"
    using diff by (cases "native a") (auto simp: transfer_admissible_def move_lamports_iff)
  from transfer_writes [OF a b diff m, of ai] m adm show "\<exists>st'. r = Inr st' \<and> transferred si di ai amt a b st st'"
    unfolding r_def process_transfer_iff [OF a b diff] transfer_admissible_def by metis
next
  assume "r = Inr st'"
  then show "transfer_admissible pid dec si mi di ai signers amt a b st"
    unfolding r_def process_transfer_iff [OF a b diff]
    by (auto simp: transfer_admissible_def move_lamports_iff [OF diff] split: if_splits)
qed


section \<open>Lamports\<close>

lemma sum_unat_upd1:
  fixes g :: "Pubkey \<Rightarrow> u64"
  shows "(\<Sum>k\<in>UNIV. unat ((g(s := v)) k)) + unat (g s) = (\<Sum>k\<in>UNIV. unat (g k)) + unat v"
proof -
  have "(\<Sum>k\<in>UNIV. unat ((g(s := v)) k)) = (\<Sum>k\<in>UNIV. ((\<lambda>k. unat (g k))(s := unat v)) k)"
    by (rule sum.cong) auto
  then show ?thesis using sum_fun_upd [of UNIV s "\<lambda>k. unat (g k)" "unat v"] by simp
qed

lemma sum_unat_upd2:
  fixes g :: "Pubkey \<Rightarrow> u64"
  assumes "s \<noteq> d"
  shows "(\<Sum>k\<in>UNIV. unat ((g(s := v, d := w)) k)) + unat (g s) + unat (g d) =
    (\<Sum>k\<in>UNIV. unat (g k)) + unat v + unat w"
  using sum_unat_upd1 [of g s v] sum_unat_upd1 [of "g(s := v)" d w]
  unfolding fun_upd_other [OF assms [symmetric]] by linarith

lemma ledger_step_lamports:
  assumes "ledger_step L L'"
  shows "(\<Sum>k\<in>UNIV. unat (bal L' k)) = (\<Sum>k\<in>UNIV. unat (bal L k))"
  using assms
proof (cases rule: ledger_step.cases)
  case (move_native s d a b a1 amt x y bs bd)
  then show ?thesis
    using sum_unat_upd2 [of s d "bal L" bs bd] by (simp add: checked_sub_Some_iff checked_add_Some_iff)
next
  case (close s d a bd)
  then show ?thesis
    using sum_unat_upd2 [of d s "bal L" bd 0] by (simp add: checked_add_Some_iff)
qed simp_all


section \<open>A concrete ledger\<close>

text \<open>
  Three accounts of one mint: address 1 holds all 100 tokens and belongs to the wallet 7, address
  2 is empty and belongs to the wallet 8, address 3 is empty and frozen. The mint is address 5;
  nobody can issue more of it.
\<close>

definition packed_account :: "TokenAccount \<Rightarrow> bytes" where
  "packed_account a = (case account_pack a (replicate TokenAccount_LEN 0) of Inr bs \<Rightarrow> bs | Inl _ \<Rightarrow> [])"

definition packed_mint :: "Mint \<Rightarrow> bytes" where
  "packed_mint m = (case mint_pack m (replicate Mint_LEN 0) of Inr bs \<Rightarrow> bs | Inl _ \<Rightarrow> [])"

definition demo_account :: "Pubkey \<Rightarrow> u64 \<Rightarrow> TokenAccount" where
  "demo_account w n = \<lparr>mint = 5, tok_owner = w, amount = n, delegate = None,
     state = AccountState.Initialized, is_native = None, delegated_amount = 0, close_authority = None\<rparr>"

definition demo_frozen :: TokenAccount where
  "demo_frozen = (demo_account 9 0)\<lparr>state := AccountState.Frozen\<rparr>"

definition demo_mint :: Mint where
  "demo_mint = \<lparr>mint_authority = None, mint_supply = 100, decimals = 2, mint_is_initialized = True,
     freeze_authority = None\<rparr>"

definition token_data :: "bytes \<Rightarrow> Account" where
  "token_data bs = default_account\<lparr>owner := spl_token_id, data := bs\<rparr>"

definition demo_store :: store where
  "demo_store = (\<lambda>_. default_account)
     (1 := token_data (packed_account (demo_account 7 100)),
      2 := token_data (packed_account (demo_account 8 0)),
      3 := token_data (packed_account demo_frozen),
      5 := token_data (packed_mint demo_mint))"

definition demo_view :: "Pubkey \<Rightarrow> bool \<Rightarrow> AccountInfo" where
  "demo_view k s = \<lparr>key = k, is_signer = s, is_writable = True\<rparr>"

lemma account_unpack_packed [simp]:
  "account_is_initialized a \<Longrightarrow> account_unpack (packed_account a) = Inr a"
  using account_layout.pack_Inr [where v = a and dst = "replicate TokenAccount_LEN 0"]
    account_pack_Inr(3) [of a "replicate TokenAccount_LEN 0"]
  unfolding packed_account_def account_pack_def by (metis length_replicate sum.case(2) TrueI)

lemma mint_unpack_packed [simp]:
  "mint_is_initialized m \<Longrightarrow> mint_unpack (packed_mint m) = Inr m"
  using mint_layout.pack_Inr [where v = m and dst = "replicate Mint_LEN 0"]
    mint_pack_Inr(4) [of m "replicate Mint_LEN 0"]
  unfolding packed_mint_def mint_pack_def by (metis length_replicate sum.case(2) TrueI)

lemma account_unpack_length: "account_unpack bs = Inr a \<Longrightarrow> length bs = TokenAccount_LEN"
  by (simp add: unpack_iff)

lemma demo_init [simp]:
  "account_is_initialized (demo_account w n)" "mint_is_initialized demo_mint"
  "\<not> is_frozen (demo_account w n)" "\<not> native (demo_account w n)"
  "account_is_initialized demo_frozen" "is_frozen demo_frozen" "\<not> native demo_frozen"
  by (simp_all add: demo_account_def demo_mint_def demo_frozen_def account_is_initialized_def
      is_frozen_def native_def)

lemma demo_fields [simp]:
  "amount (demo_account w n) = n" "tok_owner (demo_account w n) = w" "mint (demo_account w n) = 5"
  "delegate (demo_account w n) = None" "is_native (demo_account w n) = None"
  "mint_supply demo_mint = 100" "(demo_account w n)\<lparr>amount := x\<rparr> = demo_account w x"
  "mint demo_frozen = 5" "amount demo_frozen = 0" "is_native demo_frozen = None"
  "mint_authority demo_mint = None" "freeze_authority demo_mint = None"
  by (simp_all add: demo_account_def demo_mint_def demo_frozen_def)

lemma demo_distinct [simp]: "(5 :: Pubkey) \<noteq> native_mint_id" "spl_token_id \<noteq> 0"
  by code_simp+

lemma demo_store_simps [simp]:
  "data (demo_store 1) = packed_account (demo_account 7 100)"
  "data (demo_store 2) = packed_account (demo_account 8 0)"
  "data (demo_store 3) = packed_account demo_frozen"
  "data (demo_store 5) = packed_mint demo_mint" "owner (demo_store 3) = spl_token_id"
  "owner (demo_store 1) = spl_token_id" "owner (demo_store 2) = spl_token_id"
  "owner (demo_store 5) = spl_token_id" "demo_store 7 = default_account"
  by (simp_all add: demo_store_def token_data_def)

lemma demo_view_simps [simp]:
  "key (demo_view k s) = k" "is_signer (demo_view k s) = s"
  by (simp_all add: demo_view_def)

lemma demo_validate: "validate_owner spl_token_id 7 (demo_view 7 True) [] demo_store = Inr ()"
  by (simp add: validate_owner_def default_account_def)

lemma demo_transfer:
  "\<exists>st'. process_transfer spl_token_id [demo_view 1 False, demo_view 2 False, demo_view 7 True] 30 None
      demo_store = Inr st' \<and>
    account_unpack (data (st' 1)) = Inr (demo_account 7 70) \<and>
    account_unpack (data (st' 2)) = Inr (demo_account 8 30) \<and>
    (\<forall>k. k \<noteq> 1 \<longrightarrow> k \<noteq> 2 \<longrightarrow> st' k = demo_store k)"
proof -
  have "transfer_admissible spl_token_id None (demo_view 1 False) undefined (demo_view 2 False) (demo_view 7 True) [] 30
      (demo_account 7 100) (demo_account 8 0) demo_store"
    using demo_validate by (simp add: transfer_admissible_def mint_expected_def may_spend_def word_le_nat_alt)
  then show ?thesis
    using transfer_exact(1) [of demo_store "demo_view 1 False" "demo_account 7 100" "demo_view 2 False" "demo_account 8 0"
      _ spl_token_id None undefined "demo_view 7 True" "[]" 30]
    by (simp add: transfer_accounts_def transferred_def spend_allowance_def) blast
qed

text \<open>The invariant holds of the concrete ledger.\<close>

lemma demo_ledger:
  "accts (ledger_of spl_token_id demo_store) k =
     (if k = 1 then Some (demo_account 7 100) else if k = 2 then Some (demo_account 8 0)
      else if k = 3 then Some demo_frozen else None)"
  "mints (ledger_of spl_token_id demo_store) k = (if k = 5 then Some demo_mint else None)"
proof -
  have "ok (account_unpack (packed_mint demo_mint)) = None"
    using unpack_disjoint [of "packed_mint demo_mint" _ demo_mint]
    by (cases "account_unpack (packed_mint demo_mint)") auto
  moreover have "ok (mint_unpack_unchecked (packed_account a)) = None" if "account_is_initialized a" for a
    using account_unpack_length [OF account_unpack_packed [OF that]]
    by (intro unpack_wrong_length) (simp add: layout_lengths)
  ultimately show "accts (ledger_of spl_token_id demo_store) k =
     (if k = 1 then Some (demo_account 7 100) else if k = 2 then Some (demo_account 8 0)
      else if k = 3 then Some demo_frozen else None)"
    "mints (ledger_of spl_token_id demo_store) k = (if k = 5 then Some demo_mint else None)"
    using mint_unpack_unchecked_of_unpack [OF mint_unpack_packed [of demo_mint]]
    by (auto simp: ledger_of_def demo_store_def token_data_def default_account_def)
qed

lemma demo_ledger_inv: "ledger_inv (ledger_of spl_token_id demo_store)"
proof -
  have "worth 5 (accts (ledger_of spl_token_id demo_store) k) = (if k = 1 then 100 else 0)" for k
    by (simp add: demo_ledger)
  then have "circulating (ledger_of spl_token_id demo_store) 5 = 100"
    by (simp add: circulating_def)
  then show ?thesis
    by (auto simp: ledger_inv_def account_inv_def demo_ledger split: if_splits)
qed

lemma demo_owned_writes:
  assumes "\<forall>k. k \<noteq> 1 \<longrightarrow> k \<noteq> 2 \<longrightarrow> st' k = demo_store k"
  shows "owned_writes spl_token_id demo_store st'"
  using assms demo_store_simps by (metis owned_writes_def)


section \<open>Properties of the token program\<close>

lemma token_process_Inr:
  assumes "token_process rent pid accounts input st = Inr st'"
  obtains i where "token_instruction_unpack input = Inr i"
    and "process_token_instruction rent pid accounts i st = Inr st'"
  using assms by (auto simp: token_process_def res_simps)

lemma token_process_pack:
  "token_process rent pid accounts (token_instruction_pack i) st =
     process_token_instruction rent pid accounts i st"
  using token_instruction_roundtrip_append [of i "[]"] by (simp add: token_process_def)

definition demo_views :: "AccountInfo list" where
  "demo_views = [demo_view 1 False, demo_view 2 False, demo_view 7 True]"

definition demo_input :: bytes where
  "demo_input = token_instruction_pack (Transfer 30)"

lemma demo_process:
  "\<exists>st'. token_process rent_default spl_token_id demo_views demo_input demo_store = Inr st' \<and>
    account_unpack (data (st' 1)) = Inr (demo_account 7 70) \<and>
    account_unpack (data (st' 2)) = Inr (demo_account 8 30) \<and>
    (\<forall>k. k \<noteq> 1 \<longrightarrow> k \<noteq> 2 \<longrightarrow> st' k = demo_store k) \<and> owned_writes spl_token_id demo_store st'"
  unfolding demo_input_def demo_views_def token_process_pack process_token_instruction.simps
  using demo_transfer demo_owned_writes by blast

text \<open>
  C1: every instruction that the token program accepts keeps the books: if, before it, the supply
  of every mint is the sum of the balances of its accounts and every wrapped-lamport account is
  backed by lamports above its rent reserve, then so it is after it. The hypothesis
  \<open>owned_writes\<close> is the check of the runtime that a program changes the data of its own accounts
  only.
\<close>

theorem token_process_keeps_ledger:
  assumes "token_process rent pid accounts input st = Inr st'"
    and "owned_writes pid st st'"
    and "ledger_inv (ledger_of pid st)"
  shows "ledger_inv (ledger_of pid st')"
  using assms(1)
  by (rule token_process_Inr) (rule ledger_inv_step [OF process_token_instruction_step [OF _ assms(2)] assms(3)])

theorem token_process_keeps_ledger_witness:
  "\<exists>st'. token_process rent_default spl_token_id demo_views demo_input demo_store = Inr st' \<and>
    ledger_inv (ledger_of spl_token_id st')"
  using demo_process demo_ledger_inv
    token_process_keeps_ledger [of rent_default spl_token_id
      demo_views demo_input demo_store]
  by blast

text \<open>
  C2: refinement. Every accepted instruction, seen on the ledger (token accounts, mints and
  lamports without their byte layout), is one step of the ledger: opening an account, a change
  that keeps the funds, a transfer, an issue, a burn, a close or a sync.
\<close>

theorem token_process_refines_ledger:
  assumes "token_process rent pid accounts input st = Inr st'" and "owned_writes pid st st'"
  shows "ledger_step (ledger_of pid st) (ledger_of pid st')"
  using assms(1) by (rule token_process_Inr) (rule process_token_instruction_step [OF _ assms(2)])

theorem token_process_refines_ledger_witness:
  "\<exists>st'. token_process rent_default spl_token_id demo_views demo_input demo_store = Inr st' \<and>
    ledger_step (ledger_of spl_token_id demo_store) (ledger_of spl_token_id st')"
  using demo_process
    token_process_refines_ledger [of rent_default spl_token_id
      demo_views demo_input demo_store]
  by blast

text \<open>
  C3: authorisation. If an accepted instruction lowers the balance of a token account, then the
  owner of the account, or its delegate within the allowance, is among the validated authorities
  of the instruction: it signed, or enough signers of its multisignature did. The only other way
  in which a balance can go is that CloseAccount wipes the account: then the account was empty or
  held wrapped lamports, and its close authority, or the owner when it has none, is validated.
\<close>

theorem token_debit_authorized:
  assumes "token_process rent pid accounts input st = Inr st'"
    and "account_unpack (data (st k)) = Inr a"
  shows "(\<exists>a'. account_unpack (data (st' k)) = Inr a' \<and>
      (amount a \<le> amount a' \<or> signed_by pid accounts st (tok_owner a) \<or>
       (\<exists>d. delegate a = Some d \<and> signed_by pid accounts st d \<and>
          unat (amount a) - unat (amount a') \<le> unat (delegated_amount a)))) \<or>
    (token_instruction_unpack input = Inr CloseAccount \<and> (native a \<or> amount a = 0) \<and>
     signed_by pid accounts st (closing_authority a) \<and> data (st' k) = replicate TokenAccount_LEN 0)"
  using assms(1)
proof (rule token_process_Inr)
  fix i assume i: "token_instruction_unpack input = Inr i"
    and "process_token_instruction rent pid accounts i st = Inr st'"
  from process_token_instruction_effect [OF this(2), of k] assms(2) i show ?thesis
    by (cases rule: data_effect.cases)
      (auto simp: same_funds_def word_le_nat_alt dest: unpack_disjoint)
qed

theorem token_debit_authorized_witness:
  "\<exists>st'. token_process rent_default spl_token_id demo_views demo_input demo_store = Inr st' \<and>
    signed_by spl_token_id demo_views demo_store 7"
  using demo_process
    token_debit_authorized [of rent_default spl_token_id demo_views demo_input demo_store
      _ 1 "demo_account 7 100"]
  by (fastforce simp: word_le_nat_alt)



text \<open>
  C5: a fixed supply stays fixed: once a mint has no mint authority, no accepted instruction
  gives it one, raises its supply or changes its decimals, and the mint stays initialised.
\<close>

theorem fixed_supply_is_final:
  assumes "token_process rent pid accounts input st = Inr st'"
    and "mint_unpack (data (st k)) = Inr m" and "mint_authority m = None"
  shows "\<exists>m'. mint_unpack (data (st' k)) = Inr m' \<and> mint_authority m' = None \<and>
    mint_supply m' \<le> mint_supply m \<and> decimals m' = decimals m"
  using assms(1)
proof (rule token_process_Inr)
  fix i assume "process_token_instruction rent pid accounts i st = Inr st'"
  from process_token_instruction_effect [OF this, of k] assms(2,3) show ?thesis
    by (cases rule: data_effect.cases) (auto dest: unpack_disjoint)
qed

theorem fixed_supply_is_final_witness:
  "\<exists>st' m'. token_process rent_default spl_token_id demo_views demo_input demo_store = Inr st' \<and>
    mint_unpack (data (st' 5)) = Inr m' \<and> mint_authority m' = None \<and> mint_supply m' \<le> 100"
  using demo_process
    fixed_supply_is_final [of rent_default spl_token_id demo_views demo_input demo_store _ 5 demo_mint]
  by fastforce

text \<open>
  C6: the token program neither creates nor destroys lamports: over all addresses, the sum of
  the balances is the same before and after an accepted instruction.
\<close>

theorem token_process_conserves_lamports:
  assumes "token_process rent pid accounts input st = Inr st'" and "owned_writes pid st st'"
  shows "(\<Sum>k\<in>UNIV. unat (lamports (st' k))) = (\<Sum>k\<in>UNIV. unat (lamports (st k)))"
  using assms(1)
  by (rule token_process_Inr)
    (use ledger_step_lamports [OF process_token_instruction_step [OF _ assms(2)]] in simp)

theorem token_process_conserves_lamports_witness:
  "\<exists>st'. token_process rent_default spl_token_id demo_views demo_input demo_store = Inr st' \<and>
    (\<Sum>k\<in>UNIV. unat (lamports (st' k))) = (\<Sum>k\<in>UNIV. unat (lamports (demo_store k)))"
  using demo_process
    token_process_conserves_lamports [of rent_default spl_token_id demo_views demo_input demo_store]
  by blast

text \<open>
  C7: exactly when a transfer between two different token accounts succeeds, and what it does. For
  Transfer and for TransferChecked it succeeds if and only if it is admissible: neither account is
  frozen; both have the same mint, which for TransferChecked is the mint account that is passed,
  with the expected decimals; the amount is within the balance of the source and does not overflow
  that of the destination; the authority is the delegate of the source, validated and within its
  allowance, or else the validated owner; a transfer of nothing names accounts of the token program;
  and a source of wrapped lamports has the lamports to move, without overflow at the destination.
  Then it moves exactly the amount, and the lamports with it for a source of wrapped lamports, a
  delegate spends its allowance, no owner changes, and every other address keeps all of its fields.
\<close>

theorem process_transfer_succeeds:
  assumes "account_unpack (info_data st si) = Inr a" and "account_unpack (info_data st di) = Inr b"
    and "key si \<noteq> key di"
  shows "(case process_transfer pid (transfer_accounts dec si mi di ai signers) amt dec st of
      Inr st' \<Rightarrow> transfer_admissible pid dec si mi di ai signers amt a b st \<and> transferred si di ai amt a b st st'
    | Inl _ \<Rightarrow> \<not> transfer_admissible pid dec si mi di ai signers amt a b st)"
proof (cases "transfer_admissible pid dec si mi di ai signers amt a b st")
  case True
  with transfer_exact(1) [OF assms refl True] show ?thesis by auto
next
  case False
  with transfer_exact(2) [OF assms refl] show ?thesis by (auto split: sum.splits)
qed

theorem process_transfer_succeeds_witness:
  "\<exists>st'. process_transfer spl_token_id
      (transfer_accounts None (demo_view 1 False) (demo_view 5 False) (demo_view 2 False) (demo_view 7 True) []) 30 None
      demo_store = Inr st' \<and>
    transferred (demo_view 1 False) (demo_view 2 False) (demo_view 7 True) 30 (demo_account 7 100) (demo_account 8 0)
      demo_store st'"
  using process_transfer_succeeds [of demo_store "demo_view 1 False" "demo_account 7 100" "demo_view 2 False"
      "demo_account 8 0" spl_token_id None "demo_view 5 False" "demo_view 7 True" "[]" 30] demo_validate
  by (auto simp: transfer_admissible_def mint_expected_def may_spend_def word_le_nat_alt split: sum.splits)

end
