(* ===== verification/TransactionContext.thy ===== *)
theory TransactionContext
  imports Sdk
begin

text \<open>
  The accounts of a transaction and the stack of its instructions
  (\<open>sdk/src/transaction_context.rs\<close>). \<open>Result<_, InstructionError>\<close> is
  \<^typ>\<open>InstructionError + 'a\<close>. The \<open>RefCell\<close> of an account is the account itself: the code of the
  runtime drops every borrow before the next one of the same account, so a borrow never fails.
  \<open>usize\<close> counters and indices are \<^typ>\<open>nat\<close>, and \<open>total_resize_delta\<close>, an \<open>i64\<close> that is only
  changed by saturating additions, is an \<^typ>\<open>int\<close> with the bounds written out.
\<close>

type_synonym 'a IResult = "InstructionError + 'a"

record InstructionAccount =
  index_in_transaction :: nat
  index_in_caller :: nat
  index_in_callee :: nat
  ia_is_signer :: bool
  ia_is_writable :: bool

record InstructionContext =
  nesting_level :: nat
  program_accounts :: "nat list"
  instruction_accounts :: "InstructionAccount list"
  instruction_data :: bytes

record TransactionReturnData =
  rd_program_id :: Pubkey
  rd_data :: bytes

record TransactionContext =
  account_keys :: "Pubkey list"
  accounts :: "Account list"
  instruction_context_capacity :: nat
  instruction_stack :: "nat list"
  number_of_instructions_at_transaction_level :: nat
  instruction_trace :: "InstructionContext list list"
  return_data :: TransactionReturnData
  total_resize_limit :: u64
  total_resize_delta :: int

definition transaction_context_new ::
  "(Pubkey \<times> Account) list \<Rightarrow> nat \<Rightarrow> nat \<Rightarrow> u64 \<Rightarrow> TransactionContext" where
  "transaction_context_new transaction_accounts capacity n limit =
     \<lparr>account_keys = map fst transaction_accounts, accounts = map snd transaction_accounts,
      instruction_context_capacity = capacity, instruction_stack = [],
      number_of_instructions_at_transaction_level = n, instruction_trace = [],
      return_data = \<lparr>rd_program_id = 0, rd_data = []\<rparr>,
      total_resize_limit = limit, total_resize_delta = 0\<rparr>"

definition deconstruct_without_keys :: "TransactionContext \<Rightarrow> Account list IResult" where
  "deconstruct_without_keys tc =
     (if instruction_stack tc \<noteq> [] then Inl InstructionError.CallDepth else Ok (accounts tc))"

record ExecutionRecord =
  er_accounts :: "(Pubkey \<times> Account) list"
  er_instruction_trace :: "InstructionContext list list"
  er_return_data :: TransactionReturnData
  er_total_resize_delta :: int

definition execution_record :: "TransactionContext \<Rightarrow> ExecutionRecord" where
  "execution_record tc =
     \<lparr>er_accounts = zip (account_keys tc) (accounts tc), er_instruction_trace = instruction_trace tc,
      er_return_data = return_data tc, er_total_resize_delta = total_resize_delta tc\<rparr>"


section \<open>Accounts\<close>

definition get_key_of_account_at_index :: "TransactionContext \<Rightarrow> nat \<Rightarrow> Pubkey IResult" where
  "get_key_of_account_at_index tc i =
     ok_or (get (account_keys tc) i) InstructionError.NotEnoughAccountKeys"

definition get_account_at_index :: "TransactionContext \<Rightarrow> nat \<Rightarrow> Account IResult" where
  "get_account_at_index tc i = ok_or (get (accounts tc) i) InstructionError.NotEnoughAccountKeys"

definition find_index_of_account :: "TransactionContext \<Rightarrow> Pubkey \<Rightarrow> nat option" where
  "find_index_of_account tc pubkey = find_position (\<lambda>k. k = pubkey) (account_keys tc)"

definition tc_find_index_of_program_account :: "TransactionContext \<Rightarrow> Pubkey \<Rightarrow> nat option" where
  "tc_find_index_of_program_account tc pubkey = find_rposition (\<lambda>k. k = pubkey) (account_keys tc)"


section \<open>The instruction stack\<close>

definition get_instruction_context_at :: "TransactionContext \<Rightarrow> nat \<Rightarrow> InstructionContext IResult" where
  "get_instruction_context_at tc level =
     and_then (ok_or (get (instruction_stack tc) 0) InstructionError.CallDepth) (\<lambda>top_level_index.
     and_then (if level = 0 then Ok 0
               else ok_or (get (instruction_stack tc) level) InstructionError.CallDepth) (\<lambda>cpi_index.
       ok_or (Option.bind (get (instruction_trace tc) top_level_index) (\<lambda>t. get t cpi_index))
         InstructionError.CallDepth))"

definition get_instruction_context_stack_height :: "TransactionContext \<Rightarrow> nat" where
  "get_instruction_context_stack_height tc = length (instruction_stack tc)"

definition get_current_instruction_context :: "TransactionContext \<Rightarrow> InstructionContext IResult" where
  "get_current_instruction_context tc =
     (let height = get_instruction_context_stack_height tc
      in if height = 0 then Inl InstructionError.CallDepth
         else get_instruction_context_at tc (height - 1))"

text \<open>\<open>push\<close> extends the trace before it checks the capacity, so the context is returned on errors too.\<close>

definition tc_push ::
  "nat list \<Rightarrow> InstructionAccount list \<Rightarrow> bytes \<Rightarrow> bool \<Rightarrow> TransactionContext
     \<Rightarrow> unit IResult \<times> TransactionContext" where
  "tc_push programs ias input record_instruction tc =
     (let ctx = \<lparr>nesting_level = length (instruction_stack tc), program_accounts = programs,
                 instruction_accounts = ias, instruction_data = input\<rparr>;
          trace = instruction_trace tc
      in case (if instruction_stack tc = [] then Some (trace @ [[ctx]], length trace)
               else if trace \<noteq> [] then
                 let t = (if record_instruction then last trace @ [ctx] else last trace)
                 in Some (butlast trace @ [t], length t - 1)
               else None) of
           None \<Rightarrow> (Inl InstructionError.CallDepth, tc)
         | Some (trace, index_in_trace) \<Rightarrow>
             if instruction_context_capacity tc \<le> length (instruction_stack tc)
             then (Inl InstructionError.CallDepth, tc\<lparr>instruction_trace := trace\<rparr>)
             else (Ok (), tc\<lparr>instruction_trace := trace,
                              instruction_stack := instruction_stack tc @ [index_in_trace]\<rparr>))"

definition tc_pop :: "TransactionContext \<Rightarrow> TransactionContext IResult" where
  "tc_pop tc =
     (if instruction_stack tc = [] then Inl InstructionError.CallDepth
      else Ok (tc\<lparr>instruction_stack := butlast (instruction_stack tc)\<rparr>))"

definition set_return_data :: "Pubkey \<Rightarrow> bytes \<Rightarrow> TransactionContext \<Rightarrow> TransactionContext" where
  "set_return_data pid bs tc = tc\<lparr>return_data := \<lparr>rd_program_id = pid, rd_data = bs\<rparr>\<rparr>"

definition tc_record_instruction :: "InstructionContext \<Rightarrow> TransactionContext \<Rightarrow> TransactionContext" where
  "tc_record_instruction ctx tc =
     (if instruction_trace tc = [] then tc
      else tc\<lparr>instruction_trace :=
                butlast (instruction_trace tc) @ [last (instruction_trace tc) @ [ctx]]\<rparr>)"

definition get_total_resize_remaining :: "TransactionContext \<Rightarrow> u64" where
  "get_total_resize_remaining tc =
     (let d = total_resize_delta tc
      in if 0 \<le> d then saturating_sub (total_resize_limit tc) (word_of_int d)
         else saturating_add (total_resize_limit tc) (word_of_int (min (2 ^ 63 - 1) (- d))))"


section \<open>An instruction and its accounts\<close>

definition check_number_of_instruction_accounts :: "InstructionContext \<Rightarrow> nat \<Rightarrow> unit IResult" where
  "check_number_of_instruction_accounts ctx expected_at_least =
     (if length (instruction_accounts ctx) < expected_at_least
      then Inl InstructionError.NotEnoughAccountKeys else Ok ())"

definition find_index_of_instruction_account ::
  "InstructionContext \<Rightarrow> TransactionContext \<Rightarrow> Pubkey \<Rightarrow> nat option" where
  "find_index_of_instruction_account ctx tc pubkey =
     find_position (\<lambda>ia. account_keys tc ! index_in_transaction ia = pubkey) (instruction_accounts ctx)"

definition ctx_find_index_of_program_account ::
  "InstructionContext \<Rightarrow> TransactionContext \<Rightarrow> Pubkey \<Rightarrow> nat option" where
  "ctx_find_index_of_program_account ctx tc pubkey =
     find_position (\<lambda>i. account_keys tc ! i = pubkey) (program_accounts ctx)"

definition get_index_of_program_account_in_transaction :: "InstructionContext \<Rightarrow> nat \<Rightarrow> nat IResult" where
  "get_index_of_program_account_in_transaction ctx i =
     ok_or (get (program_accounts ctx) i) InstructionError.NotEnoughAccountKeys"

definition get_index_of_instruction_account_in_transaction :: "InstructionContext \<Rightarrow> nat \<Rightarrow> nat IResult" where
  "get_index_of_instruction_account_in_transaction ctx i =
     and_then (ok_or (get (instruction_accounts ctx) i) InstructionError.NotEnoughAccountKeys)
       (\<lambda>ia. Ok (index_in_transaction ia))"

definition is_instruction_account_duplicate :: "InstructionContext \<Rightarrow> nat \<Rightarrow> nat option IResult" where
  "is_instruction_account_duplicate ctx i =
     and_then (ok_or (get (instruction_accounts ctx) i) InstructionError.NotEnoughAccountKeys)
       (\<lambda>ia. Ok (if index_in_callee ia = i then None else Some (index_in_callee ia)))"

definition get_last_program_key :: "InstructionContext \<Rightarrow> TransactionContext \<Rightarrow> Pubkey IResult" where
  "get_last_program_key ctx tc =
     and_then (get_index_of_program_account_in_transaction ctx (length (program_accounts ctx) - 1))
       (get_key_of_account_at_index tc)"

definition is_instruction_account_signer :: "InstructionContext \<Rightarrow> nat \<Rightarrow> bool IResult" where
  "is_instruction_account_signer ctx i =
     and_then (ok_or (get (instruction_accounts ctx) i) InstructionError.MissingAccount)
       (\<lambda>ia. Ok (ia_is_signer ia))"

definition is_instruction_account_writable :: "InstructionContext \<Rightarrow> nat \<Rightarrow> bool IResult" where
  "is_instruction_account_writable ctx i =
     and_then (ok_or (get (instruction_accounts ctx) i) InstructionError.MissingAccount)
       (\<lambda>ia. Ok (ia_is_writable ia))"

definition get_signers :: "InstructionContext \<Rightarrow> TransactionContext \<Rightarrow> Pubkey set" where
  "get_signers ctx tc =
     set (map (\<lambda>ia. account_keys tc ! index_in_transaction ia)
            (filter ia_is_signer (instruction_accounts ctx)))"


section \<open>Borrowed accounts\<close>

record BorrowedAccount =
  ba_context :: InstructionContext
  ba_index_in_transaction :: nat
  ba_index_in_instruction :: nat

definition try_borrow_account ::
  "InstructionContext \<Rightarrow> TransactionContext \<Rightarrow> nat \<Rightarrow> nat \<Rightarrow> BorrowedAccount IResult" where
  "try_borrow_account ctx tc in_transaction in_instruction =
     and_then (ok_or (get (accounts tc) in_transaction) InstructionError.MissingAccount) (\<lambda>_.
       Ok \<lparr>ba_context = ctx, ba_index_in_transaction = in_transaction,
           ba_index_in_instruction = in_instruction\<rparr>)"

definition try_borrow_program_account ::
  "InstructionContext \<Rightarrow> TransactionContext \<Rightarrow> nat \<Rightarrow> BorrowedAccount IResult" where
  "try_borrow_program_account ctx tc i =
     and_then (get_index_of_program_account_in_transaction ctx i) (\<lambda>t. try_borrow_account ctx tc t i)"

definition try_borrow_last_program_account ::
  "InstructionContext \<Rightarrow> TransactionContext \<Rightarrow> BorrowedAccount IResult" where
  "try_borrow_last_program_account ctx tc =
     try_borrow_program_account ctx tc (length (program_accounts ctx) - 1)"

definition try_borrow_instruction_account ::
  "InstructionContext \<Rightarrow> TransactionContext \<Rightarrow> nat \<Rightarrow> BorrowedAccount IResult" where
  "try_borrow_instruction_account ctx tc i =
     and_then (get_index_of_instruction_account_in_transaction ctx i) (\<lambda>t.
       try_borrow_account ctx tc t (length (program_accounts ctx) + i))"

abbreviation borrowed :: "TransactionContext \<Rightarrow> BorrowedAccount \<Rightarrow> Account" where
  "borrowed tc b \<equiv> accounts tc ! ba_index_in_transaction b"

definition update_borrowed ::
  "BorrowedAccount \<Rightarrow> (Account \<Rightarrow> Account) \<Rightarrow> TransactionContext \<Rightarrow> TransactionContext" where
  "update_borrowed b f tc =
     tc\<lparr>accounts := (accounts tc)[ba_index_in_transaction b := f (borrowed tc b)]\<rparr>"

definition get_key :: "TransactionContext \<Rightarrow> BorrowedAccount \<Rightarrow> Pubkey" where
  "get_key tc b = account_keys tc ! ba_index_in_transaction b"

definition set_owner :: "BorrowedAccount \<Rightarrow> Pubkey \<Rightarrow> TransactionContext \<Rightarrow> TransactionContext" where
  "set_owner b k = update_borrowed b (\<lambda>a. a\<lparr>owner := k\<rparr>)"

definition set_lamports :: "BorrowedAccount \<Rightarrow> u64 \<Rightarrow> TransactionContext \<Rightarrow> TransactionContext" where
  "set_lamports b v = update_borrowed b (\<lambda>a. a\<lparr>lamports := v\<rparr>)"

definition checked_add_lamports :: "BorrowedAccount \<Rightarrow> u64 \<Rightarrow> TransactionContext \<Rightarrow> TransactionContext IResult" where
  "checked_add_lamports b n tc =
     and_then (ok_or (checked_add (lamports (borrowed tc b)) n) InstructionError.ArithmeticOverflow)
       (\<lambda>v. Ok (set_lamports b v tc))"

definition checked_sub_lamports :: "BorrowedAccount \<Rightarrow> u64 \<Rightarrow> TransactionContext \<Rightarrow> TransactionContext IResult" where
  "checked_sub_lamports b n tc =
     and_then (ok_or (checked_sub (lamports (borrowed tc b)) n) InstructionError.ArithmeticOverflow)
       (\<lambda>v. Ok (set_lamports b v tc))"

definition i64_saturate :: "int \<Rightarrow> int" where
  "i64_saturate x = max (- (2 ^ 63)) (min (2 ^ 63 - 1) x)"

definition set_data :: "BorrowedAccount \<Rightarrow> bytes \<Rightarrow> TransactionContext \<Rightarrow> TransactionContext" where
  "set_data b bs tc =
     (let old = length (data (borrowed tc b)); new = length bs;
          tc' = update_borrowed b (\<lambda>a. a\<lparr>data := bs\<rparr>) tc
      in if new = old then tc'
         else tc'\<lparr>total_resize_delta :=
                    i64_saturate (total_resize_delta tc + i64_saturate (int new - int old))\<rparr>)"

definition set_data_length :: "BorrowedAccount \<Rightarrow> nat \<Rightarrow> TransactionContext \<Rightarrow> TransactionContext" where
  "set_data_length b new_length tc =
     (let old = data (borrowed tc b)
      in (update_borrowed b (\<lambda>a. a\<lparr>data := take new_length old @ replicate (new_length - length old) 0\<rparr>) tc)
         \<lparr>total_resize_delta :=
            i64_saturate (total_resize_delta tc + i64_saturate (int new_length - int (length old)))\<rparr>)"

definition set_executable :: "BorrowedAccount \<Rightarrow> bool \<Rightarrow> TransactionContext \<Rightarrow> TransactionContext" where
  "set_executable b x = update_borrowed b (\<lambda>a. a\<lparr>executable := x\<rparr>)"

definition ba_is_signer :: "BorrowedAccount \<Rightarrow> bool" where
  "ba_is_signer b =
     (let n = length (program_accounts (ba_context b))
      in if ba_index_in_instruction b < n then False
         else case is_instruction_account_signer (ba_context b) (ba_index_in_instruction b - n) of
                Inr s \<Rightarrow> s | Inl _ \<Rightarrow> False)"

definition ba_is_writable :: "BorrowedAccount \<Rightarrow> bool" where
  "ba_is_writable b =
     (let n = length (program_accounts (ba_context b))
      in if ba_index_in_instruction b < n then False
         else case is_instruction_account_writable (ba_context b) (ba_index_in_instruction b - n) of
                Inr s \<Rightarrow> s | Inl _ \<Rightarrow> False)"


section \<open>Basic facts\<close>

lemma get_account_at_index_Inr [res_simps]:
  "get_account_at_index tc i = Inr a \<longleftrightarrow> i < length (accounts tc) \<and> accounts tc ! i = a"
  by (simp add: get_account_at_index_def res_simps)

lemma get_key_of_account_at_index_Inr [res_simps]:
  "get_key_of_account_at_index tc i = Inr k \<longleftrightarrow> i < length (account_keys tc) \<and> account_keys tc ! i = k"
  by (simp add: get_key_of_account_at_index_def res_simps)

lemma try_borrow_instruction_account_Inr [res_simps]:
  "try_borrow_instruction_account ctx tc i = Inr b \<longleftrightarrow>
     i < length (instruction_accounts ctx) \<and>
     index_in_transaction (instruction_accounts ctx ! i) < length (accounts tc) \<and>
     b = \<lparr>ba_context = ctx, ba_index_in_transaction = index_in_transaction (instruction_accounts ctx ! i),
          ba_index_in_instruction = length (program_accounts ctx) + i\<rparr>"
  by (auto simp: try_borrow_instruction_account_def try_borrow_account_def
      get_index_of_instruction_account_in_transaction_def res_simps)

lemma borrowed_flags [simp]:
  assumes "i < length (instruction_accounts ctx)"
  shows "ba_is_signer \<lparr>ba_context = ctx, ba_index_in_transaction = t,
      ba_index_in_instruction = length (program_accounts ctx) + i\<rparr> = ia_is_signer (instruction_accounts ctx ! i)"
    and "ba_is_writable \<lparr>ba_context = ctx, ba_index_in_transaction = t,
      ba_index_in_instruction = length (program_accounts ctx) + i\<rparr> = ia_is_writable (instruction_accounts ctx ! i)"
  using assms
  by (simp_all add: ba_is_signer_def ba_is_writable_def is_instruction_account_signer_def
      is_instruction_account_writable_def get_def)

lemma update_borrowed_simps [simp]:
  "account_keys (update_borrowed b f tc) = account_keys tc"
  "length (accounts (update_borrowed b f tc)) = length (accounts tc)"
  "instruction_stack (update_borrowed b f tc) = instruction_stack tc"
  "instruction_trace (update_borrowed b f tc) = instruction_trace tc"
  "instruction_context_capacity (update_borrowed b f tc) = instruction_context_capacity tc"
  by (simp_all add: update_borrowed_def)

lemma set_data_simps [simp]:
  "account_keys (set_data b bs tc) = account_keys tc"
  "accounts (set_data b bs tc) = accounts (update_borrowed b (\<lambda>a. a\<lparr>data := bs\<rparr>) tc)"
  "instruction_stack (set_data b bs tc) = instruction_stack tc"
  "instruction_trace (set_data b bs tc) = instruction_trace tc"
  "instruction_context_capacity (set_data b bs tc) = instruction_context_capacity tc"
  by (simp_all add: set_data_def Let_def)


section \<open>The discipline of the stack\<close>

text \<open>
  The stack points into the last list of the trace, and the context at level \<open>l\<close> of the stack
  has nesting level \<open>l\<close> (the \<open>debug_assert_eq\<close> of \<open>get_instruction_context_at\<close>).
\<close>

definition wf_stack :: "TransactionContext \<Rightarrow> bool" where
  "wf_stack tc \<longleftrightarrow> (instruction_stack tc \<noteq> [] \<longrightarrow>
     instruction_trace tc \<noteq> [] \<and> instruction_stack tc ! 0 = length (instruction_trace tc) - 1 \<and>
     last (instruction_trace tc) \<noteq> [] \<and> nesting_level (last (instruction_trace tc) ! 0) = 0 \<and>
     (\<forall>l. 0 < l \<longrightarrow> l < length (instruction_stack tc) \<longrightarrow>
        instruction_stack tc ! l < length (last (instruction_trace tc)) \<and>
        nesting_level (last (instruction_trace tc) ! (instruction_stack tc ! l)) = l))"

lemma wf_stack_at:
  assumes "wf_stack tc" and "level < length (instruction_stack tc)"
  shows "\<exists>ctx. get_instruction_context_at tc level = Inr ctx \<and> nesting_level ctx = level"
proof (cases "level = 0")
  case True
  then show ?thesis
    using assms
    by (auto simp: wf_stack_def get_instruction_context_at_def get_def bind_eq_Some_conv res_simps last_conv_nth
        simp flip: length_greater_0_conv)
next
  case False
  then show ?thesis
    using assms
    by (auto simp: wf_stack_def get_instruction_context_at_def get_def bind_eq_Some_conv res_simps last_conv_nth
        simp flip: length_greater_0_conv)
qed

lemma tc_push_Inr:
  assumes "tc_push programs ias input rec tc = (Inr u, tc')"
  obtains trace i where "tc' = tc\<lparr>instruction_trace := trace, instruction_stack := instruction_stack tc @ [i]\<rparr>"
    and "length (instruction_stack tc) < instruction_context_capacity tc"
    and "instruction_stack tc = [] \<Longrightarrow> trace = instruction_trace tc @
      [[\<lparr>nesting_level = 0, program_accounts = programs, instruction_accounts = ias, instruction_data = input\<rparr>]] \<and>
      i = length (instruction_trace tc)"
    and "instruction_stack tc \<noteq> [] \<Longrightarrow> rec \<Longrightarrow> instruction_trace tc \<noteq> [] \<and>
      trace = butlast (instruction_trace tc) @ [last (instruction_trace tc) @
        [\<lparr>nesting_level = length (instruction_stack tc), program_accounts = programs,
          instruction_accounts = ias, instruction_data = input\<rparr>]] \<and>
      i = length (last (instruction_trace tc))"
proof (cases "instruction_stack tc \<noteq> [] \<and> \<not> rec")
  case True
  with assms that [of "length (last (instruction_trace tc)) - 1" "instruction_trace tc"] show ?thesis
    by (auto simp: tc_push_def Let_def res_simps not_le split: if_splits)
next
  case False
  with assms that show ?thesis
    by (auto simp: tc_push_def Let_def res_simps not_le split: if_splits)
qed

lemma tc_push_frame:
  assumes "tc_push programs ias input rec tc = (Inr u, tc')"
  shows "accounts tc' = accounts tc" and "account_keys tc' = account_keys tc"
    and "instruction_context_capacity tc' = instruction_context_capacity tc"
    and "length (instruction_stack tc') = Suc (length (instruction_stack tc))"
    and "length (instruction_stack tc') \<le> instruction_context_capacity tc"
    and "\<exists>tc''. tc_pop tc' = Inr tc'' \<and> instruction_stack tc'' = instruction_stack tc"
  using assms by (rule tc_push_Inr; simp add: tc_pop_def; fail)+

lemma tc_push_current:
  assumes "wf_stack tc" and "tc_push programs ias input True tc = (Inr u, tc')"
  shows "wf_stack tc' \<and> get_current_instruction_context tc' = Inr \<lparr>nesting_level = length (instruction_stack tc),
      program_accounts = programs, instruction_accounts = ias, instruction_data = input\<rparr>"
  using assms(2)
proof (rule tc_push_Inr)
  fix trace i
  let ?ctx = "\<lparr>nesting_level = length (instruction_stack tc), program_accounts = programs,
          instruction_accounts = ias, instruction_data = input\<rparr>"
  assume tc': "tc' = tc\<lparr>instruction_trace := trace, instruction_stack := instruction_stack tc @ [i]\<rparr>"
    and top: "instruction_stack tc = [] \<Longrightarrow> trace = instruction_trace tc @
      [[\<lparr>nesting_level = 0, program_accounts = programs, instruction_accounts = ias, instruction_data = input\<rparr>]] \<and>
      i = length (instruction_trace tc)"
    and nested: "instruction_stack tc \<noteq> [] \<Longrightarrow> True \<Longrightarrow> instruction_trace tc \<noteq> [] \<and>
      trace = butlast (instruction_trace tc) @ [last (instruction_trace tc) @ [?ctx]] \<and>
      i = length (last (instruction_trace tc))"
  show ?thesis
  proof (cases "instruction_stack tc = []")
    case True
    with top show ?thesis
      by (simp add: tc' wf_stack_def get_current_instruction_context_def get_def
          get_instruction_context_stack_height_def get_instruction_context_at_def)
  next
    case False
    then have ne: "instruction_trace tc \<noteq> []" and trace: "trace = butlast (instruction_trace tc) @
        [last (instruction_trace tc) @ [?ctx]]" and i: "i = length (last (instruction_trace tc))"
      using nested by simp_all
    have len: "length trace = length (instruction_trace tc)" using ne by (simp add: trace)
    have last: "last trace = last (instruction_trace tc) @ [?ctx]" by (simp add: trace)
    have nth: "trace ! (length (instruction_trace tc) - 1) = last trace"
      using ne len by (metis last_conv_nth length_0_conv)
    note wf = assms(1) [unfolded wf_stack_def, rule_format, OF False]
    have "wf_stack tc'"
      using wf ne False
      by (auto simp: tc' wf_stack_def len last nth_append i less_Suc_eq_le not_less trace less_imp_le)
    moreover have "get_current_instruction_context tc' = Inr ?ctx"
      using wf ne False len nth
      by (auto simp: tc' get_current_instruction_context_def get_instruction_context_stack_height_def
          get_instruction_context_at_def nth_append i last get_def)
    ultimately show ?thesis by simp
  qed
qed

lemma tc_pop_wf_stack: "wf_stack tc \<Longrightarrow> tc_pop tc = Inr tc' \<Longrightarrow> wf_stack tc'"
  by (auto simp: tc_pop_def wf_stack_def nth_butlast simp flip: length_greater_0_conv split: if_splits)

end
