(* ===== verification/PreAccount.thy ===== *)
theory PreAccount
  imports TransactionContext Rent
begin

text \<open>
  The checks of the runtime on what a program did to an account
  (\<open>program-runtime/src/pre_account.rs\<close>) and the meter of the space that accounts use
  (\<open>program-runtime/src/accounts_data_meter.rs\<close>). The execution timings that \<open>verify\<close> also
  counts are metrics and left out.
\<close>

section \<open>Account integrity\<close>

definition MAX_PERMITTED_DATA_LENGTH :: u64 where
  "MAX_PERMITTED_DATA_LENGTH = 10 * 1024 * 1024"

record PreAccount =
  pre_key :: Pubkey
  pre_account :: Account
  pre_changed :: bool

definition pre_account_new :: "Pubkey \<Rightarrow> Account \<Rightarrow> PreAccount" where
  "pre_account_new k a = \<lparr>pre_key = k, pre_account = a, pre_changed = False\<rparr>"

text \<open>\<open>is_zeroed\<close> compares chunks of 1024 bytes, then the remainder.\<close>

definition ZEROS_LEN :: nat where "ZEROS_LEN = 1024"

definition is_zeroed :: "bytes \<Rightarrow> bool" where
  "is_zeroed buf =
     (let n = length buf div ZEROS_LEN;
          remainder = drop (n * ZEROS_LEN) buf
      in list_all (\<lambda>i. slice (i * ZEROS_LEN) ZEROS_LEN buf = replicate ZEROS_LEN 0) [0..<n] \<and>
         remainder = take (length remainder) (replicate ZEROS_LEN 0))"

definition pre_account_verify ::
  "PreAccount \<Rightarrow> Pubkey \<Rightarrow> bool \<Rightarrow> Rent \<Rightarrow> Account \<Rightarrow> unit IResult" where
  "pre_account_verify self program_id writable rent post =
     (let pre = pre_account self in
      if owner pre \<noteq> owner post \<and>
         (\<not> writable \<or> executable pre \<or> program_id \<noteq> owner pre \<or> \<not> is_zeroed (data post))
      then Inl InstructionError.ModifiedProgramId
      else if program_id \<noteq> owner pre \<and> lamports pre > lamports post
      then Inl InstructionError.ExternalAccountLamportSpend
      else if lamports pre \<noteq> lamports post \<and> \<not> writable
      then Inl InstructionError.ReadonlyLamportChange
      else if lamports pre \<noteq> lamports post \<and> executable pre
      then Inl InstructionError.ExecutableLamportChange
      else if unat MAX_PERMITTED_DATA_LENGTH < length (data post)
      then Inl InstructionError.InvalidRealloc
      else if length (data pre) \<noteq> length (data post) \<and> program_id \<noteq> owner pre
      then Inl InstructionError.AccountDataSizeChanged
      else if \<not> (program_id = owner pre \<and> writable \<and> \<not> executable pre) \<and> data pre \<noteq> data post
      then Inl (if executable pre then InstructionError.ExecutableDataModified
                else if writable then InstructionError.ExternalAccountDataModified
                else InstructionError.ReadonlyDataModified)
      else if executable pre \<noteq> executable post \<and> \<not> is_exempt rent (lamports post) (length (data post))
      then Inl InstructionError.ExecutableAccountNotRentExempt
      else if executable pre \<noteq> executable post \<and>
              (\<not> writable \<or> executable pre \<or> program_id \<noteq> owner post)
      then Inl InstructionError.ExecutableModified
      else if rent_epoch pre \<noteq> rent_epoch post
      then Inl InstructionError.RentEpochModified
      else Ok ())"

definition pre_account_update :: "Account \<Rightarrow> PreAccount \<Rightarrow> PreAccount" where
  "pre_account_update a self =
     self\<lparr>pre_account := a\<lparr>rent_epoch := rent_epoch (pre_account self)\<rparr>, pre_changed := True\<rparr>"


section \<open>The meter of the accounts data\<close>

definition MAX_ACCOUNTS_DATA_LEN :: u64 where
  "MAX_ACCOUNTS_DATA_LEN = 128000000000"

record AccountsDataMeter =
  adm_maximum :: u64
  adm_initial :: u64
  adm_delta :: int

definition accounts_data_meter_new :: "u64 \<Rightarrow> AccountsDataMeter" where
  "accounts_data_meter_new initial_accounts_data_len =
     \<lparr>adm_maximum = MAX_ACCOUNTS_DATA_LEN, adm_initial = initial_accounts_data_len, adm_delta = 0\<rparr>"

definition saturating_add_signed :: "u64 \<Rightarrow> int \<Rightarrow> u64" where
  "saturating_add_signed lhs rhs =
     (let r = (word_of_int rhs :: u64);
          res = lhs + r;
          overflow = 2 ^ 64 \<le> unat lhs + unat r
      in if overflow = (rhs < 0) then res else if overflow then - 1 else 0)"

definition adm_current :: "AccountsDataMeter \<Rightarrow> u64" where
  "adm_current m = saturating_add_signed (adm_initial m) (adm_delta m)"

definition adm_remaining :: "AccountsDataMeter \<Rightarrow> u64" where
  "adm_remaining m = saturating_sub (adm_maximum m) (adm_current m)"

definition adjust_delta_unchecked :: "int \<Rightarrow> AccountsDataMeter \<Rightarrow> AccountsDataMeter" where
  "adjust_delta_unchecked amt m = m\<lparr>adm_delta := i64_saturate (adm_delta m + amt)\<rparr>"

definition adjust_delta :: "int \<Rightarrow> AccountsDataMeter \<Rightarrow> AccountsDataMeter IResult" where
  "adjust_delta amt m =
     (if amt > sint (adm_remaining m) then Inl InstructionError.MaxAccountsDataSizeExceeded
      else Ok (adjust_delta_unchecked amt m))"


section \<open>Facts\<close>

lemma all_zero_replicate: "(\<forall>b\<in>set xs. b = 0) \<longleftrightarrow> xs = replicate (length xs) 0"
  by (metis in_set_replicate replicate_length_same)

text \<open>The chunked comparison is the plain one.\<close>

lemma is_zeroed_iff: "is_zeroed buf \<longleftrightarrow> (\<forall>b\<in>set buf. b = 0)"
proof -
  let ?n = "length buf div ZEROS_LEN"
  have pos: "0 < ZEROS_LEN" by (simp add: ZEROS_LEN_def)
  have le: "?n * ZEROS_LEN \<le> length buf" by (rule div_times_less_eq_dividend)
  have chunk: "slice (i * ZEROS_LEN) ZEROS_LEN buf = replicate ZEROS_LEN 0 \<longleftrightarrow>
      (\<forall>j < ZEROS_LEN. buf ! (i * ZEROS_LEN + j) = 0)" if "i < ?n" for i
  proof -
    have "Suc i * ZEROS_LEN \<le> ?n * ZEROS_LEN" using that by (intro mult_le_mono) auto
    with le have "i * ZEROS_LEN + ZEROS_LEN \<le> length buf" by (simp only: mult_Suc)
    then show ?thesis by (auto simp: slice_def list_eq_iff_nth_eq)
  qed
  have rest: "drop (?n * ZEROS_LEN) buf = take (length (drop (?n * ZEROS_LEN) buf)) (replicate ZEROS_LEN 0)
      \<longleftrightarrow> (\<forall>j < length buf - ?n * ZEROS_LEN. buf ! (?n * ZEROS_LEN + j) = 0)"
  proof -
    have "length buf - ?n * ZEROS_LEN < ZEROS_LEN"
      using pos by (simp add: minus_div_mult_eq_mod)
    then show ?thesis using le by (auto simp: list_eq_iff_nth_eq min_def)
  qed
  have split: "(\<forall>k < length buf. buf ! k = 0) \<longleftrightarrow>
      (\<forall>i < ?n. \<forall>j < ZEROS_LEN. buf ! (i * ZEROS_LEN + j) = 0) \<and>
      (\<forall>j < length buf - ?n * ZEROS_LEN. buf ! (?n * ZEROS_LEN + j) = 0)" (is "?all \<longleftrightarrow> ?chunks \<and> ?rest")
  proof
    assume ?all
    moreover have "i * ZEROS_LEN + j < length buf" if "i < ?n" "j < ZEROS_LEN" for i j
    proof -
      have "Suc i * ZEROS_LEN \<le> ?n * ZEROS_LEN" using that by (intro mult_le_mono) auto
      with le that(2) show ?thesis by (simp only: mult_Suc)
    qed
    ultimately show "?chunks \<and> ?rest" using le by auto
  next
    assume cr: "?chunks \<and> ?rest"
    show ?all
    proof (intro allI impI)
      fix k assume k: "k < length buf"
      show "buf ! k = 0"
      proof (cases "k div ZEROS_LEN < ?n")
        case True
        from cr [THEN conjunct1, rule_format, OF True, of "k mod ZEROS_LEN"] pos show ?thesis
          by (simp add: div_mult_mod_eq)
      next
        case False
        then have "?n * ZEROS_LEN \<le> k"
          by (metis div_times_less_eq_dividend le_trans mult_le_mono1 not_less)
        with cr [THEN conjunct2, rule_format, of "k - ?n * ZEROS_LEN"] k show ?thesis by simp
      qed
    qed
  qed
  show ?thesis
    unfolding is_zeroed_def Let_def list_all_iff all_set_conv_all_nth using chunk rest split by (simp add: Ball_def)
qed

text \<open>What a verified change of an account may be, in full.\<close>

lemma pre_account_verify_iff:
  "pre_account_verify p program_id writable rent post = Inr u \<longleftrightarrow>
     (owner (pre_account p) \<noteq> owner post \<longrightarrow>
        writable \<and> \<not> executable (pre_account p) \<and> program_id = owner (pre_account p) \<and> is_zeroed (data post)) \<and>
     (lamports post < lamports (pre_account p) \<longrightarrow> program_id = owner (pre_account p)) \<and>
     (lamports (pre_account p) \<noteq> lamports post \<longrightarrow> writable \<and> \<not> executable (pre_account p)) \<and>
     length (data post) \<le> unat MAX_PERMITTED_DATA_LENGTH \<and>
     (data (pre_account p) \<noteq> data post \<longrightarrow>
        program_id = owner (pre_account p) \<and> writable \<and> \<not> executable (pre_account p)) \<and>
     (executable (pre_account p) \<noteq> executable post \<longrightarrow>
        is_exempt rent (lamports post) (length (data post)) \<and> writable \<and>
        \<not> executable (pre_account p) \<and> program_id = owner post) \<and>
     rent_epoch (pre_account p) = rent_epoch post"
  unfolding pre_account_verify_def Let_def if_Inl_Inr_iff not_less by auto

lemma int_mod_shift: "- m \<le> d \<Longrightarrow> d < 0 \<Longrightarrow> d mod m = d + m" for d m :: int
  using mod_pos_pos_trivial [of "d + m" m] by simp

lemma saturating_add_signed_clamp:
  assumes "- (2 ^ 63) \<le> d" and "d < 2 ^ 63"
  shows "int (unat (saturating_add_signed a d)) = max 0 (min (2 ^ 64 - 1) (int (unat a) + d))"
proof -
  define m :: int where "m = 2 ^ 64"
  let ?r = "word_of_int d :: u64"
  have m: "m = 2 * 2 ^ 63" by (simp add: m_def)
  have a: "0 \<le> int (unat a)" "int (unat a) < m"
    using unsigned_less [of a, where 'a = int] by (simp_all add: m_def)
  have r: "int (unat ?r) = (if 0 \<le> d then d else d + m)"
  proof -
    have "int (unat ?r) = d mod m" by (simp add: of_nat_unat unsigned_of_int take_bit_eq_mod m_def)
    then show ?thesis using assms m int_mod_shift [of m d] by auto
  qed
  have sum: "int (unat (a + ?r)) = (int (unat a) + int (unat ?r)) mod m"
    by (simp add: unat_word_ariths zmod_int m_def)
  have over: "2 ^ 64 \<le> unat a + unat ?r \<longleftrightarrow> m \<le> int (unat a) + int (unat ?r)"
  proof -
    have "m = int (2 ^ 64)" by (simp add: m_def)
    then show ?thesis by (simp only: of_nat_add [symmetric] of_nat_le_iff)
  qed
  have top: "int (unat (- 1 :: u64)) = m - 1"
    by (simp add: unsigned_minus_1_eq_mask mask_eq_exp_minus_1 m_def)
  show ?thesis
  proof (cases "0 \<le> d")
    case True
    then have "int (unat (saturating_add_signed a d)) =
        (if m \<le> int (unat a) + d then m - 1 else (int (unat a) + d) mod m)"
      using sum r top unfolding saturating_add_signed_def Let_def over by simp
    then show ?thesis using True a m_def [symmetric] by (simp add: mod_pos_pos_trivial)
  next
    case False
    then have "int (unat (saturating_add_signed a d)) =
        (if m \<le> int (unat a) + (d + m) then (int (unat a) + d) mod m else 0)"
      using sum r unfolding saturating_add_signed_def Let_def over by (simp add: add.assoc [symmetric])
    then show ?thesis using False a m_def [symmetric] by (simp add: mod_pos_pos_trivial)
  qed
qed

end
