(* ===== verification/ComputeBudget.thy ===== *)
theory ComputeBudget
  imports Sdk
begin

text \<open>
  The compute budget of a transaction (\<open>program-runtime/src/compute_budget.rs\<close>), the
  instructions that change it (\<open>sdk/src/compute_budget.rs\<close>), the prioritization fee
  (\<open>program-runtime/src/prioritization_fee.rs\<close>) and the compute meter
  (\<open>ComputeMeter\<close> of \<open>program-runtime/src/invoke_context.rs\<close>).
  The borsh decoder of the instructions is not part of the repository: it is the argument
  \<open>decode\<close> of \<open>process_instructions\<close>. The products of 128-bit integers are
  integers here with the saturation at 128 bits written out.
\<close>

section \<open>Transaction errors\<close>

datatype (plugins only: code size) TransactionError =
    AccountInUse | AccountLoadedTwice | AccountNotFound | ProgramAccountNotFound
  | InsufficientFundsForFee | InvalidAccountForFee | AlreadyProcessed | BlockhashNotFound
  | InstructionError u8 InstructionError | CallChainTooDeep | MissingSignatureForFee
  | InvalidAccountIndex | SignatureFailure | InvalidProgramForExecution | SanitizeFailure
  | ClusterMaintenance | AccountBorrowOutstanding | WouldExceedMaxBlockCostLimit
  | UnsupportedVersion | InvalidWritableAccount | WouldExceedMaxAccountCostLimit
  | WouldExceedAccountDataBlockLimit | TooManyAccountLocks | AddressLookupTableNotFound
  | InvalidAddressLookupTableOwner | InvalidAddressLookupTableData
  | InvalidAddressLookupTableIndex | InvalidRentPayingAccount | WouldExceedMaxVoteCostLimit
  | WouldExceedAccountDataTotalLimit | DuplicateInstruction u8 | InsufficientFundsForRent u8

type_synonym 'a TResult = "TransactionError + 'a"


section \<open>Prioritization fees\<close>

definition MICRO_LAMPORTS_PER_LAMPORT :: nat where
  "MICRO_LAMPORTS_PER_LAMPORT = 1000000"

datatype PrioritizationFeeType = ComputeUnitPrice u64 | Deprecated u64

record PrioritizationFeeDetails =
  fee :: u64
  priority :: u64

definition u128_saturate :: "nat \<Rightarrow> nat" where
  "u128_saturate n = min n (2 ^ 128 - 1)"

definition u64_try_from :: "nat \<Rightarrow> u64" where
  "u64_try_from n = (if n < 2 ^ 64 then word_of_nat n else - 1)"

fun prioritization_fee_details_new :: "PrioritizationFeeType \<Rightarrow> u64 \<Rightarrow> PrioritizationFeeDetails" where
  "prioritization_fee_details_new (Deprecated f) compute_unit_limit =
     \<lparr>fee = f,
      priority = (if compute_unit_limit = 0 then 0
                  else u64_try_from (u128_saturate (unat f * MICRO_LAMPORTS_PER_LAMPORT) div unat compute_unit_limit))\<rparr>"
| "prioritization_fee_details_new (ComputeUnitPrice cu_price) compute_unit_limit =
     \<lparr>fee = u64_try_from
        (u128_saturate (u128_saturate (unat cu_price * unat compute_unit_limit) + (MICRO_LAMPORTS_PER_LAMPORT - 1))
           div MICRO_LAMPORTS_PER_LAMPORT),
      priority = cu_price\<rparr>"

definition prioritization_fee_details_default :: PrioritizationFeeDetails where
  "prioritization_fee_details_default = \<lparr>fee = 0, priority = 0\<rparr>"


section \<open>The budget\<close>

definition DEFAULT_INSTRUCTION_COMPUTE_UNIT_LIMIT :: u32 where
  "DEFAULT_INSTRUCTION_COMPUTE_UNIT_LIMIT = 200000"

definition MAX_COMPUTE_UNIT_LIMIT :: u32 where
  "MAX_COMPUTE_UNIT_LIMIT = 1400000"

definition MAX_HEAP_FRAME_BYTES :: u32 where
  "MAX_HEAP_FRAME_BYTES = 256 * 1024"

definition MIN_HEAP_FRAME_BYTES :: u32 where
  "MIN_HEAP_FRAME_BYTES = 32 * 1024"

definition compute_budget_id :: Pubkey where
  "compute_budget_id = 0x0306466fe5211732ffecadba72c39be7bc8ce5bbc5f7126b2c439b3a40000000"

record ComputeBudget =
  compute_unit_limit :: u64
  log_64_units :: u64
  create_program_address_units :: u64
  invoke_units :: u64
  max_invoke_depth :: nat
  sha256_base_cost :: u64
  sha256_byte_cost :: u64
  sha256_max_slices :: u64
  max_call_depth :: nat
  stack_frame_size :: nat
  log_pubkey_units :: u64
  max_cpi_instruction_size :: nat
  cpi_bytes_per_unit :: u64
  sysvar_base_cost :: u64
  secp256k1_recover_cost :: u64
  syscall_base_cost :: u64
  curve25519_edwards_validate_point_cost :: u64
  curve25519_edwards_add_cost :: u64
  curve25519_edwards_subtract_cost :: u64
  curve25519_edwards_multiply_cost :: u64
  curve25519_ristretto_validate_point_cost :: u64
  curve25519_ristretto_add_cost :: u64
  curve25519_ristretto_subtract_cost :: u64
  curve25519_ristretto_multiply_cost :: u64
  heap_size :: "nat option"
  heap_cost :: u64
  mem_op_base_cost :: u64

definition compute_budget_new :: "u64 \<Rightarrow> ComputeBudget" where
  "compute_budget_new limit =
     \<lparr>compute_unit_limit = limit, log_64_units = 100, create_program_address_units = 1500,
      invoke_units = 1000, max_invoke_depth = 4, sha256_base_cost = 85, sha256_byte_cost = 1,
      sha256_max_slices = 20000, max_call_depth = 64, stack_frame_size = 4096,
      log_pubkey_units = 100, max_cpi_instruction_size = 1280, cpi_bytes_per_unit = 250,
      sysvar_base_cost = 100, secp256k1_recover_cost = 25000, syscall_base_cost = 100,
      curve25519_edwards_validate_point_cost = 5000, curve25519_edwards_add_cost = 5000,
      curve25519_edwards_subtract_cost = 5000, curve25519_edwards_multiply_cost = 10000,
      curve25519_ristretto_validate_point_cost = 5000, curve25519_ristretto_add_cost = 5000,
      curve25519_ristretto_subtract_cost = 5000, curve25519_ristretto_multiply_cost = 10000,
      heap_size = None, heap_cost = 8, mem_op_base_cost = 10\<rparr>"

definition compute_budget_default :: ComputeBudget where
  "compute_budget_default = compute_budget_new (ucast MAX_COMPUTE_UNIT_LIMIT)"

datatype ComputeBudgetInstruction =
    RequestUnitsDeprecated u32 u32
  | RequestHeapFrame u32
  | SetComputeUnitLimit u32
  | SetComputeUnitPrice u64


section \<open>Requests for a budget\<close>

text \<open>The local variables of \<open>process_instructions\<close>.\<close>

record budget_request =
  num_non_compute_budget_instructions :: nat
  updated_compute_unit_limit :: "u32 option"
  requested_heap_size :: "(u32 \<times> u8) option"
  prioritization_fee :: "PrioritizationFeeType option"

definition budget_request_init :: budget_request where
  "budget_request_init =
     \<lparr>num_non_compute_budget_instructions = 0, updated_compute_unit_limit = None,
      requested_heap_size = None, prioritization_fee = None\<rparr>"

fun request_with_price ::
  "nat \<Rightarrow> ComputeBudgetInstruction option \<Rightarrow> budget_request \<Rightarrow> budget_request TResult" where
  "request_with_price i (Some (RequestUnitsDeprecated units additional_fee)) q =
     (if updated_compute_unit_limit q \<noteq> None \<or> prioritization_fee q \<noteq> None
      then Inl (DuplicateInstruction (word_of_nat i))
      else Ok (q\<lparr>updated_compute_unit_limit := Some units,
                 prioritization_fee := Some (Deprecated (ucast additional_fee))\<rparr>))"
| "request_with_price i (Some (RequestHeapFrame bytes)) q =
     (if requested_heap_size q \<noteq> None then Inl (DuplicateInstruction (word_of_nat i))
      else Ok (q\<lparr>requested_heap_size := Some (bytes, word_of_nat i)\<rparr>))"
| "request_with_price i (Some (SetComputeUnitLimit units)) q =
     (if updated_compute_unit_limit q \<noteq> None then Inl (DuplicateInstruction (word_of_nat i))
      else Ok (q\<lparr>updated_compute_unit_limit := Some units\<rparr>))"
| "request_with_price i (Some (SetComputeUnitPrice micro_lamports)) q =
     (if prioritization_fee q \<noteq> None then Inl (DuplicateInstruction (word_of_nat i))
      else Ok (q\<lparr>prioritization_fee := Some (ComputeUnitPrice micro_lamports)\<rparr>))"
| "request_with_price i None q =
     Inl (InstructionError (word_of_nat i) InstructionError.InvalidInstructionData)"

fun request_without_price ::
  "ComputeBudgetInstruction option \<Rightarrow> budget_request \<Rightarrow> budget_request TResult" where
  "request_without_price (Some (RequestUnitsDeprecated units additional_fee)) q =
     Ok (q\<lparr>updated_compute_unit_limit := Some units,
           prioritization_fee := Some (Deprecated (ucast additional_fee))\<rparr>)"
| "request_without_price (Some (RequestHeapFrame bytes)) q =
     Ok (q\<lparr>requested_heap_size := Some (bytes, 0)\<rparr>)"
| "request_without_price _ q = Inl (InstructionError 0 InstructionError.InvalidInstructionData)"

fun collect_requests ::
  "(bytes \<Rightarrow> ComputeBudgetInstruction option) \<Rightarrow> bool \<Rightarrow> nat \<Rightarrow> (Pubkey \<times> bytes) list
     \<Rightarrow> budget_request \<Rightarrow> budget_request TResult" where
  "collect_requests decode with_price i [] q = Ok q"
| "collect_requests decode with_price i ((program_id, input) # rest) q =
     and_then
       (if program_id = compute_budget_id then
          if with_price then request_with_price i (decode input) q
          else if i < 3 then request_without_price (decode input) q
          else Ok q
        else Ok (q\<lparr>num_non_compute_budget_instructions := Suc (num_non_compute_budget_instructions q)\<rparr>))
       (collect_requests decode with_price (Suc i) rest)"

definition u32_saturating_mul :: "u32 \<Rightarrow> u32 \<Rightarrow> u32" where
  "u32_saturating_mul a b = (if unat a * unat b < 2 ^ 32 then a * b else - 1)"

definition granted_limit :: "bool \<Rightarrow> budget_request \<Rightarrow> u32" where
  "granted_limit default_units_per_instruction q =
     (let requested =
            (if default_units_per_instruction \<and> updated_compute_unit_limit q = None
             then Some (u32_saturating_mul (word_of_nat (num_non_compute_budget_instructions q))
                          DEFAULT_INSTRUCTION_COMPUTE_UNIT_LIMIT)
             else updated_compute_unit_limit q)
      in min (case requested of None \<Rightarrow> MAX_COMPUTE_UNIT_LIMIT | Some u \<Rightarrow> u) MAX_COMPUTE_UNIT_LIMIT)"

definition process_instructions ::
  "(bytes \<Rightarrow> ComputeBudgetInstruction option) \<Rightarrow> (Pubkey \<times> bytes) list \<Rightarrow> bool \<Rightarrow> bool
     \<Rightarrow> ComputeBudget \<Rightarrow> (PrioritizationFeeDetails \<times> ComputeBudget) TResult" where
  "process_instructions decode instrs default_units_per_instruction with_price self =
     and_then (collect_requests decode with_price 0 instrs budget_request_init) (\<lambda>q.
     and_then
       (case requested_heap_size q of
          None \<Rightarrow> Ok self
        | Some (bytes, i) \<Rightarrow>
            if MAX_HEAP_FRAME_BYTES < bytes \<or> bytes < MIN_HEAP_FRAME_BYTES \<or> bytes mod 1024 \<noteq> 0
            then Inl (InstructionError i InstructionError.InvalidInstructionData)
            else Ok (self\<lparr>heap_size := Some (unat bytes)\<rparr>)) (\<lambda>self.
       let self = self\<lparr>compute_unit_limit := ucast (granted_limit default_units_per_instruction q)\<rparr>
       in Ok (case prioritization_fee q of
                None \<Rightarrow> prioritization_fee_details_default
              | Some t \<Rightarrow> prioritization_fee_details_new t (compute_unit_limit self), self)))"


section \<open>The meter\<close>

definition compute_meter_consume :: "u64 \<Rightarrow> u64 \<Rightarrow> (InstructionError + unit) \<times> u64" where
  "compute_meter_consume amt remaining =
     (if remaining < amt then Inl InstructionError.ComputationalBudgetExceeded else Ok (),
      saturating_sub remaining amt)"


text \<open>
  What \<open>create_vm\<close> of \<open>programs/bpf_loader/src/lib.rs\<close> takes of the budget: the size of the heap of the
  virtual machine, and the units charged for it.
\<close>

definition HEAP_LENGTH :: nat where
  "HEAP_LENGTH = 32 * 1024"

definition vm_heap_size :: "ComputeBudget \<Rightarrow> nat" where
  "vm_heap_size compute_budget = (case heap_size compute_budget of Some n \<Rightarrow> n | None \<Rightarrow> HEAP_LENGTH)"

definition u64_saturating_mul :: "u64 \<Rightarrow> u64 \<Rightarrow> u64" where
  "u64_saturating_mul a b = (if unat a * unat b < 2 ^ 64 then a * b else - 1)"

definition vm_heap_charge :: "ComputeBudget \<Rightarrow> u64" where
  "vm_heap_charge compute_budget =
     u64_saturating_mul (saturating_sub (word_of_nat (vm_heap_size compute_budget) div 32768) 1) (heap_cost compute_budget)"


section \<open>Bounds of a granted budget\<close>

lemma budget_limit_bound: "unat (ucast (granted_limit dflt q) :: u64) \<le> 1400000"
proof -
  have "unat (granted_limit dflt q) \<le> unat MAX_COMPUTE_UNIT_LIMIT"
    unfolding granted_limit_def Let_def by (metis min.cobounded2 word_le_nat_alt)
  then show ?thesis by (simp add: unat_ucast_32_64 MAX_COMPUTE_UNIT_LIMIT_def)
qed

lemma budget_heap_bound:
  assumes "\<not> (MAX_HEAP_FRAME_BYTES < b \<or> b < MIN_HEAP_FRAME_BYTES \<or> b mod 1024 \<noteq> 0)"
  shows "32768 \<le> unat b \<and> unat b \<le> 262144 \<and> unat b mod 1024 = 0"
proof -
  have "unat (b mod 1024) = unat b mod 1024" by (simp add: unat_mod)
  then show ?thesis
    using assms by (auto simp: MAX_HEAP_FRAME_BYTES_def MIN_HEAP_FRAME_BYTES_def word_le_nat_alt not_less)
qed

lemma process_instructions_Inr:
  assumes "process_instructions decode instrs dflt with_price self = Inr (details, self')"
  shows "\<exists>q. collect_requests decode with_price 0 instrs budget_request_init = Inr q \<and>
     compute_unit_limit self' = ucast (granted_limit dflt q) \<and> heap_cost self' = heap_cost self \<and>
     (case requested_heap_size q of
        None \<Rightarrow> heap_size self' = heap_size self
      | Some (b, i) \<Rightarrow> heap_size self' = Some (unat b) \<and>
          \<not> (MAX_HEAP_FRAME_BYTES < b \<or> b < MIN_HEAP_FRAME_BYTES \<or> b mod 1024 \<noteq> 0)) \<and>
     details = (case prioritization_fee q of None \<Rightarrow> prioritization_fee_details_default
       | Some t \<Rightarrow> prioritization_fee_details_new t (compute_unit_limit self'))"
proof -
  from assms obtain q where q: "collect_requests decode with_price 0 instrs budget_request_init = Inr q"
    by (auto simp: process_instructions_def res_simps)
  show ?thesis
  proof (cases "requested_heap_size q")
    case None
    then show ?thesis using assms q by (auto simp: process_instructions_def Let_def)
  next
    case (Some h)
    then show ?thesis
      using assms q by (cases h) (auto simp: process_instructions_def Let_def split: if_splits)
  qed
qed

text \<open>The heap of a virtual machine whose budget was granted, and the charge for it.\<close>

lemma granted_heap:
  assumes "process_instructions decode instrs dflt with_price (compute_budget_new limit) = Inr (details, budget)"
  shows "32768 \<le> vm_heap_size budget \<and> vm_heap_size budget \<le> 262144 \<and> vm_heap_size budget mod 1024 = 0 \<and>
    heap_cost budget = 8"
proof -
  have new: "heap_size (compute_budget_new limit) = None" "heap_cost (compute_budget_new limit) = 8"
    by (simp_all add: compute_budget_new_def)
  from process_instructions_Inr [OF assms, unfolded new] obtain q :: budget_request where c: "heap_cost budget = 8"
    and h: "case requested_heap_size q of
        None \<Rightarrow> heap_size budget = None
      | Some (b, i) \<Rightarrow> heap_size budget = Some (unat b) \<and>
          \<not> (MAX_HEAP_FRAME_BYTES < b \<or> b < MIN_HEAP_FRAME_BYTES \<or> b mod 1024 \<noteq> 0)"
    by (elim exE conjE)
  show ?thesis
  proof (cases "requested_heap_size q")
    case None
    then show ?thesis using h c by (simp add: vm_heap_size_def HEAP_LENGTH_def)
  next
    case (Some r)
    then obtain b i where "requested_heap_size q = Some (b, i)" by (cases r) simp
    with h have "heap_size budget = Some (unat b)" "32768 \<le> unat b \<and> unat b \<le> 262144 \<and> unat b mod 1024 = 0"
      using budget_heap_bound [of b] by auto
    then show ?thesis using c by (simp add: vm_heap_size_def)
  qed
qed

lemma heap_charge:
  assumes "32768 \<le> vm_heap_size budget" and "vm_heap_size budget \<le> 262144" and "heap_cost budget = 8"
  shows "unat (vm_heap_charge budget) = 8 * (vm_heap_size budget div 32768 - 1)"
proof -
  let ?w = "word_of_nat (vm_heap_size budget) div 32768 :: u64"
  have w: "unat ?w = vm_heap_size budget div 32768"
    using assms(2) by (simp add: unat_div unat_of_nat)
  have "1 \<le> vm_heap_size budget div 32768" "vm_heap_size budget div 32768 \<le> 8"
    using assms(1,2) div_le_mono [of _ _ 32768] by fastforce+
  then have s: "unat (saturating_sub ?w 1) = vm_heap_size budget div 32768 - 1"
    using w by (simp add: saturating_sub_def word_le_nat_alt unat_sub)
  moreover have "vm_heap_size budget div 32768 - 1 < 2305843009213693952"
    using \<open>vm_heap_size budget div 32768 \<le> 8\<close> by linarith
  ultimately show ?thesis
    using assms(3) by (simp add: vm_heap_charge_def u64_saturating_mul_def unat_word_ariths)
qed

lemma unat_u64_try_from: "unat (u64_try_from n) = min n (2 ^ 64 - 1)"
  by (auto simp: u64_try_from_def unat_of_nat unsigned_minus_1_eq_mask mask_eq_exp_minus_1)

text \<open>The price per unit is charged in full lamports, rounded up; the fee saturates at 64 bits.\<close>

lemma compute_unit_price_fee:
  "unat (fee (prioritization_fee_details_new (ComputeUnitPrice p) limit)) =
     min ((unat p * unat limit + 999999) div 1000000) (2 ^ 64 - 1)"
proof -
  have "unat p * unat limit \<le> 18446744073709551615 * 18446744073709551615"
    using unat_less_2_64 [of p] unat_less_2_64 [of limit] by (intro mult_le_mono) linarith+
  then have "u128_saturate (u128_saturate (unat p * unat limit) + 999999) = unat p * unat limit + 999999"
    by (simp add: u128_saturate_def)
  then show ?thesis by (simp add: unat_u64_try_from MICRO_LAMPORTS_PER_LAMPORT_def)
qed

end
