(* ===== verification/InvokeContext.thy ===== *)
theory InvokeContext
  imports PreAccount ComputeBudget
begin

text \<open>
  Processing of instructions (\<open>program-runtime/src/invoke_context.rs\<close>): the stack of invocations,
  cross-program invocations with their privilege checks, and the verification of what a program did.

  An \<open>&mut self\<close> method that returns a \<open>Result\<close> is an action on \<open>InvokeContext\<close>: it returns
  the state left behind on errors too. Timings and log lines are left out, and \<open>InvokeContext\<close> and the
  cache of the sysvars keep only the fields that the modelled code reads or writes. The contents of a program
  account of the upgradeable loader are decoded by bincode, which is not part of the repository: the
  decoder is the argument \<open>loader_state\<close>.

  What a program does is a parameter as well. A program is a function from its context to a tree
  \<open>prog\<close> of the effects that the interface of the runtime offers: writing an account of the
  instruction, setting the return data, consuming compute units, invoking another program, and
  returning. An invocation that fails ends the calling program with the error, as the syscalls of
  the loader and the \<open>?\<close> of the built-in programs do.
\<close>

datatype UpgradeableLoaderState =
    Uninitialized
  | Buffer "Pubkey option"
  | Program Pubkey
  | ProgramData u64 "Pubkey option"

datatype Feature =
    cap_accounts_data_len
  | record_instruction_in_transaction_context_push
  | prevent_calling_precompiles_as_programs
  | system_transfer_zero_check
  | merge_nonce_error_into_system_error

record SysvarCache =
  sysvar_rent :: "Rent option"
  sysvar_recent_blockhashes :: "(Pubkey \<times> u64) list option"

record KeyedAccount =
  ka_is_signer :: bool
  ka_is_writable :: bool
  ka_key :: Pubkey
  ka_index :: nat

record StackFrame =
  number_of_program_accounts :: nat
  keyed_accounts :: "KeyedAccount list"

record SyscallContext =
  check_aligned :: bool
  check_size :: bool
  orig_account_lengths :: "nat list"

record InvokeContext =
  transaction_context :: TransactionContext
  invoke_stack :: "StackFrame list"
  ic_rent :: Rent
  pre_accounts :: "PreAccount list"
  sysvar_cache :: SysvarCache
  compute_budget :: ComputeBudget
  current_compute_budget :: ComputeBudget
  compute_meter :: u64
  accounts_data_meter :: AccountsDataMeter
  feature_set :: "Feature set"
  blockhash :: Pubkey
  lamports_per_signature :: u64
  syscall_context :: "SyscallContext option list"

type_synonym 'a ICM = "(InvokeContext, InstructionError, 'a) action"

definition invoke_context_new ::
  "TransactionContext \<Rightarrow> Rent \<Rightarrow> SysvarCache \<Rightarrow> ComputeBudget \<Rightarrow> Feature set \<Rightarrow> Pubkey \<Rightarrow> u64 \<Rightarrow> u64
     \<Rightarrow> InvokeContext" where
  "invoke_context_new tc rent cache budget features hash per_signature prev_accounts_data_len =
     \<lparr>transaction_context = tc, invoke_stack = [], ic_rent = rent, pre_accounts = [],
      sysvar_cache = cache, compute_budget = budget, current_compute_budget = budget,
      compute_meter = compute_unit_limit budget,
      accounts_data_meter = accounts_data_meter_new prev_accounts_data_len,
      feature_set = features, blockhash = hash, lamports_per_signature = per_signature,
      syscall_context = []\<rparr>"

abbreviation is_active :: "Feature \<Rightarrow> InvokeContext \<Rightarrow> bool" where
  "is_active f ic \<equiv> f \<in> feature_set ic"

abbreviation get_stack_height :: "InvokeContext \<Rightarrow> nat" where
  "get_stack_height ic \<equiv> get_instruction_context_stack_height (transaction_context ic)"


section \<open>The invocation stack\<close>

text \<open>\<open>collect::<Result<Vec<_>, _>>\<close>.\<close>

fun collect :: "('a \<Rightarrow> 'e + 'b) \<Rightarrow> 'a list \<Rightarrow> 'e + 'b list" where
  "collect f [] = Ok []"
| "collect f (x # xs) = and_then (f x) (\<lambda>y. and_then (collect f xs) (\<lambda>ys. Ok (y # ys)))"

text \<open>The copies of the accounts of a top-level instruction; duplicates are skipped.\<close>

fun take_pre_accounts :: "nat \<Rightarrow> InstructionAccount list \<Rightarrow> unit ICM" where
  "take_pre_accounts i [] = sret ()"
| "take_pre_accounts i (ia # ias) =
     (if i \<noteq> index_in_callee ia then take_pre_accounts (Suc i) ias
      else
        sbind (sread (\<lambda>ic. require (index_in_transaction ia < length (accounts (transaction_context ic)))
          InstructionError.MissingAccount)) (\<lambda>_.
        sbind (sread (\<lambda>ic. get_account_at_index (transaction_context ic) (index_in_transaction ia))) (\<lambda>account.
        sbind (sread (\<lambda>ic. get_key_of_account_at_index (transaction_context ic) (index_in_transaction ia))) (\<lambda>k.
        sbind (smodify (\<lambda>ic. ic\<lparr>pre_accounts := pre_accounts ic @ [pre_account_new k account]\<rparr>)) (\<lambda>_.
          take_pre_accounts (Suc i) ias)))))"

text \<open>Whether the last program account of a context has the given key; errors count as no.\<close>

definition last_program_is :: "TransactionContext \<Rightarrow> Pubkey \<Rightarrow> InstructionContext IResult \<Rightarrow> bool" where
  "last_program_is tc program_id ctx =
     (case and_then ctx (\<lambda>c. try_borrow_last_program_account c tc) of
        Inr b \<Rightarrow> get_key tc b = program_id
      | Inl _ \<Rightarrow> False)"

definition check_reentrancy :: "TransactionContext \<Rightarrow> Pubkey \<Rightarrow> unit IResult" where
  "check_reentrancy tc program_id =
     (let contains = list_ex (\<lambda>level. last_program_is tc program_id (get_instruction_context_at tc level))
            [0..<get_instruction_context_stack_height tc];
          is_last = last_program_is tc program_id (get_current_instruction_context tc)
      in if contains \<and> \<not> is_last then Inl InstructionError.ReentrancyNotAllowed else Ok ())"

definition keyed_account_at :: "TransactionContext \<Rightarrow> bool \<Rightarrow> bool \<Rightarrow> nat \<Rightarrow> KeyedAccount IResult" where
  "keyed_account_at tc signer writable i =
     and_then (get_key_of_account_at_index tc i) (\<lambda>k.
     and_then (get_account_at_index tc i) (\<lambda>_.
       Ok \<lparr>ka_is_signer = signer, ka_is_writable = writable, ka_key = k, ka_index = i\<rparr>))"

definition create_keyed_accounts ::
  "TransactionContext \<Rightarrow> nat list \<Rightarrow> InstructionAccount list \<Rightarrow> KeyedAccount list IResult" where
  "create_keyed_accounts tc program_indices ias =
     and_then (collect (keyed_account_at tc False False) program_indices) (\<lambda>ps.
     and_then (collect (\<lambda>ia. keyed_account_at tc (ia_is_signer ia) (ia_is_writable ia) (index_in_transaction ia)) ias)
       (\<lambda>is. Ok (ps @ is)))"

definition push_transaction_context ::
  "InstructionAccount list \<Rightarrow> nat list \<Rightarrow> bytes \<Rightarrow> unit ICM" where
  "push_transaction_context ias program_indices input ic =
     (let (r, tc) = tc_push program_indices ias input
            (is_active record_instruction_in_transaction_context_push ic) (transaction_context ic)
      in (r, ic\<lparr>transaction_context := tc\<rparr>))"

definition push :: "InstructionAccount list \<Rightarrow> nat list \<Rightarrow> bytes \<Rightarrow> unit ICM" where
  "push ias program_indices input =
     sbind (sread (\<lambda>ic. require
       (is_active record_instruction_in_transaction_context_push ic \<or>
        get_stack_height ic \<le> max_invoke_depth (compute_budget ic)) InstructionError.CallDepth)) (\<lambda>_.
     sbind (sread (\<lambda>ic.
       and_then (ok_or (if program_indices = [] then None else Some (last program_indices))
                   InstructionError.UnsupportedProgramId)
         (get_key_of_account_at_index (transaction_context ic)))) (\<lambda>program_id.
     sbind (\<lambda>ic.
       if get_stack_height ic = 0
       then take_pre_accounts 0 ias (ic\<lparr>current_compute_budget := compute_budget ic, pre_accounts := []\<rparr>)
       else (check_reentrancy (transaction_context ic) program_id, ic)) (\<lambda>_.
     sbind (sread (\<lambda>ic. create_keyed_accounts (transaction_context ic) program_indices ias)) (\<lambda>keyed.
     sbind (smodify (\<lambda>ic. ic\<lparr>
         invoke_stack := invoke_stack ic @
           [\<lparr>number_of_program_accounts = length program_indices, keyed_accounts = keyed\<rparr>],
         syscall_context := syscall_context ic @ [None]\<rparr>)) (\<lambda>_.
       push_transaction_context ias program_indices input)))))"

definition pop :: "unit ICM" where
  "pop ic =
     (let ic = ic\<lparr>syscall_context := butlast (syscall_context ic), invoke_stack := butlast (invoke_stack ic)\<rparr>
      in case tc_pop (transaction_context ic) of
           Inl e \<Rightarrow> (Inl e, ic)
         | Inr tc \<Rightarrow> (Ok (), ic\<lparr>transaction_context := tc\<rparr>))"


section \<open>Verification of an instruction\<close>

definition u128_checked_add :: "nat \<Rightarrow> u64 \<Rightarrow> nat IResult" where
  "u128_checked_add s x =
     (if s + unat x < 2 ^ 128 then Ok (s + unat x) else Inl InstructionError.UnbalancedInstruction)"

definition meter_data_len :: "nat \<Rightarrow> nat \<Rightarrow> unit ICM" where
  "meter_data_len pre_data_len post_data_len ic =
     (let delta = i64_saturate (int post_data_len - int pre_data_len)
      in if is_active cap_accounts_data_len ic then
           case adjust_delta delta (accounts_data_meter ic) of
             Inl e \<Rightarrow> (Inl e, ic)
           | Inr m \<Rightarrow> (Ok (), ic\<lparr>accounts_data_meter := m\<rparr>)
         else (Ok (), ic\<lparr>accounts_data_meter := adjust_delta_unchecked delta (accounts_data_meter ic)\<rparr>))"

fun verify_accounts ::
  "Pubkey \<Rightarrow> nat \<Rightarrow> InstructionAccount list \<Rightarrow> nat \<Rightarrow> nat \<Rightarrow> nat \<Rightarrow> (nat \<times> nat) ICM" where
  "verify_accounts program_id i [] k pre_sum post_sum = sret (pre_sum, post_sum)"
| "verify_accounts program_id i (ia # ias) k pre_sum post_sum =
     (if i \<noteq> index_in_callee ia then verify_accounts program_id (Suc i) ias k pre_sum post_sum
      else
        sbind (sread (\<lambda>ic. get_account_at_index (transaction_context ic) (index_in_transaction ia))) (\<lambda>account.
        sbind (sread (\<lambda>ic. ok_or (get (pre_accounts ic) k) InstructionError.NotEnoughAccountKeys)) (\<lambda>pre.
        sbind (sread (\<lambda>ic. pre_account_verify pre program_id (ia_is_writable ia) (ic_rent ic) account)) (\<lambda>_.
        sbind (sread (\<lambda>_. u128_checked_add pre_sum (lamports (pre_account pre)))) (\<lambda>pre_sum.
        sbind (sread (\<lambda>_. u128_checked_add post_sum (lamports account))) (\<lambda>post_sum.
        sbind (meter_data_len (length (data (pre_account pre))) (length (data account))) (\<lambda>_.
          verify_accounts program_id (Suc i) ias (Suc k) pre_sum post_sum)))))))"

definition verify :: "InstructionAccount list \<Rightarrow> nat list \<Rightarrow> unit ICM" where
  "verify ias program_indices =
     sbind (sread (\<lambda>ic. map_err (\<lambda>_. InstructionError.CallDepth)
       (get_current_instruction_context (transaction_context ic)))) (\<lambda>ctx.
     sbind (sread (\<lambda>ic. map_err (\<lambda>_. InstructionError.CallDepth)
       (get_last_program_key ctx (transaction_context ic)))) (\<lambda>program_id.
     sbind (sread (\<lambda>ic. collect (get_account_at_index (transaction_context ic)) program_indices)) (\<lambda>_.
     sbind (verify_accounts program_id 0 ias 0 0 0) (\<lambda>(pre_sum, post_sum).
       if pre_sum \<noteq> post_sum then sfail InstructionError.UnbalancedInstruction else sret ()))))"

text \<open>
  The body of the loop over the matching \<open>PreAccount\<close>. The length of the old data is read after
  the update, as in the source.
\<close>

definition update_account ::
  "Pubkey \<Rightarrow> bool \<Rightarrow> Account \<Rightarrow> nat \<Rightarrow> nat \<Rightarrow> nat \<Rightarrow> (nat \<times> nat) ICM" where
  "update_account program_id writable account j pre_sum post_sum =
     sbind (sread (\<lambda>ic. pre_account_verify (pre_accounts ic ! j) program_id writable (ic_rent ic) account)) (\<lambda>_.
     sbind (sread (\<lambda>ic. u128_checked_add pre_sum (lamports (pre_account (pre_accounts ic ! j))))) (\<lambda>pre_sum.
     sbind (sread (\<lambda>_. u128_checked_add post_sum (lamports account))) (\<lambda>post_sum.
     sbind (smodify (\<lambda>ic.
       if writable \<and> \<not> executable (pre_account (pre_accounts ic ! j))
       then ic\<lparr>pre_accounts := (pre_accounts ic)[j := pre_account_update account (pre_accounts ic ! j)]\<rparr>
       else ic)) (\<lambda>_.
     sbind (\<lambda>ic. meter_data_len (length (data (pre_account (pre_accounts ic ! j)))) (length (data account)) ic)
       (\<lambda>_. sret (pre_sum, post_sum))))))"

fun update_accounts ::
  "InstructionContext \<Rightarrow> Pubkey \<Rightarrow> bool \<Rightarrow> nat \<Rightarrow> InstructionAccount list \<Rightarrow> nat \<Rightarrow> nat \<Rightarrow> (nat \<times> nat) ICM" where
  "update_accounts ctx program_id before i [] pre_sum post_sum = sret (pre_sum, post_sum)"
| "update_accounts ctx program_id before i (ia # ias) pre_sum post_sum =
     (if i \<noteq> index_in_callee ia then update_accounts ctx program_id before (Suc i) ias pre_sum post_sum
      else (\<lambda>ic.
        if length (accounts (transaction_context ic)) \<le> index_in_transaction ia
        then update_accounts ctx program_id before (Suc i) ias pre_sum post_sum ic
        else
          sbind (sread (\<lambda>ic. get_key_of_account_at_index (transaction_context ic) (index_in_transaction ia))) (\<lambda>k.
          sbind (sread (\<lambda>ic. get_account_at_index (transaction_context ic) (index_in_transaction ia))) (\<lambda>account.
          sbind (sread (\<lambda>_. if before then is_instruction_account_writable ctx (index_in_caller ia)
                            else Ok (ia_is_writable ia))) (\<lambda>writable.
          sbind (\<lambda>ic. case find_position (\<lambda>p. k = pre_key p) (pre_accounts ic) of
                   None \<Rightarrow> (Ok (pre_sum, post_sum), ic)
                 | Some j \<Rightarrow> update_account program_id writable account j pre_sum post_sum ic)
            (\<lambda>(pre_sum, post_sum). update_accounts ctx program_id before (Suc i) ias pre_sum post_sum)))) ic))"

definition verify_and_update :: "InstructionAccount list \<Rightarrow> bool \<Rightarrow> unit ICM" where
  "verify_and_update ias before_instruction_context_push =
     sbind (sread (\<lambda>ic. get_current_instruction_context (transaction_context ic))) (\<lambda>ctx.
     sbind (sread (\<lambda>ic. map_err (\<lambda>_. InstructionError.CallDepth)
       (get_last_program_key ctx (transaction_context ic)))) (\<lambda>program_id.
     sbind (update_accounts ctx program_id before_instruction_context_push 0 ias 0 0) (\<lambda>(pre_sum, post_sum).
       if pre_sum \<noteq> post_sum then sfail InstructionError.UnbalancedInstruction else sret ())))"


section \<open>Preparing a cross-program invocation\<close>

fun deduplicate_metas ::
  "InstructionContext \<Rightarrow> TransactionContext \<Rightarrow> nat \<Rightarrow> AccountMeta list
     \<Rightarrow> InstructionAccount list \<Rightarrow> nat list \<Rightarrow> (InstructionAccount list \<times> nat list) IResult" where
  "deduplicate_metas ctx tc i [] dedup dups = Ok (dedup, dups)"
| "deduplicate_metas ctx tc i (m # ms) dedup dups =
     and_then (ok_or (find_index_of_account tc (meta_pubkey m)) InstructionError.MissingAccount) (\<lambda>index.
     and_then
       (case find_position (\<lambda>ia. index_in_transaction ia = index) dedup of
          Some d \<Rightarrow>
            and_then (ok_or (get dedup d) InstructionError.NotEnoughAccountKeys) (\<lambda>ia.
              Ok (dedup[d := ia\<lparr>ia_is_signer := ia_is_signer ia \<or> meta_is_signer m,
                                ia_is_writable := ia_is_writable ia \<or> meta_is_writable m\<rparr>], dups @ [d]))
        | None \<Rightarrow>
            and_then (ok_or (find_index_of_instruction_account ctx tc (meta_pubkey m)) InstructionError.MissingAccount)
              (\<lambda>caller.
                Ok (dedup @ [\<lparr>index_in_transaction = index, index_in_caller = caller, index_in_callee = i,
                             ia_is_signer = meta_is_signer m, ia_is_writable = meta_is_writable m\<rparr>],
                    dups @ [length dedup])))
       (\<lambda>(dedup, dups). deduplicate_metas ctx tc (Suc i) ms dedup dups))"

definition check_privileges ::
  "InstructionContext \<Rightarrow> TransactionContext \<Rightarrow> Pubkey list \<Rightarrow> InstructionAccount \<Rightarrow> unit IResult" where
  "check_privileges ctx tc signers ia =
     and_then (try_borrow_instruction_account ctx tc (index_in_caller ia)) (\<lambda>b.
       if ia_is_writable ia \<and> \<not> ba_is_writable b then Inl InstructionError.PrivilegeEscalation
       else if ia_is_signer ia \<and> \<not> (ba_is_signer b \<or> get_key tc b \<in> set signers)
       then Inl InstructionError.PrivilegeEscalation
       else Ok ())"

definition find_program_indices ::
  "(bytes \<Rightarrow> UpgradeableLoaderState option) \<Rightarrow> InstructionContext \<Rightarrow> TransactionContext \<Rightarrow> Pubkey \<Rightarrow> nat list IResult" where
  "find_program_indices loader_state ctx tc callee_program_id =
     and_then (ok_or (find_index_of_instruction_account ctx tc callee_program_id) InstructionError.MissingAccount)
       (\<lambda>program_account_index.
     and_then (try_borrow_instruction_account ctx tc program_account_index) (\<lambda>b.
       if \<not> executable (borrowed tc b) then Inl InstructionError.AccountNotExecutable
       else and_then
         (if owner (borrowed tc b) = bpf_loader_upgradeable_id then
            and_then (ok_or (loader_state (data (borrowed tc b))) InstructionError.InvalidAccountData) (\<lambda>st.
              case st of
                Program programdata_address \<Rightarrow>
                  (case tc_find_index_of_program_account tc programdata_address of
                     Some i \<Rightarrow> Ok [i]
                   | None \<Rightarrow> Inl InstructionError.MissingAccount)
              | _ \<Rightarrow> Inl InstructionError.MissingAccount)
          else Ok [])
         (\<lambda>program_indices. Ok (program_indices @ [ba_index_in_transaction b]))))"

definition prepare_instruction ::
  "(bytes \<Rightarrow> UpgradeableLoaderState option) \<Rightarrow> Instruction \<Rightarrow> Pubkey list \<Rightarrow> TransactionContext
     \<Rightarrow> (InstructionAccount list \<times> nat list) IResult" where
  "prepare_instruction loader_state instruction signers tc =
     and_then (get_current_instruction_context tc) (\<lambda>ctx.
     and_then (deduplicate_metas ctx tc 0 (instr_accounts instruction) [] []) (\<lambda>(dedup, dups).
     and_then (collect (check_privileges ctx tc signers) dedup) (\<lambda>_.
     and_then (collect (\<lambda>d. ok_or (get dedup d) InstructionError.NotEnoughAccountKeys) dups) (\<lambda>ias.
     and_then (find_program_indices loader_state ctx tc (instr_program_id instruction)) (\<lambda>program_indices.
       Ok (ias, program_indices))))))"


section \<open>Programs\<close>

datatype prog =
    Return "unit IResult"
  | Write nat Account prog
  | SetReturnData bytes prog
  | Consume u64 prog
  | Invoke Instruction "Pubkey list" "InvokeContext \<Rightarrow> prog"

record BuiltinProgram =
  bp_program_id :: Pubkey
  bp_process_instruction :: "nat \<Rightarrow> InvokeContext \<Rightarrow> prog"

definition write_instruction_account :: "nat \<Rightarrow> Account \<Rightarrow> unit ICM" where
  "write_instruction_account i a =
     sbind (sread (\<lambda>ic. and_then (get_current_instruction_context (transaction_context ic)) (\<lambda>ctx.
       try_borrow_instruction_account ctx (transaction_context ic) i))) (\<lambda>b.
       smodify (\<lambda>ic. ic\<lparr>transaction_context :=
         update_borrowed b (\<lambda>_. a) (set_data b (data a) (transaction_context ic))\<rparr>))"

definition set_program_return_data :: "bytes \<Rightarrow> unit ICM" where
  "set_program_return_data bs =
     sbind (sread (\<lambda>ic. and_then (get_current_instruction_context (transaction_context ic)) (\<lambda>ctx.
       get_last_program_key ctx (transaction_context ic)))) (\<lambda>program_id.
       smodify (\<lambda>ic. ic\<lparr>transaction_context := set_return_data program_id bs (transaction_context ic)\<rparr>))"

definition consume :: "u64 \<Rightarrow> unit ICM" where
  "consume units ic =
     (let (r, remaining) = compute_meter_consume units (compute_meter ic)
      in (r, ic\<lparr>compute_meter := remaining\<rparr>))"

primrec run_prog :: "(Instruction \<Rightarrow> Pubkey list \<Rightarrow> unit ICM) \<Rightarrow> prog \<Rightarrow> unit ICM" where
  "run_prog invoke (Return r) = sread (\<lambda>_. r)"
| "run_prog invoke (Write i a p) = sbind (write_instruction_account i a) (\<lambda>_. run_prog invoke p)"
| "run_prog invoke (SetReturnData bs p) = sbind (set_program_return_data bs) (\<lambda>_. run_prog invoke p)"
| "run_prog invoke (Consume units p) = sbind (consume units) (\<lambda>_. run_prog invoke p)"
| "run_prog invoke (Invoke ix signers k) = sbind (invoke ix signers) (\<lambda>_ ic. run_prog invoke (k ic) ic)"


section \<open>Processing an instruction\<close>

text \<open>
  The result is that of the program, with the compute units it consumed. \<open>invoke\<close> is the entry
  point for the cross-program invocations of the program.
\<close>

definition builtin_of :: "TransactionContext \<Rightarrow> BorrowedAccount \<Rightarrow> nat \<times> Pubkey" where
  "builtin_of tc root =
     (let owner_id = owner (borrowed tc root)
      in if owner_id = native_loader_id then (1, get_key tc root) else (0, owner_id))"

definition run_builtin ::
  "(Instruction \<Rightarrow> Pubkey list \<Rightarrow> unit ICM) \<Rightarrow> BuiltinProgram \<Rightarrow> nat \<Rightarrow> Pubkey \<Rightarrow> u64 ICM" where
  "run_builtin invoke entry first_instruction_account program_id ic =
     (let ic = ic\<lparr>transaction_context := set_return_data program_id [] (transaction_context ic)\<rparr>;
          (r, ic') = run_prog invoke (bp_process_instruction entry first_instruction_account ic) ic
      in (and_then r (\<lambda>_. Ok (saturating_sub (compute_meter ic) (compute_meter ic'))), ic'))"

definition process_executable_chain ::
  "BuiltinProgram list \<Rightarrow> (Instruction \<Rightarrow> Pubkey list \<Rightarrow> unit ICM) \<Rightarrow> u64 ICM" where
  "process_executable_chain builtins invoke =
     sbind (sread (\<lambda>ic. get_current_instruction_context (transaction_context ic))) (\<lambda>ctx.
     sbind (sread (\<lambda>ic. map_err (\<lambda>_. InstructionError.UnsupportedProgramId)
       (and_then (try_borrow_program_account ctx (transaction_context ic) 0)
          (\<lambda>root. Ok (builtin_of (transaction_context ic) root))))) (\<lambda>(first_instruction_account, builtin_id).
     sbind (sread (\<lambda>_. ok_or (find (\<lambda>entry. bp_program_id entry = builtin_id) builtins)
       InstructionError.UnsupportedProgramId)) (\<lambda>entry.
     sbind (sread (\<lambda>ic. get_last_program_key ctx (transaction_context ic))) (\<lambda>program_id.
       run_builtin invoke entry first_instruction_account program_id))))"

definition record_caller :: "InstructionAccount list \<Rightarrow> nat list \<Rightarrow> bytes \<Rightarrow> InvokeContext \<Rightarrow> InvokeContext" where
  "record_caller ias program_indices input ic =
     (if is_active record_instruction_in_transaction_context_push ic then ic
      else ic\<lparr>transaction_context := tc_record_instruction
        \<lparr>nesting_level = get_stack_height ic, program_accounts = program_indices,
         instruction_accounts = ias, instruction_data = input\<rparr> (transaction_context ic)\<rparr>)"

text \<open>\<open>result.and(self.pop())\<close>: the stack is popped whatever the result.\<close>

definition and_pop :: "'a ICM \<Rightarrow> 'a ICM" where
  "and_pop m ic =
     (let (r, ic) = m ic; (r', ic) = pop ic
      in (case r of Inl e \<Rightarrow> Inl e | Inr x \<Rightarrow> and_then r' (\<lambda>_. Ok x), ic))"

definition process_instruction_with ::
  "BuiltinProgram list \<Rightarrow> (Instruction \<Rightarrow> Pubkey list \<Rightarrow> unit ICM)
     \<Rightarrow> bytes \<Rightarrow> InstructionAccount list \<Rightarrow> nat list \<Rightarrow> u64 ICM" where
  "process_instruction_with builtins invoke input ias program_indices ic =
     (let is_top_level_instruction = (get_stack_height ic = 0)
      in sbind (if is_top_level_instruction then sret ()
                else sbind (verify_and_update ias True) (\<lambda>_. smodify (record_caller ias program_indices input))) (\<lambda>_.
         sbind (push ias program_indices input) (\<lambda>_.
           and_pop
             (sbind (process_executable_chain builtins invoke) (\<lambda>units.
              sbind (if is_top_level_instruction then verify ias program_indices
                     else verify_and_update ias False) (\<lambda>_. sret units))))) ic)"

definition native_invoke_with ::
  "(bytes \<Rightarrow> UpgradeableLoaderState option)
     \<Rightarrow> (bytes \<Rightarrow> InstructionAccount list \<Rightarrow> nat list \<Rightarrow> u64 ICM) \<Rightarrow> Instruction \<Rightarrow> Pubkey list \<Rightarrow> unit ICM" where
  "native_invoke_with loader_state process instruction signers =
     sbind (sread (\<lambda>ic. prepare_instruction loader_state instruction signers (transaction_context ic))) (\<lambda>(ias, program_indices).
     sbind (sread (\<lambda>ic. collect (\<lambda>ia. get_account_at_index (transaction_context ic) (index_in_transaction ia)) ias)) (\<lambda>_.
     sbind (process (instr_data instruction) ias program_indices) (\<lambda>_. sret ())))"

text \<open>
  The nesting is bounded by the capacity of the instruction stack, which \<open>push\<close> enforces: one
  more level of recursion than there are free places on the stack is enough
  (\<open>process_instruction_unfold\<close>).
\<close>

fun process_nested ::
  "(bytes \<Rightarrow> UpgradeableLoaderState option) \<Rightarrow> BuiltinProgram list \<Rightarrow> nat
     \<Rightarrow> bytes \<Rightarrow> InstructionAccount list \<Rightarrow> nat list \<Rightarrow> u64 ICM" where
  "process_nested loader_state builtins 0 input ias program_indices = sfail InstructionError.CallDepth"
| "process_nested loader_state builtins (Suc n) input ias program_indices =
     process_instruction_with builtins
       (native_invoke_with loader_state (process_nested loader_state builtins n)) input ias program_indices"

definition process_instruction ::
  "(bytes \<Rightarrow> UpgradeableLoaderState option) \<Rightarrow> BuiltinProgram list
     \<Rightarrow> bytes \<Rightarrow> InstructionAccount list \<Rightarrow> nat list \<Rightarrow> u64 ICM" where
  "process_instruction loader_state builtins input ias program_indices ic =
     process_nested loader_state builtins
       (Suc (instruction_context_capacity (transaction_context ic) - get_stack_height ic))
       input ias program_indices ic"

definition native_invoke ::
  "(bytes \<Rightarrow> UpgradeableLoaderState option) \<Rightarrow> BuiltinProgram list \<Rightarrow> Instruction \<Rightarrow> Pubkey list \<Rightarrow> unit ICM" where
  "native_invoke loader_state builtins = native_invoke_with loader_state (process_instruction loader_state builtins)"

end
