(* ===== verification/Message.thy ===== *)
theory Message
  imports Sdk
begin

text \<open>
  Transaction messages (\<open>sdk/program/src/message\<close>): the legacy message, its header and its
  validation (\<open>legacy.rs\<close>), the compilation of instructions into a message
  (\<open>compiled_keys.rs\<close>) and the view the runtime takes of a message (\<open>sanitized.rs\<close>).
  \<open>None\<close> is a panic (\<open>unwrap\<close> or \<open>expect\<close>). A \<open>BTreeMap\<close> is the list of its entries
  in the order of the keys.
\<close>

record MessageHeader =
  num_required_signatures :: u8
  num_readonly_signed_accounts :: u8
  num_readonly_unsigned_accounts :: u8

record CompiledInstruction =
  program_id_index :: u8
  ci_accounts :: "u8 list"
  ci_data :: bytes

record Message =
  header :: MessageHeader
  msg_account_keys :: "Pubkey list"
  recent_blockhash :: Pubkey
  instructions :: "CompiledInstruction list"

datatype SanitizeError = IndexOutOfBounds | ValueOutOfBounds | InvalidValue


section \<open>Built-in programs and sysvars\<close>

definition instructions_sysvar_id :: Pubkey where
  "instructions_sysvar_id = 0x06a7d517187bd16635dad40455fdc2c0c124c68f215675a5dbbacb5f08000000"

definition recent_blockhashes_sysvar_id :: Pubkey where
  "recent_blockhashes_sysvar_id = 0x06a7d517192c568ee08a845f73d29788cf035c3145b21ab344d8062ea9400000"

definition BUILTIN_PROGRAMS_KEYS :: "Pubkey list" where
  "BUILTIN_PROGRAMS_KEYS =
     [0x03064aa3002f74dcc86e43310f0c052af8c5da27f6104019a323efa000000000,
      0x03c0a0cdcb06d2daefae82d16fee7acf61ec737b23481b21946a767000000000,
      native_loader_id,
      0x06a1d8179137542a983437bdfe2a7ab2557f535c8a78722b68a49dc000000000,
      0x06a1d817a502050b680791e6ce6db88e1e5b7150f61fc6790a4eb4d100000000,
      0x0761481d357474bb7c4d7624ebd3bdb3d8355e73d11043fc0da3538000000000,
      system_program_id,
      0x02a8f6914e88a16e395ae128948ffa695693376818dd47435221f3c600000000,
      0x02a8f6914e88a16bbd2395855f6404d9b4f456b7821bb0145749428c00000000,
      bpf_loader_upgradeable_id]"

definition ALL_IDS :: "Pubkey list" where
  "ALL_IDS =
     [0x06a7d51718c774c928566398691d5eb68b5eb8a39b4b6d5c73555b2100000000,
      0x06a7d51718dc3fee02d3e47f0100f8b054f7942e60591e3f508719a805000000,
      0x06a7d51718e25a8d83503c251a7af07126fd7200df6fc4ed526a9c9000000000,
      recent_blockhashes_sysvar_id,
      rent_sysvar_id,
      0x06a7d517192c6137cee092d9b6923ee1ccd61903fa82b8a16191578d80000000,
      0x06a7d517192f0aafc6f265e3fb77cc7ada82c529d0be3b136e2d005520000000,
      0x06a7d517192f0aafc875e2e184577c5069cfc84649e3eb92782f958d48000000,
      0x06a7d517193584d0feed9bb3431d13206be544281b57b8566cc5375ff4000000,
      instructions_sysvar_id]"

definition is_sysvar_id :: "Pubkey \<Rightarrow> bool" where
  "is_sysvar_id k \<longleftrightarrow> list_ex (\<lambda>x. x = k) ALL_IDS"

text \<open>The table of the first bytes of these keys.\<close>

definition MAYBE_BUILTIN_KEY_OR_SYSVAR :: "bool list" where
  "MAYBE_BUILTIN_KEY_OR_SYSVAR =
     fold (\<lambda>k table. table[unat (to_bytes k ! 0) := True]) (BUILTIN_PROGRAMS_KEYS @ ALL_IDS) (replicate 256 False)"

definition is_builtin_key_or_sysvar :: "Pubkey \<Rightarrow> bool" where
  "is_builtin_key_or_sysvar k \<longleftrightarrow>
     MAYBE_BUILTIN_KEY_OR_SYSVAR ! unat (to_bytes k ! 0) \<and> (is_sysvar_id k \<or> k \<in> set BUILTIN_PROGRAMS_KEYS)"


section \<open>Compiling instructions\<close>

definition key_position :: "Pubkey list \<Rightarrow> Pubkey \<Rightarrow> u8 option" where
  "key_position keys k = map_option word_of_nat (find_position (\<lambda>x. x = k) keys)"

fun option_list :: "'a option list \<Rightarrow> 'a list option" where
  "option_list [] = Some []"
| "option_list (x # xs) = Option.bind x (\<lambda>y. map_option ((#) y) (option_list xs))"

definition compile_instruction :: "Instruction \<Rightarrow> Pubkey list \<Rightarrow> CompiledInstruction option" where
  "compile_instruction ix keys =
     Option.bind (option_list (map (\<lambda>m. key_position keys (meta_pubkey m)) (instr_accounts ix))) (\<lambda>accs.
     Option.bind (key_position keys (instr_program_id ix)) (\<lambda>p.
       Some \<lparr>program_id_index = p, ci_accounts = accs, ci_data = instr_data ix\<rparr>))"

definition compile_instructions :: "Instruction list \<Rightarrow> Pubkey list \<Rightarrow> CompiledInstruction list option" where
  "compile_instructions ixs keys = option_list (map (\<lambda>ix. compile_instruction ix keys) ixs)"

record CompiledKeyMeta =
  cm_is_signer :: bool
  cm_is_writable :: bool
  cm_is_invoked :: bool

definition key_meta_default :: CompiledKeyMeta where
  "key_meta_default = \<lparr>cm_is_signer = False, cm_is_writable = False, cm_is_invoked = False\<rparr>"

type_synonym key_meta_map = "(Pubkey \<times> CompiledKeyMeta) list"

record CompiledKeys =
  ck_payer :: "Pubkey option"
  ck_key_meta_map :: key_meta_map

text \<open>\<open>entry(k).or_default()\<close> followed by a change of the value.\<close>

fun entry_or_default ::
  "Pubkey \<Rightarrow> (CompiledKeyMeta \<Rightarrow> CompiledKeyMeta) \<Rightarrow> key_meta_map \<Rightarrow> key_meta_map" where
  "entry_or_default k f [] = [(k, f key_meta_default)]"
| "entry_or_default k f ((k', v) # m) =
     (if k = k' then (k', f v) # m
      else if k < k' then (k, f key_meta_default) # (k', v) # m
      else (k', v) # entry_or_default k f m)"

definition compile_account_meta :: "AccountMeta \<Rightarrow> key_meta_map \<Rightarrow> key_meta_map" where
  "compile_account_meta a =
     entry_or_default (meta_pubkey a)
       (\<lambda>m. m\<lparr>cm_is_signer := cm_is_signer m \<or> meta_is_signer a,
              cm_is_writable := cm_is_writable m \<or> meta_is_writable a\<rparr>)"

definition compile_ix_keys :: "Instruction \<Rightarrow> key_meta_map \<Rightarrow> key_meta_map" where
  "compile_ix_keys ix m =
     fold compile_account_meta (instr_accounts ix)
       (entry_or_default (instr_program_id ix) (\<lambda>m. m\<lparr>cm_is_invoked := True\<rparr>) m)"

definition compiled_keys_compile :: "Instruction list \<Rightarrow> Pubkey option \<Rightarrow> CompiledKeys" where
  "compiled_keys_compile ixs payer =
     (let m = fold compile_ix_keys ixs [];
          m = (case payer of
                 None \<Rightarrow> m
               | Some p \<Rightarrow> entry_or_default p (\<lambda>m. m\<lparr>cm_is_signer := True, cm_is_writable := True\<rparr>) m)
      in \<lparr>ck_payer = payer, ck_key_meta_map = m\<rparr>)"

definition try_into_u8 :: "nat \<Rightarrow> u8 option" where
  "try_into_u8 n = (if n < 256 then Some (word_of_nat n) else None)"

definition keys_where :: "bool \<Rightarrow> bool \<Rightarrow> key_meta_map \<Rightarrow> Pubkey list" where
  "keys_where signer writable m =
     map fst (filter (\<lambda>(k, v). cm_is_signer v = signer \<and> cm_is_writable v = writable) m)"

definition try_into_message_components :: "CompiledKeys \<Rightarrow> (MessageHeader \<times> Pubkey list) option" where
  "try_into_message_components ck =
     (let m = (case ck_payer ck of None \<Rightarrow> ck_key_meta_map ck
               | Some p \<Rightarrow> filter (\<lambda>(k, v). k \<noteq> p) (ck_key_meta_map ck));
          writable_signer = (case ck_payer ck of None \<Rightarrow> [] | Some p \<Rightarrow> [p]) @ keys_where True True m;
          readonly_signer = keys_where True False m;
          writable_non_signer = keys_where False True m;
          readonly_non_signer = keys_where False False m
      in Option.bind (try_into_u8 (length writable_signer + length readonly_signer)) (\<lambda>signed.
         Option.bind (try_into_u8 (length readonly_signer)) (\<lambda>readonly_signed.
         Option.bind (try_into_u8 (length readonly_non_signer)) (\<lambda>readonly_unsigned.
           Some (\<lparr>num_required_signatures = signed, num_readonly_signed_accounts = readonly_signed,
                  num_readonly_unsigned_accounts = readonly_unsigned\<rparr>,
                 writable_signer @ readonly_signer @ writable_non_signer @ readonly_non_signer)))))"

definition new_with_blockhash :: "Instruction list \<Rightarrow> Pubkey option \<Rightarrow> Pubkey \<Rightarrow> Message option" where
  "new_with_blockhash ixs payer hash =
     Option.bind (try_into_message_components (compiled_keys_compile ixs payer)) (\<lambda>(hd, keys).
     Option.bind (compile_instructions ixs keys) (\<lambda>cis.
       Some \<lparr>header = hd, msg_account_keys = keys, recent_blockhash = hash, instructions = cis\<rparr>))"


section \<open>Queries\<close>

definition sanitize_instruction :: "Message \<Rightarrow> CompiledInstruction \<Rightarrow> bool" where
  "sanitize_instruction m ci \<longleftrightarrow>
     unat (program_id_index ci) < length (msg_account_keys m) \<and> program_id_index ci \<noteq> 0 \<and>
     list_all (\<lambda>ai. unat ai < length (msg_account_keys m)) (ci_accounts ci)"

definition sanitize :: "Message \<Rightarrow> SanitizeError + unit" where
  "sanitize m =
     (let h = header m in
      if length (msg_account_keys m) <
         unat (num_required_signatures h) + unat (num_readonly_unsigned_accounts h)
      then Inl IndexOutOfBounds
      else if num_required_signatures h \<le> num_readonly_signed_accounts h then Inl IndexOutOfBounds
      else if list_all (sanitize_instruction m) (instructions m) then Ok () else Inl IndexOutOfBounds)"

definition program_instructions_iter :: "Message \<Rightarrow> (Pubkey \<times> CompiledInstruction) list option" where
  "program_instructions_iter m =
     option_list (map (\<lambda>ci. map_option (\<lambda>p. (p, ci)) (get (msg_account_keys m) (unat (program_id_index ci))))
       (instructions m))"

definition is_key_passed_to_program :: "Message \<Rightarrow> nat \<Rightarrow> bool" where
  "is_key_passed_to_program m i \<longleftrightarrow> i < 256 \<and> list_ex (\<lambda>ci. word_of_nat i \<in> set (ci_accounts ci)) (instructions m)"

definition is_key_called_as_program :: "Message \<Rightarrow> nat \<Rightarrow> bool" where
  "is_key_called_as_program m i \<longleftrightarrow> i < 256 \<and> list_ex (\<lambda>ci. program_id_index ci = word_of_nat i) (instructions m)"

definition is_non_loader_key :: "Message \<Rightarrow> nat \<Rightarrow> bool" where
  "is_non_loader_key m i \<longleftrightarrow> \<not> is_key_called_as_program m i \<or> is_key_passed_to_program m i"

definition is_upgradeable_loader_present :: "Message \<Rightarrow> bool" where
  "is_upgradeable_loader_present m \<longleftrightarrow> list_ex (\<lambda>k. k = bpf_loader_upgradeable_id) (msg_account_keys m)"

definition demote_program_id :: "Message \<Rightarrow> nat \<Rightarrow> bool" where
  "demote_program_id m i \<longleftrightarrow> is_key_called_as_program m i \<and> \<not> is_upgradeable_loader_present m"

text \<open>The index is inside \<open>account_keys\<close>; the two subtractions wrap in a release build.\<close>

definition message_is_writable :: "Message \<Rightarrow> nat \<Rightarrow> bool" where
  "message_is_writable m i \<longleftrightarrow>
     (let h = header m in
      (i < unat (num_required_signatures h - num_readonly_signed_accounts h) \<or>
       (unat (num_required_signatures h) \<le> i \<and>
        i < unat (word_of_nat (length (msg_account_keys m)) - ucast (num_readonly_unsigned_accounts h) :: u64))) \<and>
      \<not> is_builtin_key_or_sysvar (msg_account_keys m ! i) \<and> \<not> demote_program_id m i)"

definition message_is_signer :: "Message \<Rightarrow> nat \<Rightarrow> bool" where
  "message_is_signer m i \<longleftrightarrow> i < unat (num_required_signatures (header m))"

definition signer_keys :: "Message \<Rightarrow> Pubkey list" where
  "signer_keys m = take (min (length (msg_account_keys m)) (unat (num_required_signatures (header m)))) (msg_account_keys m)"

definition has_duplicates :: "Message \<Rightarrow> bool" where
  "has_duplicates m \<longleftrightarrow>
     list_ex (\<lambda>i. msg_account_keys m ! (i - 1) \<in> set (drop i (msg_account_keys m))) [1..<length (msg_account_keys m)]"

definition decompile_instructions :: "Message \<Rightarrow> Instruction list option" where
  "decompile_instructions m =
     Option.bind (program_instructions_iter m) (\<lambda>pis.
       option_list (map (\<lambda>(program_id, ci).
         map_option (\<lambda>metas. \<lparr>instr_program_id = program_id, instr_accounts = metas, instr_data = ci_data ci\<rparr>)
           (option_list (map (\<lambda>a.
              map_option (\<lambda>k. \<lparr>meta_pubkey = k, meta_is_signer = message_is_signer m (unat a),
                              meta_is_writable = message_is_writable m (unat a)\<rparr>)
                (get (msg_account_keys m) (unat a))) (ci_accounts ci)))) pis))"


section \<open>Lookup tables and duplicates\<close>

lemma fold_mark_table:
  assumes "\<And>k. k \<in> set ks \<Longrightarrow> f k < length table"
  shows "length (fold (\<lambda>k t. t[f k := True]) ks table) = length table \<and>
    (\<forall>i < length table. fold (\<lambda>k t. t[f k := True]) ks table ! i \<longleftrightarrow> table ! i \<or> i \<in> f ` set ks)"
  using assms
proof (induction ks arbitrary: table)
  case (Cons k ks)
  then have "f k < length table" by simp
  with Cons.IH [of "table[f k := True]"] Cons.prems show ?case
    by (auto simp: nth_list_update)
qed simp

lemma is_builtin_key_or_sysvar_iff:
  "is_builtin_key_or_sysvar k \<longleftrightarrow> k \<in> set ALL_IDS \<or> k \<in> set BUILTIN_PROGRAMS_KEYS"
proof -
  have lt: "unat (to_bytes x ! 0) < 256" for x using unsigned_less [of "to_bytes x ! 0"] by simp
  have "MAYBE_BUILTIN_KEY_OR_SYSVAR ! unat (to_bytes k ! 0) \<longleftrightarrow>
      unat (to_bytes k ! 0) \<in> (\<lambda>x. unat (to_bytes x ! 0)) ` set (BUILTIN_PROGRAMS_KEYS @ ALL_IDS)"
    using fold_mark_table [of "BUILTIN_PROGRAMS_KEYS @ ALL_IDS" "\<lambda>x. unat (to_bytes x ! 0)" "replicate 256 False"] lt
    unfolding MAYBE_BUILTIN_KEY_OR_SYSVAR_def by (simp add: lt)
  then show ?thesis
    by (auto simp: is_builtin_key_or_sysvar_def is_sysvar_id_def list_ex_iff)
qed

lemma has_duplicates_iff: "has_duplicates m \<longleftrightarrow> \<not> distinct (msg_account_keys m)"
proof -
  let ?ks = "msg_account_keys m"
  have "has_duplicates m \<longleftrightarrow> (\<exists>i j. i < j \<and> j < length ?ks \<and> ?ks ! i = ?ks ! j)"
  proof
    assume "has_duplicates m"
    then obtain i where i: "1 \<le> i" "i < length ?ks" "?ks ! (i - 1) \<in> set (drop i ?ks)"
      by (auto simp: has_duplicates_def list_ex_iff)
    then obtain j where "j < length ?ks - i" "?ks ! (i + j) = ?ks ! (i - 1)"
      by (auto simp: in_set_conv_nth)
    with i show "\<exists>i j. i < j \<and> j < length ?ks \<and> ?ks ! i = ?ks ! j"
      by (intro exI [of _ "i - 1"] exI [of _ "i + j"]) auto
  next
    assume "\<exists>i j. i < j \<and> j < length ?ks \<and> ?ks ! i = ?ks ! j"
    then obtain i j where ij: "i < j" "j < length ?ks" "?ks ! i = ?ks ! j" by blast
    then have "?ks ! i \<in> set (drop (Suc i) ?ks)"
      by (auto simp: in_set_conv_nth intro!: exI [of _ "j - Suc i"])
    with ij show "has_duplicates m"
      unfolding has_duplicates_def list_ex_iff by (intro bexI [of _ "Suc i"]) auto
  qed
  also have "\<dots> \<longleftrightarrow> \<not> distinct ?ks"
  proof -
    have "\<not> distinct ?ks" if "i < j" "j < length ?ks" "?ks ! i = ?ks ! j" for i j
      using that nth_eq_iff_index_eq [of ?ks i j] by auto
    moreover have "\<exists>i j. i < j \<and> j < length ?ks \<and> ?ks ! i = ?ks ! j" if nd: "\<not> distinct ?ks"
    proof -
      from nd obtain i j where "i < length ?ks" "j < length ?ks" "i \<noteq> j" "?ks ! i = ?ks ! j"
        by (auto simp: distinct_conv_nth)
      then show ?thesis by (cases "i < j") (fastforce intro: exI [of _ i] exI [of _ j])+
    qed
    ultimately show ?thesis by (metis (no_types, lifting))
  qed
  finally show ?thesis .
qed


section \<open>The keys of a compiled message\<close>

lemma option_list_Some_iff: "option_list xs = Some ys \<longleftrightarrow> xs = map Some ys"
  by (induction xs arbitrary: ys) (auto simp: bind_eq_Some_conv)

definition wf_map :: "key_meta_map \<Rightarrow> bool" where
  "wf_map m \<longleftrightarrow> sorted_wrt (<) (map fst m)"

definition flag :: "(CompiledKeyMeta \<Rightarrow> bool) \<Rightarrow> key_meta_map \<Rightarrow> Pubkey \<Rightarrow> bool" where
  "flag sel m k \<longleftrightarrow> (case map_of m k of None \<Rightarrow> False | Some v \<Rightarrow> sel v)"

lemma entry_or_default_keys: "fst ` set (entry_or_default k f m) = insert k (fst ` set m)"
  by (induction k f m rule: entry_or_default.induct) auto

lemma entry_or_default_wf: "wf_map m \<Longrightarrow> wf_map (entry_or_default k f m)"
proof (induction m)
  case (Cons kv m)
  obtain k' v where kv: "kv = (k', v)" by (cases kv)
  from Cons.prems have lt: "\<forall>x\<in>fst ` set m. k' < x" and wf: "wf_map m" by (auto simp: wf_map_def kv)
  consider "k = k'" | "k < k'" | "k' < k" by (meson linorder_less_linear)
  then show ?case
  proof cases
    case 3
    then have "\<forall>x\<in>fst ` set (entry_or_default k f m). k' < x"
      using lt by (simp only: entry_or_default_keys) simp
    with Cons.IH [OF wf] 3 show ?thesis by (auto simp: wf_map_def kv)
  qed (use Cons.prems lt in \<open>auto simp: wf_map_def kv\<close>)
qed (simp add: wf_map_def)

lemma wf_map_distinct: "wf_map m \<Longrightarrow> distinct (map fst m)"
  by (simp add: wf_map_def strict_sorted_iff)

lemma map_of_entry_or_default:
  "wf_map m \<Longrightarrow> map_of (entry_or_default k f m) =
     (map_of m)(k \<mapsto> f (case map_of m k of None \<Rightarrow> key_meta_default | Some v \<Rightarrow> v))"
proof (induction m)
  case (Cons kv m)
  obtain k' v where kv: "kv = (k', v)" by (cases kv)
  from Cons.prems have lt: "\<forall>x\<in>fst ` set m. k' < x" and wf: "wf_map m" by (auto simp: wf_map_def kv)
  consider "k = k'" | "k < k'" | "k' < k" by (meson linorder_less_linear)
  then show ?case
  proof cases
    case 2
    with lt have "map_of m k = None" by (auto simp: map_of_eq_None_iff)
    with 2 show ?thesis by (auto simp: kv fun_eq_iff)
  next
    case 3
    with Cons.IH [OF wf] show ?thesis by (auto simp: kv fun_eq_iff)
  qed (auto simp: kv fun_eq_iff)
qed simp

lemma flag_entry_or_default:
  assumes "wf_map m" and "\<not> sel key_meta_default"
    and "\<And>v. sel (f v) \<longleftrightarrow> sel v \<or> c"
  shows "flag sel (entry_or_default k f m) x \<longleftrightarrow> flag sel m x \<or> (x = k \<and> c)"
  using assms(2,3) by (simp add: flag_def map_of_entry_or_default [OF assms(1)] split: option.splits)

lemma fold_compile_account_meta:
  assumes "wf_map m"
  shows "wf_map (fold compile_account_meta as m) \<and>
    fst ` set (fold compile_account_meta as m) = meta_pubkey ` set as \<union> fst ` set m \<and>
    (flag cm_is_signer (fold compile_account_meta as m) x \<longleftrightarrow>
       flag cm_is_signer m x \<or> (\<exists>a\<in>set as. meta_pubkey a = x \<and> meta_is_signer a)) \<and>
    (flag cm_is_writable (fold compile_account_meta as m) x \<longleftrightarrow>
       flag cm_is_writable m x \<or> (\<exists>a\<in>set as. meta_pubkey a = x \<and> meta_is_writable a))"
  using assms
proof (induction as arbitrary: m)
  case (Cons a as)
  let ?m = "compile_account_meta a m"
  have wf: "wf_map ?m" using Cons.prems by (simp add: compile_account_meta_def entry_or_default_wf)
  have "flag cm_is_signer ?m x \<longleftrightarrow> flag cm_is_signer m x \<or> (x = meta_pubkey a \<and> meta_is_signer a)"
    unfolding compile_account_meta_def
    by (rule flag_entry_or_default [OF Cons.prems]) (auto simp: key_meta_default_def)
  moreover have "flag cm_is_writable ?m x \<longleftrightarrow> flag cm_is_writable m x \<or> (x = meta_pubkey a \<and> meta_is_writable a)"
    unfolding compile_account_meta_def
    by (rule flag_entry_or_default [OF Cons.prems]) (auto simp: key_meta_default_def)
  moreover have "fst ` set ?m = insert (meta_pubkey a) (fst ` set m)"
    by (simp add: compile_account_meta_def entry_or_default_keys)
  ultimately show ?case using Cons.IH [OF wf] by auto
qed simp

lemma fold_compile_ix_keys:
  assumes "wf_map m"
  shows "wf_map (fold compile_ix_keys ixs m) \<and>
    fst ` set (fold compile_ix_keys ixs m) =
      (\<Union>ix\<in>set ixs. insert (instr_program_id ix) (meta_pubkey ` set (instr_accounts ix))) \<union> fst ` set m \<and>
    (flag cm_is_signer (fold compile_ix_keys ixs m) x \<longleftrightarrow> flag cm_is_signer m x \<or>
       (\<exists>ix\<in>set ixs. \<exists>a\<in>set (instr_accounts ix). meta_pubkey a = x \<and> meta_is_signer a)) \<and>
    (flag cm_is_writable (fold compile_ix_keys ixs m) x \<longleftrightarrow> flag cm_is_writable m x \<or>
       (\<exists>ix\<in>set ixs. \<exists>a\<in>set (instr_accounts ix). meta_pubkey a = x \<and> meta_is_writable a))"
  using assms
proof (induction ixs arbitrary: m)
  case (Cons ix ixs)
  let ?e = "entry_or_default (instr_program_id ix) (\<lambda>m. m\<lparr>cm_is_invoked := True\<rparr>) m"
  let ?m = "compile_ix_keys ix m"
  have wf: "wf_map ?e" using Cons.prems by (rule entry_or_default_wf)
  have "flag cm_is_signer ?e x \<longleftrightarrow> flag cm_is_signer m x \<or> (x = instr_program_id ix \<and> False)"
    "flag cm_is_writable ?e x \<longleftrightarrow> flag cm_is_writable m x \<or> (x = instr_program_id ix \<and> False)"
    by (rule flag_entry_or_default [OF Cons.prems]; simp add: key_meta_default_def)+
  then show ?case
    using fold_compile_account_meta [OF wf, of "instr_accounts ix" x] Cons.IH [of ?m]
    by (auto simp: compile_ix_keys_def entry_or_default_keys)
qed simp

text \<open>The privileges that the instructions and the payer ask for.\<close>

definition wants_signer :: "Instruction list \<Rightarrow> Pubkey option \<Rightarrow> Pubkey \<Rightarrow> bool" where
  "wants_signer ixs payer k \<longleftrightarrow> payer = Some k \<or>
     (\<exists>ix\<in>set ixs. \<exists>a\<in>set (instr_accounts ix). meta_pubkey a = k \<and> meta_is_signer a)"

definition wants_writable :: "Instruction list \<Rightarrow> Pubkey option \<Rightarrow> Pubkey \<Rightarrow> bool" where
  "wants_writable ixs payer k \<longleftrightarrow> payer = Some k \<or>
     (\<exists>ix\<in>set ixs. \<exists>a\<in>set (instr_accounts ix). meta_pubkey a = k \<and> meta_is_writable a)"

definition referenced :: "Instruction list \<Rightarrow> Pubkey option \<Rightarrow> Pubkey set" where
  "referenced ixs payer = set_option payer \<union>
     (\<Union>ix\<in>set ixs. insert (instr_program_id ix) (meta_pubkey ` set (instr_accounts ix)))"

lemma compiled_keys_compile:
  fixes ixs payer
  defines "m \<equiv> ck_key_meta_map (compiled_keys_compile ixs payer)"
  shows "wf_map m" and "fst ` set m = referenced ixs payer"
    and "flag cm_is_signer m k \<longleftrightarrow> wants_signer ixs payer k"
    and "flag cm_is_writable m k \<longleftrightarrow> wants_writable ixs payer k"
proof -
  let ?m = "fold compile_ix_keys ixs []"
  have nil: "wf_map []" by (simp add: wf_map_def)
  note f = fold_compile_ix_keys [OF nil, of ixs]
  have wf: "wf_map ?m" using f by simp
  show "wf_map m" using wf by (simp add: m_def compiled_keys_compile_def Let_def entry_or_default_wf split: option.splits)
  show "fst ` set m = referenced ixs payer"
    using f by (auto simp: m_def compiled_keys_compile_def Let_def entry_or_default_keys referenced_def split: option.splits)
  have entry: "flag cm_is_signer (entry_or_default p (\<lambda>m. m\<lparr>cm_is_signer := True, cm_is_writable := True\<rparr>) ?m) k \<longleftrightarrow>
      flag cm_is_signer ?m k \<or> (k = p \<and> True)"
    "flag cm_is_writable (entry_or_default p (\<lambda>m. m\<lparr>cm_is_signer := True, cm_is_writable := True\<rparr>) ?m) k \<longleftrightarrow>
      flag cm_is_writable ?m k \<or> (k = p \<and> True)" for p
    by (rule flag_entry_or_default [OF wf]; simp add: key_meta_default_def)+
  show "flag cm_is_signer m k \<longleftrightarrow> wants_signer ixs payer k"
    using f [of k] entry(1)
    by (cases payer) (auto simp: m_def compiled_keys_compile_def Let_def wants_signer_def flag_def)
  show "flag cm_is_writable m k \<longleftrightarrow> wants_writable ixs payer k"
    using f [of k] entry(2)
    by (cases payer) (auto simp: m_def compiled_keys_compile_def Let_def wants_writable_def flag_def)
qed

lemma keys_where_iff:
  assumes "wf_map m"
  shows "k \<in> set (keys_where s w (filter (\<lambda>(k, v). P k) m)) \<longleftrightarrow>
    k \<in> fst ` set m \<and> P k \<and> flag cm_is_signer m k = s \<and> flag cm_is_writable m k = w"
proof -
  have "(k, v) \<in> set m \<longleftrightarrow> map_of m k = Some v" for v
    using wf_map_distinct [OF assms] by simp
  then show ?thesis
    by (auto simp: keys_where_def flag_def rev_image_eqI split: option.splits)
qed

lemma distinct_keys_where: "wf_map m \<Longrightarrow> distinct (keys_where s w (filter P m))"
  unfolding keys_where_def by (intro distinct_map_filter wf_map_distinct)

lemma nth_in_prefix:
  assumes "distinct (xs @ ys)" and "i < length (xs @ ys)"
  shows "(xs @ ys) ! i \<in> set xs \<longleftrightarrow> i < length xs"
  using assms by (cases "i < length xs") (auto simp: nth_append dest: nth_mem)

lemma try_into_message_components_Some:
  assumes "try_into_message_components (compiled_keys_compile ixs payer) = Some (h, K)"
  obtains ws rs wn rn where "K = ws @ rs @ wn @ rn" and "distinct K" and "set K = referenced ixs payer"
    and "\<And>k. k \<in> set ws \<longleftrightarrow> k \<in> set K \<and> wants_signer ixs payer k \<and> wants_writable ixs payer k"
    and "\<And>k. k \<in> set rs \<longleftrightarrow> k \<in> set K \<and> wants_signer ixs payer k \<and> \<not> wants_writable ixs payer k"
    and "\<And>k. k \<in> set wn \<longleftrightarrow> k \<in> set K \<and> \<not> wants_signer ixs payer k \<and> wants_writable ixs payer k"
    and "unat (num_required_signatures h) = length ws + length rs"
    and "unat (num_readonly_signed_accounts h) = length rs"
    and "unat (num_readonly_unsigned_accounts h) = length rn"
proof -
  define m where "m = ck_key_meta_map (compiled_keys_compile ixs payer)"
  note m = compiled_keys_compile [of ixs payer, folded m_def]
  define m' where "m' = filter (\<lambda>(k, v). payer \<noteq> Some k) m"
  have payer: "ck_payer (compiled_keys_compile ixs payer) = payer"
    by (simp add: compiled_keys_compile_def Let_def)
  have m'': "(case payer of None \<Rightarrow> m | Some p \<Rightarrow> filter (\<lambda>(k, v). k \<noteq> p) m) = m'"
    unfolding m'_def by (cases payer) (auto intro!: filter_cong)
  define P where "P = (case payer of None \<Rightarrow> [] | Some p \<Rightarrow> [p])"
  let ?ws = "P @ keys_where True True m'" and ?rs = "keys_where True False m'"
  let ?wn = "keys_where False True m'" and ?rn = "keys_where False False m'"
  have kw: "k \<in> set (keys_where s w m') \<longleftrightarrow> k \<in> referenced ixs payer \<and> payer \<noteq> Some k \<and>
      wants_signer ixs payer k = s \<and> wants_writable ixs payer k = w" for k s w
    unfolding m'_def using keys_where_iff [OF m(1), of k s w "\<lambda>k. payer \<noteq> Some k"] m by simp
  have P: "k \<in> set P \<longleftrightarrow> payer = Some k" for k unfolding P_def by (cases payer) auto
  have ref: "payer = Some k \<Longrightarrow> k \<in> referenced ixs payer" for k by (simp add: referenced_def)
  have wants: "payer = Some k \<Longrightarrow> wants_signer ixs payer k \<and> wants_writable ixs payer k" for k
    by (simp add: wants_signer_def wants_writable_def)
  from assms have K: "K = ?ws @ ?rs @ ?wn @ ?rn"
    and h: "length ?ws + length ?rs < 256" "length ?rs < 256" "length ?rn < 256"
      "h = \<lparr>num_required_signatures = word_of_nat (length ?ws + length ?rs),
        num_readonly_signed_accounts = word_of_nat (length ?rs),
        num_readonly_unsigned_accounts = word_of_nat (length ?rn)\<rparr>"
    unfolding try_into_message_components_def Let_def payer m_def [symmetric] m'' P_def [symmetric]
    by (auto simp: try_into_u8_def bind_eq_Some_conv split: if_splits)
  have dist: "distinct (keys_where s w m')" for s w
    unfolding m'_def using m(1) by (rule distinct_keys_where)
  have "distinct P" by (simp add: P_def split: option.splits)
  then have "distinct K" unfolding K using dist kw P by auto
  moreover have "set K = referenced ixs payer" unfolding K using kw P ref wants by auto
  moreover have "unat (num_required_signatures h) = length ?ws + length ?rs"
    "unat (num_readonly_signed_accounts h) = length ?rs" "unat (num_readonly_unsigned_accounts h) = length ?rn"
    unfolding h(4) MessageHeader.select_convs by (rule unat_word_of_nat_id; use h(1-3) in simp)+
  ultimately show thesis
    using K kw P ref wants by (intro that [of ?ws ?rs ?wn ?rn]) auto
qed

lemma compile_instruction_Some:
  assumes "compile_instruction ix keys = Some ci" and "length keys \<le> 256"
  shows "unat (program_id_index ci) < length keys" and "keys ! unat (program_id_index ci) = instr_program_id ix"
    and "list_all2 (\<lambda>a m. unat a < length keys \<and> keys ! unat a = meta_pubkey m) (ci_accounts ci) (instr_accounts ix)"
    and "ci_data ci = instr_data ix"
proof -
  have pos: "unat a < length keys \<and> keys ! unat a = k" if "key_position keys k = Some a" for k a
  proof -
    from that obtain i where i: "find_position (\<lambda>x. x = k) keys = Some i" and a: "a = word_of_nat i"
      by (auto simp: key_position_def)
    from find_position_Some [OF i] assms(2) have "i < 256" by auto
    then have "unat a = i" unfolding a by (simp add: unat_of_nat)
    with find_position_Some [OF i] show ?thesis by auto
  qed
  from assms(1) obtain accs where
    accs: "map (\<lambda>m. key_position keys (meta_pubkey m)) (instr_accounts ix) = map Some accs"
    and p: "key_position keys (instr_program_id ix) = Some (program_id_index ci)"
    and ci: "ci_accounts ci = accs" "ci_data ci = instr_data ix"
    by (auto simp: compile_instruction_def bind_eq_Some_conv option_list_Some_iff)
  from pos [OF p] show "unat (program_id_index ci) < length keys"
    and "keys ! unat (program_id_index ci) = instr_program_id ix" by auto
  have len: "length accs = length (instr_accounts ix)" using accs by (metis length_map)
  moreover have "key_position keys (meta_pubkey (instr_accounts ix ! i)) = Some (accs ! i)" if "i < length accs" for i
    using arg_cong [OF accs, of "\<lambda>xs. xs ! i"] that len by simp
  ultimately show "list_all2 (\<lambda>a m. unat a < length keys \<and> keys ! unat a = meta_pubkey m) (ci_accounts ci) (instr_accounts ix)"
    using ci pos by (auto simp: list_all2_conv_all_nth)
  show "ci_data ci = instr_data ix" by (fact ci(2))
qed

lemma new_with_blockhash_Some:
  assumes "new_with_blockhash ixs payer hash = Some m"
  obtains h K where "try_into_message_components (compiled_keys_compile ixs payer) = Some (h, K)"
    and "header m = h" and "msg_account_keys m = K"
    and "list_all2 (\<lambda>ix ci. compile_instruction ix K = Some ci) ixs (instructions m)"
proof -
  from assms obtain h K cis where c: "try_into_message_components (compiled_keys_compile ixs payer) = Some (h, K)"
    and cis: "map (\<lambda>ix. compile_instruction ix K) ixs = map Some cis"
    and m: "m = \<lparr>header = h, msg_account_keys = K, recent_blockhash = hash, instructions = cis\<rparr>"
    by (auto simp: new_with_blockhash_def compile_instructions_def bind_eq_Some_conv option_list_Some_iff)
  have "length ixs = length cis" using cis by (metis length_map)
  moreover have "compile_instruction (ixs ! i) K = Some (cis ! i)" if "i < length cis" for i
    using arg_cong [OF cis, of "\<lambda>xs. xs ! i"] that calculation by simp
  ultimately show thesis using c m by (intro that) (auto simp: list_all2_conv_all_nth)
qed

lemma message_flags:
  assumes "try_into_message_components (compiled_keys_compile ixs payer) = Some (h, K)" and "i < length K"
  shows "i < unat (num_required_signatures h) \<longleftrightarrow> wants_signer ixs payer (K ! i)"
    and "i < unat (num_required_signatures h - num_readonly_signed_accounts h) \<or>
       (unat (num_required_signatures h) \<le> i \<and> i < length K - unat (num_readonly_unsigned_accounts h)) \<longleftrightarrow>
      wants_writable ixs payer (K ! i)"
  using assms(1)
proof (atomize (full), rule try_into_message_components_Some)
  fix ws rs wn rn
  assume K: "K = ws @ rs @ wn @ rn" "distinct K"
    and ws: "\<And>k. k \<in> set ws \<longleftrightarrow> k \<in> set K \<and> wants_signer ixs payer k \<and> wants_writable ixs payer k"
    and rs: "\<And>k. k \<in> set rs \<longleftrightarrow> k \<in> set K \<and> wants_signer ixs payer k \<and> \<not> wants_writable ixs payer k"
    and wn: "\<And>k. k \<in> set wn \<longleftrightarrow> k \<in> set K \<and> \<not> wants_signer ixs payer k \<and> wants_writable ixs payer k"
    and h: "unat (num_required_signatures h) = length ws + length rs"
      "unat (num_readonly_signed_accounts h) = length rs" "unat (num_readonly_unsigned_accounts h) = length rn"
  have k: "K ! i \<in> set K" using assms(2) by simp
  have in_ws: "K ! i \<in> set ws \<longleftrightarrow> i < length ws"
    using nth_in_prefix [of ws "rs @ wn @ rn" i] K assms(2) by simp
  have in_s: "K ! i \<in> set (ws @ rs) \<longleftrightarrow> i < length ws + length rs"
    using nth_in_prefix [of "ws @ rs" "wn @ rn" i] K assms(2) by simp
  have in_w: "K ! i \<in> set (ws @ rs @ wn) \<longleftrightarrow> i < length ws + length rs + length wn"
    using nth_in_prefix [of "ws @ rs @ wn" rn i] K assms(2) by (simp add: add.assoc)
  have "unat (num_required_signatures h - num_readonly_signed_accounts h) = length ws"
    using h by (simp add: unat_sub word_le_nat_alt)
  moreover have "length K - unat (num_readonly_unsigned_accounts h) = length ws + length rs + length wn"
    using h K by simp
  ultimately show "(i < unat (num_required_signatures h) \<longleftrightarrow> wants_signer ixs payer (K ! i)) \<and>
      (i < unat (num_required_signatures h - num_readonly_signed_accounts h) \<or>
       (unat (num_required_signatures h) \<le> i \<and> i < length K - unat (num_readonly_unsigned_accounts h)) \<longleftrightarrow>
      wants_writable ixs payer (K ! i))"
    using in_ws in_s in_w ws rs wn k h(1) by auto
qed


section \<open>Decompiling\<close>

text \<open>
  The instruction that a message holds for \<open>ix\<close>: an account gets the privileges that any
  instruction asks for, except that built-in keys and called programs are not writable.
\<close>

definition granted :: "Instruction list \<Rightarrow> Pubkey option \<Rightarrow> Instruction \<Rightarrow> Instruction" where
  "granted ixs payer ix = ix\<lparr>instr_accounts := map (\<lambda>a.
     \<lparr>meta_pubkey = meta_pubkey a, meta_is_signer = wants_signer ixs payer (meta_pubkey a),
      meta_is_writable = wants_writable ixs payer (meta_pubkey a) \<and>
        \<not> is_builtin_key_or_sysvar (meta_pubkey a) \<and>
        \<not> (meta_pubkey a \<in> instr_program_id ` set ixs \<and> bpf_loader_upgradeable_id \<notin> referenced ixs payer)\<rparr>)
     (instr_accounts ix)\<rparr>"

lemma bex_set_nth: "(\<exists>x\<in>set xs. P x) \<longleftrightarrow> (\<exists>j < length xs. P (xs ! j))"
  by (metis in_set_conv_nth)

lemma compiled_index_iff:
  fixes a :: u8
  assumes "distinct K" and "length K \<le> 256" and "i < length K" and "unat a < length K"
  shows "a = word_of_nat i \<longleftrightarrow> K ! unat a = K ! i"
proof -
  have "a = word_of_nat i \<longleftrightarrow> unat a = i"
    using assms(2,3) by (auto simp: word_unat_eq_iff unat_of_nat)
  then show ?thesis using assms by (simp add: nth_eq_iff_index_eq)
qed

lemma message_privileges:
  assumes "new_with_blockhash ixs payer hash = Some m" and "length (msg_account_keys m) \<le> 256"
    and "i < length (msg_account_keys m)"
  defines "k \<equiv> msg_account_keys m ! i"
  shows "message_is_signer m i \<longleftrightarrow> wants_signer ixs payer k"
    and "message_is_writable m i \<longleftrightarrow> wants_writable ixs payer k \<and> \<not> is_builtin_key_or_sysvar k \<and>
      \<not> (k \<in> instr_program_id ` set ixs \<and> bpf_loader_upgradeable_id \<notin> referenced ixs payer)"
  using assms(1)
proof (atomize (full), rule new_with_blockhash_Some)
  fix h K
  assume c: "try_into_message_components (compiled_keys_compile ixs payer) = Some (h, K)"
    and m: "header m = h" "msg_account_keys m = K"
    and ci: "list_all2 (\<lambda>ix ci. compile_instruction ix K = Some ci) ixs (instructions m)"
  have dist: "distinct K" and set: "set K = referenced ixs payer"
    and rn: "unat (num_readonly_unsigned_accounts h) \<le> length K"
    using c by (auto elim!: try_into_message_components_Some)
  have i: "i < length K" "length K \<le> 256" using assms m by auto
  have len: "unat (word_of_nat (length K) - ucast (num_readonly_unsigned_accounts h) :: u64) =
      length K - unat (num_readonly_unsigned_accounts h)"
  proof -
    have "unat (ucast (num_readonly_unsigned_accounts h) :: u64) = unat (num_readonly_unsigned_accounts h)"
      using unsigned_less [of "num_readonly_unsigned_accounts h", where 'a = nat]
      by (simp add: unsigned_ucast_eq take_bit_nat_eq_self)
    moreover have "unat (word_of_nat (length K) :: u64) = length K" using i(2) by (simp add: unat_of_nat)
    ultimately show ?thesis using rn by (subst unat_sub) (simp_all add: word_le_nat_alt)
  qed
  have called: "is_key_called_as_program m i \<longleftrightarrow> k \<in> instr_program_id ` set ixs"
  proof -
    have "program_id_index ci = word_of_nat i \<longleftrightarrow> instr_program_id ix = k" if "compile_instruction ix K = Some ci" for ix ci
      using compile_instruction_Some [OF that i(2)] compiled_index_iff [OF dist i(2,1)] m(2) k_def by metis
    then have "list_all2 (\<lambda>ix ci. program_id_index ci = word_of_nat i \<longleftrightarrow> instr_program_id ix = k) ixs (instructions m)"
      using ci by (auto elim: list_all2_mono)
    then have "(\<exists>ci\<in>set (instructions m). program_id_index ci = word_of_nat i) \<longleftrightarrow> (\<exists>ix\<in>set ixs. instr_program_id ix = k)"
      by (auto simp: list_all2_conv_all_nth bex_set_nth)
    then show ?thesis using i by (auto simp: is_key_called_as_program_def list_ex_iff)
  qed
  show "(message_is_signer m i \<longleftrightarrow> wants_signer ixs payer k) \<and>
    (message_is_writable m i \<longleftrightarrow> wants_writable ixs payer k \<and> \<not> is_builtin_key_or_sysvar k \<and>
      \<not> (k \<in> instr_program_id ` set ixs \<and> bpf_loader_upgradeable_id \<notin> referenced ixs payer))"
    using message_flags [OF c i(1)] called set
    by (simp add: message_is_signer_def message_is_writable_def Let_def m len k_def demote_program_id_def
        is_upgradeable_loader_present_def list_ex_iff)
qed

lemma decompile_new_with_blockhash:
  assumes "new_with_blockhash ixs payer hash = Some m" and "length (msg_account_keys m) \<le> 256"
  shows "decompile_instructions m = Some (map (granted ixs payer) ixs)"
  using assms(1)
proof (rule new_with_blockhash_Some)
  fix h K
  assume m: "msg_account_keys m = K"
    and ci: "list_all2 (\<lambda>ix ci. compile_instruction ix K = Some ci) ixs (instructions m)"
  have K: "length K \<le> 256" using assms(2) m by simp
  have len: "length ixs = length (instructions m)" using ci by (rule list_all2_lengthD)
  have metas: "map (\<lambda>a. map_option (\<lambda>k. \<lparr>meta_pubkey = k, meta_is_signer = message_is_signer m (unat a),
      meta_is_writable = message_is_writable m (unat a)\<rparr>) (get K (unat a))) (ci_accounts c) =
      map Some (instr_accounts (granted ixs payer ix))" if "compile_instruction ix K = Some c" for ix c
    using compile_instruction_Some(3) [OF that K] message_privileges [OF assms] m
    by (auto simp: list_all2_conv_all_nth list_eq_iff_nth_eq granted_def get_def)
  have progs: "program_instructions_iter m = Some (zip (map instr_program_id ixs) (instructions m))"
    unfolding program_instructions_iter_def option_list_Some_iff
    using ci compile_instruction_Some(1,2) [OF _ K] m len
    by (auto simp: list_all2_conv_all_nth list_eq_iff_nth_eq get_def)
  have "map (\<lambda>(program_id, ci). map_option (\<lambda>metas. \<lparr>instr_program_id = program_id, instr_accounts = metas,
          instr_data = ci_data ci\<rparr>)
         (option_list (map (\<lambda>a. map_option (\<lambda>k. \<lparr>meta_pubkey = k, meta_is_signer = message_is_signer m (unat a),
            meta_is_writable = message_is_writable m (unat a)\<rparr>) (get K (unat a))) (ci_accounts ci))))
       (zip (map instr_program_id ixs) (instructions m)) = map Some (map (granted ixs payer) ixs)"
  proof (rule nth_equalityI)
    fix j assume "j < length (map (\<lambda>(program_id, ci). map_option (\<lambda>metas. \<lparr>instr_program_id = program_id,
          instr_accounts = metas, instr_data = ci_data ci\<rparr>)
         (option_list (map (\<lambda>a. map_option (\<lambda>k. \<lparr>meta_pubkey = k, meta_is_signer = message_is_signer m (unat a),
            meta_is_writable = message_is_writable m (unat a)\<rparr>) (get K (unat a))) (ci_accounts ci))))
       (zip (map instr_program_id ixs) (instructions m)))"
    then have j: "j < length ixs" "j < length (instructions m)" using len by auto
    then have c: "compile_instruction (ixs ! j) K = Some (instructions m ! j)"
      using ci by (simp add: list_all2_conv_all_nth)
    have "option_list (map Some (instr_accounts (granted ixs payer (ixs ! j)))) =
        Some (instr_accounts (granted ixs payer (ixs ! j)))" by (simp add: option_list_Some_iff)
    with j metas [OF c] compile_instruction_Some(4) [OF c K]
    show "map (\<lambda>(program_id, ci). map_option (\<lambda>metas. \<lparr>instr_program_id = program_id, instr_accounts = metas,
          instr_data = ci_data ci\<rparr>)
         (option_list (map (\<lambda>a. map_option (\<lambda>k. \<lparr>meta_pubkey = k, meta_is_signer = message_is_signer m (unat a),
            meta_is_writable = message_is_writable m (unat a)\<rparr>) (get K (unat a))) (ci_accounts ci))))
       (zip (map instr_program_id ixs) (instructions m)) ! j = map Some (map (granted ixs payer) ixs) ! j"
      by (simp add: granted_def)
  qed (use len in simp)
  then show ?thesis unfolding decompile_instructions_def progs m by (simp add: option_list_Some_iff)
qed

end
