(* ===== verification/SystemProgram.thy ===== *)
theory SystemProgram
  imports InvokeContext Message
begin

text \<open>
  The system program (\<open>runtime/src/system_instruction_processor.rs\<close>,
  \<open>runtime/src/nonce_keyed_account.rs\<close>), its instructions and errors
  (\<open>sdk/program/src/system_instruction.rs\<close>) and the state of a durable nonce account
  (\<open>sdk/program/src/nonce/state\<close>).

  A handler is an action on the \<open>InvokeContext\<close>, because the source writes to the borrowed
  accounts in place. Instructions and nonce states are encoded by bincode, which is not part of the
  repository: its functions are the fields of the record \<open>system_codec\<close>, an argument of the
  definitions that use them. A seed is a \<open>str\<close>, here its bytes.
\<close>

section \<open>Errors\<close>

datatype SystemError =
    AccountAlreadyInUse | ResultWithNegativeLamports | InvalidProgramId | InvalidAccountDataLength
  | MaxSeedLengthExceeded | AddressWithSeedMismatch | NonceNoRecentBlockhashes
  | NonceBlockhashNotExpired | NonceUnexpectedBlockhashValue

datatype NonceError = NoRecentBlockhashes | NotExpired | UnexpectedValue | BadAccountState

text \<open>\<open>into()\<close> is the position of the variant (\<open>ToPrimitive\<close>) as a custom error.\<close>

fun of_system_error :: "SystemError \<Rightarrow> InstructionError" where
  "of_system_error AccountAlreadyInUse = InstructionError.Custom 0"
| "of_system_error ResultWithNegativeLamports = InstructionError.Custom 1"
| "of_system_error InvalidProgramId = InstructionError.Custom 2"
| "of_system_error InvalidAccountDataLength = InstructionError.Custom 3"
| "of_system_error SystemError.MaxSeedLengthExceeded = InstructionError.Custom 4"
| "of_system_error AddressWithSeedMismatch = InstructionError.Custom 5"
| "of_system_error NonceNoRecentBlockhashes = InstructionError.Custom 6"
| "of_system_error NonceBlockhashNotExpired = InstructionError.Custom 7"
| "of_system_error NonceUnexpectedBlockhashValue = InstructionError.Custom 8"

fun of_nonce_error :: "NonceError \<Rightarrow> InstructionError" where
  "of_nonce_error NoRecentBlockhashes = InstructionError.Custom 0"
| "of_nonce_error NotExpired = InstructionError.Custom 1"
| "of_nonce_error UnexpectedValue = InstructionError.Custom 2"
| "of_nonce_error BadAccountState = InstructionError.Custom 3"

fun of_pubkey_error :: "PubkeyError \<Rightarrow> InstructionError" where
  "of_pubkey_error PubkeyError.MaxSeedLengthExceeded = InstructionError.Custom 0"
| "of_pubkey_error PubkeyError.InvalidSeeds = InstructionError.Custom 1"
| "of_pubkey_error PubkeyError.IllegalOwner = InstructionError.Custom 2"

definition nonce_to_instruction_error :: "NonceError \<Rightarrow> bool \<Rightarrow> InstructionError" where
  "nonce_to_instruction_error e use_system_variant =
     (if use_system_variant then
        (case e of
           NoRecentBlockhashes \<Rightarrow> of_system_error NonceNoRecentBlockhashes
         | NotExpired \<Rightarrow> of_system_error NonceBlockhashNotExpired
         | UnexpectedValue \<Rightarrow> of_system_error NonceUnexpectedBlockhashValue
         | BadAccountState \<Rightarrow> InstructionError.InvalidAccountData)
      else of_nonce_error e)"

definition instruction_to_nonce_error :: "InstructionError \<Rightarrow> bool \<Rightarrow> NonceError option" where
  "instruction_to_nonce_error e use_system_variant =
     (if use_system_variant then
        (case e of
           InstructionError.Custom d \<Rightarrow>
             if d = 6 then Some NoRecentBlockhashes
             else if d = 7 then Some NotExpired
             else if d = 8 then Some UnexpectedValue
             else None
         | InstructionError.InvalidAccountData \<Rightarrow> Some BadAccountState
         | _ \<Rightarrow> None)
      else
        (case e of
           InstructionError.Custom d \<Rightarrow>
             if d = 0 then Some NoRecentBlockhashes
             else if d = 1 then Some NotExpired
             else if d = 2 then Some UnexpectedValue
             else if d = 3 then Some BadAccountState
             else None
         | _ \<Rightarrow> None))"


section \<open>Instructions\<close>

datatype SystemInstruction =
    CreateAccount u64 u64 Pubkey
  | Assign Pubkey
  | Transfer u64
  | CreateAccountWithSeed Pubkey bytes u64 u64 Pubkey
  | AdvanceNonceAccount
  | WithdrawNonceAccount u64
  | InitializeNonceAccount Pubkey
  | AuthorizeNonceAccount Pubkey
  | Allocate u64
  | AllocateWithSeed Pubkey bytes u64 Pubkey
  | AssignWithSeed Pubkey bytes Pubkey
  | TransferWithSeed u64 bytes Pubkey
  | UpgradeNonceAccount

definition MAX_PERMITTED_DATA_LENGTH :: u64 where
  "MAX_PERMITTED_DATA_LENGTH = 10 * 1024 * 1024"


section \<open>Nonce states\<close>

record Data =
  authority :: Pubkey
  durable_nonce :: Pubkey
  fee_calculator :: u64

datatype State = Uninitialized | Initialized Data

datatype Versions = Legacy State | Current State

datatype AuthorizeNonceError = MissingRequiredSignature Pubkey | Uninitialized

definition state_size :: nat where "state_size = 80"

definition DURABLE_NONCE_HASH_PREFIX :: bytes where
  "DURABLE_NONCE_HASH_PREFIX = map (\<lambda>c. word_of_nat (of_char c)) ''DURABLE_NONCE''"

definition from_blockhash :: "crypto \<Rightarrow> Pubkey \<Rightarrow> Pubkey" where
  "from_blockhash cr hash = sha256 cr (DURABLE_NONCE_HASH_PREFIX @ to_bytes hash)"

definition data_new :: "Pubkey \<Rightarrow> Pubkey \<Rightarrow> u64 \<Rightarrow> Data" where
  "data_new auth nonce per_signature =
     \<lparr>authority = auth, durable_nonce = nonce, fee_calculator = per_signature\<rparr>"

definition versions_new :: "State \<Rightarrow> Versions" where
  "versions_new state = Current state"

fun versions_state :: "Versions \<Rightarrow> State" where
  "versions_state (Legacy state) = state"
| "versions_state (Current state) = state"

fun verify_recent_blockhash :: "Versions \<Rightarrow> Pubkey \<Rightarrow> Data option" where
  "verify_recent_blockhash (Legacy _) hash = None"
| "verify_recent_blockhash (Current State.Uninitialized) hash = None"
| "verify_recent_blockhash (Current (Initialized d)) hash =
     (if hash = durable_nonce d then Some d else None)"

fun versions_upgrade :: "crypto \<Rightarrow> Versions \<Rightarrow> Versions option" where
  "versions_upgrade cr (Legacy State.Uninitialized) = None"
| "versions_upgrade cr (Legacy (Initialized d)) =
     Some (Current (Initialized (d\<lparr>durable_nonce := from_blockhash cr (durable_nonce d)\<rparr>)))"
| "versions_upgrade cr (Current _) = None"

definition versions_authorize :: "Versions \<Rightarrow> Pubkey set \<Rightarrow> Pubkey \<Rightarrow> AuthorizeNonceError + Versions" where
  "versions_authorize versions signers new_authority =
     (case versions_state versions of
        State.Uninitialized \<Rightarrow> Inl AuthorizeNonceError.Uninitialized
      | Initialized d \<Rightarrow>
          if authority d \<notin> signers then Inl (AuthorizeNonceError.MissingRequiredSignature (authority d))
          else
            let state = Initialized (data_new new_authority (durable_nonce d) (fee_calculator d))
            in Ok (case versions of Legacy _ \<Rightarrow> Legacy state | Current _ \<Rightarrow> Current state))"

record system_codec =
  decode_instruction :: "bytes \<Rightarrow> SystemInstruction option"
  encode_instruction :: "SystemInstruction \<Rightarrow> bytes"
  decode_versions :: "bytes \<Rightarrow> Versions option"
  encode_versions :: "Versions \<Rightarrow> bytes"


section \<open>Instruction builders\<close>

definition new_with_bincode :: "system_codec \<Rightarrow> Pubkey \<Rightarrow> SystemInstruction \<Rightarrow> AccountMeta list \<Rightarrow> Instruction" where
  "new_with_bincode bc program_id d metas =
     \<lparr>instr_program_id = program_id, instr_accounts = metas, instr_data = encode_instruction bc d\<rparr>"

definition create_account_ix :: "system_codec \<Rightarrow> Pubkey \<Rightarrow> Pubkey \<Rightarrow> u64 \<Rightarrow> u64 \<Rightarrow> Pubkey \<Rightarrow> Instruction" where
  "create_account_ix bc from_pubkey to_pubkey amount space new_owner =
     new_with_bincode bc system_program_id (CreateAccount amount space new_owner)
       [meta_new from_pubkey True, meta_new to_pubkey True]"

definition create_account_with_seed_ix ::
  "system_codec \<Rightarrow> Pubkey \<Rightarrow> Pubkey \<Rightarrow> Pubkey \<Rightarrow> bytes \<Rightarrow> u64 \<Rightarrow> u64 \<Rightarrow> Pubkey \<Rightarrow> Instruction" where
  "create_account_with_seed_ix bc from_pubkey to_pubkey base seed amount space new_owner =
     new_with_bincode bc system_program_id (CreateAccountWithSeed base seed amount space new_owner)
       [meta_new from_pubkey True, meta_new to_pubkey False, meta_new_readonly base True]"

definition assign_ix :: "system_codec \<Rightarrow> Pubkey \<Rightarrow> Pubkey \<Rightarrow> Instruction" where
  "assign_ix bc pubkey new_owner =
     new_with_bincode bc system_program_id (Assign new_owner) [meta_new pubkey True]"

definition assign_with_seed_ix :: "system_codec \<Rightarrow> Pubkey \<Rightarrow> Pubkey \<Rightarrow> bytes \<Rightarrow> Pubkey \<Rightarrow> Instruction" where
  "assign_with_seed_ix bc address base seed new_owner =
     new_with_bincode bc system_program_id (AssignWithSeed base seed new_owner)
       [meta_new address False, meta_new_readonly base True]"

definition transfer_ix :: "system_codec \<Rightarrow> Pubkey \<Rightarrow> Pubkey \<Rightarrow> u64 \<Rightarrow> Instruction" where
  "transfer_ix bc from_pubkey to_pubkey amount =
     new_with_bincode bc system_program_id (Transfer amount) [meta_new from_pubkey True, meta_new to_pubkey False]"

definition transfer_with_seed_ix ::
  "system_codec \<Rightarrow> Pubkey \<Rightarrow> Pubkey \<Rightarrow> bytes \<Rightarrow> Pubkey \<Rightarrow> Pubkey \<Rightarrow> u64 \<Rightarrow> Instruction" where
  "transfer_with_seed_ix bc from_pubkey from_base from_seed from_owner to_pubkey amount =
     new_with_bincode bc system_program_id (TransferWithSeed amount from_seed from_owner)
       [meta_new from_pubkey False, meta_new_readonly from_base True, meta_new to_pubkey False]"

definition allocate_ix :: "system_codec \<Rightarrow> Pubkey \<Rightarrow> u64 \<Rightarrow> Instruction" where
  "allocate_ix bc pubkey space =
     new_with_bincode bc system_program_id (Allocate space) [meta_new pubkey True]"

definition allocate_with_seed_ix :: "system_codec \<Rightarrow> Pubkey \<Rightarrow> Pubkey \<Rightarrow> bytes \<Rightarrow> u64 \<Rightarrow> Pubkey \<Rightarrow> Instruction" where
  "allocate_with_seed_ix bc address base seed space new_owner =
     new_with_bincode bc system_program_id (AllocateWithSeed base seed space new_owner)
       [meta_new address False, meta_new_readonly base True]"

definition transfer_many_ix :: "system_codec \<Rightarrow> Pubkey \<Rightarrow> (Pubkey \<times> u64) list \<Rightarrow> Instruction list" where
  "transfer_many_ix bc from_pubkey to_lamports =
     map (\<lambda>(to_pubkey, amount). transfer_ix bc from_pubkey to_pubkey amount) to_lamports"

definition initialize_nonce_ix :: "system_codec \<Rightarrow> Pubkey \<Rightarrow> Pubkey \<Rightarrow> Instruction" where
  "initialize_nonce_ix bc nonce_pubkey auth =
     new_with_bincode bc system_program_id (InitializeNonceAccount auth)
       [meta_new nonce_pubkey False, meta_new_readonly recent_blockhashes_sysvar_id False,
        meta_new_readonly rent_sysvar_id False]"

definition create_nonce_account_with_seed_ix ::
  "system_codec \<Rightarrow> Pubkey \<Rightarrow> Pubkey \<Rightarrow> Pubkey \<Rightarrow> bytes \<Rightarrow> Pubkey \<Rightarrow> u64 \<Rightarrow> Instruction list" where
  "create_nonce_account_with_seed_ix bc from_pubkey nonce_pubkey base seed auth amount =
     [create_account_with_seed_ix bc from_pubkey nonce_pubkey base seed amount (word_of_nat state_size) system_program_id,
      initialize_nonce_ix bc nonce_pubkey auth]"

definition create_nonce_account_ix ::
  "system_codec \<Rightarrow> Pubkey \<Rightarrow> Pubkey \<Rightarrow> Pubkey \<Rightarrow> u64 \<Rightarrow> Instruction list" where
  "create_nonce_account_ix bc from_pubkey nonce_pubkey auth amount =
     [create_account_ix bc from_pubkey nonce_pubkey amount (word_of_nat state_size) system_program_id,
      initialize_nonce_ix bc nonce_pubkey auth]"

definition advance_nonce_account_ix :: "system_codec \<Rightarrow> Pubkey \<Rightarrow> Pubkey \<Rightarrow> Instruction" where
  "advance_nonce_account_ix bc nonce_pubkey authorized_pubkey =
     new_with_bincode bc system_program_id AdvanceNonceAccount
       [meta_new nonce_pubkey False, meta_new_readonly recent_blockhashes_sysvar_id False,
        meta_new_readonly authorized_pubkey True]"

definition withdraw_nonce_account_ix :: "system_codec \<Rightarrow> Pubkey \<Rightarrow> Pubkey \<Rightarrow> Pubkey \<Rightarrow> u64 \<Rightarrow> Instruction" where
  "withdraw_nonce_account_ix bc nonce_pubkey authorized_pubkey to_pubkey amount =
     new_with_bincode bc system_program_id (WithdrawNonceAccount amount)
       [meta_new nonce_pubkey False, meta_new to_pubkey False,
        meta_new_readonly recent_blockhashes_sysvar_id False, meta_new_readonly rent_sysvar_id False,
        meta_new_readonly authorized_pubkey True]"

definition authorize_nonce_account_ix :: "system_codec \<Rightarrow> Pubkey \<Rightarrow> Pubkey \<Rightarrow> Pubkey \<Rightarrow> Instruction" where
  "authorize_nonce_account_ix bc nonce_pubkey authorized_pubkey new_authority =
     new_with_bincode bc system_program_id (AuthorizeNonceAccount new_authority)
       [meta_new nonce_pubkey False, meta_new_readonly authorized_pubkey True]"

definition upgrade_nonce_account_ix :: "system_codec \<Rightarrow> Pubkey \<Rightarrow> Instruction" where
  "upgrade_nonce_account_ix bc nonce_pubkey =
     new_with_bincode bc system_program_id UpgradeNonceAccount [meta_new nonce_pubkey False]"


section \<open>Borrowed accounts\<close>

text \<open>Access to the borrowed accounts of the running instruction.\<close>

definition borrow_account :: "InstructionContext \<Rightarrow> nat \<Rightarrow> BorrowedAccount ICM" where
  "borrow_account ctx i = sread (\<lambda>ic. try_borrow_instruction_account ctx (transaction_context ic) i)"

definition read_account :: "BorrowedAccount \<Rightarrow> Account ICM" where
  "read_account b = sread (\<lambda>ic. Ok (borrowed (transaction_context ic) b))"

definition modify_account :: "(TransactionContext \<Rightarrow> TransactionContext) \<Rightarrow> unit ICM" where
  "modify_account f = smodify (\<lambda>ic. ic\<lparr>transaction_context := f (transaction_context ic)\<rparr>)"

definition add_lamports :: "BorrowedAccount \<Rightarrow> u64 \<Rightarrow> unit ICM" where
  "add_lamports b n ic =
     (case checked_add_lamports b n (transaction_context ic) of
        Inl e \<Rightarrow> (Inl e, ic) | Inr tc \<Rightarrow> (Ok (), ic\<lparr>transaction_context := tc\<rparr>))"

definition sub_lamports :: "BorrowedAccount \<Rightarrow> u64 \<Rightarrow> unit ICM" where
  "sub_lamports b n ic =
     (case checked_sub_lamports b n (transaction_context ic) of
        Inl e \<Rightarrow> (Inl e, ic) | Inr tc \<Rightarrow> (Ok (), ic\<lparr>transaction_context := tc\<rparr>))"

definition get_state :: "system_codec \<Rightarrow> BorrowedAccount \<Rightarrow> Versions ICM" where
  "get_state bc b =
     sread (\<lambda>ic. ok_or (decode_versions bc (data (borrowed (transaction_context ic) b)))
       InstructionError.InvalidAccountData)"

text \<open>The encoding overwrites the front of the data; encoding itself does not fail.\<close>

definition set_state :: "system_codec \<Rightarrow> BorrowedAccount \<Rightarrow> Versions \<Rightarrow> unit ICM" where
  "set_state bc b state =
     sbind (read_account b) (\<lambda>account.
       let bs = encode_versions bc state
       in if length (data account) < length bs then sfail InstructionError.AccountDataTooSmall
          else modify_account (update_borrowed b (\<lambda>a. a\<lparr>data := bs @ drop (length bs) (data a)\<rparr>)))"

definition key_of_instruction_account :: "InstructionContext \<Rightarrow> nat \<Rightarrow> Pubkey ICM" where
  "key_of_instruction_account ctx i =
     sread (\<lambda>ic. and_then (get_index_of_instruction_account_in_transaction ctx i)
       (get_key_of_account_at_index (transaction_context ic)))"

definition check_sysvar_account :: "InstructionContext \<Rightarrow> nat \<Rightarrow> Pubkey \<Rightarrow> unit ICM" where
  "check_sysvar_account ctx i sysvar_id =
     sbind (key_of_instruction_account ctx i) (\<lambda>k.
       if k \<noteq> sysvar_id then sfail InstructionError.InvalidArgument else sret ())"

definition sysvar_rent_checked :: "InstructionContext \<Rightarrow> nat \<Rightarrow> Rent ICM" where
  "sysvar_rent_checked ctx i =
     sbind (check_sysvar_account ctx i rent_sysvar_id) (\<lambda>_.
       sread (\<lambda>ic. ok_or (sysvar_rent (sysvar_cache ic)) InstructionError.UnsupportedSysvar))"

definition sysvar_recent_blockhashes_checked :: "InstructionContext \<Rightarrow> nat \<Rightarrow> (Pubkey \<times> u64) list ICM" where
  "sysvar_recent_blockhashes_checked ctx i =
     sbind (check_sysvar_account ctx i recent_blockhashes_sysvar_id) (\<lambda>_.
       sread (\<lambda>ic. ok_or (sysvar_recent_blockhashes (sysvar_cache ic)) InstructionError.UnsupportedSysvar))"


section \<open>Accounts\<close>

record Address =
  addr_address :: Pubkey
  addr_base :: "Pubkey option"

definition address_is_signer :: "Address \<Rightarrow> Pubkey set \<Rightarrow> bool" where
  "address_is_signer a signers = (case addr_base a of Some b \<Rightarrow> b \<in> signers | None \<Rightarrow> addr_address a \<in> signers)"

definition address_create ::
  "crypto \<Rightarrow> Pubkey \<Rightarrow> (Pubkey \<times> bytes \<times> Pubkey) option \<Rightarrow> Address IResult" where
  "address_create cr addr with_seed =
     (case with_seed of
        None \<Rightarrow> Ok \<lparr>addr_address = addr, addr_base = None\<rparr>
      | Some (b, seed, seed_owner) \<Rightarrow>
          and_then (map_err of_pubkey_error (create_with_seed cr b seed seed_owner)) (\<lambda>address_with_seed.
            if addr \<noteq> address_with_seed then Inl (of_system_error AddressWithSeedMismatch)
            else Ok \<lparr>addr_address = addr, addr_base = Some b\<rparr>))"

definition allocate :: "BorrowedAccount \<Rightarrow> Address \<Rightarrow> u64 \<Rightarrow> Pubkey set \<Rightarrow> unit ICM" where
  "allocate account addr space signers =
     (if \<not> address_is_signer addr signers then sfail InstructionError.MissingRequiredSignature
      else sbind (read_account account) (\<lambda>a.
        if data a \<noteq> [] \<or> owner a \<noteq> system_program_id then sfail (of_system_error AccountAlreadyInUse)
        else if MAX_PERMITTED_DATA_LENGTH < space then sfail (of_system_error InvalidAccountDataLength)
        else modify_account (set_data account (replicate (unat space) 0))))"

definition assign :: "BorrowedAccount \<Rightarrow> Address \<Rightarrow> Pubkey \<Rightarrow> Pubkey set \<Rightarrow> unit ICM" where
  "assign account addr new_owner signers =
     sbind (read_account account) (\<lambda>a.
       if owner a = new_owner then sret ()
       else if \<not> address_is_signer addr signers then sfail InstructionError.MissingRequiredSignature
       else modify_account (set_owner account new_owner))"

definition allocate_and_assign ::
  "BorrowedAccount \<Rightarrow> Address \<Rightarrow> u64 \<Rightarrow> Pubkey \<Rightarrow> Pubkey set \<Rightarrow> unit ICM" where
  "allocate_and_assign to to_address space new_owner signers =
     sbind (allocate to to_address space signers) (\<lambda>_. assign to to_address new_owner signers)"

definition transfer_verified :: "InstructionContext \<Rightarrow> nat \<Rightarrow> nat \<Rightarrow> u64 \<Rightarrow> unit ICM" where
  "transfer_verified ctx from_account_index to_account_index amount =
     sbind (borrow_account ctx from_account_index) (\<lambda>from.
     sbind (read_account from) (\<lambda>a.
       if data a \<noteq> [] then sfail InstructionError.InvalidArgument
       else if lamports a < amount then sfail (of_system_error ResultWithNegativeLamports)
       else sbind (sub_lamports from amount) (\<lambda>_.
            sbind (borrow_account ctx to_account_index) (\<lambda>to. add_lamports to amount))))"

definition transfer :: "InstructionContext \<Rightarrow> nat \<Rightarrow> nat \<Rightarrow> u64 \<Rightarrow> unit ICM" where
  "transfer ctx from_account_index to_account_index amount ic =
     (if \<not> is_active system_transfer_zero_check ic \<and> amount = 0 then (Ok (), ic)
      else sbind (sread (\<lambda>_. is_instruction_account_signer ctx from_account_index)) (\<lambda>signed.
        if \<not> signed
        then sbind (key_of_instruction_account ctx from_account_index) (\<lambda>_.
               sfail InstructionError.MissingRequiredSignature)
        else transfer_verified ctx from_account_index to_account_index amount) ic)"

definition create_account ::
  "InstructionContext \<Rightarrow> nat \<Rightarrow> nat \<Rightarrow> Address \<Rightarrow> u64 \<Rightarrow> u64 \<Rightarrow> Pubkey \<Rightarrow> Pubkey set \<Rightarrow> unit ICM" where
  "create_account ctx from_account_index to_account_index to_address amount space new_owner signers =
     sbind (borrow_account ctx to_account_index) (\<lambda>to.
     sbind (read_account to) (\<lambda>a.
       if 0 < lamports a then sfail (of_system_error AccountAlreadyInUse)
       else sbind (allocate_and_assign to to_address space new_owner signers) (\<lambda>_.
            transfer ctx from_account_index to_account_index amount)))"

definition transfer_with_seed ::
  "crypto \<Rightarrow> InstructionContext \<Rightarrow> nat \<Rightarrow> nat \<Rightarrow> bytes \<Rightarrow> Pubkey \<Rightarrow> nat \<Rightarrow> u64 \<Rightarrow> unit ICM" where
  "transfer_with_seed cr ctx from_account_index from_base_account_index from_seed from_owner to_account_index amount ic =
     (if \<not> is_active system_transfer_zero_check ic \<and> amount = 0 then (Ok (), ic)
      else sbind (sread (\<lambda>_. is_instruction_account_signer ctx from_base_account_index)) (\<lambda>signed.
           sbind (key_of_instruction_account ctx from_base_account_index) (\<lambda>base_key.
             if \<not> signed then sfail InstructionError.MissingRequiredSignature
             else
               sbind (sread (\<lambda>_. map_err of_pubkey_error (create_with_seed cr base_key from_seed from_owner)))
                 (\<lambda>address_from_seed.
               sbind (key_of_instruction_account ctx from_account_index) (\<lambda>from_key.
                 if from_key \<noteq> address_from_seed then sfail (of_system_error AddressWithSeedMismatch)
                 else transfer_verified ctx from_account_index to_account_index amount)))) ic)"


section \<open>Nonce accounts\<close>

abbreviation nonce_failure :: "NonceError \<Rightarrow> 'a ICM" where
  "nonce_failure e \<equiv>
     sread (\<lambda>ic. Inl (nonce_to_instruction_error e (is_active merge_nonce_error_into_system_error ic)))"

definition advance_nonce_account :: "crypto \<Rightarrow> system_codec \<Rightarrow> BorrowedAccount \<Rightarrow> Pubkey set \<Rightarrow> unit ICM" where
  "advance_nonce_account cr bc account signers =
     (if \<not> ba_is_writable account then sfail InstructionError.InvalidArgument
      else sbind (get_state bc account) (\<lambda>state.
        case versions_state state of
          Initialized d \<Rightarrow>
            if authority d \<notin> signers then sfail InstructionError.MissingRequiredSignature
            else (\<lambda>ic.
              let next_durable_nonce = from_blockhash cr (blockhash ic)
              in if durable_nonce d = next_durable_nonce then nonce_failure NotExpired ic
                 else set_state bc account (versions_new (Initialized
                   (data_new (authority d) next_durable_nonce (lamports_per_signature ic)))) ic)
        | State.Uninitialized \<Rightarrow> nonce_failure BadAccountState))"

text \<open>The account whose signature a withdrawal needs; closing an initialized account resets its state.\<close>

definition withdraw_nonce_signer ::
  "crypto \<Rightarrow> system_codec \<Rightarrow> BorrowedAccount \<Rightarrow> u64 \<Rightarrow> Rent \<Rightarrow> State \<Rightarrow> Pubkey ICM" where
  "withdraw_nonce_signer cr bc from amount rent state =
     sbind (read_account from) (\<lambda>a.
       case state of
         State.Uninitialized \<Rightarrow>
           if lamports a < amount then sfail InstructionError.InsufficientFunds
           else sread (\<lambda>ic. Ok (get_key (transaction_context ic) from))
       | Initialized d \<Rightarrow>
           sbind (if amount = lamports a then (\<lambda>ic.
                    if durable_nonce d = from_blockhash cr (blockhash ic) then nonce_failure NotExpired ic
                    else set_state bc from (versions_new State.Uninitialized) ic)
                  else
                    sbind (sread (\<lambda>_. ok_or (checked_add amount (minimum_balance rent (length (data a))))
                      InstructionError.InsufficientFunds)) (\<lambda>needed.
                      if lamports a < needed then sfail InstructionError.InsufficientFunds else sret ()))
             (\<lambda>_. sret (authority d)))"

definition withdraw_nonce_account ::
  "crypto \<Rightarrow> system_codec \<Rightarrow> InstructionContext \<Rightarrow> nat \<Rightarrow> u64 \<Rightarrow> nat \<Rightarrow> Rent \<Rightarrow> Pubkey set \<Rightarrow> unit ICM" where
  "withdraw_nonce_account cr bc ctx from_account_index amount to_account_index rent signers =
     sbind (borrow_account ctx from_account_index) (\<lambda>from.
       if \<not> ba_is_writable from then sfail InstructionError.InvalidArgument
       else
         sbind (get_state bc from) (\<lambda>state.
         sbind (withdraw_nonce_signer cr bc from amount rent (versions_state state)) (\<lambda>signer.
           if signer \<notin> signers then sfail InstructionError.MissingRequiredSignature
           else
             sbind (sub_lamports from amount) (\<lambda>_.
             sbind (borrow_account ctx to_account_index) (\<lambda>to. add_lamports to amount)))))"

definition initialize_nonce_account ::
  "crypto \<Rightarrow> system_codec \<Rightarrow> BorrowedAccount \<Rightarrow> Pubkey \<Rightarrow> Rent \<Rightarrow> unit ICM" where
  "initialize_nonce_account cr bc account nonce_authority rent =
     (if \<not> ba_is_writable account then sfail InstructionError.InvalidArgument
      else sbind (get_state bc account) (\<lambda>state.
        case versions_state state of
          State.Uninitialized \<Rightarrow>
            sbind (read_account account) (\<lambda>a.
              if lamports a < minimum_balance rent (length (data a)) then sfail InstructionError.InsufficientFunds
              else (\<lambda>ic. set_state bc account (versions_new (Initialized
                (data_new nonce_authority (from_blockhash cr (blockhash ic)) (lamports_per_signature ic)))) ic))
        | Initialized _ \<Rightarrow> nonce_failure BadAccountState))"

definition authorize_nonce_account ::
  "system_codec \<Rightarrow> BorrowedAccount \<Rightarrow> Pubkey \<Rightarrow> Pubkey set \<Rightarrow> unit ICM" where
  "authorize_nonce_account bc account nonce_authority signers =
     (if \<not> ba_is_writable account then sfail InstructionError.InvalidArgument
      else sbind (get_state bc account) (\<lambda>state.
        case versions_authorize state signers nonce_authority of
          Inr versions \<Rightarrow> set_state bc account versions
        | Inl AuthorizeNonceError.Uninitialized \<Rightarrow> nonce_failure BadAccountState
        | Inl (AuthorizeNonceError.MissingRequiredSignature _) \<Rightarrow> sfail InstructionError.MissingRequiredSignature))"

definition upgrade_nonce_account :: "crypto \<Rightarrow> system_codec \<Rightarrow> BorrowedAccount \<Rightarrow> unit ICM" where
  "upgrade_nonce_account cr bc nonce_account =
     sbind (read_account nonce_account) (\<lambda>a.
       if owner a \<noteq> system_program_id then sfail InstructionError.InvalidAccountOwner
       else if \<not> ba_is_writable nonce_account then sfail InstructionError.InvalidArgument
       else sbind (get_state bc nonce_account) (\<lambda>versions.
         case versions_upgrade cr versions of
           None \<Rightarrow> sfail InstructionError.InvalidArgument
         | Some versions \<Rightarrow> set_state bc nonce_account versions))"


section \<open>Dispatch\<close>

text \<open>\<open>NonceError::NoRecentBlockhashes.into()\<close>.\<close>

definition require_blockhashes :: "(Pubkey \<times> u64) list \<Rightarrow> unit ICM" where
  "require_blockhashes recent_blockhashes =
     (if recent_blockhashes = [] then sfail (of_nonce_error NoRecentBlockhashes) else sret ())"

definition check_accounts :: "InstructionContext \<Rightarrow> nat \<Rightarrow> unit ICM" where
  "check_accounts ctx expected_at_least = sread (\<lambda>_. check_number_of_instruction_accounts ctx expected_at_least)"

definition instruction_address ::
  "crypto \<Rightarrow> InstructionContext \<Rightarrow> nat \<Rightarrow> (Pubkey \<times> bytes \<times> Pubkey) option \<Rightarrow> Address ICM" where
  "instruction_address cr ctx i with_seed =
     sbind (key_of_instruction_account ctx i) (\<lambda>k. sread (\<lambda>_. address_create cr k with_seed))"

fun process_system_instruction ::
  "crypto \<Rightarrow> system_codec \<Rightarrow> InstructionContext \<Rightarrow> Pubkey set \<Rightarrow> SystemInstruction \<Rightarrow> unit ICM" where
  "process_system_instruction cr bc ctx signers (CreateAccount amount space new_owner) =
     sbind (check_accounts ctx 2) (\<lambda>_.
     sbind (instruction_address cr ctx 1 None) (\<lambda>to_address.
       create_account ctx 0 1 to_address amount space new_owner signers))"
| "process_system_instruction cr bc ctx signers (CreateAccountWithSeed b seed amount space new_owner) =
     sbind (check_accounts ctx 2) (\<lambda>_.
     sbind (instruction_address cr ctx 1 (Some (b, seed, new_owner))) (\<lambda>to_address.
       create_account ctx 0 1 to_address amount space new_owner signers))"
| "process_system_instruction cr bc ctx signers (Assign new_owner) =
     sbind (check_accounts ctx 1) (\<lambda>_.
     sbind (borrow_account ctx 0) (\<lambda>account.
     sbind (instruction_address cr ctx 0 None) (\<lambda>addr.
       assign account addr new_owner signers)))"
| "process_system_instruction cr bc ctx signers (SystemInstruction.Transfer amount) =
     sbind (check_accounts ctx 2) (\<lambda>_. transfer ctx 0 1 amount)"
| "process_system_instruction cr bc ctx signers (TransferWithSeed amount from_seed from_owner) =
     sbind (check_accounts ctx 3) (\<lambda>_. transfer_with_seed cr ctx 0 1 from_seed from_owner 2 amount)"
| "process_system_instruction cr bc ctx signers AdvanceNonceAccount =
     sbind (check_accounts ctx 1) (\<lambda>_.
     sbind (borrow_account ctx 0) (\<lambda>me.
     sbind (sysvar_recent_blockhashes_checked ctx 1) (\<lambda>recent_blockhashes.
     sbind (require_blockhashes recent_blockhashes) (\<lambda>_.
       advance_nonce_account cr bc me signers))))"
| "process_system_instruction cr bc ctx signers (WithdrawNonceAccount amount) =
     sbind (check_accounts ctx 2) (\<lambda>_.
     sbind (sysvar_recent_blockhashes_checked ctx 2) (\<lambda>_.
     sbind (sysvar_rent_checked ctx 3) (\<lambda>rent.
       withdraw_nonce_account cr bc ctx 0 amount 1 rent signers)))"
| "process_system_instruction cr bc ctx signers (InitializeNonceAccount authorized) =
     sbind (check_accounts ctx 1) (\<lambda>_.
     sbind (borrow_account ctx 0) (\<lambda>me.
     sbind (sysvar_recent_blockhashes_checked ctx 1) (\<lambda>recent_blockhashes.
     sbind (require_blockhashes recent_blockhashes) (\<lambda>_.
     sbind (sysvar_rent_checked ctx 2) (\<lambda>rent.
       initialize_nonce_account cr bc me authorized rent)))))"
| "process_system_instruction cr bc ctx signers (AuthorizeNonceAccount nonce_authority) =
     sbind (check_accounts ctx 1) (\<lambda>_.
     sbind (borrow_account ctx 0) (\<lambda>me. authorize_nonce_account bc me nonce_authority signers))"
| "process_system_instruction cr bc ctx signers UpgradeNonceAccount =
     sbind (check_accounts ctx 1) (\<lambda>_.
     sbind (borrow_account ctx 0) (\<lambda>nonce_account. upgrade_nonce_account cr bc nonce_account))"
| "process_system_instruction cr bc ctx signers (Allocate space) =
     sbind (check_accounts ctx 1) (\<lambda>_.
     sbind (borrow_account ctx 0) (\<lambda>account.
     sbind (instruction_address cr ctx 0 None) (\<lambda>addr. allocate account addr space signers)))"
| "process_system_instruction cr bc ctx signers (AllocateWithSeed b seed space new_owner) =
     sbind (check_accounts ctx 1) (\<lambda>_.
     sbind (borrow_account ctx 0) (\<lambda>account.
     sbind (instruction_address cr ctx 0 (Some (b, seed, new_owner))) (\<lambda>addr.
       allocate_and_assign account addr space new_owner signers)))"
| "process_system_instruction cr bc ctx signers (AssignWithSeed b seed new_owner) =
     sbind (check_accounts ctx 1) (\<lambda>_.
     sbind (borrow_account ctx 0) (\<lambda>account.
     sbind (instruction_address cr ctx 0 (Some (b, seed, new_owner))) (\<lambda>addr.
       assign account addr new_owner signers)))"

definition system_process_instruction :: "crypto \<Rightarrow> system_codec \<Rightarrow> unit ICM" where
  "system_process_instruction cr bc =
     sbind (sread (\<lambda>ic. get_current_instruction_context (transaction_context ic))) (\<lambda>ctx.
     sbind (sread (\<lambda>_. ok_or (decode_instruction bc (instruction_data ctx)) InstructionError.InvalidInstructionData))
       (\<lambda>instruction ic.
          process_system_instruction cr bc ctx (get_signers ctx (transaction_context ic)) instruction ic))"

datatype SystemAccountKind = System | Nonce

definition get_system_account_kind :: "system_codec \<Rightarrow> Account \<Rightarrow> SystemAccountKind option" where
  "get_system_account_kind bc account =
     (if owner account = system_program_id then
        if data account = [] then Some System
        else if length (data account) = state_size then
          Option.bind (decode_versions bc (data account)) (\<lambda>nonce_versions.
            case versions_state nonce_versions of
              State.Uninitialized \<Rightarrow> None
            | Initialized _ \<Rightarrow> Some Nonce)
        else None
      else None)"


section \<open>The system program as a program of the runtime\<close>

text \<open>
  What the handler wrote to the accounts of its instruction becomes writes of the program, and its
  result the result of the program.
\<close>

definition write_back :: "InstructionContext \<Rightarrow> TransactionContext \<Rightarrow> unit IResult \<Rightarrow> prog" where
  "write_back ctx tc r =
     foldr (\<lambda>i. Write i (accounts tc ! index_in_transaction (instruction_accounts ctx ! i)))
       [0..<length (instruction_accounts ctx)] (Return r)"

definition builtin_of_action :: "unit ICM \<Rightarrow> InvokeContext \<Rightarrow> prog" where
  "builtin_of_action m ic =
     (let (r, ic') = m ic
      in case get_current_instruction_context (transaction_context ic) of
           Inl e \<Rightarrow> Return (Inl e)
         | Inr ctx \<Rightarrow> write_back ctx (transaction_context ic') r)"

definition system_builtin :: "crypto \<Rightarrow> system_codec \<Rightarrow> BuiltinProgram" where
  "system_builtin cr bc =
     \<lparr>bp_program_id = system_program_id,
      bp_process_instruction = (\<lambda>_. builtin_of_action (system_process_instruction cr bc))\<rparr>"

end
