(* ===== verification/Samples.thy ===== *)
theory Samples
  imports SystemProgram
begin

text \<open>
  Small concrete transactions: the contexts on which the properties of the runtime and of the
  programs are evaluated.
\<close>

definition sample_account :: "u64 \<Rightarrow> Pubkey \<Rightarrow> Account" where
  "sample_account n k = \<lparr>lamports = n, data = [], owner = k, executable = False, rent_epoch = 0\<rparr>"

definition sample_program :: "Pubkey \<Rightarrow> Account" where
  "sample_program loader = \<lparr>lamports = 1, data = [], owner = loader, executable = True, rent_epoch = 0\<rparr>"

definition sample_context :: "(Pubkey \<times> Account) list \<Rightarrow> InvokeContext" where
  "sample_context xs =
     invoke_context_new (transaction_context_new xs 5 1 1000) rent_default
       \<lparr>sysvar_rent = Some rent_default, sysvar_recent_blockhashes = Some [(7, 5000)]\<rparr>
       (compute_budget_new 200000) {record_instruction_in_transaction_context_push} 7 5000 0"

definition sample_ia :: "nat \<Rightarrow> nat \<Rightarrow> bool \<Rightarrow> bool \<Rightarrow> InstructionAccount" where
  "sample_ia i callee signer writable =
     \<lparr>index_in_transaction = i, index_in_caller = i, index_in_callee = callee,
      ia_is_signer = signer, ia_is_writable = writable\<rparr>"

text \<open>A context inside an instruction.\<close>

definition sample_running :: "nat list \<Rightarrow> InstructionAccount list \<Rightarrow> (Pubkey \<times> Account) list \<Rightarrow> InvokeContext" where
  "sample_running program_indices ias xs =
     (let ic = sample_context xs
      in ic\<lparr>transaction_context := snd (tc_push program_indices ias [] True (transaction_context ic))\<rparr>)"

text \<open>A codec that reads every instruction as the given one, and a nonce as uninitialized.\<close>

definition sample_codec :: "SystemInstruction \<Rightarrow> system_codec" where
  "sample_codec i = \<lparr>decode_instruction = (\<lambda>_. Some i), encode_instruction = (\<lambda>_. []),
     decode_versions = (\<lambda>_. Some (Current State.Uninitialized)), encode_versions = (\<lambda>_. [])\<rparr>"

definition sample_crypto :: crypto where
  "sample_crypto = \<lparr>sha256 = (\<lambda>bs. word_of_nat (le_to_nat bs)), bytes_are_curve_point = (\<lambda>_. False)\<rparr>"

text \<open>Unfolding of the definitions that a run of the runtime goes through.\<close>

lemmas sample_defs = sample_running_def sample_ia_def sample_account_def sample_program_def sample_context_def
  sample_codec_def sample_crypto_def invoke_context_new_def transaction_context_new_def

lemmas action_defs = sbind_def sread_def sret_def sfail_def smodify_def

lemmas context_defs = tc_push_def get_current_instruction_context_def get_instruction_context_stack_height_def
  get_instruction_context_at_def get_def is_instruction_account_signer_def is_instruction_account_writable_def
  try_borrow_instruction_account_def try_borrow_account_def get_index_of_instruction_account_in_transaction_def
  get_key_of_account_at_index_def get_account_at_index_def get_signers_def update_borrowed_def set_lamports_def
  set_data_def set_owner_def checked_add_lamports_def checked_sub_lamports_def checked_add_def checked_sub_def
  check_number_of_instruction_accounts_def ba_is_writable_def ba_is_signer_def get_key_def

lemmas system_run_defs = system_process_instruction_def check_accounts_def transfer_def transfer_verified_def
  borrow_account_def read_account_def modify_account_def sub_lamports_def add_lamports_def
  key_of_instruction_account_def instruction_address_def address_create_def address_is_signer_def
  create_account_def allocate_and_assign_def allocate_def assign_def MAX_PERMITTED_DATA_LENGTH_def
  sysvar_recent_blockhashes_checked_def check_sysvar_account_def require_blockhashes_def

lemmas run_simps = sample_defs action_defs context_defs system_run_defs

end
