(* ===== verification/RuntimeStack.thy ===== *)
theory RuntimeStack
  imports InvokeContext
begin

text \<open>
  The discipline of the invocation stack: every operation of the runtime leaves the instruction
  stack as it found it, on success and on errors, and the recursion over cross-program invocations
  is as deep as the capacity of the stack at most, so that \<open>process_instruction\<close> satisfies the
  recursive equation of the source.
\<close>

definition same_stack :: "InvokeContext \<Rightarrow> InvokeContext \<Rightarrow> bool" where
  "same_stack ic ic' \<longleftrightarrow>
     instruction_stack (transaction_context ic') = instruction_stack (transaction_context ic) \<and>
     instruction_context_capacity (transaction_context ic') = instruction_context_capacity (transaction_context ic)"

interpretation same_stack: state_preorder same_stack
  by unfold_locales (auto simp: same_stack_def)

lemma meter_data_len_same_stack: "stable same_stack (meter_data_len a b)"
  by (auto simp: stable_def same_stack_def meter_data_len_def Let_def split: if_splits sum.splits)

lemma verify_accounts_same_stack: "stable same_stack (verify_accounts pid i ias k s t)"
  by (induction pid i ias k s t rule: verify_accounts.induct)
    (auto intro!: same_stack.stable_intros meter_data_len_same_stack)

lemma verify_same_stack: "stable same_stack (verify ias pidx)"
  unfolding verify_def
  by (auto intro!: same_stack.stable_intros verify_accounts_same_stack split: prod.splits)

lemma meter_read_same_stack: "stable same_stack (\<lambda>ic. meter_data_len (f ic) b ic)"
  by (auto simp: stable_def dest: stableD [OF meter_data_len_same_stack])

lemma update_account_same_stack: "stable same_stack (update_account pid w a j s t)"
  unfolding update_account_def
  by (intro same_stack.stable_intros meter_read_same_stack) (auto simp: same_stack_def)

lemma update_found_same_stack:
  "stable same_stack (\<lambda>ic. case find_position (\<lambda>p. k = pre_key p) (pre_accounts ic) of
      None \<Rightarrow> (Ok (s, t), ic) | Some j \<Rightarrow> update_account pid w a j s t ic)"
  by (auto simp: stable_def same_stack.refl split: option.splits dest: stableD [OF update_account_same_stack])

lemma update_accounts_same_stack: "stable same_stack (update_accounts ctx pid b i ias s t)"
proof (induction ias arbitrary: i s t)
  case (Cons ia ias)
  show ?case
    unfolding update_accounts.simps
    by (intro same_stack.stable_if same_stack.stable_if_state Cons.IH same_stack.stable_sbind
        same_stack.stable_sread update_found_same_stack) (simp add: Cons.IH split: prod.splits)
qed (simp add: same_stack.stable_sret)

lemma verify_and_update_same_stack: "stable same_stack (verify_and_update ias b)"
  unfolding verify_and_update_def
  by (intro same_stack.stable_sbind same_stack.stable_sread update_accounts_same_stack)
    (simp add: same_stack.stable_sret same_stack.stable_sfail split: prod.splits)

lemma take_pre_accounts_same_stack: "stable same_stack (take_pre_accounts i ias)"
proof (induction ias arbitrary: i)
  case (Cons ia ias)
  show ?case
    unfolding take_pre_accounts.simps
    by (intro same_stack.stable_intros Cons.IH) (simp add: same_stack_def)
qed (simp add: same_stack.stable_sret)

lemma write_same_stack: "stable same_stack (write_instruction_account i a)"
  unfolding write_instruction_account_def
  by (intro same_stack.stable_intros) (simp add: same_stack_def)

lemma set_program_return_data_same_stack: "stable same_stack (set_program_return_data bs)"
  unfolding set_program_return_data_def
  by (intro same_stack.stable_intros) (simp add: same_stack_def set_return_data_def)

lemma consume_same_stack: "stable same_stack (consume n)"
  by (auto simp: stable_def same_stack_def consume_def compute_meter_consume_def)

lemma record_caller_same_stack: "same_stack ic (record_caller ias pidx input ic)"
  by (simp add: same_stack_def record_caller_def tc_record_instruction_def)


section \<open>Push and pop\<close>

definition pushes :: "InvokeContext \<Rightarrow> unit IResult \<Rightarrow> InvokeContext \<Rightarrow> bool" where
  "pushes ic r ic' \<longleftrightarrow>
     instruction_context_capacity (transaction_context ic') = instruction_context_capacity (transaction_context ic) \<and>
     (case r of
        Inl e \<Rightarrow> instruction_stack (transaction_context ic') = instruction_stack (transaction_context ic)
      | Inr _ \<Rightarrow> (\<exists>i. instruction_stack (transaction_context ic') = instruction_stack (transaction_context ic) @ [i]) \<and>
          get_stack_height ic < instruction_context_capacity (transaction_context ic))"

lemma pushes_sbind:
  assumes "stable same_stack m"
    and "\<And>x ic r ic'. f x ic = (r, ic') \<Longrightarrow> pushes ic r ic'"
    and "sbind m f ic = (r, ic')"
  shows "pushes ic r ic'"
  using assms(3)
proof (cases rule: sbind_cases)
  case (fail e)
  with assms(1) show ?thesis by (auto simp: pushes_def same_stack_def dest: stableD)
next
  case (step x s1)
  have "same_stack ic s1" using assms(1) step(1) by (rule stableD)
  moreover have "pushes s1 r ic'" using assms(2) step(2) .
  ultimately show ?thesis
    by (auto simp: pushes_def same_stack_def get_instruction_context_stack_height_def split: sum.splits)
qed

lemma push_transaction_context_pushes:
  "push_transaction_context ias pidx input ic = (r, ic') \<Longrightarrow> pushes ic r ic'"
  by (auto simp: push_transaction_context_def tc_push_def Let_def pushes_def not_le
      get_instruction_context_stack_height_def split: if_splits)

lemma push_pushes: "push ias pidx input ic = (r, ic') \<Longrightarrow> pushes ic r ic'"
  unfolding push_def
proof (erule pushes_sbind [rotated 2], goal_cases)
  case 2
  then show ?case
  proof (erule_tac pushes_sbind [rotated 2], goal_cases)
    case 2
    then show ?case
    proof (erule_tac pushes_sbind [rotated 2], goal_cases)
      case 2
      then show ?case
        by (elim pushes_sbind [rotated 2])
          (auto intro!: same_stack.stable_intros push_transaction_context_pushes simp: same_stack_def)
    qed (auto simp: stable_def same_stack_def dest: stableD [OF take_pre_accounts_same_stack])
  qed (rule same_stack.stable_sread)
qed (rule same_stack.stable_sread)

lemma pop_stack:
  "pop ic = (r, ic') \<Longrightarrow>
     instruction_stack (transaction_context ic') = butlast (instruction_stack (transaction_context ic)) \<and>
     instruction_context_capacity (transaction_context ic') = instruction_context_capacity (transaction_context ic)"
  by (auto simp: pop_def tc_pop_def Let_def split: if_splits)

lemma and_pop_stack:
  assumes "stable same_stack m" and "and_pop m ic = (r, ic')"
  shows "instruction_stack (transaction_context ic') = butlast (instruction_stack (transaction_context ic))"
    and "instruction_context_capacity (transaction_context ic') = instruction_context_capacity (transaction_context ic)"
  using assms(2)
  by (auto simp: and_pop_def same_stack_def split: prod.splits
      dest!: stableD [OF assms(1)] pop_stack)


section \<open>Programs and instructions\<close>

lemma run_prog_same_stack:
  assumes "\<And>ix signers. stable same_stack (invoke ix signers)"
  shows "stable same_stack (run_prog invoke p)"
proof (induction p)
  case (Invoke ix signers k)
  have "stable same_stack (\<lambda>ic. run_prog invoke (k ic) ic)"
    using Invoke by (auto simp: stable_def)
  then show ?case by (auto intro: same_stack.stable_sbind assms)
qed (auto intro!: same_stack.stable_intros write_same_stack set_program_return_data_same_stack consume_same_stack)

lemma run_builtin_same_stack:
  assumes "\<And>ix signers. stable same_stack (invoke ix signers)"
  shows "stable same_stack (run_builtin invoke entry n pid)"
  unfolding stable_def run_builtin_def Let_def
  by (auto simp: same_stack_def set_return_data_def split: prod.splits
      dest!: stableD [OF run_prog_same_stack [OF assms]])

lemma process_executable_chain_same_stack:
  assumes "\<And>ix signers. stable same_stack (invoke ix signers)"
  shows "stable same_stack (process_executable_chain builtins invoke)"
  unfolding process_executable_chain_def split_beta
  by (intro same_stack.stable_intros run_builtin_same_stack assms)

lemma process_instruction_with_same_stack:
  assumes "\<And>ix signers. stable same_stack (invoke ix signers)"
  shows "stable same_stack (process_instruction_with builtins invoke input ias pidx)"
proof -
  let ?body = "\<lambda>top. sbind (process_executable_chain builtins invoke) (\<lambda>units.
      sbind (if top then verify ias pidx else verify_and_update ias False) (\<lambda>_. sret units))"
  have body: "stable same_stack (?body top)" for top
    by (intro same_stack.stable_intros process_executable_chain_same_stack assms
        verify_same_stack verify_and_update_same_stack)
  have pushed: "stable same_stack (sbind (push ias pidx input) (\<lambda>_. and_pop (?body top)))" for top
    unfolding stable_def
  proof (intro allI impI)
    fix ic r ic' assume "sbind (push ias pidx input) (\<lambda>_. and_pop (?body top)) ic = (r, ic')"
    then show "same_stack ic ic'"
    proof (cases rule: sbind_cases)
      case (fail e)
      then show ?thesis by (auto simp: same_stack_def pushes_def dest: push_pushes)
    next
      case (step u s1)
      from push_pushes [OF step(1)] and_pop_stack [OF body step(2)] show ?thesis
        by (auto simp: pushes_def same_stack_def)
    qed
  qed
  have "stable same_stack (sbind (if top then sret ()
      else sbind (verify_and_update ias True) (\<lambda>_. smodify (record_caller ias pidx input)))
        (\<lambda>_. sbind (push ias pidx input) (\<lambda>_. and_pop (?body top))))" for top
    by (intro same_stack.stable_sbind [OF _ pushed] same_stack.stable_intros
        verify_and_update_same_stack record_caller_same_stack)
  then show ?thesis
    unfolding stable_def process_instruction_with_def Let_def by blast
qed

lemma native_invoke_with_same_stack:
  assumes "\<And>input ias pidx. stable same_stack (process input ias pidx)"
  shows "stable same_stack (native_invoke_with loader_state process ix signers)"
  unfolding native_invoke_with_def split_beta by (intro same_stack.stable_intros assms)

lemma process_nested_same_stack: "stable same_stack (process_nested loader_state builtins n input ias pidx)"
proof (induction n arbitrary: input ias pidx)
  case (Suc n)
  then show ?case by (simp add: process_instruction_with_same_stack native_invoke_with_same_stack)
qed (simp add: same_stack.stable_sfail)


section \<open>The depth of the recursion\<close>

text \<open>Two entry points for invocations that agree at the current height of the stack run a program alike.\<close>

lemma run_prog_agree:
  assumes "\<And>ix signers. stable same_stack (invoke ix signers)"
    and "\<And>ix signers s. same_stack ic0 s \<Longrightarrow> invoke ix signers s = invoke' ix signers s"
    and "same_stack ic0 ic"
  shows "run_prog invoke p ic = run_prog invoke' p ic"
  using assms(3)
proof (induction p arbitrary: ic)
  case (Invoke ix signers k)
  show ?case
    unfolding run_prog.simps
  proof (rule sbind_cong)
    show "invoke ix signers ic = invoke' ix signers ic" using assms(2) Invoke.prems .
    fix x s1 assume "invoke' ix signers ic = (Inr x, s1)"
    then have "same_stack ic s1"
      using assms(2) [OF Invoke.prems] stableD [OF assms(1)] by metis
    then show "run_prog invoke (k s1) s1 = run_prog invoke' (k s1) s1"
      using Invoke.IH Invoke.prems by (blast intro: same_stack.trans)
  qed
next
  case (Write i a p)
  then show ?case
    unfolding run_prog.simps
    by (intro sbind_cong refl) (blast intro: same_stack.trans stableD [OF write_same_stack])
next
  case (SetReturnData bs p)
  then show ?case
    unfolding run_prog.simps
    by (intro sbind_cong refl) (blast intro: same_stack.trans stableD [OF set_program_return_data_same_stack])
next
  case (Consume n p)
  then show ?case
    unfolding run_prog.simps
    by (intro sbind_cong refl) (blast intro: same_stack.trans stableD [OF consume_same_stack])
qed simp

lemma process_executable_chain_agree:
  assumes "\<And>ix signers. stable same_stack (invoke ix signers)"
    and "\<And>ix signers s. same_stack ic s \<Longrightarrow> invoke ix signers s = invoke' ix signers s"
  shows "process_executable_chain builtins invoke ic = process_executable_chain builtins invoke' ic"
  unfolding process_executable_chain_def split_beta
proof (intro sbind_cong refl, goal_cases)
  case (1 ctx s1 nb s2 entry s3 pid s4)
  then have "s4 = ic" by (simp add: sread_def)
  moreover have "run_prog invoke p (ic\<lparr>transaction_context := set_return_data pid [] (transaction_context ic)\<rparr>) =
      run_prog invoke' p (ic\<lparr>transaction_context := set_return_data pid [] (transaction_context ic)\<rparr>)" for p
    by (rule run_prog_agree [OF assms]) (auto simp: same_stack_def set_return_data_def)
  ultimately show ?case by (simp add: run_builtin_def)
qed

lemma process_instruction_with_agree:
  assumes "\<And>ix signers. stable same_stack (invoke ix signers)"
    and "\<And>ix signers s. get_stack_height s = Suc (get_stack_height ic) \<Longrightarrow>
      get_stack_height s \<le> instruction_context_capacity (transaction_context s) \<Longrightarrow>
      instruction_context_capacity (transaction_context s) = instruction_context_capacity (transaction_context ic) \<Longrightarrow>
      invoke ix signers s = invoke' ix signers s"
  shows "process_instruction_with builtins invoke input ias pidx ic =
    process_instruction_with builtins invoke' input ias pidx ic"
  unfolding process_instruction_with_def Let_def
proof (rule sbind_cong [OF refl], rule sbind_cong [OF refl], goal_cases)
  case (1 u s1 v s2)
  have "stable same_stack (if get_stack_height ic = 0 then sret ()
      else sbind (verify_and_update ias True) (\<lambda>_. smodify (record_caller ias pidx input)))"
    by (intro same_stack.stable_intros verify_and_update_same_stack record_caller_same_stack)
  then have "same_stack ic s1" using 1(1) by (rule stableD)
  moreover have "pushes s1 (Inr v) s2" using 1(2) by (rule push_pushes)
  ultimately have "invoke ix signers s = invoke' ix signers s" if "same_stack s2 s" for ix signers s
    using that by (intro assms(2))
      (auto simp: same_stack_def pushes_def get_instruction_context_stack_height_def)
  then have "process_executable_chain builtins invoke s2 = process_executable_chain builtins invoke' s2"
    by (rule process_executable_chain_agree [OF assms(1)])
  then show ?case by (simp add: and_pop_def sbind_def)
qed

lemma native_invoke_with_agree:
  assumes "\<And>input ias pidx. process input ias pidx ic = process' input ias pidx ic"
  shows "native_invoke_with loader_state process ix signers ic =
    native_invoke_with loader_state process' ix signers ic"
  unfolding native_invoke_with_def split_beta
  by (intro sbind_cong refl) (auto simp: sread_def assms)

lemma process_nested_enough:
  assumes "instruction_context_capacity (transaction_context ic) - get_stack_height ic < n"
    and "instruction_context_capacity (transaction_context ic) - get_stack_height ic < m"
  shows "process_nested loader_state builtins n input ias pidx ic =
    process_nested loader_state builtins m input ias pidx ic"
  using assms
proof (induction n arbitrary: m ic input ias pidx)
  case (Suc n)
  then obtain m' where m: "m = Suc m'" by (cases m) auto
  show ?case
    unfolding m process_nested.simps
  proof (rule process_instruction_with_agree)
    show "stable same_stack (native_invoke_with loader_state (process_nested loader_state builtins n) ix signers)"
      for ix signers by (intro native_invoke_with_same_stack process_nested_same_stack)
    fix ix signers s
    assume "get_stack_height s = Suc (get_stack_height ic)"
      and "get_stack_height s \<le> instruction_context_capacity (transaction_context s)"
      and "instruction_context_capacity (transaction_context s) = instruction_context_capacity (transaction_context ic)"
    then show "native_invoke_with loader_state (process_nested loader_state builtins n) ix signers s =
        native_invoke_with loader_state (process_nested loader_state builtins m') ix signers s"
      using Suc.prems m by (intro native_invoke_with_agree Suc.IH) auto
  qed
qed simp

lemma process_instruction_same_stack: "stable same_stack (process_instruction loader_state builtins input ias pidx)"
  unfolding stable_def process_instruction_def using stableD [OF process_nested_same_stack] by blast

text \<open>\<open>process_instruction\<close> satisfies the recursive equation of the source.\<close>

lemma process_instruction_unfold:
  "process_instruction loader_state builtins input ias pidx ic =
     process_instruction_with builtins (native_invoke loader_state builtins) input ias pidx ic"
proof -
  let ?d = "instruction_context_capacity (transaction_context ic) - get_stack_height ic"
  have "process_instruction_with builtins
      (native_invoke_with loader_state (process_nested loader_state builtins ?d)) input ias pidx ic =
    process_instruction_with builtins (native_invoke loader_state builtins) input ias pidx ic"
  proof (rule process_instruction_with_agree)
    show "stable same_stack (native_invoke_with loader_state (process_nested loader_state builtins ?d) ix signers)"
      for ix signers by (intro native_invoke_with_same_stack process_nested_same_stack)
    fix ix signers s
    assume "get_stack_height s = Suc (get_stack_height ic)"
      and "get_stack_height s \<le> instruction_context_capacity (transaction_context s)"
      and "instruction_context_capacity (transaction_context s) = instruction_context_capacity (transaction_context ic)"
    then show "native_invoke_with loader_state (process_nested loader_state builtins ?d) ix signers s =
        native_invoke loader_state builtins ix signers s"
      unfolding native_invoke_def
      by (intro native_invoke_with_agree, unfold process_instruction_def, intro process_nested_enough) auto
  qed
  then show ?thesis by (simp add: process_instruction_def)
qed

end
