(* ===== verification/RuntimeSafety.thy ===== *)
theory RuntimeSafety
  imports RuntimeStack
begin

text \<open>
  What a successful instruction can have done to the accounts, whatever programs ran in it: an
  invariant of the execution of a top-level instruction and of all its cross-program invocations,
  relative to a snapshot of the accounts taken when the instruction started.
\<close>

record snapshot =
  sn_keys :: "Pubkey list"
  sn_accounts :: "Account list"
  sn_pre :: "PreAccount list"
  sn_used :: "nat set"
  sn_writable :: "nat set"

text \<open>The programs that ran in the current top-level instruction.\<close>

definition executed :: "TransactionContext \<Rightarrow> Pubkey set" where
  "executed tc = {k. \<exists>ctx\<in>set (last (instruction_trace tc)). get_last_program_key ctx tc = Inr k}"

definition untouched :: "Account \<Rightarrow> Account \<Rightarrow> bool" where
  "untouched a b \<longleftrightarrow> owner b = owner a \<and> data b = data a \<and> lamports a \<le> lamports b"

definition ctx_ok :: "snapshot \<Rightarrow> InstructionAccount list \<Rightarrow> bool" where
  "ctx_ok sn ias \<longleftrightarrow> (\<forall>ia\<in>set ias. index_in_transaction ia \<in> sn_used sn \<and>
     (ia_is_writable ia \<longrightarrow> index_in_transaction ia \<in> sn_writable sn))"

definition pre_ok :: "snapshot \<Rightarrow> Pubkey set \<Rightarrow> PreAccount \<Rightarrow> PreAccount \<Rightarrow> bool" where
  "pre_ok sn ex p0 p \<longleftrightarrow>
     pre_key p = pre_key p0 \<and>
     (pre_key p0 \<notin> (!) (sn_keys sn) ` sn_writable sn \<longrightarrow> pre_account p = pre_account p0) \<and>
     (owner (pre_account p0) \<in> ex \<or> untouched (pre_account p0) (pre_account p))"

definition pre_total :: "PreAccount list \<Rightarrow> nat" where
  "pre_total ps = sum_list (map (\<lambda>p. unat (lamports (pre_account p))) ps)"

definition runtime_inv :: "snapshot \<Rightarrow> InvokeContext \<Rightarrow> bool" where
  "runtime_inv sn ic \<longleftrightarrow>
     (let tc = transaction_context ic in
      distinct (sn_keys sn) \<and> sn_used sn \<subseteq> {..<length (sn_keys sn)} \<and>
      account_keys tc = sn_keys sn \<and> length (accounts tc) = length (sn_keys sn) \<and>
      wf_stack tc \<and>
      (\<forall>level ctx. level < length (instruction_stack tc) \<longrightarrow> get_instruction_context_at tc level = Inr ctx \<longrightarrow>
         ctx_ok sn (instruction_accounts ctx)) \<and>
      (\<forall>t < length (sn_keys sn). t \<notin> sn_used sn \<longrightarrow> accounts tc ! t = sn_accounts sn ! t) \<and>
      list_all2 (pre_ok sn (executed tc)) (sn_pre sn) (pre_accounts ic) \<and>
      pre_total (pre_accounts ic) = pre_total (sn_pre sn))"

definition kept :: "snapshot \<Rightarrow> InvokeContext \<Rightarrow> InvokeContext \<Rightarrow> bool" where
  "kept sn ic ic' \<longleftrightarrow> (runtime_inv sn ic \<longrightarrow> runtime_inv sn ic')"

interpretation kept: state_preorder "kept sn" for sn
  by unfold_locales (auto simp: kept_def)


section \<open>Contexts under changes of the stack and the trace\<close>

lemma context_at_cong:
  "instruction_stack tc' = instruction_stack tc \<Longrightarrow> instruction_trace tc' = instruction_trace tc \<Longrightarrow>
     get_instruction_context_at tc' level = get_instruction_context_at tc level"
  by (simp add: get_instruction_context_at_def)

lemma wf_stack_cong:
  "instruction_stack tc' = instruction_stack tc \<Longrightarrow> instruction_trace tc' = instruction_trace tc \<Longrightarrow>
     wf_stack tc' = wf_stack tc"
  by (simp add: wf_stack_def)

lemma last_program_key_cong:
  "account_keys tc' = account_keys tc \<Longrightarrow> get_last_program_key ctx tc' = get_last_program_key ctx tc"
  by (cases "get_index_of_program_account_in_transaction ctx (length (program_accounts ctx) - 1)")
    (simp_all add: get_last_program_key_def get_key_of_account_at_index_def)

lemma executed_cong:
  "account_keys tc' = account_keys tc \<Longrightarrow> instruction_trace tc' = instruction_trace tc \<Longrightarrow>
     executed tc' = executed tc"
  by (simp add: executed_def last_program_key_cong [of tc' tc])

lemma current_context_in_trace:
  assumes "wf_stack tc" and "get_current_instruction_context tc = Inr ctx"
  shows "ctx \<in> set (last (instruction_trace tc))"
    and "\<exists>level < length (instruction_stack tc). get_instruction_context_at tc level = Inr ctx"
proof -
  let ?l = "length (instruction_stack tc) - 1"
  have ne: "instruction_stack tc \<noteq> []" and at: "get_instruction_context_at tc ?l = Inr ctx"
    using assms(2)
    by (auto simp: get_current_instruction_context_def get_instruction_context_stack_height_def Let_def split: if_splits)
  then show "\<exists>level < length (instruction_stack tc). get_instruction_context_at tc level = Inr ctx"
    by (intro exI [of _ ?l]) simp
  have "instruction_trace tc \<noteq> []" "instruction_stack tc ! 0 = length (instruction_trace tc) - 1"
    using assms(1) ne by (auto simp: wf_stack_def)
  then show "ctx \<in> set (last (instruction_trace tc))"
    using at by (auto simp: get_instruction_context_at_def res_simps bind_eq_Some_conv last_conv_nth split: if_splits)
qed

text \<open>A state that differs in the accounts used, the return data and the meters only.\<close>

lemma runtime_inv_frame:
  assumes "runtime_inv sn ic"
    and "pre_accounts ic' = pre_accounts ic"
    and "account_keys (transaction_context ic') = account_keys (transaction_context ic)"
    and "length (accounts (transaction_context ic')) = length (accounts (transaction_context ic))"
    and "instruction_stack (transaction_context ic') = instruction_stack (transaction_context ic)"
    and "instruction_trace (transaction_context ic') = instruction_trace (transaction_context ic)"
    and "\<And>t. t < length (sn_keys sn) \<Longrightarrow> t \<notin> sn_used sn \<Longrightarrow>
      accounts (transaction_context ic') ! t = accounts (transaction_context ic) ! t"
  shows "runtime_inv sn ic'"
  using assms(1,7)
  by (simp add: runtime_inv_def Let_def assms(2-6) context_at_cong [OF assms(5,6)]
      wf_stack_cong [OF assms(5,6)] executed_cong [OF assms(3,6)])


section \<open>Effects of programs\<close>

lemma write_kept: "stable_ok (kept sn) (write_instruction_account i a)"
  unfolding stable_ok_def kept_def
proof (intro allI impI)
  fix ic u ic'
  assume w: "write_instruction_account i a ic = (Inr u, ic')" and inv: "runtime_inv sn ic"
  from w obtain ctx where ctx: "get_current_instruction_context (transaction_context ic) = Inr ctx"
    and i: "i < length (instruction_accounts ctx)"
    and ic': "ic' = ic\<lparr>transaction_context := update_borrowed
        \<lparr>ba_context = ctx, ba_index_in_transaction = index_in_transaction (instruction_accounts ctx ! i),
          ba_index_in_instruction = length (program_accounts ctx) + i\<rparr> (\<lambda>_. a)
        (set_data \<lparr>ba_context = ctx, ba_index_in_transaction = index_in_transaction (instruction_accounts ctx ! i),
          ba_index_in_instruction = length (program_accounts ctx) + i\<rparr> (data a) (transaction_context ic))\<rparr>"
    by (auto simp: write_instruction_account_def res_simps)
  from inv have "wf_stack (transaction_context ic)" by (simp add: runtime_inv_def Let_def)
  from current_context_in_trace(2) [OF this ctx] inv have "ctx_ok sn (instruction_accounts ctx)"
    by (auto simp: runtime_inv_def Let_def)
  with i have "index_in_transaction (instruction_accounts ctx ! i) \<in> sn_used sn"
    by (simp add: ctx_ok_def)
  then show "runtime_inv sn ic'"
    by (intro runtime_inv_frame [OF inv]) (auto simp: ic' update_borrowed_def intro!: nth_list_update_neq)
qed

lemma set_program_return_data_kept: "stable_ok (kept sn) (set_program_return_data bs)"
  by (auto simp: stable_ok_def kept_def set_program_return_data_def set_return_data_def res_simps
      elim!: runtime_inv_frame)

lemma consume_kept: "stable_ok (kept sn) (consume n)"
  by (auto simp: stable_ok_def kept_def consume_def compute_meter_consume_def elim!: runtime_inv_frame)

lemma run_prog_kept:
  assumes "\<And>ix signers. stable_ok (kept sn) (invoke ix signers)"
  shows "stable_ok (kept sn) (run_prog invoke p)"
proof (induction p)
  case (Invoke ix signers k)
  have "stable_ok (kept sn) (\<lambda>ic. run_prog invoke (k ic) ic)"
    using Invoke by (auto simp: stable_ok_def)
  then show ?case by (auto intro: kept.stable_ok_sbind assms)
next
  case (Return r)
  show ?case by (simp add: kept.stable_imp_ok kept.stable_sread)
qed (auto intro!: kept.stable_ok_sbind write_kept set_program_return_data_kept consume_kept)


section \<open>Verification\<close>

lemma meter_data_len_Inr:
  assumes "meter_data_len a b ic = (Inr u, ic')"
  shows "transaction_context ic' = transaction_context ic" and "pre_accounts ic' = pre_accounts ic"
    and "ic_rent ic' = ic_rent ic"
  using assms by (auto simp: meter_data_len_def Let_def split: if_splits sum.splits)

lemma u128_checked_add_Inr [res_simps]:
  "u128_checked_add s x = Inr t \<longleftrightarrow> t = s + unat x \<and> s + unat x < 2 ^ 128"
  by (auto simp: u128_checked_add_def)

text \<open>A verified account is untouched unless the program owns it.\<close>

lemma verified_untouched:
  assumes "pre_account_verify p pid w rent a = Inr u" and "pid \<noteq> owner (pre_account p)"
  shows "untouched (pre_account p) a"
  using assms unfolding pre_account_verify_iff untouched_def by (metis not_less)

lemma verified_readonly:
  assumes "pre_account_verify p pid w rent a = Inr u" and "\<not> (w \<and> \<not> executable (pre_account p))"
  shows "a = pre_account p"
  using assms unfolding pre_account_verify_iff by (intro Account.equality) auto

lemma update_account_Inr:
  assumes "update_account pid w a j s t ic = (Inr (s', t'), ic')"
  obtains p' where "pre_accounts ic' = (pre_accounts ic)[j := p']"
    and "transaction_context ic' = transaction_context ic"
    and "pre_key p' = pre_key (pre_accounts ic ! j)"
    and "lamports (pre_account p') = lamports a"
    and "\<not> w \<Longrightarrow> p' = pre_accounts ic ! j"
    and "pid \<noteq> owner (pre_account (pre_accounts ic ! j)) \<Longrightarrow>
      untouched (pre_account (pre_accounts ic ! j)) (pre_account p')"
    and "s' = s + unat (lamports (pre_account (pre_accounts ic ! j)))" and "t' = t + unat (lamports a)"
proof -
  let ?p = "pre_accounts ic ! j"
  from assms obtain u ic1 v where v: "pre_account_verify ?p pid w (ic_rent ic) a = Inr v"
    and s': "s' = s + unat (lamports (pre_account ?p))" and t': "t' = t + unat (lamports a)"
    and ic1: "ic1 = (if w \<and> \<not> executable (pre_account ?p)
       then ic\<lparr>pre_accounts := (pre_accounts ic)[j := pre_account_update a ?p]\<rparr> else ic)"
    and m: "meter_data_len (length (data (pre_account (pre_accounts ic1 ! j)))) (length (data a)) ic1 = (Inr u, ic')"
    by (auto simp: update_account_def res_simps)
  show thesis
  proof (cases "w \<and> \<not> executable (pre_account ?p)")
    case True
    then show ?thesis
      using v verified_untouched [OF v] meter_data_len_Inr [OF m] s' t'
      by (intro that [of "pre_account_update a ?p"]) (auto simp: ic1 pre_account_update_def untouched_def)
  next
    case False
    then show ?thesis
      using v verified_readonly [OF v False] meter_data_len_Inr [OF m] s' t'
      by (intro that [of ?p]) (auto simp: ic1 untouched_def)
  qed
qed

lemma pre_ok_step:
  assumes "pre_ok sn ex p0 p" and "pre_key p' = pre_key p"
    and "pre_key p \<notin> (!) (sn_keys sn) ` sn_writable sn \<Longrightarrow> p' = p"
    and "pid \<in> ex" and "pid \<noteq> owner (pre_account p) \<Longrightarrow> untouched (pre_account p) (pre_account p')"
  shows "pre_ok sn ex p0 p'"
proof (cases "owner (pre_account p0) \<in> ex")
  case True
  with assms(1-3) show ?thesis by (auto simp: pre_ok_def)
next
  case False
  then have "untouched (pre_account p0) (pre_account p)" using assms(1) by (simp add: pre_ok_def)
  moreover from this False assms(4,5) have "untouched (pre_account p) (pre_account p')"
    by (auto simp: untouched_def)
  ultimately have "untouched (pre_account p0) (pre_account p')" by (auto simp: untouched_def)
  with assms(1-3) show ?thesis by (auto simp: pre_ok_def)
qed

text \<open>
  The invariant in the middle of a verification: the sums collected so far account for the change of
  the total.
\<close>

definition mid_inv :: "snapshot \<Rightarrow> TransactionContext \<Rightarrow> nat \<Rightarrow> nat \<Rightarrow> InvokeContext \<Rightarrow> bool" where
  "mid_inv sn tc s t ic \<longleftrightarrow>
     transaction_context ic = tc \<and> list_all2 (pre_ok sn (executed tc)) (sn_pre sn) (pre_accounts ic) \<and>
     pre_total (pre_accounts ic) + s = pre_total (sn_pre sn) + t"

lemma pre_total_update:
  "j < length ps \<Longrightarrow> pre_total (ps[j := p']) + unat (lamports (pre_account (ps ! j))) =
     pre_total ps + unat (lamports (pre_account p'))"
  unfolding pre_total_def by (rule sum_list_map_update)

lemma update_account_mid_inv:
  assumes "update_account pid w a j s t ic = (Inr (s', t'), ic')"
    and "mid_inv sn tc s t ic" and "j < length (pre_accounts ic)" and "pid \<in> executed tc"
    and "w \<Longrightarrow> pre_key (pre_accounts ic ! j) \<in> (!) (sn_keys sn) ` sn_writable sn"
  shows "mid_inv sn tc s' t' ic'"
  using assms(1)
proof (rule update_account_Inr)
  fix p'
  let ?p = "pre_accounts ic ! j"
  assume p': "pre_accounts ic' = (pre_accounts ic)[j := p']" "transaction_context ic' = transaction_context ic"
    "pre_key p' = pre_key ?p" "lamports (pre_account p') = lamports a" "\<not> w \<Longrightarrow> p' = ?p"
    "pid \<noteq> owner (pre_account ?p) \<Longrightarrow> untouched (pre_account ?p) (pre_account p')"
    "s' = s + unat (lamports (pre_account ?p))" "t' = t + unat (lamports a)"
  have all: "list_all2 (pre_ok sn (executed tc)) (sn_pre sn) (pre_accounts ic)"
    and tot: "pre_total (pre_accounts ic) + s = pre_total (sn_pre sn) + t"
    and tc: "transaction_context ic = tc" using assms(2) by (simp_all add: mid_inv_def)
  then have "pre_ok sn (executed tc) (sn_pre sn ! j) ?p"
    using assms(3) by (simp add: list_all2_conv_all_nth)
  then have "pre_ok sn (executed tc) (sn_pre sn ! j) p'"
    by (rule pre_ok_step) (use p' assms(4,5) in auto)
  then have "list_all2 (pre_ok sn (executed tc)) (sn_pre sn) ((pre_accounts ic)[j := p'])"
    using all assms(3) by (auto simp: list_all2_conv_all_nth nth_list_update)
  moreover have "pre_total ((pre_accounts ic)[j := p']) + s' = pre_total (sn_pre sn) + t'"
    using pre_total_update [OF assms(3), of p'] tot p'(4,7,8) by simp
  ultimately show ?thesis using p'(1,2) tc by (simp add: mid_inv_def)
qed

definition update_allowed :: "snapshot \<Rightarrow> InstructionContext \<Rightarrow> bool \<Rightarrow> InstructionAccount \<Rightarrow> bool" where
  "update_allowed sn ctx before ia \<longleftrightarrow>
     (\<forall>w. (if before then is_instruction_account_writable ctx (index_in_caller ia) else Ok (ia_is_writable ia)) = Inr w
        \<longrightarrow> w \<longrightarrow> index_in_transaction ia \<in> sn_writable sn)"

lemma update_accounts_mid_inv:
  assumes "update_accounts ctx pid before i ias s t ic = (Inr (s', t'), ic')"
    and "mid_inv sn tc s t ic" and "pid \<in> executed tc" and "account_keys tc = sn_keys sn"
    and "\<And>ia. ia \<in> set ias \<Longrightarrow> update_allowed sn ctx before ia"
  shows "mid_inv sn tc s' t' ic'"
  using assms(1,2,5)
proof (induction ias arbitrary: i s t ic)
  case Nil
  then show ?case by (simp add: res_simps)
next
  case (Cons ia ias)
  have tc: "transaction_context ic = tc" using Cons.prems(2) by (simp add: mid_inv_def)
  show ?case
  proof (cases "i \<noteq> index_in_callee ia \<or> length (accounts tc) \<le> index_in_transaction ia")
    case True
    with Cons.prems(1) tc have "update_accounts ctx pid before (Suc i) ias s t ic = (Inr (s', t'), ic')"
      by (auto split: if_splits)
    then show ?thesis by (rule Cons.IH) (use Cons.prems in auto)
  next
    case False
    let ?k = "account_keys tc ! index_in_transaction ia" and ?a = "accounts tc ! index_in_transaction ia"
    from Cons.prems(1) False tc obtain w s1 t1 ic1 where
      w: "(if before then is_instruction_account_writable ctx (index_in_caller ia) else Ok (ia_is_writable ia)) = Inr w"
      and find: "(case find_position (\<lambda>p. ?k = pre_key p) (pre_accounts ic) of None \<Rightarrow> (Ok (s, t), ic)
          | Some j \<Rightarrow> update_account pid w ?a j s t ic) = (Inr (s1, t1), ic1)"
      and rest: "update_accounts ctx pid before (Suc i) ias s1 t1 ic1 = (Inr (s', t'), ic')"
      by (auto simp: res_simps simp del: split_paired_Ex split: prod.splits)
    have "mid_inv sn tc s1 t1 ic1"
    proof (cases "find_position (\<lambda>p. ?k = pre_key p) (pre_accounts ic)")
      case None
      with find Cons.prems(2) show ?thesis by simp
    next
      case (Some j)
      with find have "update_account pid w ?a j s t ic = (Inr (s1, t1), ic1)" by simp
      moreover have "w \<Longrightarrow> index_in_transaction ia \<in> sn_writable sn"
        using Cons.prems(3) [of ia] w by (auto simp: update_allowed_def)
      then have "w \<Longrightarrow> pre_key (pre_accounts ic ! j) \<in> (!) (sn_keys sn) ` sn_writable sn"
        using find_position_Some [OF Some] assms(4) by (metis imageI)
      ultimately show ?thesis
        using Cons.prems(2) find_position_Some [OF Some] assms(3) by (elim update_account_mid_inv) auto
    qed
    then show ?thesis using rest Cons.prems(3) by (intro Cons.IH) auto
  qed
qed

lemma verify_and_update_kept:
  assumes "verify_and_update ias before ic = (Inr u, ic')" and "runtime_inv sn ic"
    and "\<And>ctx ia. get_current_instruction_context (transaction_context ic) = Inr ctx \<Longrightarrow> ia \<in> set ias \<Longrightarrow>
      update_allowed sn ctx before ia"
  shows "runtime_inv sn ic'" and "transaction_context ic' = transaction_context ic"
proof -
  let ?tc = "transaction_context ic"
  from assms(1) obtain ctx pid s where ctx: "get_current_instruction_context ?tc = Inr ctx"
    and pid: "get_last_program_key ctx ?tc = Inr pid"
    and upd: "update_accounts ctx pid before 0 ias 0 0 ic = (Inr (s, s), ic')"
    by (auto simp: verify_and_update_def res_simps split: prod.splits if_splits)
  have "wf_stack ?tc" using assms(2) by (simp add: runtime_inv_def Let_def)
  then have "pid \<in> executed ?tc" using current_context_in_trace(1) ctx pid by (auto simp: executed_def)
  moreover have "mid_inv sn ?tc 0 0 ic" using assms(2) by (simp add: runtime_inv_def mid_inv_def Let_def)
  moreover have "account_keys ?tc = sn_keys sn" using assms(2) by (simp add: runtime_inv_def Let_def)
  ultimately have mid: "mid_inv sn ?tc s s ic'"
    using update_accounts_mid_inv [OF upd] assms(3) [OF ctx] by blast
  then show tc: "transaction_context ic' = ?tc" by (simp add: mid_inv_def)
  show "runtime_inv sn ic'" using assms(2) mid by (simp add: runtime_inv_def mid_inv_def Let_def)
qed


section \<open>Privileges of an invocation\<close>

lemma collect_Inr_iff: "collect f xs = Inr ys \<longleftrightarrow> list_all2 (\<lambda>x y. f x = Inr y) xs ys"
  by (induction xs arbitrary: ys) (auto simp: res_simps list_all2_Cons1)

text \<open>An account of the callee comes from an account of the caller.\<close>

definition from_caller :: "InstructionContext \<Rightarrow> TransactionContext \<Rightarrow> InstructionAccount \<Rightarrow> bool" where
  "from_caller ctx tc ia \<longleftrightarrow>
     index_in_transaction ia < length (account_keys tc) \<and>
     index_in_caller ia < length (instruction_accounts ctx) \<and>
     account_keys tc ! index_in_transaction (instruction_accounts ctx ! index_in_caller ia) =
       account_keys tc ! index_in_transaction ia"

lemma deduplicate_metas_from_caller:
  assumes "deduplicate_metas ctx tc i ms dedup dups = Inr (dedup', dups')"
    and "\<forall>ia\<in>set dedup. from_caller ctx tc ia"
  shows "\<forall>ia\<in>set dedup'. from_caller ctx tc ia"
  using assms
proof (induction ms arbitrary: i dedup dups)
  case (Cons m ms)
  from Cons.prems(1) obtain index dedup1 dups1 where
    index: "find_index_of_account tc (meta_pubkey m) = Some index"
    and step: "(case find_position (\<lambda>ia. index_in_transaction ia = index) dedup of
          Some d \<Rightarrow> and_then (ok_or (get dedup d) InstructionError.NotEnoughAccountKeys) (\<lambda>ia.
              Ok (dedup[d := ia\<lparr>ia_is_signer := ia_is_signer ia \<or> meta_is_signer m,
                                ia_is_writable := ia_is_writable ia \<or> meta_is_writable m\<rparr>], dups @ [d]))
        | None \<Rightarrow> and_then (ok_or (find_index_of_instruction_account ctx tc (meta_pubkey m)) InstructionError.MissingAccount)
              (\<lambda>caller. Ok (dedup @ [\<lparr>index_in_transaction = index, index_in_caller = caller, index_in_callee = i,
                             ia_is_signer = meta_is_signer m, ia_is_writable = meta_is_writable m\<rparr>],
                    dups @ [length dedup]))) = Inr (dedup1, dups1)"
    and rest: "deduplicate_metas ctx tc (Suc i) ms dedup1 dups1 = Inr (dedup', dups')"
    by (auto simp: res_simps simp del: split_paired_Ex split: prod.splits)
  have key: "index < length (account_keys tc)" "account_keys tc ! index = meta_pubkey m"
    using find_position_Some [OF index [unfolded find_index_of_account_def]] by auto
  have "\<forall>ia\<in>set dedup1. from_caller ctx tc ia"
  proof (cases "find_position (\<lambda>ia. index_in_transaction ia = index) dedup")
    case None
    with step key Cons.prems(2) show ?thesis
      by (auto simp: res_simps from_caller_def find_index_of_instruction_account_def dest!: find_position_Some)
  next
    case (Some d)
    with step Cons.prems(2) show ?thesis
      by (auto simp: res_simps from_caller_def dest!: set_update_subset_insert [THEN subsetD])
  qed
  with rest show ?case by (rule Cons.IH)
qed simp

lemma prepare_instruction_privileges:
  assumes "prepare_instruction loader_state ix signers tc = Inr (ias, pidx)"
    and "get_current_instruction_context tc = Inr ctx" and "ia \<in> set ias"
  shows "from_caller ctx tc ia"
    and "ia_is_writable ia \<Longrightarrow> ia_is_writable (instruction_accounts ctx ! index_in_caller ia)"
    and "ia_is_signer ia \<Longrightarrow> ia_is_signer (instruction_accounts ctx ! index_in_caller ia) \<or>
      account_keys tc ! index_in_transaction ia \<in> set signers"
proof -
  from assms(1,2) obtain dedup dups us where
    dedup: "deduplicate_metas ctx tc 0 (instr_accounts ix) [] [] = Inr (dedup, dups)"
    and priv: "collect (check_privileges ctx tc signers) dedup = Inr us"
    and ias: "collect (\<lambda>d. ok_or (get dedup d) InstructionError.NotEnoughAccountKeys) dups = Inr ias"
    by (auto simp: prepare_instruction_def res_simps)
  have ia: "ia \<in> set dedup"
    using ias assms(3) by (auto simp: collect_Inr_iff list_all2_conv_all_nth in_set_conv_nth res_simps)
  then show fc: "from_caller ctx tc ia" using deduplicate_metas_from_caller [OF dedup] by simp
  have "\<exists>u. check_privileges ctx tc signers ia = Inr u"
    using priv ia by (auto simp: collect_Inr_iff list_all2_conv_all_nth in_set_conv_nth)
  then have c: "(ia_is_writable ia \<longrightarrow> ia_is_writable (instruction_accounts ctx ! index_in_caller ia)) \<and>
     (ia_is_signer ia \<longrightarrow> ia_is_signer (instruction_accounts ctx ! index_in_caller ia) \<or>
      account_keys tc ! index_in_transaction ia \<in> set signers)"
    using fc by (auto simp: check_privileges_def res_simps from_caller_def get_key_def split: if_splits)
  then show "ia_is_writable ia \<Longrightarrow> ia_is_writable (instruction_accounts ctx ! index_in_caller ia)"
    and "ia_is_signer ia \<Longrightarrow> ia_is_signer (instruction_accounts ctx ! index_in_caller ia) \<or>
      account_keys tc ! index_in_transaction ia \<in> set signers" by auto
qed

lemma from_caller_index:
  assumes "runtime_inv sn ic" and "get_current_instruction_context (transaction_context ic) = Inr ctx"
    and "from_caller ctx (transaction_context ic) ia"
  shows "index_in_transaction (instruction_accounts ctx ! index_in_caller ia) = index_in_transaction ia"
    and "ctx_ok sn (instruction_accounts ctx)"
proof -
  have "wf_stack (transaction_context ic)" using assms(1) by (simp add: runtime_inv_def Let_def)
  from current_context_in_trace(2) [OF this assms(2)] assms(1)
  show ok: "ctx_ok sn (instruction_accounts ctx)" by (auto simp: runtime_inv_def Let_def)
  then have "index_in_transaction (instruction_accounts ctx ! index_in_caller ia) < length (sn_keys sn)"
    using assms(1,3) by (auto simp: ctx_ok_def from_caller_def runtime_inv_def Let_def subset_iff)
  then show "index_in_transaction (instruction_accounts ctx ! index_in_caller ia) = index_in_transaction ia"
    using assms(1,3) by (auto simp: from_caller_def runtime_inv_def Let_def nth_eq_iff_index_eq)
qed

lemma prepared_allowed:
  assumes "runtime_inv sn ic"
    and "prepare_instruction loader_state ix signers (transaction_context ic) = Inr (ias, pidx)"
  shows "ctx_ok sn ias"
    and "get_current_instruction_context (transaction_context ic) = Inr ctx \<Longrightarrow> ia \<in> set ias \<Longrightarrow>
      update_allowed sn ctx True ia"
proof -
  let ?tc = "transaction_context ic"
  from assms(2) obtain ctx where ctx: "get_current_instruction_context ?tc = Inr ctx"
    by (auto simp: prepare_instruction_def res_simps)
  note fc = prepare_instruction_privileges(1) [OF assms(2) ctx]
  note idx = from_caller_index [OF assms(1) ctx fc]
  show "ctx_ok sn ias"
    unfolding ctx_ok_def
  proof (intro ballI conjI impI)
    fix ia assume ia: "ia \<in> set ias"
    let ?c = "instruction_accounts ctx ! index_in_caller ia"
    have c: "?c \<in> set (instruction_accounts ctx)" using fc [OF ia] by (simp add: from_caller_def)
    show "index_in_transaction ia \<in> sn_used sn" using idx [OF ia] c by (metis ctx_ok_def)
    show "index_in_transaction ia \<in> sn_writable sn" if "ia_is_writable ia"
      using idx [OF ia] c prepare_instruction_privileges(2) [OF assms(2) ctx ia that] by (metis ctx_ok_def)
  qed
  show "update_allowed sn ctx' True ia" if "get_current_instruction_context ?tc = Inr ctx'" "ia \<in> set ias" for ctx' ia
    using that ctx idx [OF that(2)] fc [OF that(2)]
    by (auto simp: update_allowed_def is_instruction_account_writable_def res_simps ctx_ok_def from_caller_def)
qed


section \<open>Push and pop\<close>

abbreviation new_context :: "nat \<Rightarrow> nat list \<Rightarrow> InstructionAccount list \<Rightarrow> bytes \<Rightarrow> InstructionContext" where
  "new_context level pidx ias input \<equiv>
     \<lparr>nesting_level = level, program_accounts = pidx, instruction_accounts = ias, instruction_data = input\<rparr>"

lemma keyed_account_at_Inr:
  "keyed_account_at tc s w i = Inr k \<Longrightarrow> i < length (account_keys tc) \<and> i < length (accounts tc)"
  by (auto simp: keyed_account_at_def res_simps)

text \<open>The distinct accounts of an instruction: the positions that are their own first occurrence.\<close>

fun firsts :: "nat \<Rightarrow> InstructionAccount list \<Rightarrow> InstructionAccount list" where
  "firsts i [] = []"
| "firsts i (ia # ias) = (if i = index_in_callee ia then ia # firsts (Suc i) ias else firsts (Suc i) ias)"

abbreviation pre_account_at :: "TransactionContext \<Rightarrow> InstructionAccount \<Rightarrow> PreAccount" where
  "pre_account_at tc ia \<equiv>
     pre_account_new (account_keys tc ! index_in_transaction ia) (accounts tc ! index_in_transaction ia)"

lemma take_pre_accounts_Inr:
  assumes "take_pre_accounts i ias ic = (Inr u, ic')"
  shows "transaction_context ic' = transaction_context ic \<and> feature_set ic' = feature_set ic \<and>
    pre_accounts ic' = pre_accounts ic @ map (pre_account_at (transaction_context ic)) (firsts i ias)"
  using assms
proof (induction ias arbitrary: i ic)
  case (Cons ia ias)
  then show ?case by (fastforce simp: res_simps split: if_splits)
qed (simp add: res_simps)

lemma push_Inr:
  assumes "push ias pidx input ic = (Inr u, ic')"
  shows "tc_push pidx ias input (is_active record_instruction_in_transaction_context_push ic)
      (transaction_context ic) = (Inr (), transaction_context ic')"
    and "get_stack_height ic \<noteq> 0 \<Longrightarrow> pre_accounts ic' = pre_accounts ic"
    and "get_stack_height ic = 0 \<Longrightarrow>
      pre_accounts ic' = map (pre_account_at (transaction_context ic)) (firsts 0 ias)"
    and "\<forall>ia\<in>set ias. index_in_transaction ia < length (account_keys (transaction_context ic)) \<and>
      index_in_transaction ia < length (accounts (transaction_context ic))"
proof -
  from assms obtain pid w ic1 keyed where
    pre: "(if get_stack_height ic = 0
       then take_pre_accounts 0 ias (ic\<lparr>current_compute_budget := compute_budget ic, pre_accounts := []\<rparr>)
       else (check_reentrancy (transaction_context ic) pid, ic)) = (Inr w, ic1)"
    and keyed: "create_keyed_accounts (transaction_context ic1) pidx ias = Inr keyed"
    and rest: "push_transaction_context ias pidx input (ic1\<lparr>
         invoke_stack := invoke_stack ic1 @
           [\<lparr>number_of_program_accounts = length pidx, keyed_accounts = keyed\<rparr>],
         syscall_context := syscall_context ic1 @ [None]\<rparr>) = (Inr u, ic')"
    unfolding push_def by (clarsimp simp: sbind_Inr_iff sread_Inr_iff smodify_Inr_iff split del: if_split)
  have same: "transaction_context ic1 = transaction_context ic \<and> feature_set ic1 = feature_set ic"
  proof (cases "get_stack_height ic = 0")
    case True
    with pre have "take_pre_accounts 0 ias (ic\<lparr>current_compute_budget := compute_budget ic, pre_accounts := []\<rparr>) = (Inr w, ic1)"
      by simp
    from take_pre_accounts_Inr [OF this] show ?thesis by simp
  next
    case False
    with pre show ?thesis by simp
  qed
  have pushed: "tc_push pidx ias input (is_active record_instruction_in_transaction_context_push ic1)
      (transaction_context ic1) = (Inr u, transaction_context ic') \<and> pre_accounts ic' = pre_accounts ic1"
    using rest unfolding push_transaction_context_def
    by (cases "tc_push pidx ias input (is_active record_instruction_in_transaction_context_push ic1)
      (transaction_context ic1)") auto
  then show "tc_push pidx ias input (is_active record_instruction_in_transaction_context_push ic)
      (transaction_context ic) = (Inr (), transaction_context ic')"
    using same by simp
  have "pre_accounts ic' = pre_accounts ic1" using pushed by simp
  then show "get_stack_height ic \<noteq> 0 \<Longrightarrow> pre_accounts ic' = pre_accounts ic"
    and "get_stack_height ic = 0 \<Longrightarrow>
      pre_accounts ic' = map (pre_account_at (transaction_context ic)) (firsts 0 ias)"
    using pre by (auto dest!: take_pre_accounts_Inr)
  show "\<forall>ia\<in>set ias. index_in_transaction ia < length (account_keys (transaction_context ic)) \<and>
      index_in_transaction ia < length (accounts (transaction_context ic))"
    using keyed same
    by (auto simp: create_keyed_accounts_def res_simps collect_Inr_iff list_all2_conv_all_nth in_set_conv_nth
        dest!: keyed_account_at_Inr)
qed

lemma nested_push:
  assumes "wf_stack tc" and "instruction_stack tc \<noteq> []"
    and "tc_push pidx ias input rec
      (if rec then tc else tc_record_instruction (new_context (length (instruction_stack tc)) pidx ias input) tc) =
      (Inr u, tc')"
  shows "tc_push pidx ias input True tc = (Inr u, tc')"
    and "tc' = tc\<lparr>instruction_trace := butlast (instruction_trace tc) @
        [last (instruction_trace tc) @ [new_context (length (instruction_stack tc)) pidx ias input]],
        instruction_stack := instruction_stack tc @ [length (last (instruction_trace tc))]\<rparr>"
proof -
  have "instruction_trace tc \<noteq> []" using assms(1,2) by (simp add: wf_stack_def)
  with assms(2,3) show "tc_push pidx ias input True tc = (Inr u, tc')"
    and "tc' = tc\<lparr>instruction_trace := butlast (instruction_trace tc) @
        [last (instruction_trace tc) @ [new_context (length (instruction_stack tc)) pidx ias input]],
        instruction_stack := instruction_stack tc @ [length (last (instruction_trace tc))]\<rparr>"
    by (auto simp: tc_push_def Let_def tc_record_instruction_def split: if_splits)
qed

lemma context_at_pushed:
  assumes "wf_stack tc" and "level < length (instruction_stack tc)"
  shows "get_instruction_context_at (tc\<lparr>instruction_trace := butlast (instruction_trace tc) @
        [last (instruction_trace tc) @ extra], instruction_stack := instruction_stack tc @ rest\<rparr>) level =
    get_instruction_context_at tc level"
proof -
  have ne: "instruction_stack tc \<noteq> []" using assms(2) by auto
  note wf = assms(1) [unfolded wf_stack_def, rule_format, OF ne]
  have "get (butlast (instruction_trace tc) @ [last (instruction_trace tc) @ extra]) (instruction_stack tc ! 0) =
      Some (last (instruction_trace tc) @ extra)"
    "get (instruction_trace tc) (instruction_stack tc ! 0) = Some (last (instruction_trace tc))"
    using wf by (auto simp: nth_append last_conv_nth)
  moreover have "get (instruction_stack tc @ rest) 0 = Some (instruction_stack tc ! 0)"
    "get (instruction_stack tc) 0 = Some (instruction_stack tc ! 0)" using ne by (auto simp: nth_append)
  moreover have "get (instruction_stack tc @ rest) level = Some (instruction_stack tc ! level)"
    "get (instruction_stack tc) level = Some (instruction_stack tc ! level)"
    using assms(2) by (auto simp: nth_append)
  moreover have "get (last (instruction_trace tc) @ extra) 0 = get (last (instruction_trace tc)) 0"
    using wf by (auto simp: get_def nth_append)
  moreover have "level \<noteq> 0 \<Longrightarrow> get (last (instruction_trace tc) @ extra) (instruction_stack tc ! level) =
      get (last (instruction_trace tc)) (instruction_stack tc ! level)"
    using wf assms(2) by (auto simp: get_def nth_append trans_less_add1)
  ultimately show ?thesis by (simp add: get_instruction_context_at_def del: get_Some_iff)
qed

lemma current_as_at:
  "get_current_instruction_context tc = Inr ctx \<Longrightarrow>
     get_instruction_context_at tc (length (instruction_stack tc) - 1) = Inr ctx"
  by (auto simp: get_current_instruction_context_def get_instruction_context_stack_height_def Let_def split: if_splits)

lemma runtime_inv_push:
  assumes "runtime_inv sn ic" and "ctx_ok sn ias" and "instruction_stack (transaction_context ic) \<noteq> []"
    and "push ias pidx input (record_caller ias pidx input ic) = (Inr u, ic')"
  shows "runtime_inv sn ic'"
proof -
  let ?tc = "transaction_context ic" and ?tc' = "transaction_context ic'"
  let ?rec = "is_active record_instruction_in_transaction_context_push ic"
  let ?ctx = "new_context (length (instruction_stack ?tc)) pidx ias input"
  have wf: "wf_stack ?tc" using assms(1) by (simp add: runtime_inv_def Let_def)
  have rec: "transaction_context (record_caller ias pidx input ic) =
      (if ?rec then ?tc else tc_record_instruction ?ctx ?tc)"
    "feature_set (record_caller ias pidx input ic) = feature_set ic"
    "pre_accounts (record_caller ias pidx input ic) = pre_accounts ic"
    by (simp_all add: record_caller_def get_instruction_context_stack_height_def)
  have height: "get_stack_height (record_caller ias pidx input ic) \<noteq> 0"
    using assms(3) rec(1) by (simp add: get_instruction_context_stack_height_def tc_record_instruction_def)
  note push = push_Inr [OF assms(4), unfolded rec]
  note np = nested_push [OF wf assms(3) push(1)]
  have pre: "pre_accounts ic' = pre_accounts ic" using push(2) height rec(1) by simp
  have new: "wf_stack ?tc'" "get_instruction_context_at ?tc' (length (instruction_stack ?tc)) = Inr ?ctx"
    using tc_push_current [OF wf np(1)] current_as_at [of ?tc'] np(2) by auto
  have "ctx_ok sn (instruction_accounts ctx)"
    if "level < length (instruction_stack ?tc')" "get_instruction_context_at ?tc' level = Inr ctx" for level ctx
  proof (cases "level = length (instruction_stack ?tc)")
    case True
    with that new assms(2) show ?thesis by auto
  next
    case False
    with that(1) np(2) have "level < length (instruction_stack ?tc)" by simp
    moreover from this that(2) np(2) have "get_instruction_context_at ?tc level = Inr ctx"
      by (simp add: context_at_pushed [OF wf])
    ultimately show ?thesis using assms(1) by (auto simp: runtime_inv_def Let_def)
  qed
  moreover have "executed ?tc \<subseteq> executed ?tc'"
    using np(2) last_program_key_cong [of ?tc' ?tc] by (auto simp: executed_def)
  then have "list_all2 (pre_ok sn (executed ?tc')) (sn_pre sn) (pre_accounts ic')"
    using assms(1) pre unfolding runtime_inv_def Let_def by (auto elim!: list_all2_mono simp: pre_ok_def)
  moreover have "accounts ?tc' = accounts ?tc" "account_keys ?tc' = account_keys ?tc" using np(2) by simp_all
  ultimately show ?thesis using assms(1) pre new(1) by (simp add: runtime_inv_def Let_def)
qed

lemma runtime_inv_pop:
  assumes "runtime_inv sn ic" and "pop ic = (Inr u, ic')"
  shows "runtime_inv sn ic'"
proof -
  let ?tc = "transaction_context ic" and ?tc' = "transaction_context ic'"
  have ne: "instruction_stack ?tc \<noteq> []"
    and tc': "?tc' = ?tc\<lparr>instruction_stack := butlast (instruction_stack ?tc)\<rparr>"
    and pre: "pre_accounts ic' = pre_accounts ic"
    using assms(2) by (auto simp: pop_def tc_pop_def Let_def split: if_splits)
  have wf: "wf_stack ?tc" using assms(1) by (simp add: runtime_inv_def Let_def)
  then have wf': "wf_stack ?tc'"
    by (rule tc_pop_wf_stack) (simp add: tc_pop_def ne tc')
  have at: "get_instruction_context_at ?tc' level = get_instruction_context_at ?tc level"
    if "level < length (instruction_stack ?tc')" for level
    using that ne by (auto simp: tc' get_instruction_context_at_def get_def nth_butlast)
  have lt: "length (instruction_stack ?tc') < length (instruction_stack ?tc)" using ne by (simp add: tc')
  have old: "ctx_ok sn (instruction_accounts ctx)"
    if "level < length (instruction_stack ?tc)" "get_instruction_context_at ?tc level = Inr ctx" for level ctx
    using that assms(1) by (auto simp: runtime_inv_def Let_def)
  have "\<forall>level ctx. level < length (instruction_stack ?tc') \<longrightarrow> get_instruction_context_at ?tc' level = Inr ctx \<longrightarrow>
         ctx_ok sn (instruction_accounts ctx)"
  proof (intro allI impI)
    fix level ctx
    assume l: "level < length (instruction_stack ?tc')" and c: "get_instruction_context_at ?tc' level = Inr ctx"
    show "ctx_ok sn (instruction_accounts ctx)"
      by (rule old [OF less_trans [OF l lt]]) (use at [OF l] c in simp)
  qed
  moreover have "executed ?tc' = executed ?tc" by (rule executed_cong) (simp_all add: tc')
  moreover have "accounts ?tc' = accounts ?tc" "account_keys ?tc' = account_keys ?tc" by (simp_all add: tc')
  ultimately show ?thesis using assms(1) pre wf' by (simp add: runtime_inv_def Let_def)
qed


section \<open>Instructions\<close>

lemma run_builtin_kept:
  assumes "\<And>ix signers. stable_ok (kept sn) (invoke ix signers)"
  shows "stable_ok (kept sn) (run_builtin invoke entry n pid)"
  unfolding stable_ok_def kept_def
proof (intro allI impI)
  fix ic u ic' assume run: "run_builtin invoke entry n pid ic = (Inr u, ic')" and inv: "runtime_inv sn ic"
  let ?ic = "ic\<lparr>transaction_context := set_return_data pid [] (transaction_context ic)\<rparr>"
  from run obtain v where "run_prog invoke (bp_process_instruction entry n ?ic) ?ic = (Inr v, ic')"
    by (auto simp: run_builtin_def Let_def res_simps split: prod.splits)
  moreover have "runtime_inv sn ?ic"
    by (rule runtime_inv_frame [OF inv]) (simp_all add: set_return_data_def)
  ultimately show "runtime_inv sn ic'"
    using stable_okD [OF run_prog_kept [OF assms]] by (auto simp: kept_def)
qed

lemma process_executable_chain_kept:
  assumes "\<And>ix signers. stable_ok (kept sn) (invoke ix signers)"
  shows "stable_ok (kept sn) (process_executable_chain builtins invoke)"
  unfolding process_executable_chain_def split_beta
  by (intro kept.stable_ok_sbind run_builtin_kept assms kept.stable_imp_ok [OF kept.stable_sread])

lemma and_pop_Inr [res_simps]:
  "and_pop m ic = (Inr x, ic') \<longleftrightarrow> (\<exists>ic1. m ic = (Inr x, ic1) \<and> pop ic1 = (Inr (), ic'))"
  by (auto simp: and_pop_def res_simps split: prod.splits sum.splits)

lemma process_nested_instruction_kept:
  assumes "\<And>ix signers. stable_ok (kept sn) (invoke ix signers)"
    and "process_instruction_with builtins invoke input ias pidx ic = (Inr u, ic')"
    and "runtime_inv sn ic" and "instruction_stack (transaction_context ic) \<noteq> []" and "ctx_ok sn ias"
    and "\<And>ctx ia. get_current_instruction_context (transaction_context ic) = Inr ctx \<Longrightarrow> ia \<in> set ias \<Longrightarrow>
      update_allowed sn ctx True ia"
  shows "runtime_inv sn ic'"
proof -
  have "get_stack_height ic \<noteq> 0" using assms(4) by (simp add: get_instruction_context_stack_height_def)
  with assms(2) obtain v1 ic1 v2 ic2 v3 ic3 v4 ic4 v5 where
    caller: "verify_and_update ias True ic = (Inr v1, ic1)"
    and push: "push ias pidx input (record_caller ias pidx input ic1) = (Inr v2, ic2)"
    and chain: "process_executable_chain builtins invoke ic2 = (Inr v3, ic3)"
    and callee: "verify_and_update ias False ic3 = (Inr v4, ic4)"
    and pop: "pop ic4 = (Inr v5, ic')"
    by (auto simp: process_instruction_with_def Let_def res_simps)
  note inv1 = verify_and_update_kept [OF caller assms(3,6)]
  have "runtime_inv sn ic2"
    using runtime_inv_push [OF inv1(1) assms(5) _ push] inv1(2) assms(4) by simp
  then have "runtime_inv sn ic3"
    using stable_okD [OF process_executable_chain_kept [OF assms(1)] chain] by (simp add: kept_def)
  then have "runtime_inv sn ic4"
    by (rule verify_and_update_kept(1) [OF callee]) (use assms(5) in \<open>auto simp: update_allowed_def ctx_ok_def\<close>)
  then show ?thesis using pop by (rule runtime_inv_pop)
qed

lemma native_invoke_nested_kept:
  "stable_ok (kept sn) (native_invoke_with loader_state (process_nested loader_state builtins n) ix signers)"
proof (induction n arbitrary: ix signers)
  case 0
  show ?case by (auto simp: stable_ok_def native_invoke_with_def res_simps split: prod.splits)
next
  case (Suc n)
  show ?case
    unfolding stable_ok_def kept_def
  proof (intro allI impI)
    fix ic u ic'
    assume run: "native_invoke_with loader_state (process_nested loader_state builtins (Suc n)) ix signers ic = (Inr u, ic')"
      and inv: "runtime_inv sn ic"
    from run obtain ias pidx v where
      prep: "prepare_instruction loader_state ix signers (transaction_context ic) = Inr (ias, pidx)"
      and proc: "process_nested loader_state builtins (Suc n) (instr_data ix) ias pidx ic = (Inr v, ic')"
      by (auto simp: native_invoke_with_def res_simps split: prod.splits)
    have "instruction_stack (transaction_context ic) \<noteq> []"
      using prep by (auto simp: prepare_instruction_def res_simps get_current_instruction_context_def
          get_instruction_context_stack_height_def)
    then show "runtime_inv sn ic'"
      using Suc.IH proc [unfolded process_nested.simps] inv prepared_allowed [OF inv prep]
      by (rule_tac process_nested_instruction_kept)
  qed
qed


section \<open>A top-level instruction\<close>

text \<open>
  The accounts of an instruction are consistent if the index in the callee of each of them is the
  first position of the same account, as \<open>process_message\<close> and \<open>prepare_instruction\<close> arrange.
\<close>

definition consistent_accounts :: "InstructionAccount list \<Rightarrow> bool" where
  "consistent_accounts ias \<longleftrightarrow>
     (\<forall>ia\<in>set ias. find_position (\<lambda>x. index_in_transaction x = index_in_transaction ia) ias = Some (index_in_callee ia))"

lemma firsts_enumerate: "firsts k ias = map snd (filter (\<lambda>(i, ia). i = index_in_callee ia) (enumerate k ias))"
  by (induction k ias rule: firsts.induct) auto

lemma consistent_firsts:
  assumes "consistent_accounts ias"
  shows "distinct (map index_in_transaction (firsts 0 ias))"
    and "index_in_transaction ` set (firsts 0 ias) = index_in_transaction ` set ias"
    and "set (firsts 0 ias) \<subseteq> set ias"
proof -
  let ?E = "filter (\<lambda>(i, ia). i = index_in_callee ia) (enumerate 0 ias)"
  have sub: "set ?E \<subseteq> {(i, ias ! i) | i. i < length ias}"
    by (auto simp: in_set_enumerate_eq)
  have inj: "inj_on (\<lambda>x. index_in_transaction (snd x)) (set ?E)"
  proof (rule inj_onI)
    fix x y assume x: "x \<in> set ?E" and y: "y \<in> set ?E" and eq: "index_in_transaction (snd x) = index_in_transaction (snd y)"
    from subsetD [OF sub x] subsetD [OF sub y] have "snd x \<in> set ias" "snd y \<in> set ias" by auto
    with assms eq have "index_in_callee (snd x) = index_in_callee (snd y)"
      by (metis consistent_accounts_def option.inject)
    with x y have "fst x = fst y" by auto
    with subsetD [OF sub x] subsetD [OF sub y] show "x = y" by auto
  qed
  have "distinct ?E" by simp
  with inj have "distinct (map (\<lambda>x. index_in_transaction (snd x)) ?E)" by (simp add: distinct_map)
  then show "distinct (map index_in_transaction (firsts 0 ias))" by (simp add: firsts_enumerate comp_def)
  show s: "set (firsts 0 ias) \<subseteq> set ias"
    by (auto simp: firsts_enumerate in_set_enumerate_eq dest: nth_mem)
  show "index_in_transaction ` set (firsts 0 ias) = index_in_transaction ` set ias"
  proof (intro equalityI subsetI)
    fix t assume "t \<in> index_in_transaction ` set ias"
    then obtain ia where ia: "ia \<in> set ias" "index_in_transaction ia = t" by auto
    let ?i = "index_in_callee ia"
    have "find_position (\<lambda>x. index_in_transaction x = t) ias = Some ?i"
      using assms ia by (auto simp: consistent_accounts_def)
    then have i: "?i < length ias" "index_in_transaction (ias ! ?i) = t" by (auto dest: find_position_Some)
    then have "find_position (\<lambda>x. index_in_transaction x = t) ias = Some (index_in_callee (ias ! ?i))"
      using assms by (auto simp: consistent_accounts_def)
    with \<open>find_position (\<lambda>x. index_in_transaction x = t) ias = Some ?i\<close>
    have "(?i, ias ! ?i) \<in> set ?E" using i by (auto simp: in_set_enumerate_eq)
    then show "t \<in> index_in_transaction ` set (firsts 0 ias)"
      using i(2) by (force simp: firsts_enumerate)
  qed (use s in auto)
qed

lemma verify_accounts_Inr:
  assumes "verify_accounts pid i ias k s t ic = (Inr (s', t'), ic')"
  shows "transaction_context ic' = transaction_context ic \<and>
    k + length (firsts i ias) \<le> max k (length (pre_accounts ic)) \<and>
    (\<forall>m < length (firsts i ias). index_in_transaction (firsts i ias ! m) < length (accounts (transaction_context ic)) \<and>
       is_ok (pre_account_verify (pre_accounts ic ! (k + m)) pid (ia_is_writable (firsts i ias ! m)) (ic_rent ic)
         (accounts (transaction_context ic) ! index_in_transaction (firsts i ias ! m)))) \<and>
    s' = s + pre_total (take (length (firsts i ias)) (drop k (pre_accounts ic))) \<and>
    t' = t + sum_list (map (\<lambda>ia. unat (lamports (accounts (transaction_context ic) ! index_in_transaction ia))) (firsts i ias))"
  using assms
proof (induction ias arbitrary: i k s t ic)
  case Nil
  then show ?case by (simp add: res_simps pre_total_def)
next
  case (Cons ia ias)
  show ?case
  proof (cases "i = index_in_callee ia")
    case False
    with Cons show ?thesis by simp
  next
    case True
    let ?tc = "transaction_context ic" and ?p = "pre_accounts ic ! k"
    let ?a = "accounts ?tc ! index_in_transaction ia"
    from Cons.prems True obtain v ic1 where
      idx: "index_in_transaction ia < length (accounts ?tc)" and k: "k < length (pre_accounts ic)"
      and ver: "pre_account_verify ?p pid (ia_is_writable ia) (ic_rent ic) ?a = Inr v"
      and m: "meter_data_len (length (data (pre_account ?p))) (length (data ?a)) ic = (Inr (), ic1)"
      and rest: "verify_accounts pid (Suc i) ias (Suc k) (s + unat (lamports (pre_account ?p)))
        (t + unat (lamports ?a)) ic1 = (Inr (s', t'), ic')"
      by (auto simp: res_simps)
    note same = meter_data_len_Inr [OF m]
    note IH = Cons.IH [OF rest, unfolded same]
    have drop: "drop k (pre_accounts ic) = ?p # drop (Suc k) (pre_accounts ic)"
      using k by (simp add: Cons_nth_drop_Suc)
    show ?thesis
      using IH idx k ver True unfolding drop
      by (auto simp: pre_total_def less_Suc_eq_0_disj nth_Cons' split: if_splits)
  qed
qed

definition top_snapshot :: "TransactionContext \<Rightarrow> InstructionAccount list \<Rightarrow> snapshot" where
  "top_snapshot tc ias =
     \<lparr>sn_keys = account_keys tc, sn_accounts = accounts tc, sn_pre = map (pre_account_at tc) (firsts 0 ias),
      sn_used = index_in_transaction ` set ias,
      sn_writable = index_in_transaction ` set (filter ia_is_writable ias)\<rparr>"

lemma tc_push_empty_stack:
  "instruction_stack tc = [] \<Longrightarrow> tc_push pidx ias input rec tc = tc_push pidx ias input True tc"
  by (simp add: tc_push_def)

lemma pre_ok_refl: "pre_ok sn ex p p"
  by (simp add: pre_ok_def untouched_def)

lemma top_push_inv:
  assumes "push ias pidx input ic = (Inr u, ic')"
    and "instruction_stack (transaction_context ic) = []"
    and "distinct (account_keys (transaction_context ic))"
    and "length (accounts (transaction_context ic)) = length (account_keys (transaction_context ic))"
  shows "runtime_inv (top_snapshot (transaction_context ic) ias) ic'"
proof -
  let ?tc = "transaction_context ic" and ?tc' = "transaction_context ic'"
  note push = push_Inr [OF assms(1)]
  have tc: "tc_push pidx ias input True ?tc = (Inr (), ?tc')"
    using push(1) tc_push_empty_stack [OF assms(2)] by metis
  have "wf_stack ?tc" using assms(2) by (simp add: wf_stack_def)
  note new = tc_push_current [OF this tc]
  have len: "length (instruction_stack ?tc') = 1" using tc_push_frame(4) [OF tc] assms(2) by simp
  have pre: "pre_accounts ic' = map (pre_account_at ?tc) (firsts 0 ias)"
    using push(3) assms(2) by (simp add: get_instruction_context_stack_height_def)
  have at: "get_instruction_context_at ?tc' 0 = Inr (new_context 0 pidx ias input)"
    using new current_as_at [of ?tc'] len assms(2) by simp
  show ?thesis
    using assms(3,4) push(4) new len at tc_push_frame(1,2) [OF tc]
    by (auto simp: runtime_inv_def Let_def top_snapshot_def pre list_all2_same pre_ok_refl ctx_ok_def)
qed

lemma process_top_instruction:
  assumes "process_instruction loader_state builtins input ias pidx ic = (Inr u, ic')"
    and "instruction_stack (transaction_context ic) = []"
    and "distinct (account_keys (transaction_context ic))"
    and "length (accounts (transaction_context ic)) = length (account_keys (transaction_context ic))"
  obtains pid ic1 where "runtime_inv (top_snapshot (transaction_context ic) ias) ic1"
    and "accounts (transaction_context ic') = accounts (transaction_context ic1)"
    and "pid \<in> executed (transaction_context ic1)"
    and "executed (transaction_context ic') = executed (transaction_context ic1)"
    and "account_keys (transaction_context ic') = account_keys (transaction_context ic1)"
    and "instruction_stack (transaction_context ic') = []"
    and "length (firsts 0 ias) = length (pre_accounts ic1)"
    and "\<And>m. m < length (firsts 0 ias) \<Longrightarrow>
      is_ok (pre_account_verify (pre_accounts ic1 ! m) pid (ia_is_writable (firsts 0 ias ! m)) (ic_rent ic1)
         (accounts (transaction_context ic1) ! index_in_transaction (firsts 0 ias ! m)))"
    and "pre_total (pre_accounts ic1) = sum_list (map
      (\<lambda>ia. unat (lamports (accounts (transaction_context ic1) ! index_in_transaction ia))) (firsts 0 ias))"
proof -
  let ?tc = "transaction_context ic"
  let ?sn = "top_snapshot ?tc ias"
  have h: "get_stack_height ic = 0" using assms(2) by (simp add: get_instruction_context_stack_height_def)
  from assms(1) h obtain n v1 ic0 v2 ic1 v3 ic2 v4 where
    push: "push ias pidx input ic = (Inr v1, ic0)"
    and chain: "process_executable_chain builtins
      (native_invoke_with loader_state (process_nested loader_state builtins n)) ic0 = (Inr v2, ic1)"
    and ver: "verify ias pidx ic1 = (Inr v3, ic2)" and pop: "pop ic2 = (Inr v4, ic')"
    by (auto simp: process_instruction_def process_instruction_with_def Let_def res_simps)
  have inv1: "runtime_inv ?sn ic1"
    using stable_okD [OF process_executable_chain_kept [OF native_invoke_nested_kept] chain]
      top_push_inv [OF push assms(2-4)] by (simp add: kept_def)
  from ver obtain ctx pid s where ctx: "get_current_instruction_context (transaction_context ic1) = Inr ctx"
    and pid: "get_last_program_key ctx (transaction_context ic1) = Inr pid"
    and va: "verify_accounts pid 0 ias 0 0 0 ic1 = (Inr (s, s), ic2)"
    by (auto simp: verify_def res_simps split: prod.splits if_splits)
  note va = verify_accounts_Inr [OF va]
  have len: "length (firsts 0 ias) = length (pre_accounts ic1)"
    using inv1 by (auto simp: runtime_inv_def Let_def top_snapshot_def dest!: list_all2_lengthD)
  have tc': "transaction_context ic' = (transaction_context ic1)
      \<lparr>instruction_stack := butlast (instruction_stack (transaction_context ic1))\<rparr>"
    using pop va by (auto simp: pop_def tc_pop_def Let_def split: if_splits)
  have stack: "instruction_stack (transaction_context ic') = []"
    using stableD [OF process_instruction_same_stack assms(1)] assms(2) by (simp add: same_stack_def)
  have "pid \<in> executed (transaction_context ic1)"
    using current_context_in_trace(1) [OF _ ctx] inv1 pid by (auto simp: runtime_inv_def Let_def executed_def)
  moreover have "executed (transaction_context ic') = executed (transaction_context ic1)"
    by (rule executed_cong) (simp_all add: tc')
  ultimately show thesis
    using inv1 va len tc' stack by (intro that [of ic1 pid]) auto
qed

lemma top_pre_account:
  assumes "runtime_inv (top_snapshot tc ias) ic1" and "m < length (firsts 0 ias)"
  shows "pre_ok (top_snapshot tc ias) (executed (transaction_context ic1))
    (pre_account_at tc (firsts 0 ias ! m)) (pre_accounts ic1 ! m)"
  using assms by (auto simp: runtime_inv_def Let_def top_snapshot_def list_all2_conv_all_nth)

lemma sum_list_accounts:
  fixes f :: "Account \<Rightarrow> nat"
  assumes "distinct ts" and "set ts \<subseteq> {..<length accs}"
  shows "sum_list (map f accs) = sum_list (map (\<lambda>t. f (accs ! t)) ts) + (\<Sum>t\<in>{..<length accs} - set ts. f (accs ! t))"
proof -
  have "sum_list (map f accs) = (\<Sum>t\<in>{..<length accs}. f (accs ! t))"
    by (simp add: sum_list_sum_nth lessThan_atLeast0)
  also have "\<dots> = (\<Sum>t\<in>set ts. f (accs ! t)) + (\<Sum>t\<in>{..<length accs} - set ts. f (accs ! t))"
    using assms(2) by (subst sum.subset_diff [OF assms(2)]) auto
  finally show ?thesis using assms(1) by (simp add: sum_list_distinct_conv_sum_set)
qed

abbreviation total_lamports :: "InvokeContext \<Rightarrow> nat" where
  "total_lamports ic \<equiv> sum_list (map (\<lambda>a. unat (lamports a)) (accounts (transaction_context ic)))"

lemma process_instruction_total:
  assumes "process_instruction loader_state builtins input ias pidx ic = (Inr u, ic')"
    and "instruction_stack (transaction_context ic) = []"
    and "distinct (account_keys (transaction_context ic))"
    and "length (accounts (transaction_context ic)) = length (account_keys (transaction_context ic))"
    and "consistent_accounts ias"
  shows "total_lamports ic' = total_lamports ic"
  using assms(1-4)
proof (rule process_top_instruction)
  fix pid and ic1 :: InvokeContext
  let ?sn = "top_snapshot (transaction_context ic) ias" and ?ts = "map index_in_transaction (firsts 0 ias)"
  let ?a = "accounts (transaction_context ic)" and ?a1 = "accounts (transaction_context ic1)"
  assume inv: "runtime_inv ?sn ic1" and acc: "accounts (transaction_context ic') = ?a1"
    and tot: "pre_total (pre_accounts ic1) = sum_list (map (\<lambda>ia. unat (lamports (?a1 ! index_in_transaction ia))) (firsts 0 ias))"
  note f = consistent_firsts [OF assms(5)]
  have len: "length ?a1 = length ?a" using inv assms(4) by (simp add: runtime_inv_def Let_def top_snapshot_def)
  have sub: "set ?ts \<subseteq> {..<length ?a}"
    using inv f(2) assms(4) by (auto simp: runtime_inv_def Let_def top_snapshot_def)
  have rest: "?a1 ! t = ?a ! t" if "t \<in> {..<length ?a} - set ?ts" for t
    using inv that f(2) assms(4) by (auto simp: runtime_inv_def Let_def top_snapshot_def)
  have "pre_total (pre_accounts ic1) = sum_list (map (\<lambda>t. unat (lamports (?a ! t))) ?ts)"
    using inv by (simp add: runtime_inv_def Let_def top_snapshot_def pre_total_def pre_account_new_def comp_def)
  moreover have "sum_list (map (\<lambda>t. unat (lamports (?a1 ! t))) ?ts) = pre_total (pre_accounts ic1)"
    using tot by (simp add: comp_def)
  moreover have "(\<Sum>t\<in>{..<length ?a} - set ?ts. unat (lamports (?a1 ! t))) =
      (\<Sum>t\<in>{..<length ?a} - set ?ts. unat (lamports (?a ! t)))"
    by (intro sum.cong refl) (simp only: rest)
  ultimately show ?thesis
    unfolding acc using sum_list_accounts [OF f(1), of ?a1] sum_list_accounts [OF f(1) sub] sub len by simp
qed

lemma process_instruction_untouched:
  assumes "process_instruction loader_state builtins input ias pidx ic = (Inr u, ic')"
    and "instruction_stack (transaction_context ic) = []"
    and "distinct (account_keys (transaction_context ic))"
    and "length (accounts (transaction_context ic)) = length (account_keys (transaction_context ic))"
    and "consistent_accounts ias" and "t < length (accounts (transaction_context ic))"
    and "owner (accounts (transaction_context ic) ! t) \<notin> executed (transaction_context ic')"
  shows "untouched (accounts (transaction_context ic) ! t) (accounts (transaction_context ic') ! t)"
  using assms(1-4)
proof (rule process_top_instruction)
  fix pid and ic1 :: InvokeContext
  let ?sn = "top_snapshot (transaction_context ic) ias"
  let ?a = "accounts (transaction_context ic) ! t" and ?a1 = "accounts (transaction_context ic1) ! t"
  assume inv: "runtime_inv ?sn ic1" and acc: "accounts (transaction_context ic') = accounts (transaction_context ic1)"
    and pid: "pid \<in> executed (transaction_context ic1)"
    and ex: "executed (transaction_context ic') = executed (transaction_context ic1)"
    and ver: "\<And>m. m < length (firsts 0 ias) \<Longrightarrow>
      is_ok (pre_account_verify (pre_accounts ic1 ! m) pid (ia_is_writable (firsts 0 ias ! m)) (ic_rent ic1)
         (accounts (transaction_context ic1) ! index_in_transaction (firsts 0 ias ! m)))"
  show ?thesis
  proof (cases "t \<in> index_in_transaction ` set ias")
    case False
    then have "?a1 = ?a" using inv assms(4,6) by (simp add: runtime_inv_def Let_def top_snapshot_def)
    then show ?thesis by (simp add: acc untouched_def)
  next
    case True
    then have "t \<in> index_in_transaction ` set (firsts 0 ias)" using consistent_firsts(2) [OF assms(5)] by simp
    then obtain m where m: "m < length (firsts 0 ias)" "index_in_transaction (firsts 0 ias ! m) = t"
      by (auto simp: in_set_conv_nth)
    let ?p = "pre_accounts ic1 ! m"
    from top_pre_account [OF inv m(1)] m(2) assms(7) have "untouched ?a (pre_account ?p)"
      by (auto simp: pre_ok_def pre_account_new_def ex)
    moreover have "untouched (pre_account ?p) ?a1"
    proof -
      obtain v where v: "pre_account_verify ?p pid (ia_is_writable (firsts 0 ias ! m)) (ic_rent ic1) ?a1 = Inr v"
        using ver [OF m(1)] m(2) by auto
      have "pid \<noteq> owner (pre_account ?p)" using calculation pid assms(7) ex by (auto simp: untouched_def)
      with v show ?thesis by (rule verified_untouched)
    qed
    ultimately show ?thesis by (auto simp: acc untouched_def)
  qed
qed

lemma process_instruction_readonly:
  assumes "process_instruction loader_state builtins input ias pidx ic = (Inr u, ic')"
    and "instruction_stack (transaction_context ic) = []"
    and "distinct (account_keys (transaction_context ic))"
    and "length (accounts (transaction_context ic)) = length (account_keys (transaction_context ic))"
    and "consistent_accounts ias" and "t < length (accounts (transaction_context ic))"
    and "\<forall>ia\<in>set ias. index_in_transaction ia = t \<longrightarrow> \<not> ia_is_writable ia"
  shows "accounts (transaction_context ic') ! t = accounts (transaction_context ic) ! t"
  using assms(1-4)
proof (rule process_top_instruction)
  fix pid and ic1 :: InvokeContext
  let ?sn = "top_snapshot (transaction_context ic) ias"
  let ?a = "accounts (transaction_context ic) ! t" and ?a1 = "accounts (transaction_context ic1) ! t"
  assume inv: "runtime_inv ?sn ic1" and acc: "accounts (transaction_context ic') = accounts (transaction_context ic1)"
    and ver: "\<And>m. m < length (firsts 0 ias) \<Longrightarrow>
      is_ok (pre_account_verify (pre_accounts ic1 ! m) pid (ia_is_writable (firsts 0 ias ! m)) (ic_rent ic1)
         (accounts (transaction_context ic1) ! index_in_transaction (firsts 0 ias ! m)))"
  show ?thesis
  proof (cases "t \<in> index_in_transaction ` set ias")
    case False
    then show ?thesis using inv assms(4,6) by (simp add: runtime_inv_def Let_def top_snapshot_def acc)
  next
    case True
    then have "t \<in> index_in_transaction ` set (firsts 0 ias)" using consistent_firsts(2) [OF assms(5)] by simp
    then obtain m where m: "m < length (firsts 0 ias)" "index_in_transaction (firsts 0 ias ! m) = t"
      by (auto simp: in_set_conv_nth)
    let ?p = "pre_accounts ic1 ! m" and ?keys = "account_keys (transaction_context ic)"
    have ro: "\<not> ia_is_writable (firsts 0 ias ! m)"
      using assms(7) m consistent_firsts(3) [OF assms(5)] nth_mem [OF m(1)] by blast
    have used: "index_in_transaction ` set ias \<subseteq> {..<length ?keys}"
      using inv by (simp add: runtime_inv_def Let_def top_snapshot_def)
    then have "?keys ! t \<notin> (!) ?keys ` index_in_transaction ` set (filter ia_is_writable ias)"
      using assms(3,4,6,7) by (force simp: nth_eq_iff_index_eq)
    then have "pre_account ?p = ?a"
      using top_pre_account [OF inv m(1)] m(2) by (simp add: pre_ok_def pre_account_new_def top_snapshot_def)
    moreover obtain v where "pre_account_verify ?p pid (ia_is_writable (firsts 0 ias ! m)) (ic_rent ic1) ?a1 = Inr v"
      using ver [OF m(1)] m(2) by auto
    then have "?a1 = pre_account ?p" by (rule verified_readonly) (simp add: ro)
    ultimately show ?thesis by (simp add: acc)
  qed
qed

end
