(* ===== verification/SystemSafety.thy ===== *)
theory SystemSafety
  imports Samples RuntimeSafety
begin

text \<open>
  What the system program promises: it moves lamports and creates none, an account loses lamports
  or changes hands only with the signature the source asks for, and a nonce account goes through
  the states of a small transition system whatever instructions are run on it.
\<close>

section \<open>Effects on the accounts\<close>

abbreviation tx_accounts :: "InvokeContext \<Rightarrow> Account list" where
  "tx_accounts ic \<equiv> accounts (transaction_context ic)"

abbreviation tx_keys :: "InvokeContext \<Rightarrow> Pubkey list" where
  "tx_keys ic \<equiv> account_keys (transaction_context ic)"

lemma nth_list_update_if: "xs[i := x] ! j = (if i = j \<and> i < length xs then x else xs ! j)"
  by (cases "i < length xs") (auto simp: nth_list_update list_update_beyond)

lemmas system_defs = borrow_account_def read_account_def modify_account_def get_state_def
  key_of_instruction_account_def check_accounts_def

lemma add_lamports_Inr [res_simps]:
  "add_lamports b n ic = (Inr u, ic') \<longleftrightarrow>
     unat (lamports (borrowed (transaction_context ic) b)) + unat n < 2 ^ 64 \<and>
     ic' = ic\<lparr>transaction_context :=
       set_lamports b (lamports (borrowed (transaction_context ic) b) + n) (transaction_context ic)\<rparr>"
  by (auto simp: add_lamports_def checked_add_lamports_def checked_add_def res_simps split: sum.splits if_splits)

lemma sub_lamports_Inr [res_simps]:
  "sub_lamports b n ic = (Inr u, ic') \<longleftrightarrow>
     n \<le> lamports (borrowed (transaction_context ic) b) \<and>
     ic' = ic\<lparr>transaction_context :=
       set_lamports b (lamports (borrowed (transaction_context ic) b) - n) (transaction_context ic)\<rparr>"
  by (auto simp: sub_lamports_def checked_sub_lamports_def checked_sub_def res_simps split: sum.splits if_splits)

text \<open>Moving \<open>n\<close> lamports from the account at \<open>f\<close> to the account at \<open>t\<close>.\<close>

definition moved :: "nat \<Rightarrow> nat \<Rightarrow> u64 \<Rightarrow> Account list \<Rightarrow> Account list" where
  "moved f t n accs =
     (let accs = accs[f := (accs ! f)\<lparr>lamports := lamports (accs ! f) - n\<rparr>]
      in accs[t := (accs ! t)\<lparr>lamports := lamports (accs ! t) + n\<rparr>])"

definition can_move :: "nat \<Rightarrow> nat \<Rightarrow> u64 \<Rightarrow> Account list \<Rightarrow> bool" where
  "can_move f t n accs \<longleftrightarrow> f < length accs \<and> t < length accs \<and> n \<le> lamports (accs ! f) \<and>
     (f \<noteq> t \<longrightarrow> unat (lamports (accs ! t)) + unat n < 2 ^ 64)"

lemma move_lamports_Inr:
  assumes "sbind (sub_lamports b n) (\<lambda>_. sbind (borrow_account ctx j) (\<lambda>to. add_lamports to n)) ic = (Inr u, ic')"
    and "ba_index_in_transaction b < length (tx_accounts ic)"
  obtains t where "j < length (instruction_accounts ctx)"
    and "t = index_in_transaction (instruction_accounts ctx ! j)"
    and "can_move (ba_index_in_transaction b) t n (tx_accounts ic)"
    and "ic' = ic\<lparr>transaction_context := (transaction_context ic)
      \<lparr>accounts := moved (ba_index_in_transaction b) t n (tx_accounts ic)\<rparr>\<rparr>"
proof -
  let ?f = "ba_index_in_transaction b" and ?t = "index_in_transaction (instruction_accounts ctx ! j)"
  from assms have *: "j < length (instruction_accounts ctx)" "?t < length (tx_accounts ic)"
    "n \<le> lamports (tx_accounts ic ! ?f)"
    "unat (lamports (((tx_accounts ic)[?f := (tx_accounts ic ! ?f)\<lparr>lamports := lamports (tx_accounts ic ! ?f) - n\<rparr>]) ! ?t))
       + unat n < 2 ^ 64"
    "ic' = ic\<lparr>transaction_context := (transaction_context ic)\<lparr>accounts := moved ?f ?t n (tx_accounts ic)\<rparr>\<rparr>"
    by (auto simp: res_simps system_defs set_lamports_def update_borrowed_def moved_def Let_def)
  show thesis
  proof (rule that [OF *(1) refl _ *(5)])
    show "can_move ?f ?t n (tx_accounts ic)"
      using * assms(2) by (auto simp: can_move_def nth_list_update)
  qed
qed

lemma length_moved [simp]: "length (moved f t n accs) = length accs"
  by (simp add: moved_def Let_def)

lemma moved_nth:
  assumes "can_move f t n accs" and "i < length accs"
  shows "moved f t n accs ! i = (accs ! i)\<lparr>lamports := lamports (accs ! i)
     - (if i = f then n else 0) + (if i = t then n else 0)\<rparr>"
  using assms by (auto simp: moved_def Let_def nth_list_update can_move_def)

lemma moved_total:
  assumes "can_move f t n accs"
  shows "sum_list (map (\<lambda>a. unat (lamports a)) (moved f t n accs)) = sum_list (map (\<lambda>a. unat (lamports a)) accs)"
proof -
  let ?g = "\<lambda>a. unat (lamports a)"
  let ?a = "accs[f := (accs ! f)\<lparr>lamports := lamports (accs ! f) - n\<rparr>]"
  from assms have f: "f < length accs" "t < length accs" "n \<le> lamports (accs ! f)" by (auto simp: can_move_def)
  have "unat (lamports (?a ! t)) + unat n < 2 ^ 64"
  proof (cases "t = f")
    case True
    then have "unat (lamports (?a ! t)) + unat n = unat (lamports (accs ! f))"
      using f by (simp add: unat_sub word_le_nat_alt)
    then show ?thesis using unsigned_less [of "lamports (accs ! f)", where 'a = nat] by simp
  next
    case False
    then show ?thesis using assms by (auto simp: can_move_def)
  qed
  then have up: "unat (lamports (?a ! t) + n) = unat (lamports (?a ! t)) + unat n"
    by (intro unat_add_no_overflow) simp
  have down: "unat (lamports (accs ! f) - n) + unat n = unat (lamports (accs ! f))"
    using f(3) by (simp add: unat_sub word_le_nat_alt)
  have "sum_list (map ?g (moved f t n accs)) + ?g (?a ! t) = sum_list (map ?g ?a) + (?g (?a ! t) + unat n)"
    using sum_list_map_update [of t ?a ?g "(?a ! t)\<lparr>lamports := lamports (?a ! t) + n\<rparr>"] f(2) up
    by (simp add: moved_def Let_def)
  moreover have "sum_list (map ?g ?a) + ?g (accs ! f) = sum_list (map ?g accs) + unat (lamports (accs ! f) - n)"
    using sum_list_map_update [OF f(1), of ?g "(accs ! f)\<lparr>lamports := lamports (accs ! f) - n\<rparr>"] by simp
  ultimately show ?thesis using down by linarith
qed

text \<open>An action that changes data and owners only.\<close>

definition same_lamports :: "InvokeContext \<Rightarrow> InvokeContext \<Rightarrow> bool" where
  "same_lamports ic ic' \<longleftrightarrow>
     map lamports (tx_accounts ic') = map lamports (tx_accounts ic) \<and> tx_keys ic' = tx_keys ic \<and>
     feature_set ic' = feature_set ic \<and> blockhash ic' = blockhash ic"

interpretation same_lamports: state_preorder same_lamports
  by unfold_locales (auto simp: same_lamports_def)

lemma map_lamports_update:
  "lamports a = lamports (accs ! i) \<Longrightarrow> map lamports (accs[i := a]) = map lamports accs"
  by (cases "i < length accs") (auto intro!: nth_equalityI simp: nth_list_update)

lemma modify_account_same_lamports:
  "(\<And>a. lamports (f a) = lamports a) \<Longrightarrow> stable same_lamports (modify_account (update_borrowed b f))"
  unfolding modify_account_def
  by (intro same_lamports.stable_smodify) (simp add: same_lamports_def update_borrowed_def map_lamports_update)

lemma set_data_same_lamports: "stable same_lamports (modify_account (set_data b bs))"
  unfolding modify_account_def
  by (intro same_lamports.stable_smodify) (simp add: same_lamports_def update_borrowed_def map_lamports_update)

lemma read_account_same_lamports: "stable same_lamports (read_account b)"
  unfolding read_account_def by (rule same_lamports.stable_sread)

lemma set_state_same_lamports: "stable same_lamports (set_state bc b v)"
  unfolding set_state_def Let_def
  by (intro same_lamports.stable_intros read_account_same_lamports modify_account_same_lamports) simp

lemma get_state_same_lamports: "stable same_lamports (get_state bc b)"
  unfolding get_state_def by (rule same_lamports.stable_sread)

lemma allocate_same_lamports: "stable same_lamports (allocate b addr space signers)"
  unfolding allocate_def
  by (intro same_lamports.stable_intros read_account_same_lamports set_data_same_lamports)

lemma assign_same_lamports: "stable same_lamports (assign b addr new_owner signers)"
  unfolding assign_def set_owner_def
  by (intro same_lamports.stable_intros read_account_same_lamports modify_account_same_lamports) simp

lemmas same_lamports_intros = same_lamports.stable_intros read_account_same_lamports
  set_state_same_lamports get_state_same_lamports allocate_same_lamports assign_same_lamports

lemma allocate_and_assign_same_lamports: "stable same_lamports (allocate_and_assign b addr space new_owner signers)"
  unfolding allocate_and_assign_def by (intro same_lamports_intros)

lemma set_state_at_same_lamports: "stable same_lamports (\<lambda>ic. set_state bc b (f ic) ic)"
  by (auto simp: stable_def dest: stableD [OF set_state_same_lamports])

lemma nonce_step_same_lamports:
  "stable same_lamports (\<lambda>ic. if P ic then nonce_failure e ic else set_state bc b (f ic) ic)"
  by (intro same_lamports.stable_if_state same_lamports.stable_sread set_state_at_same_lamports)

lemma advance_nonce_same_lamports: "stable same_lamports (advance_nonce_account cr bc b signers)"
  unfolding advance_nonce_account_def Let_def
  by (intro same_lamports_intros) (auto split: State.split intro!: same_lamports_intros nonce_step_same_lamports)

lemma initialize_nonce_same_lamports: "stable same_lamports (initialize_nonce_account cr bc b a rent)"
  unfolding initialize_nonce_account_def
  by (intro same_lamports_intros) (auto split: State.split intro!: same_lamports_intros set_state_at_same_lamports)

lemma authorize_nonce_same_lamports: "stable same_lamports (authorize_nonce_account bc b a signers)"
  unfolding authorize_nonce_account_def
  by (intro same_lamports_intros) (auto split: sum.split AuthorizeNonceError.split intro!: same_lamports_intros)

lemma upgrade_nonce_same_lamports: "stable same_lamports (upgrade_nonce_account cr bc b)"
  unfolding upgrade_nonce_account_def
  by (intro same_lamports_intros) (auto split: option.split intro!: same_lamports_intros)

lemma withdraw_nonce_signer_same_lamports: "stable same_lamports (withdraw_nonce_signer cr bc b n rent st)"
  unfolding withdraw_nonce_signer_def
  by (intro same_lamports_intros) (auto split: State.split intro!: same_lamports_intros nonce_step_same_lamports)


section \<open>Debits\<close>

text \<open>Who may take lamports out of the account at \<open>f\<close>.\<close>

definition debit_allowed ::
  "crypto \<Rightarrow> system_codec \<Rightarrow> Pubkey set \<Rightarrow> TransactionContext \<Rightarrow> SystemInstruction \<Rightarrow> nat \<Rightarrow> bool" where
  "debit_allowed cr bc signers tc instruction f \<longleftrightarrow>
     account_keys tc ! f \<in> signers \<or>
     (\<exists>n seed seed_owner b. instruction = TransferWithSeed n seed seed_owner \<and> b \<in> signers \<and>
        create_with_seed cr b seed seed_owner = Inr (account_keys tc ! f)) \<or>
     (\<exists>n v d. instruction = WithdrawNonceAccount n \<and> decode_versions bc (data (accounts tc ! f)) = Some v \<and>
        versions_state v = Initialized d \<and> authority d \<in> signers)"

definition system_effect ::
  "crypto \<Rightarrow> system_codec \<Rightarrow> Pubkey set \<Rightarrow> SystemInstruction \<Rightarrow> InvokeContext \<Rightarrow> InvokeContext \<Rightarrow> bool" where
  "system_effect cr bc signers instruction ic ic' \<longleftrightarrow>
     same_lamports ic ic' \<or>
     (\<exists>ic1 f t n. same_lamports ic ic1 \<and> can_move f t n (tx_accounts ic1) \<and>
        ic' = ic1\<lparr>transaction_context := (transaction_context ic1)\<lparr>accounts := moved f t n (tx_accounts ic1)\<rparr>\<rparr> \<and>
        debit_allowed cr bc signers (transaction_context ic) instruction f)"

lemma transfer_verified_Inr:
  assumes "transfer_verified ctx i j n ic = (Inr u, ic')"
  obtains f t where "i < length (instruction_accounts ctx)" and "f = index_in_transaction (instruction_accounts ctx ! i)"
    and "j < length (instruction_accounts ctx)" and "t = index_in_transaction (instruction_accounts ctx ! j)"
    and "data (tx_accounts ic ! f) = []" and "can_move f t n (tx_accounts ic)"
    and "ic' = ic\<lparr>transaction_context := (transaction_context ic)\<lparr>accounts := moved f t n (tx_accounts ic)\<rparr>\<rparr>"
proof -
  let ?f = "index_in_transaction (instruction_accounts ctx ! i)"
  let ?b = "\<lparr>ba_context = ctx, ba_index_in_transaction = ?f, ba_index_in_instruction = length (program_accounts ctx) + i\<rparr>"
  from assms have i: "i < length (instruction_accounts ctx)" "?f < length (tx_accounts ic)"
    and d: "data (tx_accounts ic ! ?f) = []"
    and m: "sbind (sub_lamports ?b n) (\<lambda>_. sbind (borrow_account ctx j) (\<lambda>to. add_lamports to n)) ic = (Inr u, ic')"
    unfolding transfer_verified_def
    by (auto simp: sbind_Inr_iff [where m = "borrow_account ctx i"] sbind_Inr_iff [where m = "read_account b" for b]
        borrow_account_def read_account_def res_simps split: if_splits)
  from m show thesis
    by (rule move_lamports_Inr) (use i d that in auto)
qed

lemma signer_in_get_signers:
  "i < length (instruction_accounts ctx) \<Longrightarrow> is_instruction_account_signer ctx i = Inr True \<Longrightarrow>
     account_keys tc ! index_in_transaction (instruction_accounts ctx ! i) \<in> get_signers ctx tc"
  by (force simp: is_instruction_account_signer_def get_signers_def res_simps)

lemma system_transfer_effect:
  assumes "transfer ctx i j n ic1 = (Inr u, ic')" and "same_lamports ic ic1"
  shows "system_effect cr bc (get_signers ctx (transaction_context ic)) instruction ic ic'"
proof (cases "\<not> is_active system_transfer_zero_check ic1 \<and> n = 0")
  case True
  then have "ic' = ic1" using assms(1) by (auto simp: transfer_def)
  then show ?thesis using assms(2) by (simp add: system_effect_def)
next
  case False
  with assms(1) have s: "is_instruction_account_signer ctx i = Inr True"
    and t: "transfer_verified ctx i j n ic1 = (Inr u, ic')"
    unfolding transfer_def
    by (auto simp: sbind_Inr_iff [where m = "sread g" for g] key_of_instruction_account_def res_simps split: if_splits)
  from t show ?thesis
  proof (rule transfer_verified_Inr)
    fix f t
    assume i: "i < length (instruction_accounts ctx)" and f: "f = index_in_transaction (instruction_accounts ctx ! i)"
      and "can_move f t n (tx_accounts ic1)"
      and "ic' = ic1\<lparr>transaction_context := (transaction_context ic1)\<lparr>accounts := moved f t n (tx_accounts ic1)\<rparr>\<rparr>"
    then show ?thesis
      using assms(2) signer_in_get_signers [OF i s] f unfolding system_effect_def debit_allowed_def by blast
  qed
qed

lemma create_account_effect:
  assumes "create_account ctx i j addr n space new_owner signers ic = (Inr u, ic')"
  shows "system_effect cr bc (get_signers ctx (transaction_context ic)) instruction ic ic'"
proof -
  from assms obtain b v ic1 where a: "allocate_and_assign b addr space new_owner signers ic = (Inr v, ic1)"
    and t: "transfer ctx i j n ic1 = (Inr u, ic')"
    unfolding create_account_def
    by (auto simp: sbind_Inr_iff borrow_account_def read_account_def res_simps split: if_splits)
  from a have "same_lamports ic ic1" by (rule stableD [OF allocate_and_assign_same_lamports])
  with t show ?thesis by (rule system_transfer_effect)
qed

lemma transfer_with_seed_effect:
  assumes "transfer_with_seed cr ctx i j seed from_owner k n ic = (Inr u, ic')"
  shows "system_effect cr bc (get_signers ctx (transaction_context ic)) (TransferWithSeed n seed from_owner) ic ic'"
proof (cases "\<not> is_active system_transfer_zero_check ic \<and> n = 0")
  case True
  then have "ic' = ic" using assms by (auto simp: transfer_with_seed_def)
  then show ?thesis by (simp add: system_effect_def same_lamports.refl)
next
  case False
  with assms obtain base_key where s: "is_instruction_account_signer ctx j = Inr True"
    and j: "j < length (instruction_accounts ctx)"
    and bk: "base_key = tx_keys ic ! index_in_transaction (instruction_accounts ctx ! j)"
    and sd: "create_with_seed cr base_key seed from_owner =
      Inr (tx_keys ic ! index_in_transaction (instruction_accounts ctx ! i))"
    and t: "transfer_verified ctx i k n ic = (Inr u, ic')"
    unfolding transfer_with_seed_def
    by (auto simp: sbind_Inr_iff [where m = "sread g" for g] sbind_Inr_iff [where m = "key_of_instruction_account c l" for c l]
        key_of_instruction_account_def get_index_of_instruction_account_in_transaction_def res_simps split: if_splits)
  from t show ?thesis
  proof (rule transfer_verified_Inr)
    fix f t
    assume f: "f = index_in_transaction (instruction_accounts ctx ! i)" and "can_move f t n (tx_accounts ic)"
      and "ic' = ic\<lparr>transaction_context := (transaction_context ic)\<lparr>accounts := moved f t n (tx_accounts ic)\<rparr>\<rparr>"
    then show ?thesis
      using signer_in_get_signers [OF j s, of "transaction_context ic"] bk sd f same_lamports.refl
      unfolding system_effect_def debit_allowed_def by metis
  qed
qed

lemma withdraw_nonce_signer_Inr:
  assumes "withdraw_nonce_signer cr bc b n rent st ic = (Inr signer, ic')"
  shows "st = State.Uninitialized \<and> signer = get_key (transaction_context ic) b \<or> (\<exists>d. st = Initialized d \<and> signer = authority d)"
  using assms unfolding withdraw_nonce_signer_def
  by (auto simp: sbind_Inr_iff [where m = "read_account b" for b] read_account_def res_simps split: State.splits if_splits)

lemma withdraw_nonce_effect:
  assumes "withdraw_nonce_account cr bc ctx i n j rent signers ic = (Inr u, ic')"
  shows "system_effect cr bc signers (WithdrawNonceAccount n) ic ic'"
proof -
  let ?f = "index_in_transaction (instruction_accounts ctx ! i)"
  let ?b = "\<lparr>ba_context = ctx, ba_index_in_transaction = ?f, ba_index_in_instruction = length (program_accounts ctx) + i\<rparr>"
  from assms obtain v signer ic1 where f: "?f < length (tx_accounts ic)"
    and v: "decode_versions bc (data (tx_accounts ic ! ?f)) = Some v"
    and w: "withdraw_nonce_signer cr bc ?b n rent (versions_state v) ic = (Inr signer, ic1)"
    and sg: "signer \<in> signers"
    and m: "sbind (sub_lamports ?b n) (\<lambda>_. sbind (borrow_account ctx j) (\<lambda>to. add_lamports to n)) ic1 = (Inr u, ic')"
    unfolding withdraw_nonce_account_def
    by (auto simp: sbind_Inr_iff [where m = "borrow_account ctx i"] sbind_Inr_iff [where m = "get_state bc b" for b]
        sbind_Inr_iff [where m = "withdraw_nonce_signer cr bc b n rent st" for b st]
        borrow_account_def get_state_def res_simps split: if_splits)
  have same: "same_lamports ic ic1" using w by (rule stableD [OF withdraw_nonce_signer_same_lamports])
  then have len: "length (tx_accounts ic1) = length (tx_accounts ic)"
    by (auto simp: same_lamports_def dest: map_eq_imp_length_eq)
  have "debit_allowed cr bc signers (transaction_context ic) (WithdrawNonceAccount n) ?f"
    using withdraw_nonce_signer_Inr [OF w] sg v by (auto simp: debit_allowed_def get_key_def)
  moreover from m obtain t where "can_move ?f t n (tx_accounts ic1)"
    and "ic' = ic1\<lparr>transaction_context := (transaction_context ic1)\<lparr>accounts := moved ?f t n (tx_accounts ic1)\<rparr>\<rparr>"
    by (rule move_lamports_Inr) (use f len in auto)
  ultimately show ?thesis using same unfolding system_effect_def by blast
qed

text \<open>The guards in front of a handler leave the context alone.\<close>

lemma key_of_instruction_account_Inr [res_simps]:
  "key_of_instruction_account ctx i ic = (Inr k, ic') \<longleftrightarrow>
     ic' = ic \<and> i < length (instruction_accounts ctx) \<and>
     index_in_transaction (instruction_accounts ctx ! i) < length (tx_keys ic) \<and>
     k = tx_keys ic ! index_in_transaction (instruction_accounts ctx ! i)"
  by (auto simp: key_of_instruction_account_def get_index_of_instruction_account_in_transaction_def res_simps)

lemma system_guards_Inr [res_simps]:
  "check_accounts ctx m ic = (Inr u, ic') \<longleftrightarrow> ic' = ic \<and> m \<le> length (instruction_accounts ctx)"
  "instruction_address cr ctx i seed ic = (Inr a, ic') \<longleftrightarrow> ic' = ic \<and> i < length (instruction_accounts ctx) \<and>
     index_in_transaction (instruction_accounts ctx ! i) < length (tx_keys ic) \<and>
     address_create cr (tx_keys ic ! index_in_transaction (instruction_accounts ctx ! i)) seed = Inr a"
  "require_blockhashes hs ic = (Inr u, ic') \<longleftrightarrow> ic' = ic \<and> hs \<noteq> []"
  "sysvar_rent_checked ctx i ic = (Inr r, ic') \<longleftrightarrow> ic' = ic \<and> i < length (instruction_accounts ctx) \<and>
     index_in_transaction (instruction_accounts ctx ! i) < length (tx_keys ic) \<and>
     tx_keys ic ! index_in_transaction (instruction_accounts ctx ! i) = rent_sysvar_id \<and>
     sysvar_rent (sysvar_cache ic) = Some r"
  "sysvar_recent_blockhashes_checked ctx i ic = (Inr hs, ic') \<longleftrightarrow> ic' = ic \<and> i < length (instruction_accounts ctx) \<and>
     index_in_transaction (instruction_accounts ctx ! i) < length (tx_keys ic) \<and>
     tx_keys ic ! index_in_transaction (instruction_accounts ctx ! i) = recent_blockhashes_sysvar_id \<and>
     sysvar_recent_blockhashes (sysvar_cache ic) = Some hs"
  by (auto simp: check_accounts_def check_number_of_instruction_accounts_def instruction_address_def require_blockhashes_def
      sysvar_rent_checked_def sysvar_recent_blockhashes_checked_def check_sysvar_account_def res_simps not_less split: if_splits)

lemma borrow_account_Inr [res_simps]:
  "borrow_account ctx i ic = (Inr b, ic') \<longleftrightarrow> ic' = ic \<and> i < length (instruction_accounts ctx) \<and>
     index_in_transaction (instruction_accounts ctx ! i) < length (tx_accounts ic) \<and>
     b = \<lparr>ba_context = ctx, ba_index_in_transaction = index_in_transaction (instruction_accounts ctx ! i),
          ba_index_in_instruction = length (program_accounts ctx) + i\<rparr>"
  by (auto simp: borrow_account_def res_simps)

lemma process_system_instruction_effect:
  assumes "process_system_instruction cr bc ctx (get_signers ctx (transaction_context ic)) instruction ic = (Inr u, ic')"
  shows "system_effect cr bc (get_signers ctx (transaction_context ic)) instruction ic ic'"
proof -
  have keeps: "system_effect cr bc signers i ic ic'" if "same_lamports ic ic'" for signers i
    using that by (simp add: system_effect_def)
  show ?thesis
    using assms
  proof (cases instruction)
    case (CreateAccount n space new_owner)
    with assms show ?thesis by (auto simp: res_simps dest: create_account_effect)
  next
    case (CreateAccountWithSeed b seed n space new_owner)
    with assms show ?thesis by (auto simp: res_simps dest: create_account_effect)
  next
    case (Transfer n)
    with assms show ?thesis by (auto simp: res_simps dest: system_transfer_effect [OF _ same_lamports.refl])
  next
    case (TransferWithSeed n seed from_owner)
    with assms show ?thesis by (auto simp: res_simps dest: transfer_with_seed_effect)
  next
    case (WithdrawNonceAccount n)
    with assms show ?thesis by (auto simp: res_simps dest: withdraw_nonce_effect)
  qed (auto simp: res_simps intro!: keeps dest: stableD [OF assign_same_lamports] stableD [OF allocate_same_lamports]
      stableD [OF allocate_and_assign_same_lamports] stableD [OF advance_nonce_same_lamports]
      stableD [OF initialize_nonce_same_lamports] stableD [OF authorize_nonce_same_lamports]
      stableD [OF upgrade_nonce_same_lamports])
qed

lemma same_lamports_total: "same_lamports ic ic' \<Longrightarrow> total_lamports ic' = total_lamports ic"
proof -
  assume "same_lamports ic ic'"
  then have "map unat (map lamports (tx_accounts ic')) = map unat (map lamports (tx_accounts ic))"
    by (simp only: same_lamports_def)
  then show ?thesis by (simp add: comp_def)
qed

lemma same_lamports_nth:
  assumes "same_lamports ic ic'"
  shows "length (tx_accounts ic') = length (tx_accounts ic)"
    and "t < length (tx_accounts ic) \<Longrightarrow> lamports (tx_accounts ic' ! t) = lamports (tx_accounts ic ! t)"
proof -
  have m: "map lamports (tx_accounts ic') = map lamports (tx_accounts ic)"
    using assms by (simp add: same_lamports_def)
  then show l: "length (tx_accounts ic') = length (tx_accounts ic)" by (rule map_eq_imp_length_eq)
  from m have "map lamports (tx_accounts ic') ! t = map lamports (tx_accounts ic) ! t" by simp
  then show "t < length (tx_accounts ic) \<Longrightarrow> lamports (tx_accounts ic' ! t) = lamports (tx_accounts ic ! t)"
    using l by simp
qed

lemma system_effect_total:
  "system_effect cr bc signers instruction ic ic' \<Longrightarrow> total_lamports ic' = total_lamports ic"
  by (auto simp: system_effect_def same_lamports_total moved_total)

lemma system_effect_debit:
  assumes "system_effect cr bc signers instruction ic ic'" and "t < length (tx_accounts ic)"
    and "lamports (tx_accounts ic' ! t) < lamports (tx_accounts ic ! t)"
  shows "debit_allowed cr bc signers (transaction_context ic) instruction t"
proof -
  have same: "lamports (tx_accounts ic1 ! t) = lamports (tx_accounts ic ! t)" if "same_lamports ic ic1" for ic1
    using that assms(2) by (rule same_lamports_nth(2))
  from assms(1) show ?thesis
    unfolding system_effect_def
  proof (elim disjE exE conjE)
    assume "same_lamports ic ic'"
    with same assms(3) show ?thesis by simp
  next
    fix ic1 f k n
    assume s: "same_lamports ic ic1" and m: "can_move f k n (tx_accounts ic1)"
      and ic': "ic' = ic1\<lparr>transaction_context := (transaction_context ic1)\<lparr>accounts := moved f k n (tx_accounts ic1)\<rparr>\<rparr>"
      and d: "debit_allowed cr bc signers (transaction_context ic) instruction f"
    have len: "t < length (tx_accounts ic1)"
      using same_lamports_nth(1) [OF s] assms(2) by simp
    have "f = t"
    proof (rule ccontr)
      assume "f \<noteq> t"
      then have *: "lamports (tx_accounts ic' ! t) = lamports (tx_accounts ic ! t) + (if t = k then n else 0)"
        using moved_nth [OF m len] same [OF s] by (simp add: ic')
      show False
      proof (cases "t = k")
        case True
        then have "unat (lamports (tx_accounts ic ! t)) + unat n < 2 ^ 64"
          using m \<open>f \<noteq> t\<close> same [OF s] by (auto simp: can_move_def)
        then have "unat (lamports (tx_accounts ic ! t) + n) = unat (lamports (tx_accounts ic ! t)) + unat n"
          by (intro unat_add_no_overflow) simp
        then show False using * True assms(3) by (simp add: word_less_nat_alt)
      qed (use * assms(3) in simp)
    qed
    with d show ?thesis by simp
  qed
qed


section \<open>The life of a nonce account\<close>

text \<open>
  The transition system of a nonce account, labelled by the instruction. \<open>h\<close> is the blockhash under
  which the instruction runs, \<open>fee\<close> its lamports per signature and \<open>signers\<close> the keys that signed it.
\<close>

inductive nonce_step ::
  "crypto \<Rightarrow> Pubkey \<Rightarrow> u64 \<Rightarrow> Pubkey set \<Rightarrow> SystemInstruction \<Rightarrow> Versions \<Rightarrow> Versions \<Rightarrow> bool"
  for cr :: crypto and h :: Pubkey and fee :: u64 and signers :: "Pubkey set" where
  initialize: "versions_state v = State.Uninitialized \<Longrightarrow>
     nonce_step cr h fee signers (InitializeNonceAccount a) v
       (Current (Initialized (data_new a (from_blockhash cr h) fee)))"
| advance: "versions_state v = Initialized d \<Longrightarrow> authority d \<in> signers \<Longrightarrow> durable_nonce d \<noteq> from_blockhash cr h \<Longrightarrow>
     nonce_step cr h fee signers AdvanceNonceAccount v
       (Current (Initialized (data_new (authority d) (from_blockhash cr h) fee)))"
| authorize_legacy: "authority d \<in> signers \<Longrightarrow>
     nonce_step cr h fee signers (AuthorizeNonceAccount a) (Legacy (Initialized d))
       (Legacy (Initialized (data_new a (durable_nonce d) (fee_calculator d))))"
| authorize_current: "authority d \<in> signers \<Longrightarrow>
     nonce_step cr h fee signers (AuthorizeNonceAccount a) (Current (Initialized d))
       (Current (Initialized (data_new a (durable_nonce d) (fee_calculator d))))"
| upgrade: "nonce_step cr h fee signers UpgradeNonceAccount (Legacy (Initialized d))
     (Current (Initialized (d\<lparr>durable_nonce := from_blockhash cr (durable_nonce d)\<rparr>)))"
| close: "versions_state v = Initialized d \<Longrightarrow> authority d \<in> signers \<Longrightarrow> durable_nonce d \<noteq> from_blockhash cr h \<Longrightarrow>
     nonce_step cr h fee signers (WithdrawNonceAccount n) v (Current State.Uninitialized)"

inductive_cases nonce_stepE: "nonce_step cr h f signers i v v'"

lemma data_new_simps [simp]:
  "authority (data_new a n c) = a" "durable_nonce (data_new a n c) = n" "fee_calculator (data_new a n c) = c"
  by (simp_all add: data_new_def)

definition nonce_codec_ok :: "system_codec \<Rightarrow> bool" where
  "nonce_codec_ok bc \<longleftrightarrow> (\<forall>v rest. decode_versions bc (encode_versions bc v @ rest) = Some v)"

text \<open>
  What a handler may do to the data of an account that has data: nothing, or the encoding of the
  next state in front of it.
\<close>

definition nonce_effect ::
  "crypto \<Rightarrow> system_codec \<Rightarrow> Pubkey set \<Rightarrow> SystemInstruction \<Rightarrow> InvokeContext \<Rightarrow> InvokeContext \<Rightarrow> bool" where
  "nonce_effect cr bc signers i ic ic' \<longleftrightarrow>
     length (tx_accounts ic') = length (tx_accounts ic) \<and> blockhash ic' = blockhash ic \<and>
     (\<forall>t < length (tx_accounts ic). let d = data (tx_accounts ic ! t); d' = data (tx_accounts ic' ! t) in
        d' = d \<or> d = [] \<or>
        (\<exists>v v'. decode_versions bc d = Some v \<and> nonce_step cr (blockhash ic) (lamports_per_signature ic) signers i v v' \<and>
           d' = encode_versions bc v' @ drop (length (encode_versions bc v')) d))"

lemma set_state_Inr [res_simps]:
  "set_state bc b v ic = (Inr u, ic') \<longleftrightarrow>
     length (encode_versions bc v) \<le> length (data (borrowed (transaction_context ic) b)) \<and>
     ic' = ic\<lparr>transaction_context := update_borrowed b
       (\<lambda>a. a\<lparr>data := encode_versions bc v @ drop (length (encode_versions bc v)) (data a)\<rparr>) (transaction_context ic)\<rparr>"
  by (auto simp: set_state_def read_account_def modify_account_def Let_def res_simps not_less split: if_splits)

lemma get_state_Inr [res_simps]:
  "get_state bc b ic = (Inr v, ic') \<longleftrightarrow>
     ic' = ic \<and> decode_versions bc (data (borrowed (transaction_context ic) b)) = Some v"
  by (auto simp: get_state_def res_simps)

lemma read_account_Inr [res_simps]:
  "read_account b ic = (Inr a, ic') \<longleftrightarrow> ic' = ic \<and> a = borrowed (transaction_context ic) b"
  by (auto simp: read_account_def res_simps)

lemma set_state_effect:
  assumes "set_state bc b v' ic = (Inr u, ic')"
    and "decode_versions bc (data (borrowed (transaction_context ic) b)) = Some v"
    and "nonce_step cr (blockhash ic) (lamports_per_signature ic) signers i v v'"
  shows "nonce_effect cr bc signers i ic ic'"
  using assms by (auto simp: res_simps nonce_effect_def update_borrowed_def nth_list_update_if Let_def)

lemma same_data_effect:
  assumes "map data (tx_accounts ic') = map data (tx_accounts ic)" and "blockhash ic' = blockhash ic"
  shows "nonce_effect cr bc signers i ic ic'"
proof -
  have "length (tx_accounts ic') = length (tx_accounts ic)" using assms(1) by (rule map_eq_imp_length_eq)
  moreover have "data (tx_accounts ic' ! t) = data (tx_accounts ic ! t)" if "t < length (tx_accounts ic)" for t
    using arg_cong [OF assms(1), of "\<lambda>l. l ! t"] that calculation by simp
  ultimately show ?thesis using assms(2) by (simp add: nonce_effect_def Let_def)
qed

lemma moved_data:
  assumes "can_move f t n accs"
  shows "map data (moved f t n accs) = map data accs"
  by (rule nth_equalityI) (use assms in \<open>auto simp: moved_nth\<close>)

lemma nonce_effect_move:
  assumes "nonce_effect cr bc signers i ic ic1" and "can_move f t n (tx_accounts ic1)"
  shows "nonce_effect cr bc signers i ic
    (ic1\<lparr>transaction_context := (transaction_context ic1)\<lparr>accounts := moved f t n (tx_accounts ic1)\<rparr>\<rparr>)"
  using assms(1) unfolding nonce_effect_def by (auto simp: moved_nth [OF assms(2)] Let_def)

lemma advance_nonce_Inr:
  assumes "advance_nonce_account cr bc b signers ic = (Inr u, ic')"
  obtains v d where "decode_versions bc (data (borrowed (transaction_context ic) b)) = Some v"
    and "versions_state v = Initialized d" and "authority d \<in> signers"
    and "durable_nonce d \<noteq> from_blockhash cr (blockhash ic)"
    and "set_state bc b (Current (Initialized (data_new (authority d) (from_blockhash cr (blockhash ic))
      (lamports_per_signature ic)))) ic = (Inr u, ic')"
proof -
  from assms obtain v where v: "decode_versions bc (data (borrowed (transaction_context ic) b)) = Some v"
    by (auto simp: advance_nonce_account_def sbind_Inr_iff get_state_Inr sfail_iff split: if_split_asm)
  show thesis
  proof (cases "versions_state v")
    case Uninitialized
    with assms v show ?thesis
      by (auto simp: advance_nonce_account_def sbind_Inr_iff get_state_Inr sread_Inr_iff sfail_iff split: if_split_asm)
  next
    case (Initialized d)
    with assms v show ?thesis
      by (intro that [OF v Initialized]) (auto simp: advance_nonce_account_def versions_new_def Let_def sbind_Inr_iff get_state_Inr
          sread_Inr_iff sfail_iff split: if_split_asm)
  qed
qed

lemma advance_nonce_effect:
  assumes "advance_nonce_account cr bc b signers ic = (Inr u, ic')"
  shows "nonce_effect cr bc signers AdvanceNonceAccount ic ic'"
  using assms by (rule advance_nonce_Inr) (auto intro: set_state_effect nonce_step.advance)

lemma initialize_nonce_effect:
  assumes "initialize_nonce_account cr bc b a rent ic = (Inr u, ic')"
  shows "nonce_effect cr bc signers (InitializeNonceAccount a) ic ic'"
proof -
  note simps = initialize_nonce_account_def versions_new_def sbind_Inr_iff get_state_Inr read_account_Inr sread_Inr_iff sfail_iff
  from assms obtain v where v: "decode_versions bc (data (borrowed (transaction_context ic) b)) = Some v"
    by (auto simp: simps split: if_split_asm)
  with assms have st: "versions_state v = State.Uninitialized"
    by (cases "versions_state v") (auto simp: simps split: if_split_asm)
  with assms v have s: "set_state bc b (Current (Initialized (data_new a (from_blockhash cr (blockhash ic))
      (lamports_per_signature ic)))) ic = (Inr u, ic')"
    by (auto simp: simps split: if_split_asm)
  from s v show ?thesis by (rule set_state_effect) (rule nonce_step.initialize [OF st])
qed

lemma authorize_nonce_effect:
  assumes "authorize_nonce_account bc b a signers ic = (Inr u, ic')"
  shows "nonce_effect cr bc signers (AuthorizeNonceAccount a) ic ic'"
proof -
  note simps = authorize_nonce_account_def sbind_Inr_iff get_state_Inr sread_Inr_iff sfail_iff
  from assms obtain v where v: "decode_versions bc (data (borrowed (transaction_context ic) b)) = Some v"
    by (auto simp: simps split: if_split_asm)
  with assms obtain v' where a: "versions_authorize v signers a = Inr v'"
    by (cases "versions_authorize v signers a") (auto simp: simps split: if_split_asm AuthorizeNonceError.split_asm)
  with assms v have s: "set_state bc b v' ic = (Inr u, ic')" by (auto simp: simps split: if_split_asm)
  from a have "nonce_step cr (blockhash ic) (lamports_per_signature ic) signers (AuthorizeNonceAccount a) v v'"
    by (cases v) (auto simp: versions_authorize_def Let_def intro: nonce_step.authorize_legacy nonce_step.authorize_current
        split: State.splits if_splits)
  with s v show ?thesis by (rule set_state_effect)
qed

lemma upgrade_nonce_effect:
  assumes "upgrade_nonce_account cr bc b ic = (Inr u, ic')"
  shows "nonce_effect cr bc signers UpgradeNonceAccount ic ic'"
proof -
  note simps = upgrade_nonce_account_def sbind_Inr_iff get_state_Inr read_account_Inr sfail_iff
  from assms obtain v where v: "decode_versions bc (data (borrowed (transaction_context ic) b)) = Some v"
    by (auto simp: simps split: if_split_asm)
  with assms obtain v' where a: "versions_upgrade cr v = Some v'"
    by (cases "versions_upgrade cr v") (auto simp: simps split: if_split_asm)
  with assms v have s: "set_state bc b v' ic = (Inr u, ic')" by (auto simp: simps split: if_split_asm)
  from a have "nonce_step cr (blockhash ic) (lamports_per_signature ic) signers UpgradeNonceAccount v v'"
    by (cases "(cr, v)" rule: versions_upgrade.cases) (auto intro: nonce_step.upgrade)
  with s v show ?thesis by (rule set_state_effect)
qed

lemma nonce_effect_refl: "nonce_effect cr bc signers i ic ic"
  by (rule same_data_effect) simp_all

lemma withdraw_nonce_signer_effect:
  assumes "withdraw_nonce_signer cr bc b n rent (versions_state v) ic = (Inr signer, ic')"
    and "decode_versions bc (data (borrowed (transaction_context ic) b)) = Some v" and "signer \<in> signers"
  shows "nonce_effect cr bc signers (WithdrawNonceAccount n) ic ic'"
proof (cases "ic' = ic")
  case True
  then show ?thesis by (simp add: nonce_effect_refl)
next
  case False
  note simps = withdraw_nonce_signer_def versions_new_def sbind_Inr_iff read_account_Inr sread_Inr_iff sfail_iff sret_Inr_iff
  from False assms(1) obtain d where d0: "versions_state v = Initialized d"
    by (cases "versions_state v") (auto simp: simps split: if_split_asm)
  with False assms(1) have s: "set_state bc b (Current State.Uninitialized) ic = (Inr (), ic')"
    and d: "versions_state v = Initialized d" "signer = authority d" "durable_nonce d \<noteq> from_blockhash cr (blockhash ic)"
    by (auto simp: simps split: if_split_asm)
  have "nonce_step cr (blockhash ic) (lamports_per_signature ic) signers (WithdrawNonceAccount n) v (Current State.Uninitialized)"
    using d assms(3) by (intro nonce_step.close) auto
  with s assms(2) show ?thesis by (rule set_state_effect)
qed

lemma allocate_effect:
  assumes "allocate b addr space signers' ic = (Inr u, ic')"
  shows "nonce_effect cr bc signers i ic ic'"
  using assms
  by (auto simp: allocate_def modify_account_def res_simps nonce_effect_def update_borrowed_def nth_list_update_if Let_def
      split: if_splits)

lemma assign_data:
  assumes "assign b addr new_owner signers ic = (Inr u, ic')"
  shows "map data (tx_accounts ic') = map data (tx_accounts ic) \<and> blockhash ic' = blockhash ic"
proof -
  have "map data (accs[i := (accs ! i)\<lparr>owner := k\<rparr>]) = map data accs" for accs :: "Account list" and i k
    by (cases "i < length accs") (auto intro!: nth_equalityI simp: nth_list_update)
  then show ?thesis
    using assms by (auto simp: assign_def modify_account_def set_owner_def update_borrowed_def res_simps split: if_splits)
qed

lemma nonce_effect_same_data:
  assumes "nonce_effect cr bc signers i ic ic1" and "map data (tx_accounts ic') = map data (tx_accounts ic1)"
    and "blockhash ic' = blockhash ic1"
  shows "nonce_effect cr bc signers i ic ic'"
proof -
  have "length (tx_accounts ic') = length (tx_accounts ic1)" using assms(2) by (rule map_eq_imp_length_eq)
  moreover have "data (tx_accounts ic' ! t) = data (tx_accounts ic1 ! t)" if "t < length (tx_accounts ic1)" for t
    using arg_cong [OF assms(2), of "\<lambda>l. l ! t"] that calculation by simp
  ultimately show ?thesis using assms(1,3) by (simp add: nonce_effect_def Let_def)
qed

lemma allocate_and_assign_effect:
  assumes "allocate_and_assign b addr space new_owner signers' ic = (Inr u, ic')"
  shows "nonce_effect cr bc signers i ic ic'"
  using assms
  by (auto simp: allocate_and_assign_def sbind_Inr_iff dest!: assign_data
      dest: allocate_effect [of _ _ _ _ _ _ _ cr bc signers i] intro: nonce_effect_same_data)

lemma transfer_verified_data:
  assumes "transfer_verified ctx i j n ic = (Inr u, ic')"
  shows "map data (tx_accounts ic') = map data (tx_accounts ic) \<and> blockhash ic' = blockhash ic"
  using assms by (rule transfer_verified_Inr) (simp add: moved_data)

lemma transfer_data:
  assumes "transfer ctx i j n ic = (Inr u, ic')"
  shows "map data (tx_accounts ic') = map data (tx_accounts ic) \<and> blockhash ic' = blockhash ic"
  using assms
  by (auto simp: transfer_def sbind_Inr_iff sread_Inr_iff sfail_iff split: if_splits dest: transfer_verified_data)

lemma transfer_with_seed_data:
  assumes "transfer_with_seed cr ctx i j seed from_owner k n ic = (Inr u, ic')"
  shows "map data (tx_accounts ic') = map data (tx_accounts ic) \<and> blockhash ic' = blockhash ic"
  using assms
  by (auto simp: transfer_with_seed_def sbind_Inr_iff sread_Inr_iff sfail_iff key_of_instruction_account_Inr
      split: if_splits dest: transfer_verified_data)

lemma create_account_nonce_effect:
  assumes "create_account ctx i j addr n space new_owner signers' ic = (Inr u, ic')"
  shows "nonce_effect cr bc signers instr ic ic'"
proof -
  from assms obtain b v ic1 where a: "allocate_and_assign b addr space new_owner signers' ic = (Inr v, ic1)"
    and t: "transfer ctx i j n ic1 = (Inr u, ic')"
    unfolding create_account_def by (auto simp: sbind_Inr_iff borrow_account_Inr read_account_Inr sfail_iff split: if_splits)
  show ?thesis
    using nonce_effect_same_data [OF allocate_and_assign_effect [OF a]] transfer_data [OF t] by simp
qed

lemma withdraw_nonce_account_effect:
  assumes "withdraw_nonce_account cr bc ctx i n j rent signers ic = (Inr u, ic')"
  shows "nonce_effect cr bc signers (WithdrawNonceAccount n) ic ic'"
proof -
  let ?f = "index_in_transaction (instruction_accounts ctx ! i)"
  let ?b = "\<lparr>ba_context = ctx, ba_index_in_transaction = ?f, ba_index_in_instruction = length (program_accounts ctx) + i\<rparr>"
  from assms obtain v signer ic1 where f: "?f < length (tx_accounts ic)"
    and v: "decode_versions bc (data (borrowed (transaction_context ic) ?b)) = Some v"
    and w: "withdraw_nonce_signer cr bc ?b n rent (versions_state v) ic = (Inr signer, ic1)"
    and sg: "signer \<in> signers"
    and m: "sbind (sub_lamports ?b n) (\<lambda>_. sbind (borrow_account ctx j) (\<lambda>to. add_lamports to n)) ic1 = (Inr u, ic')"
    unfolding withdraw_nonce_account_def
    by (auto simp: sbind_Inr_iff [where m = "borrow_account ctx i"] sbind_Inr_iff [where m = "get_state bc b" for b]
        sbind_Inr_iff [where m = "withdraw_nonce_signer cr bc b n rent st" for b st]
        borrow_account_Inr get_state_Inr sfail_iff split: if_splits)
  have e: "nonce_effect cr bc signers (WithdrawNonceAccount n) ic ic1" using w v sg by (rule withdraw_nonce_signer_effect)
  from m obtain t where "can_move ?f t n (tx_accounts ic1)"
    and "ic' = ic1\<lparr>transaction_context := (transaction_context ic1)\<lparr>accounts := moved ?f t n (tx_accounts ic1)\<rparr>\<rparr>"
    by (rule move_lamports_Inr) (use f e in \<open>auto simp: nonce_effect_def\<close>)
  then show ?thesis using nonce_effect_move [OF e] by simp
qed

lemma process_system_instruction_nonce_effect:
  assumes "process_system_instruction cr bc ctx signers instruction ic = (Inr u, ic')"
  shows "nonce_effect cr bc signers instruction ic ic'"
proof -
  have same: "nonce_effect cr bc signers i ic ic'"
    if "map data (tx_accounts ic') = map data (tx_accounts ic) \<and> blockhash ic' = blockhash ic" for i
    using that same_data_effect by blast
  show ?thesis
    using assms
    by (cases instruction) (auto simp: res_simps dest: advance_nonce_effect initialize_nonce_effect authorize_nonce_effect
        upgrade_nonce_effect allocate_effect allocate_and_assign_effect create_account_nonce_effect
        withdraw_nonce_account_effect assign_data transfer_data transfer_with_seed_data intro: same)
qed


section \<open>Properties\<close>

text \<open>
  C19: the system program conserves lamports: whatever instruction it accepts, the lamports of all
  the accounts of the transaction add up to the same number before and after.
\<close>

theorem system_conserves_lamports:
  assumes "system_process_instruction cr bc ic = (Inr u, ic')"
  shows "total_lamports ic' = total_lamports ic"
proof -
  from assms obtain ctx instruction where
    "process_system_instruction cr bc ctx (get_signers ctx (transaction_context ic)) instruction ic = (Inr u, ic')"
    by (auto simp: system_process_instruction_def sbind_Inr_iff sread_Inr_iff)
  then show ?thesis by (rule system_effect_total [OF process_system_instruction_effect])
qed

definition transfer_sample :: InvokeContext where
  "transfer_sample = sample_running [2] [sample_ia 0 0 True True, sample_ia 1 1 False True]
     [(11, sample_account 10 0), (12, sample_account 3 0), (0, sample_program native_loader_id)]"

lemma transfer_sample_runs:
  "\<exists>ic'. system_process_instruction sample_crypto (sample_codec (SystemInstruction.Transfer 4)) transfer_sample = (Inr (), ic') \<and>
     map lamports (tx_accounts ic') = [6, 7, 1]"
  by (simp add: transfer_sample_def run_simps)

theorem system_conserves_lamports_witness:
  "\<exists>ic'. system_process_instruction sample_crypto (sample_codec (SystemInstruction.Transfer 4)) transfer_sample = (Inr (), ic') \<and>
     map lamports (tx_accounts ic') = [6, 7, 1] \<and> total_lamports ic' = total_lamports transfer_sample"
proof -
  obtain ic' where r: "system_process_instruction sample_crypto (sample_codec (SystemInstruction.Transfer 4)) transfer_sample = (Inr (), ic')"
    and l: "map lamports (tx_accounts ic') = [6, 7, 1]" using transfer_sample_runs by (elim exE conjE)
  from system_conserves_lamports [OF r] r l show ?thesis by auto
qed

text \<open>
  C18: an account loses lamports to the system program only with a signature for it: its own, that
  of the base address it was derived from with the seed of the instruction, or, when it is an
  initialized nonce account, that of its nonce authority.
\<close>

theorem system_debit_authorized:
  assumes "get_current_instruction_context (transaction_context ic) = Inr ctx"
    and "decode_instruction bc (instruction_data ctx) = Some instruction"
    and "system_process_instruction cr bc ic = (Inr u, ic')"
    and "t < length (tx_accounts ic)" and "lamports (tx_accounts ic' ! t) < lamports (tx_accounts ic ! t)"
  shows "tx_keys ic ! t \<in> get_signers ctx (transaction_context ic) \<or>
    (\<exists>n seed seed_owner b. instruction = TransferWithSeed n seed seed_owner \<and>
       b \<in> get_signers ctx (transaction_context ic) \<and> create_with_seed cr b seed seed_owner = Inr (tx_keys ic ! t)) \<or>
    (\<exists>n v d. instruction = WithdrawNonceAccount n \<and> decode_versions bc (data (tx_accounts ic ! t)) = Some v \<and>
       versions_state v = Initialized d \<and> authority d \<in> get_signers ctx (transaction_context ic))"
proof -
  have "process_system_instruction cr bc ctx (get_signers ctx (transaction_context ic)) instruction ic = (Inr u, ic')"
    using assms(1-3) by (auto simp: system_process_instruction_def sbind_Inr_iff sread_Inr_iff)
  from system_effect_debit [OF process_system_instruction_effect [OF this] assms(4,5)]
  show ?thesis by (simp add: debit_allowed_def)
qed

lemma transfer_sample_context:
  "\<exists>ctx. get_current_instruction_context (transaction_context transfer_sample) = Inr ctx"
  by (simp add: transfer_sample_def run_simps)

lemma transfer_sample_before: "map lamports (tx_accounts transfer_sample) = [10, 3, 1] \<and> tx_keys transfer_sample = [11, 12, 0]"
  by (simp add: transfer_sample_def run_simps)

theorem system_debit_authorized_witness:
  "\<exists>ctx ic'. get_current_instruction_context (transaction_context transfer_sample) = Inr ctx \<and>
     system_process_instruction sample_crypto (sample_codec (SystemInstruction.Transfer 4)) transfer_sample = (Inr (), ic') \<and>
     lamports (tx_accounts ic' ! 0) < lamports (tx_accounts transfer_sample ! 0) \<and>
     tx_keys transfer_sample ! 0 \<in> get_signers ctx (transaction_context transfer_sample)"
proof -
  obtain ctx where c: "get_current_instruction_context (transaction_context transfer_sample) = Inr ctx"
    using transfer_sample_context by blast
  obtain ic' where r: "system_process_instruction sample_crypto (sample_codec (SystemInstruction.Transfer 4)) transfer_sample = (Inr (), ic')"
    and l: "map lamports (tx_accounts ic') = [6, 7, 1]" using transfer_sample_runs by (elim exE conjE)
  have len: "0 < length (tx_accounts transfer_sample)" "0 < length (tx_accounts ic')"
    using arg_cong [OF l, of length] transfer_sample_before by (auto dest: arg_cong [of _ _ length])
  have lt: "lamports (tx_accounts ic' ! 0) < lamports (tx_accounts transfer_sample ! 0)"
    using arg_cong [OF l, of hd] arg_cong [OF conjunct1 [OF transfer_sample_before], of hd] len
    by (simp add: hd_map hd_conv_nth)
  have d: "decode_instruction (sample_codec (SystemInstruction.Transfer 4)) (instruction_data ctx) = Some (SystemInstruction.Transfer 4)"
    by (simp add: sample_codec_def)
  show ?thesis using system_debit_authorized [OF c d r len(1) lt] c r lt by auto
qed

text \<open>
  C20: what the system program does to a nonce account is a transition of the nonce state machine.
  Let an account hold the encoding of a nonce state \<open>v\<close> before an accepted instruction. Then its data
  are the same afterwards, or they are the encoding of a state \<open>v'\<close> in front of the rest of the old
  data, and \<open>v\<close> to \<open>v'\<close> is a step that this instruction labels, under the blockhash and the fee of
  the transaction and with the keys that signed the instruction: the authority signs to advance, to
  hand over and to close, a nonce of the current blockhash neither advances nor is closed, and a
  legacy state is upgraded by hashing its nonce once more. The decoder reads back what the encoder
  wrote.
\<close>

theorem nonce_account_transition:
  assumes "get_current_instruction_context (transaction_context ic) = Inr ctx"
    and "decode_instruction bc (instruction_data ctx) = Some instruction"
    and "system_process_instruction cr bc ic = (Inr u, ic')" and "nonce_codec_ok bc"
    and "t < length (tx_accounts ic)" and "data (tx_accounts ic ! t) \<noteq> []"
    and "decode_versions bc (data (tx_accounts ic ! t)) = Some v"
  shows "data (tx_accounts ic' ! t) = data (tx_accounts ic ! t) \<or>
    (\<exists>v'. nonce_step cr (blockhash ic) (lamports_per_signature ic) (get_signers ctx (transaction_context ic)) instruction v v' \<and>
       data (tx_accounts ic' ! t) = encode_versions bc v' @ drop (length (encode_versions bc v')) (data (tx_accounts ic ! t)) \<and>
       decode_versions bc (data (tx_accounts ic' ! t)) = Some v')"
proof -
  from assms(1-3) have
    "process_system_instruction cr bc ctx (get_signers ctx (transaction_context ic)) instruction ic = (Inr u, ic')"
    by (auto simp: system_process_instruction_def sbind_Inr_iff sread_Inr_iff)
  from process_system_instruction_nonce_effect [OF this] assms(4-7) show ?thesis
    unfolding nonce_effect_def nonce_codec_ok_def Let_def by fastforce
qed

text \<open>An invertible codec for nonce states: a tag byte, then the fields.\<close>

fun sample_encode :: "Versions \<Rightarrow> bytes" where
  "sample_encode (Legacy State.Uninitialized) = [0]"
| "sample_encode (Current State.Uninitialized) = [1]"
| "sample_encode (Legacy (Initialized d)) = [2] @ to_bytes (authority d) @ to_bytes (durable_nonce d) @ u64_to_le_bytes (fee_calculator d)"
| "sample_encode (Current (Initialized d)) = [3] @ to_bytes (authority d) @ to_bytes (durable_nonce d) @ u64_to_le_bytes (fee_calculator d)"

definition sample_decode :: "bytes \<Rightarrow> Versions option" where
  "sample_decode bs =
     (let d = \<lparr>authority = new_from_array (slice 1 32 bs), durable_nonce = new_from_array (slice 33 32 bs),
               fee_calculator = u64_from_le_bytes (slice 65 8 bs)\<rparr>
      in if bs = [] then None
         else if hd bs = 0 then Some (Legacy State.Uninitialized)
         else if hd bs = 1 then Some (Current State.Uninitialized)
         else if hd bs = 2 then Some (Legacy (Initialized d))
         else if hd bs = 3 then Some (Current (Initialized d))
         else None)"

definition nonce_sample_codec :: "SystemInstruction \<Rightarrow> system_codec" where
  "nonce_sample_codec i = \<lparr>decode_instruction = (\<lambda>_. Some i), encode_instruction = (\<lambda>_. []),
     decode_versions = sample_decode, encode_versions = sample_encode\<rparr>"

lemma sample_decode_encode: "sample_decode (sample_encode v @ rest) = Some v"
  by (cases v rule: sample_encode.cases) (auto simp: sample_decode_def slice_def Let_def)

lemma length_sample_encode: "length (sample_encode (Current (Initialized d))) = 73"
  by simp

lemma nonce_sample_codec_ok: "nonce_codec_ok (nonce_sample_codec i)"
  by (simp add: nonce_codec_ok_def nonce_sample_codec_def sample_decode_encode)

definition nonce_sample :: InvokeContext where
  "nonce_sample = sample_running [2] [sample_ia 0 0 False True, sample_ia 1 1 False False, sample_ia 3 2 False False]
     [(11, (sample_account 10000000 0)\<lparr>data := replicate 80 1\<rparr>), (recent_blockhashes_sysvar_id, sample_account 1 0),
      (0, sample_program native_loader_id), (rent_sysvar_id, sample_account 1 0)]"

lemma nonce_sample_rent: "unat (minimum_balance rent_default 80) = 1447680"
  by (subst minimum_balance_two_years) (simp_all add: rent_default_def)

lemma nonce_sample_runs:
  "\<exists>ic'. system_process_instruction sample_crypto (nonce_sample_codec (InitializeNonceAccount 5)) nonce_sample = (Inr (), ic')"
proof -
  have "\<not> 10000000 < minimum_balance rent_default 80" by (simp add: word_less_nat_alt nonce_sample_rent)
  then show ?thesis
    by (simp add: nonce_sample_def nonce_sample_codec_def run_simps initialize_nonce_account_def get_state_def sample_decode_def
        sysvar_rent_checked_def recent_blockhashes_sysvar_id_def rent_sysvar_id_def set_state_def versions_new_def data_new_def)
qed

theorem nonce_account_transition_witness:
  "\<exists>ctx ic'. get_current_instruction_context (transaction_context nonce_sample) = Inr ctx \<and>
     system_process_instruction sample_crypto (nonce_sample_codec (InitializeNonceAccount 5)) nonce_sample = (Inr (), ic') \<and>
     (data (tx_accounts ic' ! 0) = data (tx_accounts nonce_sample ! 0) \<or>
      (\<exists>v'. nonce_step sample_crypto (blockhash nonce_sample) (lamports_per_signature nonce_sample)
         (get_signers ctx (transaction_context nonce_sample)) (InitializeNonceAccount 5) (Current State.Uninitialized) v' \<and>
         sample_decode (data (tx_accounts ic' ! 0)) = Some v'))"
proof -
  let ?bc = "nonce_sample_codec (InitializeNonceAccount 5)"
  obtain ic' where r: "system_process_instruction sample_crypto ?bc nonce_sample = (Inr (), ic')"
    using nonce_sample_runs by (elim exE)
  then obtain ctx where c: "get_current_instruction_context (transaction_context nonce_sample) = Inr ctx"
    by (auto simp: system_process_instruction_def sbind_Inr_iff sread_Inr_iff)
  have d: "decode_instruction ?bc (instruction_data ctx) = Some (InitializeNonceAccount 5)" by (simp add: nonce_sample_codec_def)
  have s: "0 < length (tx_accounts nonce_sample)" "data (tx_accounts nonce_sample ! 0) \<noteq> []"
    "decode_versions ?bc (data (tx_accounts nonce_sample ! 0)) = Some (Current State.Uninitialized)"
    by (simp_all add: nonce_sample_def run_simps nonce_sample_codec_def sample_decode_def)
  have v: "decode_versions ?bc = sample_decode" by (simp add: nonce_sample_codec_def)
  from nonce_account_transition [OF c d r nonce_sample_codec_ok s] c r show ?thesis unfolding v by blast
qed

text \<open>
  C21: a nonce advances once per blockhash: if advancing a nonce account succeeds, then doing it
  again under the same blockhash fails with \<open>NotExpired\<close>, so that one blockhash yields one durable
  nonce. The decoder reads back what the encoder wrote.
\<close>

theorem nonce_advances_once:
  assumes "process_system_instruction cr bc ctx signers AdvanceNonceAccount ic = (Inr u, ic')" and "nonce_codec_ok bc"
  shows "process_system_instruction cr bc ctx signers AdvanceNonceAccount ic' =
    (Inl (nonce_to_instruction_error NotExpired (is_active merge_nonce_error_into_system_error ic)), ic')"
proof -
  let ?f = "index_in_transaction (instruction_accounts ctx ! 0)"
  let ?b = "\<lparr>ba_context = ctx, ba_index_in_transaction = ?f, ba_index_in_instruction = length (program_accounts ctx)\<rparr>"
  from assms(1) obtain hs where run: "advance_nonce_account cr bc ?b signers ic = (Inr u, ic')"
    and g: "1 < length (instruction_accounts ctx)" "?f < length (tx_accounts ic)" "hs \<noteq> []"
      "index_in_transaction (instruction_accounts ctx ! 1) < length (tx_keys ic)"
      "tx_keys ic ! index_in_transaction (instruction_accounts ctx ! 1) = recent_blockhashes_sysvar_id"
      "sysvar_recent_blockhashes (sysvar_cache ic) = Some hs"
    by (auto simp: res_simps)
  have w: "ba_is_writable ?b"
    using run by (auto simp: advance_nonce_account_def sfail_iff split: if_split_asm)
  from run obtain d :: Data where auth: "authority d \<in> signers"
    and st: "set_state bc ?b (Current (Initialized (data_new (authority d) (from_blockhash cr (blockhash ic))
      (lamports_per_signature ic)))) ic = (Inr u, ic')"
    by (rule advance_nonce_Inr) auto
  have ic': "tx_keys ic' = tx_keys ic" "sysvar_cache ic' = sysvar_cache ic" "blockhash ic' = blockhash ic"
    "feature_set ic' = feature_set ic" "length (tx_accounts ic') = length (tx_accounts ic)"
    using st by (auto simp: set_state_Inr)
  have "decode_versions bc (data (tx_accounts ic' ! ?f)) =
      Some (Current (Initialized (data_new (authority d) (from_blockhash cr (blockhash ic)) (lamports_per_signature ic))))"
    using st g(2) assms(2) unfolding nonce_codec_ok_def by (auto simp: set_state_Inr update_borrowed_def)
  then have "advance_nonce_account cr bc ?b signers ic' =
      (Inl (nonce_to_instruction_error NotExpired (is_active merge_nonce_error_into_system_error ic)), ic')"
    using w auth by (simp add: advance_nonce_account_def get_state_def sbind_def sread_def ic' Let_def)
  then show ?thesis
    using g ic' by (auto simp: action_defs context_defs system_run_defs)
qed

text \<open>An initialized nonce of authority 5 that holds the nonce 9.\<close>

definition advance_sample :: InvokeContext where
  "advance_sample = sample_running [2] [sample_ia 0 0 False True, sample_ia 1 1 False False]
     [(11, (sample_account 10000000 0)\<lparr>data := sample_encode (Current (Initialized (data_new 5 9 5000)))\<rparr>),
      (recent_blockhashes_sysvar_id, sample_account 1 0), (0, sample_program native_loader_id)]"

definition sample_ctx :: "nat list \<Rightarrow> InstructionAccount list \<Rightarrow> InstructionContext" where
  "sample_ctx program_indices ias =
     \<lparr>nesting_level = 0, program_accounts = program_indices, instruction_accounts = ias, instruction_data = []\<rparr>"

definition hash_sample :: crypto where
  "hash_sample = \<lparr>sha256 = (\<lambda>_. 77), bytes_are_curve_point = (\<lambda>_. False)\<rparr>"

lemma advance_sample_runs:
  "\<exists>ic'. process_system_instruction hash_sample (nonce_sample_codec AdvanceNonceAccount)
     (sample_ctx [2] [sample_ia 0 0 False True, sample_ia 1 1 False False]) {5} AdvanceNonceAccount advance_sample = (Inr (), ic')"
  using sample_decode_encode [of "Current (Initialized (data_new 5 9 5000))" "[]"]
  by (simp add: advance_sample_def sample_ctx_def nonce_sample_codec_def run_simps advance_nonce_account_def get_state_def
      recent_blockhashes_sysvar_id_def set_state_def versions_new_def hash_sample_def from_blockhash_def
      length_sample_encode Let_def del: sample_encode.simps)

theorem nonce_advances_once_witness:
  "\<exists>ic'. process_system_instruction hash_sample (nonce_sample_codec AdvanceNonceAccount)
       (sample_ctx [2] [sample_ia 0 0 False True, sample_ia 1 1 False False]) {5} AdvanceNonceAccount advance_sample = (Inr (), ic') \<and>
     process_system_instruction hash_sample (nonce_sample_codec AdvanceNonceAccount)
       (sample_ctx [2] [sample_ia 0 0 False True, sample_ia 1 1 False False]) {5} AdvanceNonceAccount ic' =
     (Inl (InstructionError.Custom 1), ic')"
proof -
  obtain ic' where r: "process_system_instruction hash_sample (nonce_sample_codec AdvanceNonceAccount)
     (sample_ctx [2] [sample_ia 0 0 False True, sample_ia 1 1 False False]) {5} AdvanceNonceAccount advance_sample = (Inr (), ic')"
    using advance_sample_runs by (elim exE)
  have "\<not> is_active merge_nonce_error_into_system_error advance_sample"
    by (simp add: advance_sample_def run_simps)
  then show ?thesis
    using nonce_advances_once [OF r nonce_sample_codec_ok] r by (simp add: nonce_to_instruction_error_def)
qed

text \<open>
  C22: creating an account succeeds when it should: the new address is unused (no lamports, no data,
  owned by the system program), both sides sign, the size is within bounds and the payer, an account
  without data, can afford it. The new account then has exactly the lamports, the zeroed data and
  the owner asked for, the payer has paid them, and no other account changed.
\<close>

theorem create_account_succeeds:
  assumes "2 \<le> length (instruction_accounts ctx)"
    and "f = index_in_transaction (instruction_accounts ctx ! 0)" and "t = index_in_transaction (instruction_accounts ctx ! 1)"
    and "length (tx_keys ic) = length (tx_accounts ic)" and "f < length (tx_accounts ic)" and "t < length (tx_accounts ic)"
    and "f \<noteq> t"
    and "ia_is_signer (instruction_accounts ctx ! 0)" and "tx_keys ic ! t \<in> signers"
    and "lamports (tx_accounts ic ! t) = 0" and "data (tx_accounts ic ! t) = []"
    and "owner (tx_accounts ic ! t) = system_program_id"
    and "unat space \<le> 10485760" and "data (tx_accounts ic ! f) = []" and "n \<le> lamports (tx_accounts ic ! f)"
  shows "\<exists>ic'. process_system_instruction cr bc ctx signers (CreateAccount n space new_owner) ic = (Inr (), ic') \<and>
    tx_accounts ic' = (tx_accounts ic)
      [f := (tx_accounts ic ! f)\<lparr>lamports := lamports (tx_accounts ic ! f) - n\<rparr>,
       t := (tx_accounts ic ! t)\<lparr>lamports := n, data := replicate (unat space) 0, owner := new_owner\<rparr>]"
proof -
  have space: "\<not> 10485760 < space" using assms(13) by (simp add: word_less_nat_alt)
  have n: "unat n < 18446744073709551616" by simp
  have idx: "index_in_transaction (instruction_accounts ctx ! 0) = f" "index_in_transaction (instruction_accounts ctx ! Suc 0) = t"
    using assms(2,3) by simp_all
  let ?b = "\<lparr>ba_context = ctx, ba_index_in_transaction = t, ba_index_in_instruction = Suc (length (program_accounts ctx))\<rparr>"
  define ic1 where "ic1 = ic\<lparr>transaction_context := set_data ?b (replicate (unat space) 0) (transaction_context ic)\<rparr>"
  define ic2 where "ic2 = (if owner (tx_accounts ic1 ! t) = new_owner then ic1
    else ic1\<lparr>transaction_context := set_owner ?b new_owner (transaction_context ic1)\<rparr>)"
  have owned: "(tx_accounts ic ! t)\<lparr>data := d, owner := system_program_id\<rparr> = (tx_accounts ic ! t)\<lparr>data := d\<rparr>" for d
    using assms(12) by (cases "tx_accounts ic ! t") simp
  have acc2: "tx_accounts ic2 = (tx_accounts ic)[t := (tx_accounts ic ! t)\<lparr>data := replicate (unat space) 0, owner := new_owner\<rparr>]"
    using assms(6,12) by (auto simp: ic2_def ic1_def set_owner_def update_borrowed_def owned)
  have keys2: "feature_set ic2 = feature_set ic" "length (tx_accounts ic2) = length (tx_accounts ic)"
    by (simp_all add: ic2_def ic1_def set_owner_def)
  have created: "allocate_and_assign ?b \<lparr>addr_address = tx_keys ic ! t, addr_base = None\<rparr> space new_owner signers ic = (Inr (), ic2)"
    using assms(9,11,12) space
    by (simp add: allocate_and_assign_def allocate_def assign_def address_is_signer_def MAX_PERMITTED_DATA_LENGTH_def
        read_account_def modify_account_def action_defs ic2_def ic1_def)
  have moved: "\<exists>ic'. transfer ctx 0 1 n ic2 = (Inr (), ic') \<and> tx_accounts ic' = (tx_accounts ic2)
      [f := (tx_accounts ic2 ! f)\<lparr>lamports := lamports (tx_accounts ic2 ! f) - n\<rparr>,
       t := (tx_accounts ic2 ! t)\<lparr>lamports := lamports (tx_accounts ic2 ! t) + n\<rparr>]"
  proof (cases "\<not> is_active system_transfer_zero_check ic2 \<and> n = 0")
    case True
    have "(tx_accounts ic ! t)\<lparr>data := d, owner := k, lamports := 0\<rparr> = (tx_accounts ic ! t)\<lparr>data := d, owner := k\<rparr>" for d k
      using assms(10) by (cases "tx_accounts ic ! t") simp
    then show ?thesis
      using True assms(5-7,10) by (auto simp: transfer_def acc2 nth_list_update_if intro!: nth_equalityI)
  next
    case False
    then show ?thesis
      using assms(1,5-8,10,14,15) n keys2
      by (auto simp: action_defs context_defs transfer_def transfer_verified_def borrow_account_def read_account_def
          sub_lamports_def add_lamports_def acc2 not_less nth_list_update_if idx)
  qed
  have "process_system_instruction cr bc ctx signers (CreateAccount n space new_owner) ic = transfer ctx 0 1 n ic2"
    using assms(1,4,6,10) created
    by (auto simp: action_defs check_accounts_def check_number_of_instruction_accounts_def instruction_address_def
        key_of_instruction_account_def address_create_def create_account_def borrow_account_def read_account_def
        try_borrow_instruction_account_def try_borrow_account_def get_index_of_instruction_account_in_transaction_def
        get_key_of_account_at_index_def get_def idx)
  moreover have order: "a\<lparr>data := d, owner := k, lamports := n\<rparr> = a\<lparr>lamports := n, data := d, owner := k\<rparr>" for a :: Account and d k
    by (cases a) simp
  have "(tx_accounts ic2)[f := (tx_accounts ic2 ! f)\<lparr>lamports := lamports (tx_accounts ic2 ! f) - n\<rparr>,
       t := (tx_accounts ic2 ! t)\<lparr>lamports := lamports (tx_accounts ic2 ! t) + n\<rparr>] =
     (tx_accounts ic)[f := (tx_accounts ic ! f)\<lparr>lamports := lamports (tx_accounts ic ! f) - n\<rparr>,
       t := (tx_accounts ic ! t)\<lparr>lamports := n, data := replicate (unat space) 0, owner := new_owner\<rparr>]"
    using assms(5-7,10) by (auto simp: acc2 nth_list_update_if order intro!: nth_equalityI)
  ultimately show ?thesis using moved by simp
qed

definition create_sample :: InvokeContext where
  "create_sample = sample_running [2] [sample_ia 0 0 True True, sample_ia 1 1 True True]
     [(11, sample_account 10 0), (12, sample_account 0 0), (0, sample_program native_loader_id)]"

theorem create_account_succeeds_witness:
  "\<exists>ic'. process_system_instruction sample_crypto (sample_codec AdvanceNonceAccount)
       (sample_ctx [2] [sample_ia 0 0 True True, sample_ia 1 1 True True]) {11, 12} (CreateAccount 4 3 99) create_sample = (Inr (), ic') \<and>
     tx_accounts ic' ! 1 = (sample_account 4 99)\<lparr>data := [0, 0, 0]\<rparr> \<and> lamports (tx_accounts ic' ! 0) = 6"
proof -
  let ?ctx = "sample_ctx [2] [sample_ia 0 0 True True, sample_ia 1 1 True True]"
  have "\<exists>ic'. process_system_instruction sample_crypto (sample_codec AdvanceNonceAccount) ?ctx {11, 12} (CreateAccount 4 3 99) create_sample = (Inr (), ic') \<and>
    tx_accounts ic' = (tx_accounts create_sample)
      [0 := (tx_accounts create_sample ! 0)\<lparr>lamports := lamports (tx_accounts create_sample ! 0) - 4\<rparr>,
       1 := (tx_accounts create_sample ! 1)\<lparr>lamports := 4, data := replicate (unat (3 :: u64)) 0, owner := 99\<rparr>]"
    by (rule create_account_succeeds)
      (simp_all add: sample_ctx_def create_sample_def run_simps system_program_id_def)
  then obtain ic' where r: "process_system_instruction sample_crypto (sample_codec AdvanceNonceAccount) ?ctx {11, 12} (CreateAccount 4 3 99) create_sample = (Inr (), ic')"
    and a: "tx_accounts ic' = (tx_accounts create_sample)
      [0 := (tx_accounts create_sample ! 0)\<lparr>lamports := lamports (tx_accounts create_sample ! 0) - 4\<rparr>,
       1 := (tx_accounts create_sample ! 1)\<lparr>lamports := 4, data := replicate (unat (3 :: u64)) 0, owner := 99\<rparr>]"
    by (elim exE conjE)
  have "tx_accounts ic' ! 1 = (sample_account 4 99)\<lparr>data := [0, 0, 0]\<rparr> \<and> lamports (tx_accounts ic' ! 0) = 6"
    unfolding a by (simp add: create_sample_def run_simps) (simp add: numeral_3_eq_3)
  with r show ?thesis by (intro exI [of _ ic']) (elim conjE, intro conjI)
qed

end
