(* ===== verification/RuntimeMeter.thy ===== *)
theory RuntimeMeter
  imports RuntimeStack
begin

text \<open>
  What the processing of an instruction leaves alone. A relation between contexts that does not
  look at the accounts, the stacks and the copies of the accounts is kept by every operation of the
  runtime (locale \<open>outer_relation\<close>); if consuming units keeps it as well, so does a whole
  instruction with all its cross-program invocations (locale \<open>instruction_relation\<close>). The
  instances say that nothing but the program itself changes the compute meter, that the meter never
  grows, and that the configuration of the runtime never changes.
\<close>

locale outer_relation = state_preorder R
  for R :: "InvokeContext \<Rightarrow> InvokeContext \<Rightarrow> bool" +
  assumes upd_transaction_context: "R ic (ic\<lparr>transaction_context := tc\<rparr>)"
    and upd_invoke_stack: "R ic (ic\<lparr>invoke_stack := st\<rparr>)"
    and upd_syscall_context: "R ic (ic\<lparr>syscall_context := sc\<rparr>)"
    and upd_pre_accounts: "R ic (ic\<lparr>pre_accounts := ps\<rparr>)"
    and upd_current_compute_budget: "R ic (ic\<lparr>current_compute_budget := b\<rparr>)"
    and upd_accounts_data_meter: "R ic (ic\<lparr>accounts_data_meter := m\<rparr>)"
begin

lemma stable_meter_data_len: "stable R (\<lambda>ic. meter_data_len (f ic) b ic)"
  by (auto simp: stable_def meter_data_len_def Let_def upd_accounts_data_meter refl split: if_splits sum.splits)

lemma stable_verify_accounts: "stable R (verify_accounts pid i ias k s t)"
  by (induction pid i ias k s t rule: verify_accounts.induct)
    (auto intro!: stable_intros stable_meter_data_len)

lemma stable_verify: "stable R (verify ias pidx)"
  unfolding verify_def by (auto intro!: stable_intros stable_verify_accounts split: prod.splits)

lemma stable_update_account: "stable R (update_account pid w a j s t)"
  unfolding update_account_def
  by (intro stable_intros stable_meter_data_len) (auto simp: upd_pre_accounts refl)

lemma stable_update_found:
  "stable R (\<lambda>ic. case find_position (\<lambda>p. k = pre_key p) (pre_accounts ic) of
      None \<Rightarrow> (Ok (s, t), ic) | Some j \<Rightarrow> update_account pid w a j s t ic)"
  by (auto simp: stable_def refl split: option.splits dest: stableD [OF stable_update_account])

lemma stable_update_accounts: "stable R (update_accounts ctx pid b i ias s t)"
proof (induction ias arbitrary: i s t)
  case (Cons ia ias)
  show ?case
    unfolding update_accounts.simps
    by (intro stable_if stable_if_state Cons.IH stable_sbind stable_sread stable_update_found)
      (simp add: Cons.IH split: prod.splits)
qed (simp add: stable_sret)

lemma stable_verify_and_update: "stable R (verify_and_update ias b)"
  unfolding verify_and_update_def
  by (intro stable_sbind stable_sread stable_update_accounts)
    (simp add: stable_sret stable_sfail split: prod.splits)

lemma stable_take_pre_accounts: "stable R (take_pre_accounts i ias)"
proof (induction ias arbitrary: i)
  case (Cons ia ias)
  show ?case
    unfolding take_pre_accounts.simps by (intro stable_intros Cons.IH) (rule upd_pre_accounts)
qed (simp add: stable_sret)

lemma stable_push_transaction_context: "stable R (push_transaction_context ias pidx input)"
  by (auto simp: stable_def push_transaction_context_def upd_transaction_context split: prod.splits)

lemma stable_enter:
  "stable R (\<lambda>ic. if get_stack_height ic = 0
     then take_pre_accounts 0 ias (ic\<lparr>current_compute_budget := compute_budget ic, pre_accounts := []\<rparr>)
     else (check_reentrancy (transaction_context ic) pid, ic))"
  using trans [OF trans [OF upd_current_compute_budget upd_pre_accounts]]
  by (auto simp: stable_def refl dest: stableD [OF stable_take_pre_accounts])

lemma stable_push: "stable R (push ias pidx input)"
  unfolding push_def
  by (intro stable_sbind stable_sread stable_enter stable_push_transaction_context stable_smodify
      trans [OF upd_invoke_stack upd_syscall_context])

lemma stable_pop: "stable R pop"
proof -
  have "R ic (ic\<lparr>syscall_context := sc, invoke_stack := st, transaction_context := tc\<rparr>)" for ic sc st tc
    using trans [OF trans [OF upd_syscall_context upd_invoke_stack] upd_transaction_context] by simp
  moreover have "R ic (ic\<lparr>syscall_context := sc, invoke_stack := st\<rparr>)" for ic sc st
    using trans [OF upd_syscall_context upd_invoke_stack] by simp
  ultimately show ?thesis by (auto simp: stable_def pop_def Let_def split: sum.splits)
qed

lemma stable_record_caller: "R ic (record_caller ias pidx input ic)"
  by (simp add: record_caller_def upd_transaction_context refl)

lemma stable_and_pop:
  assumes "stable R m"
  shows "stable R (and_pop m)"
  unfolding stable_def and_pop_def
  by (auto split: prod.splits dest!: stableD [OF assms] stableD [OF stable_pop] intro: trans)

end

locale instruction_relation = outer_relation +
  assumes stable_consume: "stable R (consume n)"
begin

lemma stable_write: "stable R (write_instruction_account i a)"
  unfolding write_instruction_account_def by (intro stable_intros upd_transaction_context)

lemma stable_set_program_return_data: "stable R (set_program_return_data bs)"
  unfolding set_program_return_data_def by (intro stable_intros upd_transaction_context)

lemma stable_run_prog:
  assumes "\<And>ix signers. stable R (invoke ix signers)"
  shows "stable R (run_prog invoke p)"
proof (induction p)
  case (Invoke ix signers k)
  have "stable R (\<lambda>ic. run_prog invoke (k ic) ic)"
    using Invoke by (auto simp: stable_def)
  then show ?case by (auto intro: stable_sbind assms)
qed (auto intro!: stable_intros stable_write stable_set_program_return_data stable_consume)

lemma stable_run_builtin:
  assumes "\<And>ix signers. stable R (invoke ix signers)"
  shows "stable R (run_builtin invoke entry n pid)"
  unfolding stable_def run_builtin_def Let_def
  by (auto split: prod.splits dest!: stableD [OF stable_run_prog [OF assms]]
      intro: trans [OF upd_transaction_context])

lemma stable_process_executable_chain:
  assumes "\<And>ix signers. stable R (invoke ix signers)"
  shows "stable R (process_executable_chain builtins invoke)"
  unfolding process_executable_chain_def split_beta
  by (intro stable_intros stable_run_builtin assms)

lemma stable_process_instruction_with:
  assumes "\<And>ix signers. stable R (invoke ix signers)"
  shows "stable R (process_instruction_with builtins invoke input ias pidx)"
proof -
  have "stable R (sbind (if top then sret ()
      else sbind (verify_and_update ias True) (\<lambda>_. smodify (record_caller ias pidx input)))
        (\<lambda>_. sbind (push ias pidx input) (\<lambda>_. and_pop (sbind (process_executable_chain builtins invoke) (\<lambda>units.
           sbind (if top then verify ias pidx else verify_and_update ias False) (\<lambda>_. sret units))))))" for top
    by (intro stable_sbind stable_intros stable_push stable_and_pop stable_process_executable_chain assms
        stable_verify stable_verify_and_update stable_record_caller)
  then show ?thesis
    unfolding stable_def process_instruction_with_def Let_def by blast
qed

lemma stable_native_invoke_with:
  assumes "\<And>input ias pidx. stable R (process input ias pidx)"
  shows "stable R (native_invoke_with loader_state process ix signers)"
  unfolding native_invoke_with_def split_beta by (intro stable_intros assms)

lemma stable_process_nested: "stable R (process_nested loader_state builtins n input ias pidx)"
proof (induction n arbitrary: input ias pidx)
  case (Suc n)
  then show ?case by (simp add: stable_process_instruction_with stable_native_invoke_with)
qed (simp add: stable_sfail)

lemma stable_process_instruction: "stable R (process_instruction loader_state builtins input ias pidx)"
  unfolding process_instruction_def stable_def using stableD [OF stable_process_nested] by blast

end


section \<open>The compute meter and the configuration\<close>

interpretation same_meter: outer_relation "\<lambda>ic ic'. compute_meter ic' = compute_meter ic"
  by unfold_locales auto

interpretation meter_falls: instruction_relation "\<lambda>ic ic'. compute_meter ic' \<le> compute_meter ic"
proof unfold_locales
  show "stable (\<lambda>ic ic'. compute_meter ic' \<le> compute_meter ic) (consume n)" for n
    by (auto simp: stable_def consume_def compute_meter_consume_def word_le_nat_alt unat_saturating_sub
        split: prod.splits)
qed auto

interpretation configuration: instruction_relation
  "\<lambda>ic ic'. feature_set ic' = feature_set ic \<and> compute_budget ic' = compute_budget ic \<and> ic_rent ic' = ic_rent ic \<and>
     sysvar_cache ic' = sysvar_cache ic \<and> blockhash ic' = blockhash ic \<and>
     lamports_per_signature ic' = lamports_per_signature ic"
proof unfold_locales
  show "stable (\<lambda>ic ic'. feature_set ic' = feature_set ic \<and> compute_budget ic' = compute_budget ic \<and>
      ic_rent ic' = ic_rent ic \<and> sysvar_cache ic' = sysvar_cache ic \<and> blockhash ic' = blockhash ic \<and>
      lamports_per_signature ic' = lamports_per_signature ic) (consume n)" for n
    by (auto simp: stable_def consume_def split: prod.splits)
qed auto

lemma process_executable_chain_units:
  "process_executable_chain builtins invoke ic = (Inr u, ic') \<Longrightarrow>
     u = saturating_sub (compute_meter ic) (compute_meter ic')"
  by (auto simp: process_executable_chain_def run_builtin_def Let_def res_simps case_prod_beta)

lemma and_pop_units:
  assumes "and_pop (sbind (process_executable_chain builtins invoke) (\<lambda>units. sbind m (\<lambda>_. sret units))) ic = (Inr u, ic')"
    and "stable (\<lambda>ic ic'. compute_meter ic' = compute_meter ic) m"
  shows "u = saturating_sub (compute_meter ic) (compute_meter ic')"
  using assms(1)
  by (auto simp: and_pop_def res_simps split: prod.splits sum.splits
      dest!: process_executable_chain_units stableD [OF assms(2)] stableD [OF same_meter.stable_pop])

text \<open>The units that an instruction reports are what the meter lost.\<close>

lemma process_instruction_units:
  assumes "process_instruction loader_state builtins input ias pidx ic = (Inr u, ic')"
  shows "u = saturating_sub (compute_meter ic) (compute_meter ic')"
proof -
  let ?top = "get_stack_height ic = 0"
  let ?before = "if ?top then sret () else sbind (verify_and_update ias True) (\<lambda>_. smodify (record_caller ias pidx input))"
  let ?after = "if ?top then verify ias pidx else verify_and_update ias False"
  have before: "stable (\<lambda>ic ic'. compute_meter ic' = compute_meter ic) ?before"
    by (intro same_meter.stable_intros same_meter.stable_verify_and_update same_meter.stable_record_caller)
  have after: "stable (\<lambda>ic ic'. compute_meter ic' = compute_meter ic) ?after"
    by (intro same_meter.stable_if same_meter.stable_verify_and_update same_meter.stable_verify)
  from assms obtain n v1 ic1 v2 ic2 where
    "?before ic = (Inr v1, ic1)" and "push ias pidx input ic1 = (Inr v2, ic2)"
    and "and_pop (sbind (process_executable_chain builtins
        (native_invoke_with loader_state (process_nested loader_state builtins n)))
        (\<lambda>units. sbind ?after (\<lambda>_. sret units))) ic2 = (Inr u, ic')"
    unfolding process_instruction_def process_nested.simps process_instruction_with_def Let_def sbind_Inr_iff
    by blast
  then show ?thesis
    using stableD [OF before] stableD [OF same_meter.stable_push] and_pop_units [OF _ after] by metis
qed

end
