(* ===== verification/MessageProcessor.thy ===== *)
theory MessageProcessor
  imports RuntimeSafety RuntimeMeter Message
begin

text \<open>
  Processing of a message (\<open>runtime/src/message_processor.rs\<close>): every instruction of the message
  is a top-level instruction over the accounts of the transaction, in order, and the first failure
  ends the transaction. The message is a legacy message. An \<open>expect\<close> or a slice out of range is
  the fault \<open>Panics\<close>. The units consumed so far are a second component of the state, because the
  source accumulates them for a failing instruction too.
\<close>

definition secp256k1_program_id :: Pubkey where
  "secp256k1_program_id = 0x04c6fc20f050ccf05584d7211c9f8cf59ec14785bb166a1e2830e81220000000"

definition ed25519_program_id :: Pubkey where
  "ed25519_program_id = 0x037d46d67c93fbbe12f9428f838d40ff0570744927f48a64fcca704480000000"

definition PRECOMPILES :: "(Pubkey \<times> Feature option) list" where
  "PRECOMPILES =
     [(secp256k1_program_id, Some prevent_calling_precompiles_as_programs),
      (ed25519_program_id, Some prevent_calling_precompiles_as_programs)]"

definition is_precompile :: "Pubkey \<Rightarrow> (Feature \<Rightarrow> bool) \<Rightarrow> bool" where
  "is_precompile program_id enabled =
     list_ex (\<lambda>(i, f). (case f of None \<Rightarrow> True | Some f \<Rightarrow> enabled f) \<and> i = program_id) PRECOMPILES"

datatype MessageFault = Failed TransactionError | Panics

type_synonym 'a MPM = "(InvokeContext \<times> u64, MessageFault, 'a) action"

text \<open>\<open>data.len() - 2\<close> wraps on shorter data, and the slice that starts there is out of range.\<close>

definition store_current_index :: "bytes \<Rightarrow> u16 \<Rightarrow> bytes option" where
  "store_current_index bs i = (if length bs < 2 then None else Some (take (length bs - 2) bs @ u16_to_le_bytes i))"

definition fix_instructions_sysvar :: "nat \<Rightarrow> (InvokeContext, MessageFault, unit) action" where
  "fix_instructions_sysvar index ic =
     (let tc = transaction_context ic in
      case find_index_of_account tc instructions_sysvar_id of
        None \<Rightarrow> (Ok (), ic)
      | Some i \<Rightarrow>
          (case get_account_at_index tc i of
             Inl _ \<Rightarrow> (Inl (Failed InvalidAccountIndex), ic)
           | Inr a \<Rightarrow>
               (case store_current_index (data a) (word_of_nat index) of
                  None \<Rightarrow> (Inl Panics, ic)
                | Some bs \<Rightarrow> (Ok (), ic\<lparr>transaction_context := tc\<lparr>accounts := (accounts tc)[i := a\<lparr>data := bs\<rparr>]\<rparr>\<rparr>))))"

fun message_instruction_accounts :: "Message \<Rightarrow> u8 list \<Rightarrow> nat \<Rightarrow> u8 list \<Rightarrow> InstructionAccount list" where
  "message_instruction_accounts m all i [] = []"
| "message_instruction_accounts m all i (a # as) =
     (let callee = (case find_position (\<lambda>x. x = a) (take i all) of Some j \<Rightarrow> j | None \<Rightarrow> i);
          index = unat a
      in \<lparr>index_in_transaction = index, index_in_caller = index, index_in_callee = callee,
          ia_is_signer = message_is_signer m index, ia_is_writable = message_is_writable m index\<rparr>
         # message_instruction_accounts m all (Suc i) as)"

text \<open>\<open>transaction_context.push(..).and_then(|_| transaction_context.pop())\<close>.\<close>

definition push_precompile :: "nat list \<Rightarrow> InstructionAccount list \<Rightarrow> bytes \<Rightarrow> unit ICM" where
  "push_precompile program_indices ias input =
     sbind (\<lambda>ic. let (r, tc) = tc_push program_indices ias input True (transaction_context ic)
                 in (r, ic\<lparr>transaction_context := tc\<rparr>))
       (\<lambda>_ ic. case tc_pop (transaction_context ic) of
                 Inl e \<Rightarrow> (Inl e, ic) | Inr tc \<Rightarrow> (Ok (), ic\<lparr>transaction_context := tc\<rparr>))"

text \<open>
  \<open>compute_units_consumed\<close> is what the meter lost while the program ran. Nothing else in
  \<open>process_instruction\<close> changes the meter (\<open>process_instruction_units\<close>), and it stays zero
  when the program is not reached.
\<close>

definition run_message_instruction ::
  "(bytes \<Rightarrow> UpgradeableLoaderState option) \<Rightarrow> BuiltinProgram list \<Rightarrow> bytes \<Rightarrow> InstructionAccount list
     \<Rightarrow> nat list \<Rightarrow> (InvokeContext \<times> u64, InstructionError, unit) action" where
  "run_message_instruction loader_state builtins input ias program_indices = (\<lambda>(ic, units).
     let (r, ic') = process_instruction loader_state builtins input ias program_indices ic;
         compute_units_consumed = saturating_sub (compute_meter ic) (compute_meter ic')
     in (and_then r (\<lambda>_. Ok ()), ic', saturating_add units compute_units_consumed))"

definition on_context :: "(InvokeContext, 'e, 'a) action \<Rightarrow> (InvokeContext \<times> u64, 'e, 'a) action" where
  "on_context m = (\<lambda>(ic, units). let (r, ic') = m ic in (r, ic', units))"

definition map_failure :: "('e \<Rightarrow> 'f) \<Rightarrow> ('s, 'e, 'a) action \<Rightarrow> ('s, 'f, 'a) action" where
  "map_failure f m s = (let (r, s') = m s in (map_err f r, s'))"

text \<open>The body of the loop; \<open>index\<close> is \<open>instruction_index\<close>.\<close>

definition process_message_instruction ::
  "(bytes \<Rightarrow> UpgradeableLoaderState option) \<Rightarrow> BuiltinProgram list \<Rightarrow> Message \<Rightarrow> nat
     \<Rightarrow> CompiledInstruction \<Rightarrow> nat list \<Rightarrow> unit MPM" where
  "process_message_instruction loader_state builtins m index ci program_indices =
     sbind (sread (\<lambda>_. ok_or (get (msg_account_keys m) (unat (program_id_index ci))) Panics)) (\<lambda>program_id s.
       let features = (\<lambda>f. is_active f (fst s));
           precompile = features prevent_calling_precompiles_as_programs \<and> is_precompile program_id features;
           recording = features record_instruction_in_transaction_context_push;
           ias = message_instruction_accounts m (ci_accounts ci) 0 (ci_accounts ci)
       in if precompile \<and> \<not> recording then (Ok (), s)
          else sbind (on_context (fix_instructions_sysvar index)) (\<lambda>_.
            map_failure (\<lambda>e. Failed (InstructionError (word_of_nat index) e))
              (if precompile \<and> recording
               then on_context (push_precompile program_indices ias (ci_data ci))
               else run_message_instruction loader_state builtins (ci_data ci) ias program_indices)) s)"

fun process_message_instructions ::
  "(bytes \<Rightarrow> UpgradeableLoaderState option) \<Rightarrow> BuiltinProgram list \<Rightarrow> Message \<Rightarrow> nat
     \<Rightarrow> (CompiledInstruction \<times> nat list) list \<Rightarrow> unit MPM" where
  "process_message_instructions loader_state builtins m index [] = sret ()"
| "process_message_instructions loader_state builtins m index ((ci, program_indices) # rest) =
     sbind (process_message_instruction loader_state builtins m index ci program_indices) (\<lambda>_.
       process_message_instructions loader_state builtins m (Suc index) rest)"

record ProcessedMessageInfo =
  accounts_data_len_delta :: int

definition process_message ::
  "(bytes \<Rightarrow> UpgradeableLoaderState option) \<Rightarrow> BuiltinProgram list \<Rightarrow> Message \<Rightarrow> nat list list
     \<Rightarrow> TransactionContext \<Rightarrow> Rent \<Rightarrow> Feature set \<Rightarrow> ComputeBudget \<Rightarrow> SysvarCache \<Rightarrow> Pubkey \<Rightarrow> u64 \<Rightarrow> u64 \<Rightarrow> u64
     \<Rightarrow> (MessageFault + ProcessedMessageInfo) \<times> TransactionContext \<times> u64" where
  "process_message loader_state builtins m program_indices tc rent features budget cache hash per_signature
     current_accounts_data_len accumulated_consumed_units =
     (let ic = invoke_context_new tc rent cache budget features hash per_signature current_accounts_data_len;
          (r, ic, units) = process_message_instructions loader_state builtins m 0
            (zip (instructions m) program_indices) (ic, accumulated_consumed_units)
      in (and_then r (\<lambda>_. Ok \<lparr>accounts_data_len_delta = adm_delta (accounts_data_meter ic)\<rparr>),
          transaction_context ic, units))"


section \<open>The accounts of an instruction\<close>

lemma message_instruction_accounts_nth:
  assumes "all = pre @ as" and "j < length as"
  shows "message_instruction_accounts m all (length pre) as ! j =
    \<lparr>index_in_transaction = unat (as ! j), index_in_caller = unat (as ! j),
     index_in_callee = (case find_position (\<lambda>x. x = as ! j) (take (length pre + j) all) of Some i \<Rightarrow> i | None \<Rightarrow> length pre + j),
     ia_is_signer = message_is_signer m (unat (as ! j)), ia_is_writable = message_is_writable m (unat (as ! j))\<rparr>"
  using assms
proof (induction as arbitrary: pre j)
  case (Cons a as)
  show ?case
  proof (cases j)
    case 0
    then show ?thesis by (simp add: Let_def split: option.split)
  next
    case (Suc j')
    with Cons.IH [of "pre @ [a]" j'] Cons.prems show ?thesis by (simp add: Let_def split: option.split)
  qed
qed simp

lemma length_message_instruction_accounts [simp]: "length (message_instruction_accounts m all i as) = length as"
  by (induction as arbitrary: i) (auto simp: Let_def)

lemma find_position_least:
  "i < length xs \<Longrightarrow> P (xs ! i) \<Longrightarrow> (\<And>j. j < i \<Longrightarrow> \<not> P (xs ! j)) \<Longrightarrow> find_position P xs = Some i"
proof (induction xs arbitrary: i)
  case (Cons x xs)
  show ?case
  proof (cases i)
    case 0
    with Cons.prems show ?thesis by simp
  next
    case (Suc i')
    have "\<not> P x" using Cons.prems(3) [of 0] Suc by simp
    moreover have "find_position P xs = Some i'"
      using Cons.prems Suc Cons.prems(3) [of "Suc j" for j] by (intro Cons.IH) auto
    ultimately show ?thesis by (simp add: Suc)
  qed
qed simp

lemma consistent_message_accounts: "consistent_accounts (message_instruction_accounts m as 0 as)"
proof -
  let ?ias = "message_instruction_accounts m as 0 as"
  have nth: "index_in_transaction (?ias ! j) = unat (as ! j)"
    "index_in_callee (?ias ! j) = (case find_position (\<lambda>x. x = as ! j) (take j as) of Some i \<Rightarrow> i | None \<Rightarrow> j)"
    if "j < length as" for j
    using message_instruction_accounts_nth [of as "[]" as j m] that by (simp_all cong: option.case_cong)
  have "find_position (\<lambda>x. index_in_transaction x = index_in_transaction (?ias ! j)) ?ias = Some (index_in_callee (?ias ! j))"
    if j: "j < length as" for j
  proof (cases "find_position (\<lambda>x. x = as ! j) (take j as)")
    case None
    then have "as ! i \<noteq> as ! j" if "i < j" for i
      using that j by (auto simp: find_position_None in_set_conv_nth)
    then show ?thesis using j None by (intro find_position_least) (auto simp: nth word_unat_eq_iff)
  next
    case (Some i)
    from find_position_Some [OF this] have "i < j" "as ! i = as ! j" "\<And>l. l < i \<Longrightarrow> as ! l \<noteq> as ! j"
      using j by auto
    then show ?thesis using j Some by (intro find_position_least) (auto simp: nth word_unat_eq_iff)
  qed
  then show ?thesis by (auto simp: consistent_accounts_def in_set_conv_nth)
qed

lemma message_accounts_writable:
  assumes "ia \<in> set (message_instruction_accounts m all i as)"
  shows "ia_is_writable ia = message_is_writable m (index_in_transaction ia)"
    and "ia_is_signer ia = message_is_signer m (index_in_transaction ia)"
  using assms by (induction as arbitrary: i) (auto simp: Let_def)


section \<open>What a message can do\<close>

text \<open>
  The state between two instructions: nothing is on the stack, and every account has its own key.
\<close>

definition between_instructions :: "TransactionContext \<Rightarrow> bool" where
  "between_instructions tc \<longleftrightarrow> instruction_stack tc = [] \<and> distinct (account_keys tc) \<and>
     length (accounts tc) = length (account_keys tc)"

definition message_keeps :: "Message \<Rightarrow> InvokeContext \<times> u64 \<Rightarrow> InvokeContext \<times> u64 \<Rightarrow> bool" where
  "message_keeps m s s' \<longleftrightarrow>
     (let tc = transaction_context (fst s); tc' = transaction_context (fst s')
      in between_instructions tc \<longrightarrow>
           between_instructions tc' \<and> account_keys tc' = account_keys tc \<and>
           total_lamports (fst s') = total_lamports (fst s) \<and>
           (\<forall>t < length (accounts tc). \<not> message_is_writable m t \<longrightarrow> account_keys tc ! t \<noteq> instructions_sysvar_id \<longrightarrow>
              accounts tc' ! t = accounts tc ! t))"

interpretation message_keeps: state_preorder "message_keeps m" for m
  by unfold_locales (auto simp: message_keeps_def Let_def between_instructions_def)

lemma fix_instructions_sysvar_keeps: "stable_ok (message_keeps m) (on_context (fix_instructions_sysvar index))"
proof -
  have "message_keeps m (ic, u) (ic', u)" if "fix_instructions_sysvar index ic = (Inr v, ic')" for ic ic' u v
  proof (cases "find_index_of_account (transaction_context ic) instructions_sysvar_id")
    case None
    with that show ?thesis by (simp add: fix_instructions_sysvar_def message_keeps.refl)
  next
    case (Some i)
    let ?tc = "transaction_context ic"
    from find_position_Some [OF Some [unfolded find_index_of_account_def]]
    have i: "i < length (account_keys ?tc)" "account_keys ?tc ! i = instructions_sysvar_id" by auto
    from that Some obtain bs where ic': "ic' = ic\<lparr>transaction_context := ?tc
        \<lparr>accounts := (accounts ?tc)[i := (accounts ?tc ! i)\<lparr>data := bs\<rparr>]\<rparr>\<rparr>" and len: "i < length (accounts ?tc)"
      by (auto simp: fix_instructions_sysvar_def Let_def get_account_at_index_Inr split: sum.splits option.splits)
    have "map (\<lambda>a. unat (lamports a)) ((accounts ?tc)[i := (accounts ?tc ! i)\<lparr>data := bs\<rparr>]) =
        map (\<lambda>a. unat (lamports a)) (accounts ?tc)"
      by (rule nth_equalityI) (auto simp: nth_list_update len)
    then show ?thesis
      using i by (auto simp: message_keeps_def Let_def ic' between_instructions_def nth_list_update)
  qed
  then show ?thesis
    by (auto simp: stable_ok_def on_context_def split: prod.splits)
qed

lemma push_precompile_keeps: "stable_ok (message_keeps m) (on_context (push_precompile pidx ias input))"
proof -
  have "message_keeps m (ic, u) (ic', u)" if "push_precompile pidx ias input ic = (Inr v, ic')" for ic ic' u v
  proof -
    from that obtain tc where push: "tc_push pidx ias input True (transaction_context ic) = (Inr (), tc)"
      and pop: "tc_pop tc = Inr (transaction_context ic')"
      by (auto simp: push_precompile_def Let_def res_simps split: prod.splits sum.splits)
    from pop have tc': "transaction_context ic' = tc\<lparr>instruction_stack := butlast (instruction_stack tc)\<rparr>"
      by (simp add: tc_pop_def split: if_splits)
    with tc_push_frame [OF push] pop show ?thesis
      by (simp add: message_keeps_def Let_def between_instructions_def)
  qed
  then show ?thesis
    by (auto simp: stable_ok_def on_context_def split: prod.splits)
qed

lemma process_top_keys:
  assumes "process_instruction loader_state builtins input ias pidx ic = (Inr u, ic')"
    and "between_instructions (transaction_context ic)"
  shows "between_instructions (transaction_context ic')"
    and "account_keys (transaction_context ic') = account_keys (transaction_context ic)"
proof -
  have "between_instructions (transaction_context ic') \<and>
      account_keys (transaction_context ic') = account_keys (transaction_context ic)"
    using assms unfolding between_instructions_def
    by (elim conjE process_top_instruction) (auto simp: runtime_inv_def Let_def top_snapshot_def)
  then show "between_instructions (transaction_context ic')"
    and "account_keys (transaction_context ic') = account_keys (transaction_context ic)" by auto
qed

lemma run_message_instruction_keeps:
  "stable_ok (message_keeps m) (run_message_instruction loader_state builtins input
     (message_instruction_accounts m as 0 as) pidx)"
proof -
  let ?ias = "message_instruction_accounts m as 0 as"
  have "message_keeps m (ic, u) (ic', u')"
    if run: "process_instruction loader_state builtins input ?ias pidx ic = (Inr v, ic')" for ic ic' u u' v
  proof -
    have "total_lamports ic' = total_lamports ic \<and> (\<forall>t < length (accounts (transaction_context ic)).
        \<not> message_is_writable m t \<longrightarrow> accounts (transaction_context ic') ! t = accounts (transaction_context ic) ! t)"
      if b: "between_instructions (transaction_context ic)"
      using process_instruction_total [OF run _ _ _ consistent_message_accounts]
        process_instruction_readonly [OF run _ _ _ consistent_message_accounts] b
        message_accounts_writable(1) [of _ m as 0 as]
      by (auto simp: between_instructions_def)
    then show ?thesis
      using process_top_keys [OF run] by (auto simp: message_keeps_def Let_def)
  qed
  then show ?thesis
    by (auto simp: stable_ok_def run_message_instruction_def res_simps Let_def split: prod.splits)
qed

lemma map_failure_stable_ok: "stable_ok R m \<Longrightarrow> stable_ok R (map_failure f m)"
  by (auto simp: stable_ok_def map_failure_def res_simps split: prod.splits)

lemma process_message_instruction_keeps:
  "stable_ok (message_keeps m) (process_message_instruction loader_state builtins m index ci pidx)"
proof -
  let ?ias = "message_instruction_accounts m (ci_accounts ci) 0 (ci_accounts ci)"
  have body: "stable_ok (message_keeps m) (sbind (on_context (fix_instructions_sysvar index)) (\<lambda>_.
      map_failure (\<lambda>e. Failed (InstructionError (word_of_nat index) e))
        (if c then on_context (push_precompile pidx ?ias (ci_data ci))
         else run_message_instruction loader_state builtins (ci_data ci) ?ias pidx)))" for c
    using push_precompile_keeps run_message_instruction_keeps
    by (intro message_keeps.stable_ok_sbind fix_instructions_sysvar_keeps map_failure_stable_ok) simp
  show ?thesis
    unfolding process_message_instruction_def Let_def
    by (intro message_keeps.stable_ok_sbind message_keeps.stable_imp_ok [OF message_keeps.stable_sread])
      (use body in \<open>auto simp: stable_ok_def message_keeps.refl split: if_splits\<close>)
qed

lemma process_message_instructions_keep:
  "stable_ok (message_keeps m) (process_message_instructions loader_state builtins m index xs)"
  by (induction loader_state builtins m index xs rule: process_message_instructions.induct)
    (auto intro!: message_keeps.stable_ok_sbind process_message_instruction_keeps
      message_keeps.stable_imp_ok [OF message_keeps.stable_sret])


section \<open>The compute units of a message\<close>

text \<open>What was accumulated is what the meter lost, on success and on failure.\<close>

definition units_balance :: "InvokeContext \<times> u64 \<Rightarrow> InvokeContext \<times> u64 \<Rightarrow> bool" where
  "units_balance s s' \<longleftrightarrow> unat (snd s) \<le> unat (snd s') \<and>
     (unat (snd s) + unat (compute_meter (fst s)) < 2 ^ 64 \<longrightarrow>
       unat (snd s') + unat (compute_meter (fst s')) = unat (snd s) + unat (compute_meter (fst s)))"

interpretation units_balance: state_preorder units_balance
  by unfold_locales (auto simp: units_balance_def)

lemma run_message_instruction_balance: "stable units_balance (run_message_instruction loader_state builtins input ias pidx)"
proof -
  have "units_balance (ic, u) (ic', saturating_add u (saturating_sub (compute_meter ic) (compute_meter ic')))"
    if "process_instruction loader_state builtins input ias pidx ic = (r, ic')" for ic ic' u r
  proof -
    have "unat u \<le> 18446744073709551615" using unat_less_2_64 [of u] by linarith
    then show ?thesis
      using stableD [OF meter_falls.stable_process_instruction that]
      by (auto simp: units_balance_def unat_saturating_add unat_saturating_sub word_le_nat_alt)
  qed
  then show ?thesis
    by (auto simp: stable_def run_message_instruction_def Let_def split: prod.splits)
qed

lemma on_context_balance:
  assumes "stable (\<lambda>ic ic'. compute_meter ic' = compute_meter ic) m"
  shows "stable units_balance (on_context m)"
  by (auto simp: stable_def on_context_def units_balance_def split: prod.splits dest: stableD [OF assms])

lemma fix_instructions_sysvar_meter:
  "stable (\<lambda>ic ic'. compute_meter ic' = compute_meter ic) (fix_instructions_sysvar index)"
  by (auto simp: stable_def fix_instructions_sysvar_def Let_def split: option.splits sum.splits)

lemma push_precompile_meter:
  "stable (\<lambda>ic ic'. compute_meter ic' = compute_meter ic) (push_precompile pidx ias input)"
  unfolding push_precompile_def
  by (rule same_meter.stable_sbind) (auto simp: stable_def Let_def split: prod.splits sum.splits)

lemma map_failure_stable: "stable R m \<Longrightarrow> stable R (map_failure f m)"
  by (auto simp: stable_def map_failure_def split: prod.splits)

lemma process_message_instruction_balance:
  "stable units_balance (process_message_instruction loader_state builtins m index ci pidx)"
proof -
  let ?ias = "message_instruction_accounts m (ci_accounts ci) 0 (ci_accounts ci)"
  have body: "stable units_balance (sbind (on_context (fix_instructions_sysvar index)) (\<lambda>_.
      map_failure (\<lambda>e. Failed (InstructionError (word_of_nat index) e))
        (if c then on_context (push_precompile pidx ?ias (ci_data ci))
         else run_message_instruction loader_state builtins (ci_data ci) ?ias pidx)))" for c
    by (intro units_balance.stable_sbind map_failure_stable units_balance.stable_if on_context_balance
        fix_instructions_sysvar_meter push_precompile_meter run_message_instruction_balance)
  show ?thesis
    unfolding process_message_instruction_def Let_def
    by (intro units_balance.stable_sbind units_balance.stable_sread)
      (use body in \<open>auto simp: stable_def units_balance.refl split: if_splits\<close>)
qed

lemma process_message_instructions_balance:
  "stable units_balance (process_message_instructions loader_state builtins m index xs)"
  by (induction loader_state builtins m index xs rule: process_message_instructions.induct)
    (auto intro!: units_balance.stable_sbind process_message_instruction_balance units_balance.stable_sret)

end
