(* ===== verification/RuntimeProperties.thy ===== *)
theory RuntimeProperties
  imports MessageProcessor Samples
begin

text \<open>
  What the runtime guarantees whatever the programs do: the properties of \<open>process_message\<close>, of
  \<open>process_instruction\<close> and of cross-program invocations, each with a run of the system program on
  which it is evaluated.
\<close>

lemmas runtime_run_defs = process_message_instruction_def fix_instructions_sysvar_def
  run_message_instruction_def on_context_def map_failure_def process_instruction_with_def
  push_def pop_def tc_pop_def create_keyed_accounts_def keyed_account_at_def push_transaction_context_def
  process_executable_chain_def builtin_of_def run_builtin_def and_pop_def verify_def u128_checked_add_def
  meter_data_len_def pre_account_verify_def pre_account_new_def system_builtin_def builtin_of_action_def write_back_def
  get_index_of_program_account_in_transaction_def set_return_data_def adjust_delta_unchecked_def i64_saturate_def
  accounts_data_meter_new_def compute_budget_new_def system_program_id_def native_loader_id_def
  PreAccount.MAX_PERMITTED_DATA_LENGTH_def write_instruction_account_def get_last_program_key_def
  try_borrow_program_account_def try_borrow_last_program_account_def saturating_sub_def

definition sample_accounts :: "(Pubkey \<times> Account) list" where
  "sample_accounts = [(11, sample_account 10 system_program_id), (12, sample_account 3 system_program_id),
     (system_program_id, sample_program native_loader_id)]"

definition sample_ias :: "InstructionAccount list" where
  "sample_ias = [sample_ia 0 0 True True, sample_ia 1 1 False True]"

definition sample_builtins :: "BuiltinProgram list" where
  "sample_builtins = [system_builtin sample_crypto (sample_codec (SystemInstruction.Transfer 4))]"

definition sample_loader_state :: "bytes \<Rightarrow> UpgradeableLoaderState option" where
  "sample_loader_state bs = None"

definition sample_message :: Message where
  "sample_message =
     \<lparr>header = \<lparr>num_required_signatures = 1, num_readonly_signed_accounts = 0, num_readonly_unsigned_accounts = 1\<rparr>,
      msg_account_keys = [11, 12, system_program_id], recent_blockhash = 7,
      instructions = [\<lparr>program_id_index = 2, ci_accounts = [0, 1], ci_data = []\<rparr>]\<rparr>"

lemma sample_instruction_runs:
  "\<exists>ic'. process_instruction sample_loader_state sample_builtins [] sample_ias [2] (sample_context sample_accounts) = (Inr 0, ic') \<and>
     map lamports (accounts (transaction_context ic')) = [6, 7, 1] \<and>
     executed (transaction_context ic') = {system_program_id}"
  unfolding process_instruction_unfold
  by (simp add: runtime_run_defs run_simps sample_ias_def sample_accounts_def sample_builtins_def executed_def)

lemma sample_context_facts:
  "instruction_stack (transaction_context (sample_context sample_accounts)) = []"
  "account_keys (transaction_context (sample_context sample_accounts)) = [11, 12, system_program_id]"
  "map lamports (accounts (transaction_context (sample_context sample_accounts))) = [10, 3, 1]"
  "distinct (account_keys (transaction_context (sample_context sample_accounts)))"
  "length (accounts (transaction_context (sample_context sample_accounts))) =
     length (account_keys (transaction_context (sample_context sample_accounts)))"
  "consistent_accounts sample_ias"
  by (simp_all add: sample_defs sample_accounts_def system_program_id_def consistent_accounts_def sample_ias_def)


section \<open>Instructions\<close>

text \<open>
  C11: cross-program invocations always come to an end. The recursion of the model is bounded by the
  free places of the instruction stack, and with that bound it satisfies the equation of the source,
  in which \<open>process_instruction\<close> calls itself without a bound through \<open>native_invoke\<close>.
\<close>

theorem process_instruction_recursion:
  "process_instruction loader_state builtins input ias program_indices ic =
     process_instruction_with builtins
       (native_invoke_with loader_state (process_instruction loader_state builtins)) input ias program_indices ic"
  unfolding process_instruction_unfold [of loader_state builtins input] native_invoke_def ..

text \<open>
  C12: \<open>process_instruction\<close> leaves the stack of instructions and its capacity as it found them, whether
  it succeeds or fails, however the programs nest their calls.
\<close>

theorem process_instruction_restores_stack:
  assumes "process_instruction loader_state builtins input ias program_indices ic = (r, ic')"
  shows "instruction_stack (transaction_context ic') = instruction_stack (transaction_context ic) \<and>
    instruction_context_capacity (transaction_context ic') = instruction_context_capacity (transaction_context ic)"
  using stableD [OF process_instruction_same_stack assms] by (simp add: same_stack_def)

theorem process_instruction_restores_stack_witness:
  "\<exists>ic'. process_instruction sample_loader_state sample_builtins [] sample_ias [2] (sample_context sample_accounts) = (Inr 0, ic') \<and>
     instruction_stack (transaction_context ic') = []"
proof -
  obtain ic' where r: "process_instruction sample_loader_state sample_builtins [] sample_ias [2] (sample_context sample_accounts) = (Inr 0, ic')"
    using sample_instruction_runs by (elim exE conjE)
  then show ?thesis using process_instruction_restores_stack [OF r] by (simp add: sample_context_facts)
qed

text \<open>
  C9: a top-level instruction that succeeds, whatever its programs and the programs they call do,
  changes an account only in the name of its owner: if no program of the instruction's trace is the
  owner of an account, then the account keeps its owner and its data, and its lamports do not fall.
  An account that the instruction does not pass as writable is not changed at all.
\<close>

theorem process_instruction_respects_owners:
  assumes "process_instruction loader_state builtins input ias program_indices ic = (Inr u, ic')"
    and "instruction_stack (transaction_context ic) = []"
    and "distinct (account_keys (transaction_context ic))"
    and "length (accounts (transaction_context ic)) = length (account_keys (transaction_context ic))"
    and "consistent_accounts ias" and "t < length (accounts (transaction_context ic))"
  defines "before \<equiv> accounts (transaction_context ic) ! t" and "after \<equiv> accounts (transaction_context ic') ! t"
  shows "(owner before \<notin> executed (transaction_context ic') \<longrightarrow>
       owner after = owner before \<and> data after = data before \<and> lamports before \<le> lamports after) \<and>
    ((\<forall>ia\<in>set ias. index_in_transaction ia = t \<longrightarrow> \<not> ia_is_writable ia) \<longrightarrow> after = before)"
  using process_instruction_untouched [OF assms(1-6)] process_instruction_readonly [OF assms(1-6)]
  by (simp add: before_def after_def untouched_def)

theorem process_instruction_respects_owners_witness:
  "\<exists>ic'. process_instruction sample_loader_state sample_builtins [] sample_ias [2] (sample_context sample_accounts) = (Inr 0, ic') \<and>
     accounts (transaction_context ic') ! 2 = sample_program native_loader_id"
proof -
  obtain ic' where r: "process_instruction sample_loader_state sample_builtins [] sample_ias [2] (sample_context sample_accounts) = (Inr 0, ic')"
    using sample_instruction_runs by (elim exE conjE)
  have a: "accounts (transaction_context (sample_context sample_accounts)) ! 2 = sample_program native_loader_id"
      "2 < length (accounts (transaction_context (sample_context sample_accounts)))"
    by (simp_all add: sample_defs sample_accounts_def)
  have ro: "\<forall>ia\<in>set sample_ias. index_in_transaction ia = 2 \<longrightarrow> \<not> ia_is_writable ia"
    by (simp add: sample_ias_def sample_ia_def)
  show ?thesis
    using process_instruction_respects_owners [OF r sample_context_facts(1,4,5,6) a(2)] ro r a(1) by simp
qed

text \<open>
  C10: a program cannot hand on privileges it does not have. Every account of a prepared
  cross-program invocation is an account of the caller; it is writable only if the caller has it as
  writable, and a signer only if it signs for the caller or is an address for which the caller signs.
\<close>

theorem prepare_instruction_no_escalation:
  assumes "prepare_instruction loader_state instruction signers tc = Inr (ias, program_indices)"
    and "get_current_instruction_context tc = Inr caller" and "ia \<in> set ias"
  shows "index_in_caller ia < length (instruction_accounts caller) \<and>
    (let passed = instruction_accounts caller ! index_in_caller ia; k = account_keys tc ! index_in_transaction ia
     in account_keys tc ! index_in_transaction passed = k \<and>
        (ia_is_writable ia \<longrightarrow> ia_is_writable passed) \<and>
        (ia_is_signer ia \<longrightarrow> ia_is_signer passed \<or> k \<in> set signers))"
  using prepare_instruction_privileges [OF assms] by (auto simp: from_caller_def Let_def)

definition sample_cpi :: Instruction where
  "sample_cpi = \<lparr>instr_program_id = 99, instr_accounts = [meta_new 11 True, meta_new_readonly 12 True], instr_data = []\<rparr>"

definition sample_caller :: TransactionContext where
  "sample_caller = transaction_context (sample_running [2]
     [sample_ia 0 0 True True, sample_ia 1 1 False False, sample_ia 2 2 False False]
     [(11, sample_account 10 5), (12, sample_account 3 5), (99, sample_program 8)])"

lemma sample_cpi_prepared:
  "prepare_instruction sample_loader_state sample_cpi [12] sample_caller =
     Inr ([sample_ia 0 0 True True, sample_ia 1 1 True False], [2])"
  "\<exists>ctx. get_current_instruction_context sample_caller = Inr ctx"
  by (simp_all add: prepare_instruction_def sample_cpi_def sample_caller_def run_simps find_index_of_account_def
      find_index_of_instruction_account_def check_privileges_def find_program_indices_def meta_new_def meta_new_readonly_def
      bpf_loader_upgradeable_id_def)

theorem prepare_instruction_no_escalation_witness:
  "\<exists>ctx. get_current_instruction_context sample_caller = Inr ctx \<and>
     (let passed = instruction_accounts ctx ! 1; k = account_keys sample_caller ! 1
      in ia_is_signer passed \<or> k = 12)"
proof -
  obtain ctx where c: "get_current_instruction_context sample_caller = Inr ctx"
    using sample_cpi_prepared(2) by (elim exE)
  show ?thesis
    using prepare_instruction_no_escalation [OF sample_cpi_prepared(1) c, of "sample_ia 1 1 True False"] c
    by (simp add: sample_ia_def Let_def)
qed


text \<open>
  C40: what a cross-program invocation adds to the data of the accounts is not metered. When
  \<open>verify_and_update\<close> accepts a writable account that is not executable, it compares the lengths of
  the data after it has replaced the copy, so the difference is zero whatever the program did, and
  the meter of the accounts data stays as it is.
\<close>

theorem update_account_not_metered:
  assumes "update_account program_id True account j pre_sum post_sum ic = (Inr sums, ic')"
    and "j < length (pre_accounts ic)" and "\<not> executable (pre_account (pre_accounts ic ! j))"
    and "- (2 ^ 63) \<le> adm_delta (accounts_data_meter ic)" and "adm_delta (accounts_data_meter ic) < 2 ^ 63"
  shows "accounts_data_meter ic' = accounts_data_meter ic \<and> pre_account (pre_accounts ic' ! j) =
    account\<lparr>rent_epoch := rent_epoch (pre_account (pre_accounts ic ! j))\<rparr>"
  using assms
  by (auto simp: update_account_def action_defs meter_data_len_def adjust_delta_def adjust_delta_unchecked_def
      i64_saturate_def pre_account_update_def Let_def split: prod.splits sum.splits if_splits)

definition sample_grown :: Account where
  "sample_grown = (sample_account 10 99)\<lparr>data := replicate 100 0\<rparr>"

definition sample_pre :: InvokeContext where
  "sample_pre = (sample_context [])\<lparr>pre_accounts := [pre_account_new 11 (sample_account 10 99)]\<rparr>"

lemma sample_grows: "\<exists>sums ic'. update_account 99 True sample_grown 0 0 0 sample_pre = (Inr sums, ic')"
  by (simp add: update_account_def runtime_run_defs run_simps sample_grown_def sample_pre_def pre_account_update_def)

theorem update_account_not_metered_witness:
  "\<exists>sums ic'. update_account 99 True sample_grown 0 0 0 sample_pre = (Inr sums, ic') \<and>
     accounts_data_meter ic' = accounts_data_meter sample_pre \<and>
     length (data (pre_account (pre_accounts sample_pre ! 0))) = 0 \<and> length (data (pre_account (pre_accounts ic' ! 0))) = 100"
proof -
  obtain sums ic' where r: "update_account 99 True sample_grown 0 0 0 sample_pre = (Inr sums, ic')"
    using sample_grows by (elim exE)
  have "pre_accounts sample_pre = [\<lparr>pre_key = 11, pre_account = sample_account 10 99, pre_changed = False\<rparr>]"
      "adm_delta (accounts_data_meter sample_pre) = 0"
    by (simp_all add: sample_pre_def pre_account_new_def sample_defs accounts_data_meter_new_def)
  then show ?thesis
    using update_account_not_metered [OF r] r by (simp add: sample_account_def sample_grown_def)
qed


section \<open>Messages\<close>

lemma sample_message_accounts: "message_instruction_accounts sample_message [0, 1] 0 [0, 1] = sample_ias"
proof -
  have "message_is_writable sample_message 0" "message_is_writable sample_message (Suc 0)"
    by (simp_all add: message_is_writable_def sample_message_def is_builtin_key_or_sysvar_iff ALL_IDS_def
        BUILTIN_PROGRAMS_KEYS_def system_program_id_def native_loader_id_def bpf_loader_upgradeable_id_def
        recent_blockhashes_sysvar_id_def rent_sysvar_id_def instructions_sysvar_id_def demote_program_id_def
        is_key_called_as_program_def)
  then show ?thesis
    by (simp add: sample_ia_def sample_ias_def message_is_signer_def) (simp add: sample_message_def)
qed

definition sample_process_message ::
  "(MessageFault + ProcessedMessageInfo) \<times> TransactionContext \<times> u64" where
  "sample_process_message = process_message sample_loader_state sample_builtins sample_message [[2]]
     (transaction_context_new sample_accounts 5 1 1000) rent_default {record_instruction_in_transaction_context_push}
     (compute_budget_new 200000) \<lparr>sysvar_rent = Some rent_default, sysvar_recent_blockhashes = Some [(7, 5000)]\<rparr> 7 5000 0 0"

lemma sample_message_runs:
  "\<exists>info tc' units. sample_process_message = (Inr info, tc', units) \<and> map lamports (accounts tc') = [6, 7, 1]"
proof -
  obtain ic' where r: "process_instruction sample_loader_state sample_builtins [] sample_ias [2] (sample_context sample_accounts) = (Inr 0, ic')"
      and l: "map lamports (accounts (transaction_context ic')) = [6, 7, 1]"
    using sample_instruction_runs by (elim exE conjE)
  have ix: "instructions sample_message = [\<lparr>program_id_index = 2, ci_accounts = [0, 1], ci_data = []\<rparr>]"
      "get (msg_account_keys sample_message) 2 = Some system_program_id"
    by (simp_all add: sample_message_def get_def)
  have sysvar: "find_index_of_account (transaction_context (sample_context sample_accounts)) instructions_sysvar_id = None"
    by (simp add: sample_defs sample_accounts_def find_index_of_account_def instructions_sysvar_id_def system_program_id_def)
  have feature: "feature_set (sample_context sample_accounts) = {record_instruction_in_transaction_context_push}"
    by (simp add: sample_defs)
  show ?thesis
    unfolding sample_process_message_def process_message_def sample_context_def [symmetric] Let_def
    using r l
    by (simp add: ix sysvar feature process_message_instruction_def fix_instructions_sysvar_def action_defs on_context_def
        map_failure_def run_message_instruction_def sample_message_accounts Let_def
        del: message_instruction_accounts.simps)
qed

text \<open>
  C8: a message that is processed without an error conserves the lamports of its accounts, keeps
  their keys, and leaves every account as it was that the message does not make writable, except the
  account of the instructions sysvar, into which the runtime itself writes.
\<close>

theorem process_message_conserves:
  assumes "process_message loader_state builtins m program_indices tc rent features budget cache hash
      per_signature data_len units = (Inr info, tc', units')"
    and "instruction_stack tc = []" and "distinct (account_keys tc)" and "length (accounts tc) = length (account_keys tc)"
  shows "sum_list (map (\<lambda>a. unat (lamports a)) (accounts tc')) = sum_list (map (\<lambda>a. unat (lamports a)) (accounts tc)) \<and>
    account_keys tc' = account_keys tc \<and> instruction_stack tc' = [] \<and>
    (\<forall>t < length (accounts tc). \<not> message_is_writable m t \<longrightarrow> account_keys tc ! t \<noteq> instructions_sysvar_id \<longrightarrow>
       accounts tc' ! t = accounts tc ! t)"
proof -
  let ?ic = "invoke_context_new tc rent cache budget features hash per_signature data_len"
  obtain ic' u where run: "process_message_instructions loader_state builtins m 0
      (zip (instructions m) program_indices) (?ic, units) = (Inr u, ic', units')" and tc': "tc' = transaction_context ic'"
    using assms(1) by (auto simp: process_message_def Let_def res_simps split: prod.splits)
  show ?thesis
    using stable_okD [OF process_message_instructions_keep run] assms(2-4)
    by (simp add: message_keeps_def between_instructions_def invoke_context_new_def tc' Let_def)
qed

lemma sample_transaction_facts:
  "instruction_stack (transaction_context_new sample_accounts 5 1 1000) = []"
  "distinct (account_keys (transaction_context_new sample_accounts 5 1 1000))"
  "length (accounts (transaction_context_new sample_accounts 5 1 1000)) =
     length (account_keys (transaction_context_new sample_accounts 5 1 1000))"
  by (simp_all add: transaction_context_new_def sample_accounts_def system_program_id_def)

theorem process_message_conserves_witness:
  "\<exists>info tc' units. sample_process_message = (Inr info, tc', units) \<and> map lamports (accounts tc') = [6, 7, 1] \<and>
     account_keys tc' = [11, 12, system_program_id]"
proof -
  obtain info tc' units where r: "sample_process_message = (Inr info, tc', units)" "map lamports (accounts tc') = [6, 7, 1]"
    using sample_message_runs by (elim exE conjE)
  have "account_keys tc' = [11, 12, system_program_id]"
    using process_message_conserves [OF r(1) [unfolded sample_process_message_def] sample_transaction_facts]
    by (simp add: transaction_context_new_def sample_accounts_def)
  then show ?thesis using r by (intro exI conjI)
qed

text \<open>
  C13: a message never consumes more compute units than its budget grants, on success and on
  failure, and what it consumed before it failed is accounted for.
\<close>

theorem process_message_units_bounded:
  assumes "process_message loader_state builtins m program_indices tc rent features budget cache hash
      per_signature data_len units = (r, tc', units')"
    and "unat units + unat (compute_unit_limit budget) < 2 ^ 64"
  shows "unat units \<le> unat units' \<and> unat units' \<le> unat units + unat (compute_unit_limit budget)"
proof -
  let ?ic = "invoke_context_new tc rent cache budget features hash per_signature data_len"
  obtain r' ic' where run: "process_message_instructions loader_state builtins m 0
      (zip (instructions m) program_indices) (?ic, units) = (r', ic', units')"
    using assms(1) by (auto simp: process_message_def Let_def split: prod.splits)
  show ?thesis
    using stableD [OF process_message_instructions_balance run] assms(2)
    by (auto simp: units_balance_def invoke_context_new_def)
qed

theorem process_message_units_bounded_witness:
  "\<exists>r tc' units. sample_process_message = (r, tc', units) \<and> unat units \<le> 200000"
proof -
  obtain r tc' units where r: "sample_process_message = (r, tc', units)" by (metis prod_cases3)
  have "unat units \<le> 200000"
    using process_message_units_bounded [OF r [unfolded sample_process_message_def]] by (simp add: compute_budget_new_def)
  then show ?thesis using r by (intro exI conjI)
qed

end
