(* ===== verification/Contract.thy ===== *)
theory Contract
  imports SystemProgram
begin

text \<open>
  On-chain programs that call other programs. A handler is a \<open>script\<close>: it ends with a result, or
  performs a cross-program invocation (\<open>sdk/program/src/program.rs\<close>) and goes on with the store
  that the invocation left. The invocation itself is a syscall of the loader, so a script is run
  with a function that stands for it.

  Accounts and instructions are encoded by borsh, which is not part of the repository: every
  contract has a record with the functions its \<open>derive\<close>s generate. \<open>invoke_signed\<close> first tests that the
  accounts of the instruction can be borrowed; the test is left out, since no contract holds a borrow
  of an account across an invocation.
\<close>

datatype script =
    Finish "store ProgramResult"
  | Cpi Instruction "AccountInfo list" "bytes list list" store "store \<Rightarrow> script"

text \<open>The \<open>?\<close> operator inside a script.\<close>

fun attempt :: "'a ProgramResult \<Rightarrow> ('a \<Rightarrow> script) \<Rightarrow> script" where
  "attempt (Inl e) k = Finish (Inl e)"
| "attempt (Inr x) k = k x"

definition invoke_signed ::
  "Instruction \<Rightarrow> AccountInfo list \<Rightarrow> bytes list list \<Rightarrow> store \<Rightarrow> (store \<Rightarrow> script) \<Rightarrow> script" where
  "invoke_signed instruction account_infos signers_seeds st k = Cpi instruction account_infos signers_seeds st k"

definition invoke :: "Instruction \<Rightarrow> AccountInfo list \<Rightarrow> store \<Rightarrow> (store \<Rightarrow> script) \<Rightarrow> script" where
  "invoke instruction account_infos st k = invoke_signed instruction account_infos [] st k"

type_synonym syscall = "Instruction \<Rightarrow> AccountInfo list \<Rightarrow> bytes list list \<Rightarrow> store \<Rightarrow> store ProgramResult"

primrec run_script :: "syscall \<Rightarrow> script \<Rightarrow> store ProgramResult" where
  "run_script sys (Finish r) = r"
| "run_script sys (Cpi instruction infos seeds st k) =
     and_then (sys instruction infos seeds st) (\<lambda>st'. run_script sys (k st'))"

definition find_program_address :: "crypto \<Rightarrow> bytes list \<Rightarrow> Pubkey \<Rightarrow> (Pubkey \<times> u8) ProgramResult" where
  "find_program_address cr seeds program_id =
     (case try_find_program_address cr seeds program_id of None \<Rightarrow> Inl Panic | Some r \<Rightarrow> Ok r)"

text \<open>\<open>value.serialize(&mut &mut data[..]).unwrap()\<close>: the value goes to the front of the data.\<close>

definition serialize_into :: "bytes \<Rightarrow> AccountInfo \<Rightarrow> store \<Rightarrow> store ProgramResult" where
  "serialize_into bs ai st =
     (if length (info_data st ai) < length bs then Inl Panic
      else Ok (set_info_data ai (bs @ drop (length bs) (info_data st ai)) st))"

text \<open>A borsh error becomes \<open>ProgramError::BorshIoError\<close>.\<close>

definition borsh_result :: "string + 'a \<Rightarrow> 'a ProgramResult" where
  "borsh_result r = map_err (\<lambda>e. Err (ProgramError.BorshIoError e)) r"

definition ascii :: "string \<Rightarrow> bytes" where
  "ascii s = map (\<lambda>c. word_of_nat (of_char c)) s"

text \<open>Wrapping updates of the balance of an account.\<close>

definition debit :: "AccountInfo \<Rightarrow> u64 \<Rightarrow> store \<Rightarrow> store" where
  "debit ai n st = set_info_lamports ai (info_lamports st ai - n) st"

definition credit :: "AccountInfo \<Rightarrow> u64 \<Rightarrow> store \<Rightarrow> store" where
  "credit ai n st = set_info_lamports ai (info_lamports st ai + n) st"


section \<open>Facts about scripts\<close>

lemma attempt_Finish_iff:
  "attempt m k = Finish (Inr st) \<longleftrightarrow> (\<exists>x. m = Inr x \<and> k x = Finish (Inr st))"
  by (cases m) auto

lemma run_script_attempt: "run_script sys (attempt m k) = and_then m (\<lambda>x. run_script sys (k x))"
  by (cases m) auto

lemma borsh_result_Inr [res_simps]: "borsh_result r = Inr x \<longleftrightarrow> r = Inr x"
  by (simp add: borsh_result_def res_simps)

lemma serialize_into_Inr [res_simps]:
  "serialize_into bs ai st = Inr st' \<longleftrightarrow> length bs \<le> length (info_data st ai) \<and>
     st' = set_info_data ai (bs @ drop (length bs) (info_data st ai)) st"
  by (auto simp: serialize_into_def)

lemma debit_apply: "debit ai n st k = (if k = key ai then (st k)\<lparr>lamports := lamports (st k) - n\<rparr> else st k)"
  by (simp add: debit_def set_info_lamports_def)

lemma credit_apply: "credit ai n st k = (if k = key ai then (st k)\<lparr>lamports := lamports (st k) + n\<rparr> else st k)"
  by (simp add: credit_def set_info_lamports_def)

lemma and_then_Inr_right [simp]: "and_then m Inr = m"
  by (cases m) simp_all

lemma find_program_address_Inr:
  assumes "find_program_address cr seeds program_id = Inr (a, bump)"
  shows "create_program_address cr (seeds @ [[bump]]) program_id = Inr a"
  using assms find_bump_Some [of cr seeds program_id 255 255 a bump]
  by (simp add: find_program_address_def try_find_program_address_def split: option.splits)

lemma find_program_address_first:
  assumes "create_program_address cr (seeds @ [[255]]) program_id = Inr a"
  shows "find_program_address cr seeds program_id = Inr (a, 255)"
proof -
  have "find_bump cr seeds program_id (Suc 254) 255 = Some (a, 255)"
    using assms by (simp only: find_bump.simps sum.case)
  then show ?thesis by (simp add: find_program_address_def try_find_program_address_def)
qed

end
