(* ===== verification/ComponentProperties.thy ===== *)
theory ComponentProperties
  imports TokenProcessor Message PreAccount ComputeBudget Contract
begin

text \<open>
  Properties of single components: round trips of the wire formats, equivalence of optimised routines
  with what they stand for, and the bounds of what a transaction may request.
\<close>

section \<open>Addresses and errors\<close>

text \<open>
  C29: \<open>find_program_address\<close> returns an address off the curve together with the bump seed that
  derives it, and every larger bump seed is rejected for its address being on the curve.
\<close>

theorem find_program_address_canonical:
  assumes "find_program_address cr seeds program_id = Inr (a, bump)"
  shows "create_program_address cr (seeds @ [[bump]]) program_id = Inr a \<and> \<not> bytes_are_curve_point cr a \<and> bump \<noteq> 0 \<and>
    (\<forall>b > bump. create_program_address cr (seeds @ [[b]]) program_id = Inl PubkeyError.InvalidSeeds)"
proof -
  have f: "find_bump cr seeds program_id 255 255 = Some (a, bump)"
    using assms by (simp add: find_program_address_def try_find_program_address_def split: option.splits)
  have "b \<le> 255" for b :: u8
    using unsigned_less [of b, where 'a = nat] by (simp add: word_le_nat_alt)
  then show ?thesis
    using find_bump_Some [OF f] create_program_address_off_curve by (auto simp: unat_eq_0)
qed

definition demo_crypto :: crypto where
  "demo_crypto = \<lparr>sha256 = (\<lambda>bs. word_of_nat (length bs)), bytes_are_curve_point = (\<lambda>_. False)\<rparr>"

lemma demo_address: "find_program_address demo_crypto [[1, 2]] 7 = Inr (56, 255)"
  by (simp add: find_program_address_first create_program_address_def demo_crypto_def MAX_SEEDS_def MAX_SEED_LEN_def
      PDA_MARKER_def)

theorem find_program_address_canonical_witness:
  "create_program_address demo_crypto [[1, 2], [255]] 7 = Inr 56"
  using find_program_address_canonical [OF demo_address] by simp

lemma unat_to_builtin: "k < 2 ^ 32 \<Longrightarrow> unat (to_builtin k) = k * 4294967296"
  by (simp add: to_builtin_def push_bit_eq_mult unat_mult_no_overflow unat_of_nat)

lemma to_builtin_eq: "m < 2 ^ 32 \<Longrightarrow> n < 2 ^ 32 \<Longrightarrow> to_builtin m = to_builtin n \<longleftrightarrow> m = n"
  by (auto dest: arg_cong [of _ _ unat] simp: unat_to_builtin)

lemma custom_not_builtin:
  fixes x :: u32
  assumes "0 < n" and "n < 2 ^ 32"
  shows "(ucast x :: u64) \<noteq> to_builtin n"
proof
  assume eq: "(ucast x :: u64) = to_builtin n"
  have "unat (to_builtin n) = n * 4294967296" using assms by (simp add: unat_to_builtin)
  moreover have "unat x < 2 ^ 32" using unsigned_less [of x, where 'a = nat] by simp
  ultimately show False using eq assms(1) unat_ucast_32_64 [of x] by simp
qed

text \<open>
  the code of a program error as a 64-bit number determines the error, except for the message of
  an error of borsh, which is not transmitted.
\<close>

theorem program_error_code_roundtrip:
  "program_error_of_u64 (u64_of_program_error e) =
     (case e of ProgramError.BorshIoError _ \<Rightarrow> ProgramError.BorshIoError ''Unknown'' | _ \<Rightarrow> e)"
proof (cases e)
  case (Custom x)
  have "unat (ucast (ucast x :: u64) :: u32) = take_bit 32 (unat (ucast x :: u64))"
    by (rule trans [OF unsigned_ucast_eq]) simp
  also have "\<dots> = unat x"
    using unsigned_less [of x, where 'a = nat] by (simp only: unat_ucast_32_64) (simp add: take_bit_nat_eq_self)
  finally have "unat (ucast (ucast x :: u64) :: u32) = unat x" .
  then have "ucast (ucast x :: u64) = x" by (rule unsigned_word_eqI)
  with Custom show ?thesis by (simp add: program_error_of_u64_def custom_not_builtin)
qed (simp_all add: program_error_of_u64_def to_builtin_eq)


section \<open>The token program\<close>

text \<open>
  C27: unpacking a packed token instruction gives the instruction back, whatever bytes follow it.
\<close>

theorem token_instruction_roundtrip:
  "token_instruction_unpack (token_instruction_pack i @ rest) = Inr i"
  by (rule token_instruction_roundtrip_append)

text \<open>
  C26: packing a token account into 165 bytes succeeds and unpacking the result gives the account back;
  and every byte string that unpacks as a token account is the packed form of that account over itself.
\<close>

theorem token_account_roundtrip:
  assumes "length dst = TokenAccount_LEN"
  shows "(\<exists>bs. account_pack v dst = Inr bs \<and> length bs = TokenAccount_LEN \<and> account_unpack_unchecked bs = Inr v) \<and>
    (account_unpack_unchecked dst = Inr w \<longrightarrow> account_pack w dst = Inr dst)"
  using account_layout.pack_Inr [OF TrueI assms, of v] account_layout.unpack_then_pack [of dst w]
  by (auto simp: account_pack_def account_unpack_unchecked_def)

theorem token_account_roundtrip_witness:
  "\<exists>bs. account_pack \<lparr>mint = 1, tok_owner = 2, amount = 3, delegate = None, state = AccountState.Initialized,
      is_native = None, delegated_amount = 0, close_authority = Some 4\<rparr> (replicate 165 0) = Inr bs \<and> length bs = 165"
  using token_account_roundtrip [of "replicate 165 0"] by (auto simp: TokenAccount_LEN_def)

text \<open>
  the tags 12 to 15, the checked variants, are followed by an amount that is cut off without a
  look at the length: fewer than eight bytes after the tag make the program panic, where the unchecked
  tags return \<open>InvalidInstruction\<close>.
\<close>

theorem token_unpack_short_panics:
  assumes "tag \<in> {12, 13, 14, 15}" and "tag' \<in> {3, 4, 7, 8}" and "length rest < 8"
  shows "token_instruction_unpack (tag # rest) = Inl Panic \<and>
    token_instruction_unpack (tag' # rest) = token_err TokenError.InvalidInstruction"
proof
  have d: "unpack_amount_decimals rest = Inl Panic" and a: "unpack_amount rest = token_err TokenError.InvalidInstruction"
    using assms(3) by (simp_all add: unpack_amount_decimals_def unpack_amount_def)
  show "token_instruction_unpack (tag # rest) = Inl Panic"
    using assms(1) d by (elim insertE emptyE) (simp_all add: token_instruction_unpack_def)
  show "token_instruction_unpack (tag' # rest) = token_err TokenError.InvalidInstruction"
    using assms(2) a by (elim insertE emptyE) (simp_all add: token_instruction_unpack_def)
qed

theorem token_unpack_short_panics_witness:
  "token_instruction_unpack [12, 1, 2, 3] = Inl Panic \<and>
   token_instruction_unpack [3, 1, 2, 3] = token_err TokenError.InvalidInstruction"
  using token_unpack_short_panics [of 12 3 "[1, 2, 3]"] by simp

text \<open>
  C24: an authority that \<open>validate_owner\<close> accepts is the expected one, and it signed; if it is a
  multisignature account of the program, then at least \<open>m\<close> different positions of its list of signers
  belong to accounts that signed, so passing one signer several times does not help.
\<close>

theorem validate_owner_threshold:
  assumes "validate_owner program_id k ai signers st = Inr u"
  shows "key ai = k \<and>
    (if is_multisig program_id ai st
     then \<exists>ms. multisig_unpack (info_data st ai) = Inr ms \<and>
       unat (ms_m ms) \<le> card {i. i < unat (ms_n ms) \<and> (\<exists>s\<in>set signers. is_signer s \<and> key s = ms_signers ms ! i)}
     else is_signer ai)"
  using validate_owner_authorized [OF assms] unfolding authorized_def signed_positions_def .

definition demo_multisig :: Multisig where
  "demo_multisig = \<lparr>ms_m = 1, ms_n = 2, ms_is_initialized = True, ms_signers = [5, 6] @ replicate 9 0\<rparr>"

lemma demo_multisig_packed:
  "\<exists>bs. length bs = Multisig_LEN \<and> multisig_unpack bs = Inr demo_multisig"
proof -
  have wf: "wf_multisig demo_multisig" by (simp add: wf_multisig_def demo_multisig_def MAX_SIGNERS_def)
  obtain bs where "multisig_pack demo_multisig (replicate Multisig_LEN 0) = Inr bs"
    using multisig_layout.pack_Inr [OF wf, of "replicate Multisig_LEN 0"] by (auto simp: multisig_pack_def)
  then show ?thesis
    using multisig_pack_Inr(1,3) [OF _ wf] by (metis Multisig.select_convs(3) demo_multisig_def)
qed

lemma demo_multisig_fields:
  "unat (ms_m demo_multisig) = 1" "unat (ms_n demo_multisig) = 2" "ms_signers demo_multisig ! 0 = 5"
  "ms_signers demo_multisig ! Suc 0 = 6" "take 2 (ms_signers demo_multisig) = [5, 6]"
  by (simp_all add: demo_multisig_def)

lemma demo_multisig_signed: "signed_positions demo_multisig [\<lparr>key = 5, is_signer = True, is_writable = False\<rparr>] = {0}"
  by (auto simp: signed_positions_def demo_multisig_fields less_2_cases_iff)

theorem validate_owner_threshold_witness:
  "\<exists>bs. multisig_unpack bs = Inr demo_multisig \<and>
     validate_owner 77 9 \<lparr>key = 9, is_signer = False, is_writable = False\<rparr> [\<lparr>key = 5, is_signer = True, is_writable = False\<rparr>]
       (\<lambda>_. default_account\<lparr>data := bs, owner := 77\<rparr>) = Inr () \<and>
     1 \<le> card {i. i < 2 \<and> (5 :: Pubkey) = ms_signers demo_multisig ! i}"
proof -
  obtain bs where bs: "length bs = Multisig_LEN" "multisig_unpack bs = Inr demo_multisig"
    using demo_multisig_packed by (elim exE conjE)
  let ?ai = "\<lparr>key = 9, is_signer = False, is_writable = False\<rparr> :: AccountInfo"
  let ?s = "[\<lparr>key = 5, is_signer = True, is_writable = False\<rparr>] :: AccountInfo list"
  let ?st = "\<lambda>_ :: Pubkey. default_account\<lparr>data := bs, owner := 77\<rparr>"
  have ms: "is_multisig 77 ?ai ?st" using bs by (simp add: is_multisig_def)
  have a: "authorized 77 9 ?ai ?s ?st"
    using bs ms demo_multisig_signed demo_multisig_fields(1) by (simp add: authorized_def)
  have r: "validate_owner 77 9 ?ai ?s ?st = Inr ()"
    using bs(2) by (intro authorized_validate_owner [OF a]) (simp add: demo_multisig_fields MAX_SIGNERS_def)
  have "1 \<le> card {i. i < 2 \<and> (5 :: Pubkey) = ms_signers demo_multisig ! i}"
    using validate_owner_threshold [OF r] ms bs(2) by (simp add: demo_multisig_fields)
  then show ?thesis using r bs(2) by (intro exI conjI)
qed


section \<open>Messages\<close>

text \<open>
  C25: compiling instructions into a message and decompiling it gives the instructions back, in order,
  with their programs, accounts and data; each account has the privileges that any of the instructions
  or the payer asked for, except that built-in keys and called programs are not writable. The message
  may have at most 256 keys.
\<close>

theorem message_roundtrip:
  assumes "new_with_blockhash ixs payer hash = Some m" and "length (msg_account_keys m) \<le> 256"
  shows "decompile_instructions m = Some (map (granted ixs payer) ixs)"
  by (rule decompile_new_with_blockhash [OF assms])

definition demo_ix :: Instruction where
  "demo_ix = \<lparr>instr_program_id = 9, instr_accounts = [meta_new 5 True, meta_new_readonly 6 False], instr_data = [1, 2]\<rparr>"

lemma demo_message:
  "new_with_blockhash [demo_ix] (Some 5) 7 = Some
     \<lparr>header = \<lparr>num_required_signatures = 1, num_readonly_signed_accounts = 0, num_readonly_unsigned_accounts = 2\<rparr>,
      msg_account_keys = [5, 6, 9], recent_blockhash = 7,
      instructions = [\<lparr>program_id_index = 2, ci_accounts = [0, 1], ci_data = [1, 2]\<rparr>]\<rparr>"
  by (simp add: demo_ix_def new_with_blockhash_def compiled_keys_compile_def compile_ix_keys_def compile_account_meta_def
      try_into_message_components_def keys_where_def try_into_u8_def compile_instructions_def compile_instruction_def
      key_position_def meta_new_def meta_new_readonly_def key_meta_default_def)

theorem message_roundtrip_witness:
  "\<exists>m. new_with_blockhash [demo_ix] (Some 5) 7 = Some m \<and> decompile_instructions m = Some [granted [demo_ix] (Some 5) demo_ix]"
  using message_roundtrip [OF demo_message] demo_message by simp

text \<open>
  with more than 256 keys the index of a key is cut to eight bits: the compiled index of a key at
  a position from 256 on names another key.
\<close>

theorem key_position_truncates:
  assumes "distinct keys" and "i < length keys" and "256 \<le> i"
  shows "\<exists>p. key_position keys (keys ! i) = Some p \<and> unat p = i mod 256 \<and> keys ! unat p \<noteq> keys ! i"
proof -
  have "find_position (\<lambda>x. x = keys ! i) keys = Some i"
  proof (cases "find_position (\<lambda>x. x = keys ! i) keys")
    case (Some j)
    with find_position_Some [OF this] assms show ?thesis using nth_eq_iff_index_eq by metis
  qed (use assms(2) in \<open>auto simp: find_position_None\<close>)
  moreover have "i mod 256 < i" using assms(3) mod_less_divisor [of 256 i] by linarith
  ultimately show ?thesis
    using assms by (simp add: key_position_def unat_of_nat nth_eq_iff_index_eq)
qed

definition many_keys :: "nat \<Rightarrow> Pubkey list" where
  "many_keys n = map word_of_nat [0..<n]"

lemma length_many_keys: "length (many_keys n) = n"
  by (simp add: many_keys_def)

lemma distinct_many_keys: "n \<le> 2 ^ 256 \<Longrightarrow> distinct (many_keys n)"
  by (auto simp: many_keys_def distinct_map inj_on_def word_unat_eq_iff unat_of_nat)

theorem key_position_truncates_witness:
  "\<exists>p. key_position (many_keys 300) (many_keys 300 ! 256) = Some p \<and> unat p = 0 \<and>
     many_keys 300 ! unat p \<noteq> many_keys 300 ! 256"
  using key_position_truncates [OF distinct_many_keys, of 300 256] by (simp add: length_many_keys)

text \<open>
  the table over the first byte of a key that \<open>is_builtin_key_or_sysvar\<close> consults first never
  changes the answer: a key is found exactly if it is one of the listed sysvars or built-in programs.
\<close>

theorem builtin_key_table_exact:
  "is_builtin_key_or_sysvar k \<longleftrightarrow> k \<in> set ALL_IDS \<or> k \<in> set BUILTIN_PROGRAMS_KEYS"
  by (rule is_builtin_key_or_sysvar_iff)


section \<open>What a program and a transaction may ask for\<close>

text \<open>
  C23: the check of an account after a program ran accepts exactly the allowed changes. A new owner
  needs a writable account that is not executable, is owned by the program and has only zeros as data;
  only the owner takes lamports or changes the data; lamports change only on writable accounts that are
  not executable; the data has at most 10 MiB; only the owner makes a writable, rent-exempt account
  executable, and never back; the rent epoch stays.
\<close>

theorem pre_account_verify_exact:
  "pre_account_verify p program_id writable rent post = Inr () \<longleftrightarrow>
     (owner (pre_account p) \<noteq> owner post \<longrightarrow>
        writable \<and> \<not> executable (pre_account p) \<and> program_id = owner (pre_account p) \<and> (\<forall>b\<in>set (data post). b = 0)) \<and>
     (lamports post < lamports (pre_account p) \<longrightarrow> program_id = owner (pre_account p)) \<and>
     (lamports (pre_account p) \<noteq> lamports post \<longrightarrow> writable \<and> \<not> executable (pre_account p)) \<and>
     length (data post) \<le> 10485760 \<and>
     (data (pre_account p) \<noteq> data post \<longrightarrow>
        program_id = owner (pre_account p) \<and> writable \<and> \<not> executable (pre_account p)) \<and>
     (executable (pre_account p) \<noteq> executable post \<longrightarrow>
        is_exempt rent (lamports post) (length (data post)) \<and> writable \<and>
        \<not> executable (pre_account p) \<and> program_id = owner post) \<and>
     rent_epoch (pre_account p) = rent_epoch post"
  unfolding pre_account_verify_iff is_zeroed_iff by (simp add: PreAccount.MAX_PERMITTED_DATA_LENGTH_def)

definition demo_pre :: PreAccount where
  "demo_pre = pre_account_new 5 (default_account\<lparr>lamports := 10, owner := 77\<rparr>)"

theorem pre_account_verify_exact_witness:
  "pre_account_verify demo_pre 77 True rent_default (default_account\<lparr>lamports := 4, data := [1, 2], owner := 77\<rparr>) = Inr ()"
  unfolding pre_account_verify_exact by (simp add: demo_pre_def pre_account_new_def default_account_def)

text \<open>
  C28: whatever a transaction requests, the compute budget that it is granted, starting from a new
  budget as the callers do, has at most 1.4 million units; the heap that the loader allocates for a
  program, requested or the default, is between 32 KiB and 256 KiB and a multiple of 1 KiB; and the
  loader charges 8 units for every full 32 KiB of it after the first, 56 at most.
\<close>

theorem compute_budget_bounded:
  assumes "process_instructions decode instrs default_units with_price (compute_budget_new limit) = Inr (details, budget)"
  shows "unat (compute_unit_limit budget) \<le> 1400000 \<and>
    32768 \<le> vm_heap_size budget \<and> vm_heap_size budget \<le> 262144 \<and> vm_heap_size budget mod 1024 = 0 \<and>
    unat (vm_heap_charge budget) = 8 * (vm_heap_size budget div 32768 - 1) \<and> unat (vm_heap_charge budget) \<le> 56"
proof -
  note h = granted_heap [OF assms]
  have "vm_heap_size budget div 32768 \<le> 8" using h div_le_mono [of _ 262144 32768] by fastforce
  moreover have "unat (compute_unit_limit budget) \<le> 1400000"
    using process_instructions_Inr [OF assms] budget_limit_bound by auto
  ultimately show ?thesis using h heap_charge [of budget] by simp
qed

definition demo_requests :: "bytes \<Rightarrow> ComputeBudgetInstruction option" where
  "demo_requests bs = (if bs = [1] then Some (RequestHeapFrame 65536) else Some (SetComputeUnitLimit 9000000))"

lemma demo_budget:
  "\<exists>details budget'. process_instructions demo_requests [(compute_budget_id, [1]), (compute_budget_id, [2])] True True
     (compute_budget_new 200000) = Inr (details, budget') \<and> heap_size budget' = Some 65536"
  by (simp add: process_instructions_def budget_request_init_def demo_requests_def MAX_HEAP_FRAME_BYTES_def
      MIN_HEAP_FRAME_BYTES_def Let_def)

theorem compute_budget_bounded_witness:
  "\<exists>details budget'. process_instructions demo_requests [(compute_budget_id, [1]), (compute_budget_id, [2])] True True
     (compute_budget_new 200000) = Inr (details, budget') \<and> unat (compute_unit_limit budget') \<le> 1400000 \<and>
     heap_size budget' = Some 65536 \<and> unat (vm_heap_charge budget') = 8"
proof -
  obtain details budget' where r: "process_instructions demo_requests [(compute_budget_id, [1]), (compute_budget_id, [2])]
      True True (compute_budget_new 200000) = Inr (details, budget')" and h: "heap_size budget' = Some 65536"
    using demo_budget by (elim exE conjE)
  show ?thesis using compute_budget_bounded [OF r] r h by (simp add: vm_heap_size_def)
qed

text \<open>
  the prioritization fee of a price per compute unit in millionths of a lamport is the product with
  the limit, rounded up to a whole lamport and cut at the largest 64-bit number; no intermediate result
  overflows.
\<close>

theorem prioritization_fee_rounds_up:
  "unat (fee (prioritization_fee_details_new (ComputeUnitPrice p) limit)) =
     min ((unat p * unat limit + 999999) div 1000000) (2 ^ 64 - 1)"
  by (rule compute_unit_price_fee)

end
