(* ===== verification/AlignedMemory.thy ===== *)
theory AlignedMemory
  imports Prelude
begin

text \<open>
  The append-only buffer of \<open>solana_rbpf/src/aligned_memory.rs\<close>. A buffer of \<open>max_len\<close> bytes
  starts at an aligned address inside a vector; the address of the vector, which the allocator
  chooses, is the parameter \<open>base\<close> of the constructors. \<^term>\<open>None\<close> is the error of
  \<open>std::io\<close>. Lengths are natural numbers: they are lengths of vectors in memory.
\<close>

record AlignedMemory =
  max_len :: nat
  am_align_offset :: nat
  mem :: bytes

text \<open>\<open>align_offset\<close> of the standard library: the distance to the next multiple of \<open>a\<close>.\<close>

definition align_offset :: "nat \<Rightarrow> nat \<Rightarrow> nat" where
  "align_offset n a = (a - n mod a) mod a"

definition get_mem :: "nat \<Rightarrow> nat \<Rightarrow> bytes \<times> nat" where
  "get_mem base align = (let off = align_offset base align in (replicate off 0, off))"

definition am_new :: "nat \<Rightarrow> nat \<Rightarrow> nat \<Rightarrow> AlignedMemory" where
  "am_new base n align =
     (let (m, off) = get_mem base align in \<lparr>max_len = n, am_align_offset = off, mem = m\<rparr>)"

definition new_with_size :: "nat \<Rightarrow> nat \<Rightarrow> nat \<Rightarrow> AlignedMemory" where
  "new_with_size base n align =
     (let (m, off) = get_mem base align
      in \<lparr>max_len = n, am_align_offset = off, mem = m @ replicate (off + n - length m) 0\<rparr>)"

definition new_with_data :: "nat \<Rightarrow> bytes \<Rightarrow> nat \<Rightarrow> AlignedMemory" where
  "new_with_data base bs align =
     (let (m, off) = get_mem base align
      in \<lparr>max_len = length bs, am_align_offset = off, mem = m @ bs\<rparr>)"

definition am_len :: "AlignedMemory \<Rightarrow> nat" where
  "am_len m = length (mem m) - am_align_offset m"

definition am_is_empty :: "AlignedMemory \<Rightarrow> bool" where
  "am_is_empty m \<longleftrightarrow> length (mem m) - am_align_offset m = 0"

definition write_index :: "AlignedMemory \<Rightarrow> nat" where
  "write_index m = length (mem m)"

definition as_slice :: "AlignedMemory \<Rightarrow> bytes" where
  "as_slice m = slice (am_align_offset m) (length (mem m) - am_align_offset m) (mem m)"

definition am_resize :: "nat \<Rightarrow> u8 \<Rightarrow> AlignedMemory \<Rightarrow> AlignedMemory option" where
  "am_resize num v m =
     (if am_align_offset m + max_len m < length (mem m) + num then None
      else Some (m\<lparr>mem := mem m @ replicate num v\<rparr>))"

definition am_write :: "bytes \<Rightarrow> AlignedMemory \<Rightarrow> (AlignedMemory \<times> nat) option" where
  "am_write buf m =
     (if am_align_offset m + max_len m < length (mem m) + length buf then None
      else Some (m\<lparr>mem := mem m @ buf\<rparr>, length buf))"

text \<open>
  \<open>write_all\<close> of \<open>std::io::Write\<close>: it calls \<open>write\<close> on what is left until nothing is, and
  \<open>write\<close> takes all of it at once.
\<close>

definition write_all :: "bytes \<Rightarrow> AlignedMemory \<Rightarrow> AlignedMemory option" where
  "write_all buf m = (if buf = [] then Some m else map_option fst (am_write buf m))"


section \<open>Buffers\<close>

text \<open>
  A buffer is well formed if its prefix is in place and it holds at most \<open>max_len\<close> bytes. The
  constructors give well-formed buffers and every operation keeps that; \<^term>\<open>as_slice\<close> is what
  was written, in order.
\<close>

definition wf_mem :: "AlignedMemory \<Rightarrow> bool" where
  "wf_mem m \<longleftrightarrow> am_align_offset m \<le> length (mem m) \<and> length (mem m) \<le> am_align_offset m + max_len m"

lemma length_as_slice: "wf_mem m \<Longrightarrow> length (as_slice m) + am_align_offset m = write_index m"
  by (simp add: wf_mem_def as_slice_def write_index_def slice_def)

lemma am_len_slice: "wf_mem m \<Longrightarrow> am_len m = length (as_slice m)"
  by (simp add: am_len_def as_slice_def slice_def)

lemma wf_am_new: "wf_mem (am_new base n align)" "as_slice (am_new base n align) = []"
    "max_len (am_new base n align) = n" "am_align_offset (am_new base n align) = align_offset base align"
  by (simp_all add: wf_mem_def am_new_def get_mem_def Let_def as_slice_def slice_def)

lemma new_with_slices:
  "wf_mem (new_with_size base n align)" "as_slice (new_with_size base n align) = replicate n 0"
  "wf_mem (new_with_data base bs align)" "as_slice (new_with_data base bs align) = bs"
  by (simp_all add: wf_mem_def new_with_size_def new_with_data_def get_mem_def Let_def as_slice_def slice_def)

lemma write_all_Some:
  assumes "wf_mem m"
  shows "write_all bs m = Some m' \<longleftrightarrow>
    length (as_slice m) + length bs \<le> max_len m \<and> m' = m\<lparr>mem := mem m @ bs\<rparr>"
  using assms by (auto simp: write_all_def am_write_def wf_mem_def as_slice_def slice_def)

lemma am_resize_Some:
  assumes "wf_mem m"
  shows "am_resize n v m = Some m' \<longleftrightarrow>
    length (as_slice m) + n \<le> max_len m \<and> m' = m\<lparr>mem := mem m @ replicate n v\<rparr>"
  using assms by (auto simp: am_resize_def wf_mem_def as_slice_def slice_def)

lemma wf_mem_append:
  assumes "wf_mem m" and "length (as_slice m) + length bs \<le> max_len m"
  shows "wf_mem (m\<lparr>mem := mem m @ bs\<rparr>)" and "as_slice (m\<lparr>mem := mem m @ bs\<rparr>) = as_slice m @ bs"
  using assms by (simp_all add: wf_mem_def as_slice_def slice_def)

lemma align_offset_less: "0 < a \<Longrightarrow> align_offset n a < a"
  by (simp add: align_offset_def)

lemma align_offset_aligns:
  assumes "0 < a"
  shows "(n + align_offset n a) mod a = 0"
proof -
  have "(n + (a - n mod a)) mod a = (n mod a + (a - n mod a)) mod a" by (simp add: mod_simps)
  also have "n mod a + (a - n mod a) = a" using assms by (simp add: order.strict_implies_order)
  finally show ?thesis by (simp add: align_offset_def mod_simps)
qed

lemma align_offset_cong: "n mod a = m mod a \<Longrightarrow> align_offset n a = align_offset m a"
  by (simp add: align_offset_def)

end
