(* ===== verification/LoaderAbi.thy ===== *)
theory LoaderAbi
  imports AlignedMemory RuntimeSafety SystemProgram
begin

text \<open>
  The interface between the loader and an on-chain program: \<open>programs/bpf_loader/src/serialization.rs\<close>
  lays the accounts of an instruction out in one buffer, \<open>deserialize\<close> of
  \<open>sdk/program/src/entrypoint.rs\<close> is the program's side of it, and \<open>deserialize_parameters\<close> copies
  what the program left in the buffer back into the transaction context.

  The address that the allocator gives the buffer is the parameter \<open>base\<close> of the serializers. The
  program's reads are by pointer: an offset into the buffer, with \<^term>\<open>None\<close> for a read outside of
  it and for an index that is out of bounds. Sizes are natural numbers; they are sums of lengths of
  buffers in memory.
\<close>

definition bpf_loader_deprecated_id :: Pubkey where
  "bpf_loader_deprecated_id = 0x02a8f6914e88a16bbd2395855f6404d9b4f456b7821bb0145749428c00000000"

definition MAX_PERMITTED_DATA_INCREASE :: nat where
  "MAX_PERMITTED_DATA_INCREASE = 1024 * 10"

definition BPF_ALIGN_OF_U128 :: nat where
  "BPF_ALIGN_OF_U128 = 8"

definition HOST_ALIGN :: nat where
  "HOST_ALIGN = 16"


section \<open>Writing\<close>

text \<open>A run of \<open>write_u8\<close>, \<open>write_u64\<close> and \<open>write_all\<close>, each with its \<open>map_err\<close> and \<open>?\<close>.\<close>

fun write_seq :: "bytes list \<Rightarrow> AlignedMemory \<Rightarrow> AlignedMemory IResult" where
  "write_seq [] m = Ok m"
| "write_seq (bs # rest) m =
     and_then (ok_or (write_all bs m) InstructionError.InvalidArgument) (write_seq rest)"

definition resize :: "nat \<Rightarrow> AlignedMemory \<Rightarrow> AlignedMemory IResult" where
  "resize n m = ok_or (am_resize n 0 m) InstructionError.InvalidArgument"

text \<open>A loop over positions whose body may return early.\<close>

fun for_each :: "(nat \<Rightarrow> 's \<Rightarrow> 'e + 's) \<Rightarrow> nat list \<Rightarrow> 's \<Rightarrow> 'e + 's" where
  "for_each f [] s = Ok s"
| "for_each f (i # is) s = and_then (f i s) (for_each f is)"

definition get_number_of_instruction_accounts :: "InstructionContext \<Rightarrow> nat" where
  "get_number_of_instruction_accounts ctx = length (instruction_accounts ctx)"

abbreviation u64_bytes :: "nat \<Rightarrow> bytes" where
  "u64_bytes n \<equiv> u64_to_le_bytes (word_of_nat n)"


section \<open>Serialization\<close>

definition unaligned_account_size :: "InstructionContext \<Rightarrow> TransactionContext \<Rightarrow> nat \<Rightarrow> nat \<Rightarrow> nat IResult" where
  "unaligned_account_size ctx tc i sz =
     and_then (is_instruction_account_duplicate ctx i) (\<lambda>duplicate.
     case duplicate of
       Some _ \<Rightarrow> Ok (sz + 1)
     | None \<Rightarrow>
         and_then (try_borrow_instruction_account ctx tc i) (\<lambda>b.
         Ok (sz + 1 + (1 + 1 + 32 + 8 + 8 + length (data (borrowed tc b)) + 32 + 1 + 8))))"

definition serialize_account_unaligned ::
  "InstructionContext \<Rightarrow> TransactionContext \<Rightarrow> nat \<Rightarrow> AlignedMemory \<Rightarrow> AlignedMemory IResult" where
  "serialize_account_unaligned ctx tc i v =
     and_then (is_instruction_account_duplicate ctx i) (\<lambda>duplicate.
     case duplicate of
       Some p \<Rightarrow> write_seq [[word_of_nat p]] v
     | None \<Rightarrow>
         and_then (try_borrow_instruction_account ctx tc i) (\<lambda>b.
         let a = borrowed tc b
         in write_seq
              [[255], [of_bool (ba_is_signer b)], [of_bool (ba_is_writable b)], to_bytes (get_key tc b),
               u64_to_le_bytes (lamports a), u64_bytes (length (data a)), data a, to_bytes (owner a),
               [of_bool (executable a)], u64_to_le_bytes (rent_epoch a)] v))"

definition aligned_account_size :: "InstructionContext \<Rightarrow> TransactionContext \<Rightarrow> nat \<Rightarrow> nat \<Rightarrow> nat IResult" where
  "aligned_account_size ctx tc i sz =
     and_then (is_instruction_account_duplicate ctx i) (\<lambda>duplicate.
     case duplicate of
       Some _ \<Rightarrow> Ok (sz + 1 + 7)
     | None \<Rightarrow>
         and_then (try_borrow_instruction_account ctx tc i) (\<lambda>b.
         let data_len = length (data (borrowed tc b))
         in Ok (sz + 1 + (1 + 1 + 1 + 4 + 32 + 32 + 8 + 8 + data_len + MAX_PERMITTED_DATA_INCREASE
                + align_offset data_len BPF_ALIGN_OF_U128 + 8))))"

definition serialize_account_aligned ::
  "InstructionContext \<Rightarrow> TransactionContext \<Rightarrow> nat \<Rightarrow> AlignedMemory \<Rightarrow> AlignedMemory IResult" where
  "serialize_account_aligned ctx tc i v =
     and_then (is_instruction_account_duplicate ctx i) (\<lambda>duplicate.
     case duplicate of
       Some p \<Rightarrow> write_seq [[word_of_nat p], [0, 0, 0, 0, 0, 0, 0]] v
     | None \<Rightarrow>
         and_then (try_borrow_instruction_account ctx tc i) (\<lambda>b.
         let a = borrowed tc b
         in and_then (write_seq
              [[255], [of_bool (ba_is_signer b)], [of_bool (ba_is_writable b)], [of_bool (executable a)],
               [0, 0, 0, 0], to_bytes (get_key tc b), to_bytes (owner a), u64_to_le_bytes (lamports a),
               u64_bytes (length (data a)), data a] v) (\<lambda>v.
            and_then (resize (MAX_PERMITTED_DATA_INCREASE + align_offset (write_index v) BPF_ALIGN_OF_U128) v)
              (write_seq [u64_to_le_bytes (rent_epoch a)]))))"

text \<open>
  The two serializers share the frame: compute the size, allocate once, write the number of
  accounts, the accounts, the instruction data and the program id.
\<close>

definition serialize_with ::
  "(nat \<Rightarrow> nat \<Rightarrow> nat IResult) \<Rightarrow> (nat \<Rightarrow> AlignedMemory \<Rightarrow> AlignedMemory IResult) \<Rightarrow> nat \<Rightarrow>
   InstructionContext \<Rightarrow> TransactionContext \<Rightarrow> AlignedMemory IResult" where
  "serialize_with account_size write_account base ctx tc =
     (let n = get_number_of_instruction_accounts ctx
      in and_then (for_each account_size [0..<n] 8) (\<lambda>size.
         and_then (write_seq [u64_bytes n] (am_new base (size + (8 + length (instruction_data ctx) + 32)) HOST_ALIGN)) (\<lambda>v.
         and_then (for_each write_account [0..<n] v) (\<lambda>v.
         and_then (write_seq [u64_bytes (length (instruction_data ctx)), instruction_data ctx] v) (\<lambda>v.
         and_then (try_borrow_last_program_account ctx tc) (\<lambda>b.
         write_seq [to_bytes (get_key tc b)] v))))))"

definition serialize_parameters_unaligned ::
  "nat \<Rightarrow> InstructionContext \<Rightarrow> TransactionContext \<Rightarrow> AlignedMemory IResult" where
  "serialize_parameters_unaligned base ctx tc =
     serialize_with (unaligned_account_size ctx tc) (serialize_account_unaligned ctx tc) base ctx tc"

definition serialize_parameters_aligned ::
  "nat \<Rightarrow> InstructionContext \<Rightarrow> TransactionContext \<Rightarrow> AlignedMemory IResult" where
  "serialize_parameters_aligned base ctx tc =
     serialize_with (aligned_account_size ctx tc) (serialize_account_aligned ctx tc) base ctx tc"

definition is_loader_deprecated :: "InstructionContext \<Rightarrow> TransactionContext \<Rightarrow> bool IResult" where
  "is_loader_deprecated ctx tc =
     and_then (try_borrow_last_program_account ctx tc) (\<lambda>b.
     Ok (owner (borrowed tc b) = bpf_loader_deprecated_id))"

definition account_length :: "InstructionContext \<Rightarrow> TransactionContext \<Rightarrow> nat \<Rightarrow> nat list \<Rightarrow> nat list IResult" where
  "account_length ctx tc i ls =
     and_then (try_borrow_instruction_account ctx tc i) (\<lambda>b. Ok (ls @ [length (data (borrowed tc b))]))"

definition serialize_parameters ::
  "nat \<Rightarrow> InstructionContext \<Rightarrow> TransactionContext \<Rightarrow> (AlignedMemory \<times> nat list) IResult" where
  "serialize_parameters base ctx tc =
     and_then (is_loader_deprecated ctx tc) (\<lambda>dep.
     and_then (if dep then serialize_parameters_unaligned base ctx tc
               else serialize_parameters_aligned base ctx tc) (\<lambda>buffer.
     and_then (for_each (account_length ctx tc) [0..<get_number_of_instruction_accounts ctx] []) (\<lambda>account_lengths.
     Ok (buffer, account_lengths))))"


section \<open>Copying the buffer back\<close>

text \<open>
  \<open>LittleEndian::read_u64\<close> of the slice from \<open>start\<close> on panics if fewer than 8 bytes are left.
\<close>

datatype loader_failure = Failed InstructionError | Panicked

definition buffer_get :: "bytes \<Rightarrow> nat \<Rightarrow> nat \<Rightarrow> loader_failure + bytes" where
  "buffer_get buffer start n =
     (if start + n \<le> length buffer then Ok (slice start n buffer)
      else Inl (Failed InstructionError.InvalidArgument))"

definition buffer_u64 :: "bytes \<Rightarrow> nat \<Rightarrow> loader_failure + u64" where
  "buffer_u64 buffer start =
     (if length buffer < start then Inl (Failed InstructionError.InvalidArgument)
      else if length buffer < start + 8 then Inl Panicked
      else Ok (u64_from_le_bytes (slice start 8 buffer)))"

type_synonym 'a restore = "(TransactionContext, loader_failure, 'a) action"

definition from_buffer :: "loader_failure + 'a \<Rightarrow> 'a restore" where
  "from_buffer r = sread (\<lambda>_. r)"

definition borrow_to_restore :: "InstructionContext \<Rightarrow> nat \<Rightarrow> BorrowedAccount restore" where
  "borrow_to_restore ctx i = sread (\<lambda>tc. map_err Failed (try_borrow_instruction_account ctx tc i))"

definition duplicate_to_restore :: "InstructionContext \<Rightarrow> nat \<Rightarrow> nat option restore" where
  "duplicate_to_restore ctx i = sread (\<lambda>_. map_err Failed (is_instruction_account_duplicate ctx i))"

definition restore_account_unaligned :: "InstructionContext \<Rightarrow> bytes \<Rightarrow> nat \<Rightarrow> nat \<Rightarrow> nat \<Rightarrow> nat restore" where
  "restore_account_unaligned ctx buffer i pre_len start =
     sbind (duplicate_to_restore ctx i) (\<lambda>duplicate.
     case duplicate of
       Some _ \<Rightarrow> sret (start + 1)
     | None \<Rightarrow>
         sbind (borrow_to_restore ctx i) (\<lambda>b.
         let start = start + 1 + 1 + 1 + 32
         in sbind (from_buffer (buffer_u64 buffer start)) (\<lambda>l.
            sbind (smodify (set_lamports b l)) (\<lambda>_.
            let start = start + (8 + 8)
            in sbind (from_buffer (buffer_get buffer start pre_len)) (\<lambda>bs.
               sbind (smodify (set_data b bs)) (\<lambda>_.
               sret (start + (pre_len + 32 + 1 + 8))))))))"

definition restore_account_aligned :: "InstructionContext \<Rightarrow> bytes \<Rightarrow> nat \<Rightarrow> nat \<Rightarrow> nat \<Rightarrow> nat restore" where
  "restore_account_aligned ctx buffer i pre_len start =
     sbind (duplicate_to_restore ctx i) (\<lambda>duplicate.
     case duplicate of
       Some _ \<Rightarrow> sret (start + 1 + 7)
     | None \<Rightarrow>
         sbind (borrow_to_restore ctx i) (\<lambda>b.
         let start = start + 1 + (1 + 1 + 1 + 4 + 32)
         in sbind (from_buffer (buffer_get buffer start 32)) (\<lambda>bs.
            sbind (smodify (set_owner b (new_from_array bs))) (\<lambda>_.
            let start = start + 32
            in sbind (from_buffer (buffer_u64 buffer start)) (\<lambda>l.
               sbind (smodify (set_lamports b l)) (\<lambda>_.
               let start = start + 8
               in sbind (from_buffer (buffer_u64 buffer start)) (\<lambda>len.
                  let post_len = unat len; start = start + 8
                  in if MAX_PERMITTED_DATA_INCREASE < post_len - pre_len \<or>
                        unat SystemProgram.MAX_PERMITTED_DATA_LENGTH < post_len
                     then sfail (Failed InstructionError.InvalidRealloc)
                     else sbind (from_buffer (buffer_get buffer start post_len)) (\<lambda>bs.
                          sbind (smodify (set_data b bs)) (\<lambda>_.
                          let start = start + (pre_len + MAX_PERMITTED_DATA_INCREASE)
                          in sret (start + align_offset start BPF_ALIGN_OF_U128 + 8))))))))))"

fun restore_accounts ::
  "(nat \<Rightarrow> nat \<Rightarrow> nat \<Rightarrow> nat restore) \<Rightarrow> (nat \<times> nat) list \<Rightarrow> nat \<Rightarrow> unit restore" where
  "restore_accounts f [] start = sret ()"
| "restore_accounts f ((i, pre_len) # rest) start = sbind (f i pre_len start) (restore_accounts f rest)"

definition deserialize_parameters_unaligned ::
  "InstructionContext \<Rightarrow> bytes \<Rightarrow> nat list \<Rightarrow> unit restore" where
  "deserialize_parameters_unaligned ctx buffer account_lengths =
     restore_accounts (restore_account_unaligned ctx buffer)
       (zip [0..<get_number_of_instruction_accounts ctx] account_lengths) 8"

definition deserialize_parameters_aligned ::
  "InstructionContext \<Rightarrow> bytes \<Rightarrow> nat list \<Rightarrow> unit restore" where
  "deserialize_parameters_aligned ctx buffer account_lengths =
     restore_accounts (restore_account_aligned ctx buffer)
       (zip [0..<get_number_of_instruction_accounts ctx] account_lengths) 8"

definition deserialize_parameters ::
  "InstructionContext \<Rightarrow> bytes \<Rightarrow> nat list \<Rightarrow> unit restore" where
  "deserialize_parameters ctx buffer account_lengths =
     sbind (sread (\<lambda>tc. map_err Failed (is_loader_deprecated ctx tc))) (\<lambda>dep.
     if dep then deserialize_parameters_unaligned ctx buffer account_lengths
     else deserialize_parameters_aligned ctx buffer account_lengths)"


section \<open>The program's side\<close>

text \<open>
  An \<open>AccountInfo\<close> of the entrypoint points into the buffer; here it keeps the offsets of the key,
  the owner, the lamports and the data. A duplicate is a clone, with the same offsets.
\<close>

record InputInfo =
  in_is_signer :: bool
  in_is_writable :: bool
  key_at :: nat
  owner_at :: nat
  lamports_at :: nat
  data_at :: nat
  data_length :: nat
  in_executable :: bool
  in_rent_epoch :: u64

definition read_at :: "bytes \<Rightarrow> nat \<Rightarrow> nat \<Rightarrow> bytes option" where
  "read_at buf offset n = (if offset + n \<le> length buf then Some (slice offset n buf) else None)"

definition write_at :: "bytes \<Rightarrow> nat \<Rightarrow> bytes \<Rightarrow> bytes" where
  "write_at buf offset bs = take offset buf @ bs @ drop (offset + length bs) buf"

definition read_u8_at :: "bytes \<Rightarrow> nat \<Rightarrow> u8 option" where
  "read_u8_at buf offset = get buf offset"

definition read_u64_at :: "bytes \<Rightarrow> nat \<Rightarrow> u64 option" where
  "read_u64_at buf offset = map_option u64_from_le_bytes (read_at buf offset 8)"

definition deserialize_info :: "bytes \<Rightarrow> nat \<Rightarrow> (InputInfo \<times> bytes \<times> nat) option" where
  "deserialize_info buf offset =
     Option.bind (read_u8_at buf offset) (\<lambda>is_signer.
     Option.bind (read_u8_at buf (offset + 1)) (\<lambda>is_writable.
     Option.bind (read_u8_at buf (offset + 1 + 1)) (\<lambda>executable.
     let original_data_len_offset = offset + 1 + 1 + 1;
         key_offset = original_data_len_offset + 4;
         owner_offset = key_offset + 32;
         lamports_offset = owner_offset + 32;
         len_offset = lamports_offset + 8;
         data_offset = len_offset + 8
     in Option.bind (read_u64_at buf len_offset) (\<lambda>len.
        let data_len = unat len;
            buf = write_at buf original_data_len_offset (u32_to_le_bytes (word_of_nat data_len));
            offset = data_offset + (data_len + MAX_PERMITTED_DATA_INCREASE);
            offset = offset + align_offset offset BPF_ALIGN_OF_U128
        in Option.bind (read_u64_at buf offset) (\<lambda>rent_epoch.
           Some (\<lparr>in_is_signer = is_signer \<noteq> 0, in_is_writable = is_writable \<noteq> 0, key_at = key_offset,
                  owner_at = owner_offset, lamports_at = lamports_offset, data_at = data_offset,
                  data_length = data_len, in_executable = executable \<noteq> 0, in_rent_epoch = rent_epoch\<rparr>,
                 buf, offset + 8))))))"

fun deserialize_infos ::
  "nat \<Rightarrow> bytes \<Rightarrow> nat \<Rightarrow> InputInfo list \<Rightarrow> (InputInfo list \<times> bytes \<times> nat) option" where
  "deserialize_infos 0 buf offset accs = Some (accs, buf, offset)"
| "deserialize_infos (Suc n) buf offset accs =
     Option.bind (read_u8_at buf offset) (\<lambda>dup_info.
     if dup_info = 255
     then Option.bind (deserialize_info buf (offset + 1)) (\<lambda>(info, buf, offset).
          deserialize_infos n buf offset (accs @ [info]))
     else Option.bind (get accs (unat dup_info)) (\<lambda>info.
          deserialize_infos n buf (offset + 1 + 7) (accs @ [info])))"

definition entrypoint_deserialize :: "bytes \<Rightarrow> (Pubkey \<times> InputInfo list \<times> bytes \<times> bytes) option" where
  "entrypoint_deserialize buf =
     Option.bind (read_u64_at buf 0) (\<lambda>num_accounts.
     Option.bind (deserialize_infos (unat num_accounts) buf 8 []) (\<lambda>(accs, buf, offset).
     Option.bind (read_u64_at buf offset) (\<lambda>instruction_data_len.
     let offset = offset + 8
     in Option.bind (read_at buf offset (unat instruction_data_len)) (\<lambda>instruction_data.
        let offset = offset + unat instruction_data_len
        in Option.bind (read_at buf offset 32) (\<lambda>program_id.
           Some (new_from_array program_id, accs, instruction_data, buf))))))"

text \<open>What a program reads through an \<open>AccountInfo\<close> while the buffer is \<open>buf\<close>.\<close>

definition info_view :: "bytes \<Rightarrow> InputInfo \<Rightarrow> AccountInfo \<times> Account" where
  "info_view buf info =
     (\<lparr>key = new_from_array (slice (key_at info) 32 buf), is_signer = in_is_signer info,
       is_writable = in_is_writable info\<rparr>,
      \<lparr>lamports = u64_from_le_bytes (slice (lamports_at info) 8 buf),
       data = slice (data_at info) (data_length info) buf,
       owner = new_from_array (slice (owner_at info) 32 buf),
       executable = in_executable info, rent_epoch = in_rent_epoch info\<rparr>)"

end
