(* ===== verification/LoaderSafety.thy ===== *)
theory LoaderSafety
  imports LoaderAbi
begin

text \<open>
  Correctness of the loader interface: the serializer fills its allocation exactly, a program
  reads from the buffer what the transaction context holds, and copying the buffer back changes
  an account within the bounds on its size whatever the program wrote.
\<close>

section \<open>Writing\<close>

text \<open>\<open>appends f m bs\<close>: if the buffer \<open>m\<close> has room for \<open>bs\<close>, the action \<open>f\<close> succeeds and appends it.\<close>

definition appends :: "(AlignedMemory \<Rightarrow> AlignedMemory IResult) \<Rightarrow> AlignedMemory \<Rightarrow> bytes \<Rightarrow> bool" where
  "appends f m bs \<longleftrightarrow> (wf_mem m \<and> length (as_slice m) + length bs \<le> max_len m \<longrightarrow>
     f m = Inr (m\<lparr>mem := mem m @ bs\<rparr>))"

lemma appends_and_then:
  assumes "appends f m bs"
    and "wf_mem m \<Longrightarrow> wf_mem (m\<lparr>mem := mem m @ bs\<rparr>) \<Longrightarrow> as_slice (m\<lparr>mem := mem m @ bs\<rparr>) = as_slice m @ bs \<Longrightarrow>
      appends g (m\<lparr>mem := mem m @ bs\<rparr>) cs"
  shows "appends (\<lambda>m. and_then (f m) g) m (bs @ cs)"
  unfolding appends_def
proof
  assume m: "wf_mem m \<and> length (as_slice m) + length (bs @ cs) \<le> max_len m"
  let ?m = "m\<lparr>mem := mem m @ bs\<rparr>"
  from m have room: "length (as_slice m) + length bs \<le> max_len m" by simp
  note wf = wf_mem_append [OF conjunct1 [OF m] room]
  from assms(1) m room have f: "f m = Inr ?m" unfolding appends_def by blast
  have "max_len ?m = max_len m" by simp
  with m wf have "wf_mem ?m \<and> length (as_slice ?m) + length cs \<le> max_len ?m" by simp
  with assms(2) [OF conjunct1 [OF m] wf] have "g ?m = Inr (?m\<lparr>mem := mem ?m @ cs\<rparr>)"
    unfolding appends_def by blast
  then show "and_then (f m) g = Inr (m\<lparr>mem := mem m @ bs @ cs\<rparr>)" by (simp add: f)
qed

lemma appends_write_seq: "appends (write_seq bss) m (concat bss)"
proof (induction bss arbitrary: m)
  case Nil
  show ?case by (simp add: appends_def)
next
  case (Cons bs bss)
  have "appends (\<lambda>m. ok_or (write_all bs m) InstructionError.InvalidArgument) m bs"
    by (auto simp: appends_def write_all_Some ok_or_Inr_iff)
  from appends_and_then [OF this Cons.IH] show ?case unfolding appends_def by simp
qed

lemma appends_resize: "appends (resize n) m (replicate n 0)"
  by (auto simp: appends_def resize_def am_resize_Some ok_or_Inr_iff)

section \<open>The layout\<close>

text \<open>
  The contents of the buffer, entry by entry. The four bytes \<open>pad\<close> of an entry are zero in the
  serializer's output; the program's side puts the length of the data there.
\<close>

abbreviation account_at :: "InstructionContext \<Rightarrow> TransactionContext \<Rightarrow> nat \<Rightarrow> Account" where
  "account_at ctx tc i \<equiv> accounts tc ! index_in_transaction (instruction_accounts ctx ! i)"

abbreviation key_of :: "InstructionContext \<Rightarrow> TransactionContext \<Rightarrow> nat \<Rightarrow> Pubkey" where
  "key_of ctx tc i \<equiv> account_keys tc ! index_in_transaction (instruction_accounts ctx ! i)"

abbreviation callee :: "InstructionContext \<Rightarrow> nat \<Rightarrow> nat" where
  "callee ctx i \<equiv> index_in_callee (instruction_accounts ctx ! i)"

definition aligned_entry :: "(nat \<Rightarrow> bytes) \<Rightarrow> InstructionContext \<Rightarrow> TransactionContext \<Rightarrow> nat \<Rightarrow> bytes" where
  "aligned_entry pad ctx tc i =
     (let ia = instruction_accounts ctx ! i; a = account_at ctx tc i
      in if callee ctx i \<noteq> i then [word_of_nat (callee ctx i), 0, 0, 0, 0, 0, 0, 0]
         else [255, of_bool (ia_is_signer ia), of_bool (ia_is_writable ia), of_bool (executable a)] @
              pad (length (data a)) @ to_bytes (key_of ctx tc i) @ to_bytes (owner a) @ u64_to_le_bytes (lamports a) @
              u64_bytes (length (data a)) @ data a @
              replicate (MAX_PERMITTED_DATA_INCREASE + align_offset (length (data a)) BPF_ALIGN_OF_U128) 0 @
              u64_to_le_bytes (rent_epoch a))"

definition program_key :: "InstructionContext \<Rightarrow> TransactionContext \<Rightarrow> Pubkey" where
  "program_key ctx tc = account_keys tc ! last (program_accounts ctx)"

abbreviation zero_pad :: "nat \<Rightarrow> bytes" where "zero_pad \<equiv> \<lambda>_. [0, 0, 0, 0]"

abbreviation len_pad :: "nat \<Rightarrow> bytes" where "len_pad \<equiv> \<lambda>n. u32_to_le_bytes (word_of_nat n)"

definition aligned_input :: "(nat \<Rightarrow> bytes) \<Rightarrow> InstructionContext \<Rightarrow> TransactionContext \<Rightarrow> bytes" where
  "aligned_input pad ctx tc =
     u64_bytes (length (instruction_accounts ctx)) @
     concat (map (aligned_entry pad ctx tc) [0..<length (instruction_accounts ctx)]) @
     u64_bytes (length (instruction_data ctx)) @ instruction_data ctx @ to_bytes (program_key ctx tc)"

text \<open>
  The indices of the instruction are indices of the transaction, and the lengths fit a \<open>u64\<close>
  (they are lengths of vectors in memory).
\<close>

definition loadable :: "InstructionContext \<Rightarrow> TransactionContext \<Rightarrow> bool" where
  "loadable ctx tc \<longleftrightarrow>
     length (account_keys tc) = length (accounts tc) \<and>
     program_accounts ctx \<noteq> [] \<and> last (program_accounts ctx) < length (accounts tc) \<and>
     (\<forall>ia\<in>set (instruction_accounts ctx). index_in_transaction ia < length (accounts tc)) \<and>
     (\<forall>a\<in>set (accounts tc). length (data a) < 2 ^ 64) \<and>
     length (instruction_accounts ctx) < 2 ^ 64 \<and> length (instruction_data ctx) < 2 ^ 64"

lemma loadableD:
  assumes "loadable ctx tc" and "i < length (instruction_accounts ctx)"
  shows "index_in_transaction (instruction_accounts ctx ! i) < length (accounts tc)"
    and "length (data (account_at ctx tc i)) < 2 ^ 64"
  using assms unfolding loadable_def by auto

lemma duplicate_Inr:
  assumes "i < length (instruction_accounts ctx)"
  shows "is_instruction_account_duplicate ctx i = Inr (if callee ctx i = i then None else Some (callee ctx i))"
  using assms by (simp add: is_instruction_account_duplicate_def get_def)

lemma borrow_Inr:
  assumes "loadable ctx tc" and "i < length (instruction_accounts ctx)"
  shows "try_borrow_instruction_account ctx tc i =
    Inr \<lparr>ba_context = ctx, ba_index_in_transaction = index_in_transaction (instruction_accounts ctx ! i),
         ba_index_in_instruction = length (program_accounts ctx) + i\<rparr>"
  using loadableD(1) [OF assms] assms(2) by (simp add: try_borrow_instruction_account_Inr)

lemma align_offset_8:
  assumes "n mod 8 = m mod 8"
  shows "align_offset n BPF_ALIGN_OF_U128 = align_offset m BPF_ALIGN_OF_U128"
  unfolding BPF_ALIGN_OF_U128_def by (rule align_offset_cong [OF assms])

lemma align_offset_8_aligns: "(n + align_offset n BPF_ALIGN_OF_U128) mod 8 = 0"
  using align_offset_aligns [of 8 n] by (simp add: BPF_ALIGN_OF_U128_def)

lemma mod_8_add: "(x :: nat) mod 8 = 0 \<Longrightarrow> (x + y) mod 8 = y mod 8"
  by (metis add_0 mod_add_left_eq)

lemma length_aligned_entry:
  assumes "\<And>n. length (pad n) = 4"
  shows "length (aligned_entry pad ctx tc i) =
     (if callee ctx i \<noteq> i then 8
      else 96 + MAX_PERMITTED_DATA_INCREASE +
           (length (data (account_at ctx tc i)) + align_offset (length (data (account_at ctx tc i))) BPF_ALIGN_OF_U128))"
  by (simp add: aligned_entry_def Let_def assms)

lemma aligned_entry_mod:
  assumes "\<And>n. length (pad n) = 4"
  shows "length (aligned_entry pad ctx tc i) mod 8 = 0"
proof -
  have "(96 + MAX_PERMITTED_DATA_INCREASE) mod 8 = 0"
    by (simp add: MAX_PERMITTED_DATA_INCREASE_def)
  from mod_8_add [OF this] show ?thesis by (simp add: length_aligned_entry [OF assms] align_offset_8_aligns)
qed

lemma appends_account_aligned:
  assumes l: "loadable ctx tc" "i < length (instruction_accounts ctx)" and m: "write_index m mod 8 = 0"
  shows "appends (serialize_account_aligned ctx tc i) m (aligned_entry zero_pad ctx tc i)"
proof (cases "callee ctx i = i")
  case False
  then show ?thesis
    using appends_write_seq [of "[[word_of_nat (callee ctx i)], [0, 0, 0, 0, 0, 0, 0]]" m]
    by (simp add: appends_def serialize_account_aligned_def duplicate_Inr [OF l(2)] aligned_entry_def)
next
  case True
  let ?ia = "instruction_accounts ctx ! i" and ?a = "account_at ctx tc i"
  let ?n = "length (data ?a)"
  let ?head = "[[255], [of_bool (ia_is_signer ?ia)], [of_bool (ia_is_writable ?ia)], [of_bool (executable ?a)],
     [0, 0, 0, 0], to_bytes (key_of ctx tc i), to_bytes (owner ?a), u64_to_le_bytes (lamports ?a),
     u64_bytes ?n, data ?a] :: bytes list"
  let ?gap = "replicate (MAX_PERMITTED_DATA_INCREASE + align_offset ?n BPF_ALIGN_OF_U128) (0 :: u8)"
  let ?tail = "[u64_to_le_bytes (rent_epoch ?a)]"
  let ?m = "m\<lparr>mem := mem m @ concat ?head\<rparr>"
  have "write_index ?m mod 8 = (write_index m + 88 + ?n) mod 8"
    by (simp add: write_index_def ac_simps)
  also have "\<dots> = ?n mod 8" using m mod_8_add [of "write_index m" 88] by (intro mod_8_add) simp
  finally have e: "align_offset (write_index ?m) BPF_ALIGN_OF_U128 = align_offset ?n BPF_ALIGN_OF_U128"
    by (rule align_offset_8)
  have "appends (\<lambda>v. and_then (resize (MAX_PERMITTED_DATA_INCREASE + align_offset ?n BPF_ALIGN_OF_U128) v)
      (write_seq ?tail)) ?m (?gap @ concat ?tail)"
    by (intro appends_and_then appends_resize appends_write_seq)
  then have "appends (\<lambda>v. and_then (resize (MAX_PERMITTED_DATA_INCREASE + align_offset (write_index v) BPF_ALIGN_OF_U128) v)
      (write_seq ?tail)) ?m (?gap @ concat ?tail)"
    unfolding appends_def e .
  from appends_and_then [OF appends_write_seq this] True l(2) show ?thesis
    by (simp add: appends_def serialize_account_aligned_def duplicate_Inr [OF l(2)] borrow_Inr [OF l]
        aligned_entry_def Let_def get_key_def del: write_seq.simps)
qed

lemma aligned_size:
  assumes "loadable ctx tc" "i < length (instruction_accounts ctx)"
  shows "aligned_account_size ctx tc i s = Inr (s + length (aligned_entry zero_pad ctx tc i))"
  by (simp add: aligned_account_size_def duplicate_Inr [OF assms(2)] borrow_Inr [OF assms] length_aligned_entry Let_def)

lemma for_each_size:
  fixes g :: "nat \<Rightarrow> nat"
  assumes "\<And>i s. i \<in> set is \<Longrightarrow> f i s = Inr (s + g i)"
  shows "for_each f is s = Inr (s + sum_list (map g is))"
  using assms by (induction "is" arbitrary: s) auto

lemma for_each_appends:
  assumes "\<And>i m. i \<in> set is \<Longrightarrow> write_index m mod 8 = 0 \<Longrightarrow> appends (f i) m (e i)"
    and "\<And>i. i \<in> set is \<Longrightarrow> length (e i) mod 8 = 0" and "write_index m mod 8 = 0"
  shows "appends (for_each f is) m (concat (map e is))"
  using assms
proof (induction "is" arbitrary: m)
  case Nil
  show ?case by (simp add: appends_def)
next
  case (Cons i "is")
  have "appends (\<lambda>m. and_then (f i m) (for_each f is)) m (e i @ concat (map e is))"
  proof (rule appends_and_then)
    show "appends (f i) m (e i)" using Cons.prems by simp
    have "length (e i) mod 8 = 0" using Cons.prems(2) by simp
    with mod_8_add [OF Cons.prems(3)] have "write_index (m\<lparr>mem := mem m @ e i\<rparr>) mod 8 = 0"
      by (simp add: write_index_def)
    then show "appends (for_each f is) (m\<lparr>mem := mem m @ e i\<rparr>) (concat (map e is))" using Cons by simp
  qed
  then show ?case by (simp add: appends_def)
qed

lemma last_program_account:
  assumes l: "loadable ctx tc"
  shows "try_borrow_last_program_account ctx tc =
      Inr \<lparr>ba_context = ctx, ba_index_in_transaction = last (program_accounts ctx),
           ba_index_in_instruction = length (program_accounts ctx) - 1\<rparr>"
proof -
  have p: "program_accounts ctx \<noteq> []" "last (program_accounts ctx) < length (accounts tc)"
      "program_accounts ctx ! (length (program_accounts ctx) - Suc 0) = last (program_accounts ctx)"
    using l by (auto simp: loadable_def last_conv_nth)
  show ?thesis
    using p by (simp add: try_borrow_last_program_account_def try_borrow_program_account_def
        get_index_of_program_account_in_transaction_def try_borrow_account_def get_def)
qed

lemma align_offset_16:
  assumes "base mod 8 = 0"
  shows "align_offset base HOST_ALIGN mod 8 = 0"
proof -
  from assms obtain k where "base = 8 * k" by auto
  moreover have "8 * k mod 16 = 8 * (k mod 2)" using mult_mod_right [of 8 k 2] by simp
  moreover have "k mod 2 = 0 \<or> k mod 2 = 1" by auto
  ultimately show ?thesis by (auto simp: align_offset_def HOST_ALIGN_def)
qed

text \<open>
  The buffer starts at an address that is a multiple of 8, as allocators give it; then the padding
  that the serializer computes from its write index is the padding it reserved.
\<close>

lemma serialize_aligned_input:
  assumes base: "base mod 8 = 0" and l: "loadable ctx tc"
  shows "\<exists>m. serialize_parameters_aligned base ctx tc = Inr m \<and> as_slice m = aligned_input zero_pad ctx tc"
proof -
  let ?n = "length (instruction_accounts ctx)" and ?d = "instruction_data ctx"
  let ?es = "concat (map (aligned_entry zero_pad ctx tc) [0..<?n])"
  let ?fresh = "am_new base (8 + length ?es + (8 + length ?d + 32)) HOST_ALIGN"
  have size: "for_each (aligned_account_size ctx tc) [0..<?n] 8 = Inr (8 + length ?es)"
    using for_each_size [of "[0..<?n]" "aligned_account_size ctx tc" "\<lambda>i. length (aligned_entry zero_pad ctx tc i)" 8]
      aligned_size [OF l] by (simp add: length_concat comp_def)
  note prog = last_program_account [OF l]
  have "write_index (?fresh\<lparr>mem := mem ?fresh @ concat [u64_bytes ?n]\<rparr>) mod 8 = 0"
    using align_offset_16 [OF base] mod_8_add [of "align_offset base HOST_ALIGN" 8]
    by (simp add: am_new_def get_mem_def Let_def write_index_def)
  then have es: "appends (for_each (serialize_account_aligned ctx tc) [0..<?n])
      (?fresh\<lparr>mem := mem ?fresh @ concat [u64_bytes ?n]\<rparr>) ?es"
    by (intro for_each_appends appends_account_aligned [OF l] aligned_entry_mod) auto
  have input: "aligned_input zero_pad ctx tc = concat [u64_bytes ?n] @ ?es @ concat [u64_bytes (length ?d), ?d] @
      concat [to_bytes (program_key ctx tc)]" by (simp add: aligned_input_def)
  have run: "appends (\<lambda>m. and_then (write_seq [u64_bytes ?n] m) (\<lambda>v.
      and_then (for_each (serialize_account_aligned ctx tc) [0..<?n] v) (\<lambda>v.
      and_then (write_seq [u64_bytes (length ?d), ?d] v) (write_seq [to_bytes (program_key ctx tc)])))) ?fresh
      (aligned_input zero_pad ctx tc)"
    unfolding input by (intro appends_and_then appends_write_seq es)
  have len: "length (aligned_input zero_pad ctx tc) = 8 + length ?es + (8 + length ?d + 32)"
    by (simp add: aligned_input_def)
  let ?out = "?fresh\<lparr>mem := mem ?fresh @ aligned_input zero_pad ctx tc\<rparr>"
  have room: "wf_mem ?fresh" "length (as_slice ?fresh) + length (aligned_input zero_pad ctx tc) \<le> max_len ?fresh"
    unfolding len by (rule wf_am_new(1)) (simp add: wf_am_new)
  have "serialize_parameters_aligned base ctx tc =
      and_then (write_seq [u64_bytes ?n] ?fresh) (\<lambda>v.
      and_then (for_each (serialize_account_aligned ctx tc) [0..<?n] v) (\<lambda>v.
      and_then (write_seq [u64_bytes (length ?d), ?d] v) (write_seq [to_bytes (program_key ctx tc)])))"
    unfolding serialize_parameters_aligned_def serialize_with_def Let_def get_number_of_instruction_accounts_def
      size and_then.simps prog program_key_def get_key_def BorrowedAccount.select_convs by (rule refl)
  also have "\<dots> = Inr ?out" using run room unfolding appends_def by blast
  finally show ?thesis using wf_mem_append(2) [OF room] wf_am_new(2) by simp
qed


section \<open>The program's view\<close>

lemma read_at_append [simp]: "read_at (xs @ ys) (length xs + k) n = read_at ys k n"
  by (simp add: read_at_def slice_def)

lemma read_u64_at_append [simp]: "read_u64_at (xs @ ys) (length xs + k) = read_u64_at ys k"
  by (simp add: read_u64_at_def)

lemma read_u64_at_end: "offset = length xs \<Longrightarrow> read_u64_at (xs @ u64_to_le_bytes v @ ys) offset = Some v"
  using read_u64_at_append [of xs "u64_to_le_bytes v @ ys" 0]
  by (simp add: read_u64_at_def read_at_def slice_def)

lemma read_u8_at_append [simp]: "read_u8_at (xs @ ys) (length xs + k) = read_u8_at ys k"
  by (simp add: read_u8_at_def get_def nth_append)

lemma write_at_append: "write_at (xs @ ys) (length xs + k) bs = xs @ write_at ys k bs"
  by (simp add: write_at_def)

lemma slice_append [simp]: "slice (length xs + k) n (xs @ ys) = slice k n ys"
  by (simp add: slice_def)

text \<open>The view of the account at a position, as the transaction context has it.\<close>

definition account_view :: "InstructionContext \<Rightarrow> TransactionContext \<Rightarrow> nat \<Rightarrow> AccountInfo \<times> Account" where
  "account_view ctx tc i =
     (\<lparr>key = key_of ctx tc i, is_signer = ia_is_signer (instruction_accounts ctx ! i),
       is_writable = ia_is_writable (instruction_accounts ctx ! i)\<rparr>, account_at ctx tc i)"

definition info_at :: "InstructionContext \<Rightarrow> TransactionContext \<Rightarrow> nat \<Rightarrow> nat \<Rightarrow> InputInfo" where
  "info_at ctx tc offset i =
     (let ia = instruction_accounts ctx ! i; a = account_at ctx tc i
      in \<lparr>in_is_signer = ia_is_signer ia, in_is_writable = ia_is_writable ia, key_at = offset + 8,
          owner_at = offset + 40, lamports_at = offset + 72, data_at = offset + 88,
          data_length = length (data a), in_executable = executable a, in_rent_epoch = rent_epoch a\<rparr>)"

lemma info_view_entry:
  assumes "callee ctx i = i" and "\<And>n. length (pad n) = 4"
  shows "info_view (pre @ aligned_entry pad ctx tc i @ rest) (info_at ctx tc (length pre) i) = account_view ctx tc i"
  using assms by (simp add: info_view_def account_view_def slice_def aligned_entry_def info_at_def Let_def)

lemma entry_end_aligned:
  assumes "k mod 8 = 0"
  shows "align_offset (k + 88 + (n + MAX_PERMITTED_DATA_INCREASE)) BPF_ALIGN_OF_U128 = align_offset n BPF_ALIGN_OF_U128"
proof (rule align_offset_8)
  have "(k + (88 + MAX_PERMITTED_DATA_INCREASE)) mod 8 = 0"
    using mod_8_add [OF assms] by (simp add: MAX_PERMITTED_DATA_INCREASE_def)
  from mod_8_add [OF this, of n] show "(k + 88 + (n + MAX_PERMITTED_DATA_INCREASE)) mod 8 = n mod 8"
    by (simp add: ac_simps)
qed

lemma entry_fields:
  fixes pre rest :: bytes and tc :: TransactionContext
  assumes "callee ctx i = i" and pad: "\<And>n. length (pad n) = 4"
  defines "buf \<equiv> pre @ aligned_entry pad ctx tc i @ rest" and "a \<equiv> account_at ctx tc i"
  shows "read_u8_at buf (length pre) = Some 255"
    and "read_u8_at buf (length pre + 1) = Some (of_bool (ia_is_signer (instruction_accounts ctx ! i)))"
    and "read_u8_at buf (length pre + 2) = Some (of_bool (ia_is_writable (instruction_accounts ctx ! i)))"
    and "read_u8_at buf (length pre + 3) = Some (of_bool (executable a))"
    and "read_at buf (length pre + 40) 32 = Some (to_bytes (owner a))"
    and "read_u64_at buf (length pre + 72) = Some (lamports a)"
    and "read_u64_at buf (length pre + 80) = Some (word_of_nat (length (data a)))"
    and "read_at buf (length pre + 88) (length (data a)) = Some (data a)"
    and "read_u64_at buf (length pre + 88 + (length (data a) + MAX_PERMITTED_DATA_INCREASE) +
      align_offset (length (data a)) BPF_ALIGN_OF_U128) = Some (rent_epoch a)"
proof -
  let ?ia = "instruction_accounts ctx ! i"
  let ?gap = "replicate (MAX_PERMITTED_DATA_INCREASE + align_offset (length (data a)) BPF_ALIGN_OF_U128) (0 :: u8)"
  let ?head = "[255, of_bool (ia_is_signer ?ia), of_bool (ia_is_writable ?ia), of_bool (executable a)] @
    pad (length (data a)) @ to_bytes (key_of ctx tc i) @ to_bytes (owner a) @ u64_to_le_bytes (lamports a) @
    u64_bytes (length (data a)) @ data a @ ?gap :: bytes"
  have buf: "buf = (pre @ ?head) @ u64_to_le_bytes (rent_epoch a) @ rest"
    using assms(1) by (simp add: buf_def aligned_entry_def a_def Let_def)
  show "read_u64_at buf (length pre + 88 + (length (data a) + MAX_PERMITTED_DATA_INCREASE) +
      align_offset (length (data a)) BPF_ALIGN_OF_U128) = Some (rent_epoch a)"
    unfolding buf by (rule read_u64_at_end) (simp add: pad)
  show "read_u8_at buf (length pre) = Some 255"
      "read_u8_at buf (length pre + 1) = Some (of_bool (ia_is_signer ?ia))"
      "read_u8_at buf (length pre + 2) = Some (of_bool (ia_is_writable ?ia))"
      "read_u8_at buf (length pre + 3) = Some (of_bool (executable a))"
    by (simp_all add: buf read_u8_at_def get_def nth_append numeral_3_eq_3)
  show "read_u64_at buf (length pre + 72) = Some (lamports a)"
      "read_u64_at buf (length pre + 80) = Some (word_of_nat (length (data a)))"
    by (simp_all add: buf read_u64_at_def read_at_def slice_def pad)
  show "read_at buf (length pre + 40) 32 = Some (to_bytes (owner a))"
      "read_at buf (length pre + 88) (length (data a)) = Some (data a)"
    by (simp_all add: buf read_at_def slice_def pad)
qed

lemma deserialize_info_Some:
  fixes k :: nat
  assumes "read_u8_at buf (k + 1) = Some s" and "read_u8_at buf (k + 2) = Some w" and "read_u8_at buf (k + 3) = Some x"
    and "read_u64_at buf (k + 80) = Some len" and "write_at buf (k + 4) (len_pad (unat len)) = buf'"
    and "align_offset (k + 88 + (unat len + MAX_PERMITTED_DATA_INCREASE)) BPF_ALIGN_OF_U128 = p"
    and "read_u64_at buf' (k + 88 + (unat len + MAX_PERMITTED_DATA_INCREASE) + p) = Some r"
  shows "deserialize_info buf (k + 1) =
    Some (\<lparr>in_is_signer = s \<noteq> 0, in_is_writable = w \<noteq> 0, key_at = k + 8, owner_at = k + 40, lamports_at = k + 72,
      data_at = k + 88, data_length = unat len, in_executable = x \<noteq> 0, in_rent_epoch = r\<rparr>, buf',
      k + 88 + (unat len + MAX_PERMITTED_DATA_INCREASE) + p + 8)"
proof -
  have o: "k + 1 + 1 = k + 2" "k + 2 + 1 = k + 3" "k + 3 + 1 = k + 4" "k + 4 + 4 = k + 8" "k + 8 + 32 = k + 40"
    "k + 40 + 32 = k + 72" "k + 72 + 8 = k + 80" "k + 80 + 8 = k + 88" by simp_all
  show ?thesis unfolding deserialize_info_def Let_def o assms bind.simps by (rule refl)
qed

lemma deserialize_info_entry:
  assumes "callee ctx i = i" and "length (data (account_at ctx tc i)) < 2 ^ 64" and "length pre mod 8 = 0"
  shows "deserialize_info (pre @ aligned_entry zero_pad ctx tc i @ rest) (length pre + 1) =
    Some (info_at ctx tc (length pre) i, pre @ aligned_entry len_pad ctx tc i @ rest,
      length (pre @ aligned_entry len_pad ctx tc i))"
proof -
  let ?n = "length (data (account_at ctx tc i))"
  let ?buf = "\<lambda>pad. pre @ aligned_entry pad ctx tc i @ rest"
  have u: "unat (word_of_nat ?n :: u64) = ?n" using assms(2) by (simp add: unat_of_nat)
  have w: "write_at (?buf zero_pad) (length pre + 4) (len_pad ?n) = ?buf len_pad"
    using assms(1) by (simp add: write_at_def aligned_entry_def Let_def)
  have four: "length (zero_pad n) = 4" "length (len_pad n) = 4" for n by simp_all
  note z = entry_fields [OF assms(1), of zero_pad, OF four(1)]
  note l = entry_fields [OF assms(1), of len_pad, OF four(2)]
  have "deserialize_info (?buf zero_pad) (length pre + 1) =
    Some (\<lparr>in_is_signer = of_bool (ia_is_signer (instruction_accounts ctx ! i)) \<noteq> (0 :: u8),
      in_is_writable = of_bool (ia_is_writable (instruction_accounts ctx ! i)) \<noteq> (0 :: u8),
      key_at = length pre + 8, owner_at = length pre + 40, lamports_at = length pre + 72,
      data_at = length pre + 88, data_length = unat (word_of_nat ?n :: u64),
      in_executable = of_bool (executable (account_at ctx tc i)) \<noteq> (0 :: u8),
      in_rent_epoch = rent_epoch (account_at ctx tc i)\<rparr>, ?buf len_pad,
      length pre + 88 + (unat (word_of_nat ?n :: u64) + MAX_PERMITTED_DATA_INCREASE) +
        align_offset ?n BPF_ALIGN_OF_U128 + 8)"
    by (rule deserialize_info_Some) (simp_all only: z l w u entry_end_aligned [OF assms(3)])
  then show ?thesis using assms(1) by (simp add: u info_at_def length_aligned_entry Let_def)
qed

text \<open>
  \<open>seen i\<close> is what position \<open>i\<close> shows: its own account if it is the first position of it, and
  otherwise what the position in the duplicate marker shows, a single byte.
\<close>

definition shows_position :: "InstructionContext \<Rightarrow> TransactionContext \<Rightarrow> (nat \<Rightarrow> AccountInfo \<times> Account) \<Rightarrow> bool" where
  "shows_position ctx tc seen \<longleftrightarrow>
     (\<forall>i < length (instruction_accounts ctx).
        if callee ctx i = i then seen i = account_view ctx tc i
        else callee ctx i mod 256 < i \<and> callee ctx i mod 256 \<noteq> 255 \<and> seen i = seen (callee ctx i mod 256))"

lemma deserialize_infos_entries:
  assumes l: "loadable ctx tc" and sh: "shows_position ctx tc seen"
    and "i + k = length (instruction_accounts ctx)" and "length accs = i" and "length pre mod 8 = 0"
    and "\<And>j r. j < i \<Longrightarrow> info_view (pre @ r) (accs ! j) = seen j"
  shows "\<exists>infos. deserialize_infos k (pre @ concat (map (aligned_entry zero_pad ctx tc) [i..<i + k]) @ rest) (length pre) accs =
      Some (infos, pre @ concat (map (aligned_entry len_pad ctx tc) [i..<i + k]) @ rest,
        length (pre @ concat (map (aligned_entry len_pad ctx tc) [i..<i + k]))) \<and>
    length infos = i + k \<and>
    (\<forall>j < i + k. \<forall>r. info_view (pre @ concat (map (aligned_entry len_pad ctx tc) [i..<i + k]) @ r) (infos ! j) = seen j)"
  using assms(3-)
proof (induction k arbitrary: i pre accs)
  case 0
  then show ?case by simp
next
  case (Suc k)
  let ?e = "\<lambda>pad. aligned_entry pad ctx tc i"
  let ?pre = "pre @ ?e len_pad"
  have i: "i < length (instruction_accounts ctx)" using Suc.prems(1) by simp
  have upt: "[i..<i + Suc k] = i # [Suc i..<Suc i + k]" by (simp add: upt_rec)
  have p8: "length ?pre mod 8 = 0"
    using mod_8_add [OF Suc.prems(3)] aligned_entry_mod [of len_pad ctx tc i] by simp
  obtain info where info: "\<And>r. info_view (?pre @ r) info = seen i"
    and step: "\<And>more. deserialize_infos (Suc k) (pre @ ?e zero_pad @ more) (length pre) accs =
      deserialize_infos k (?pre @ more) (length ?pre) (accs @ [info])"
  proof (cases "callee ctx i = i")
    case True
    have s: "seen i = account_view ctx tc i" using sh i True by (simp add: shows_position_def)
    show thesis
    proof (rule that [of "info_at ctx tc (length pre) i"])
      show "info_view (?pre @ r) (info_at ctx tc (length pre) i) = seen i" for r
        unfolding s using info_view_entry [OF True, of len_pad] by simp
      show "deserialize_infos (Suc k) (pre @ ?e zero_pad @ more) (length pre) accs =
          deserialize_infos k (?pre @ more) (length ?pre) (accs @ [info_at ctx tc (length pre) i])" for more
        using entry_fields(1) [OF True, of zero_pad pre tc more]
          deserialize_info_entry [OF True loadableD(2) [OF l i] Suc.prems(3), of more] by simp
    qed
  next
    case False
    let ?c = "callee ctx i mod 256"
    have s: "?c < i" "?c \<noteq> 255" "seen i = seen ?c" using sh i False by (simp_all add: shows_position_def)
    have e: "?e pad = [word_of_nat (callee ctx i), 0, 0, 0, 0, 0, 0, 0]" for pad
      using False by (simp add: aligned_entry_def)
    have eight: "8 + n = Suc (Suc (Suc (Suc (Suc (Suc (Suc (Suc n)))))))" for n by simp
    have u: "unat (word_of_nat (callee ctx i) :: u8) = ?c" by (simp add: unat_of_nat_u8)
    then have "(word_of_nat (callee ctx i) :: u8) \<noteq> 255" using s(2) by auto
    moreover have "read_u8_at (pre @ ?e zero_pad @ more) (length pre) = Some (word_of_nat (callee ctx i))" for more
      unfolding e by (simp add: read_u8_at_def get_def)
    ultimately show thesis
      using s Suc.prems(2) Suc.prems(4) [of ?c]
      by (intro that [of "accs ! ?c"]) (simp_all add: u get_def e eight)
  qed
  have acc: "info_view (?pre @ r) ((accs @ [info]) ! j) = seen j" if "j < Suc i" for j r
    using Suc.prems(2,4) info that by (cases "j = i") (auto simp: nth_append)
  have "\<exists>infos. deserialize_infos k (?pre @ concat (map (aligned_entry zero_pad ctx tc) [Suc i..<Suc i + k]) @ rest) (length ?pre) (accs @ [info]) =
      Some (infos, ?pre @ concat (map (aligned_entry len_pad ctx tc) [Suc i..<Suc i + k]) @ rest,
        length (?pre @ concat (map (aligned_entry len_pad ctx tc) [Suc i..<Suc i + k]))) \<and>
    length infos = Suc i + k \<and>
    (\<forall>j < Suc i + k. \<forall>r. info_view (?pre @ concat (map (aligned_entry len_pad ctx tc) [Suc i..<Suc i + k]) @ r) (infos ! j) = seen j)"
    by (rule Suc.IH) (use Suc.prems(1,2) p8 acc in simp_all)
  then show ?case unfolding upt by (simp only: list.map concat.simps append_assoc step) simp
qed

lemma entrypoint_sees:
  assumes l: "loadable ctx tc" and sh: "shows_position ctx tc seen"
  shows "\<exists>infos. entrypoint_deserialize (aligned_input zero_pad ctx tc) =
      Some (program_key ctx tc, infos, instruction_data ctx, aligned_input len_pad ctx tc) \<and>
    length infos = length (instruction_accounts ctx) \<and>
    (\<forall>i < length (instruction_accounts ctx). info_view (aligned_input len_pad ctx tc) (infos ! i) = seen i)"
proof -
  let ?n = "length (instruction_accounts ctx)" and ?d = "instruction_data ctx"
  let ?tail = "u64_bytes (length ?d) @ ?d @ to_bytes (program_key ctx tc)"
  let ?out = "u64_bytes ?n @ concat (map (aligned_entry len_pad ctx tc) [0..<?n])"
  have "length (u64_bytes ?n) mod 8 = 0" by simp
  with deserialize_infos_entries [OF l sh, of 0 ?n "[]" "u64_bytes ?n" ?tail]
  obtain infos where infos: "deserialize_infos ?n (aligned_input zero_pad ctx tc) 8 [] = Some (infos, ?out @ ?tail, length ?out)"
      "length infos = ?n" "\<forall>i < ?n. \<forall>r. info_view (?out @ r) (infos ! i) = seen i"
    by (auto simp: aligned_input_def)
  have fit: "?n < 2 ^ 64" "length ?d < 2 ^ 64" using l unfolding loadable_def by blast+
  then have u: "unat (word_of_nat ?n :: u64) = ?n" "unat (word_of_nat (length ?d) :: u64) = length ?d"
    by (simp_all add: unat_of_nat)
  have "read_u64_at (aligned_input zero_pad ctx tc) 0 = Some (word_of_nat ?n)"
    unfolding aligned_input_def using read_u64_at_end [of 0 "[]"] by simp
  moreover have "read_u64_at (?out @ ?tail) (length ?out) = Some (word_of_nat (length ?d))"
    by (rule read_u64_at_end) simp
  moreover have "read_at (?out @ ?tail) (length ?out + 8) (length ?d) = Some ?d"
    unfolding read_at_append by (simp add: read_at_def slice_def)
  moreover have "read_at (?out @ ?tail) (length ?out + 8 + length ?d) 32 = Some (to_bytes (program_key ctx tc))"
    unfolding add.assoc [of "length ?out"] read_at_append by (simp add: read_at_def slice_def)
  moreover have "aligned_input len_pad ctx tc = ?out @ ?tail" by (simp add: aligned_input_def)
  ultimately have "entrypoint_deserialize (aligned_input zero_pad ctx tc) =
      Some (program_key ctx tc, infos, ?d, aligned_input len_pad ctx tc)"
    unfolding entrypoint_deserialize_def by (simp only: bind.simps u infos(1) prod.case Let_def new_from_array_to_bytes)
  with infos(2,3) show ?thesis by (auto simp: aligned_input_def)
qed


section \<open>Copying back what the program left\<close>

lemma buffer_reads:
  "read_at buf k n = Some bs \<Longrightarrow> buffer_get buf k n = Inr bs"
  "read_u64_at buf k = Some v \<Longrightarrow> buffer_u64 buf k = Inr v"
  by (auto simp: read_u64_at_def read_at_def buffer_get_def buffer_u64_def split: if_splits)

lemma set_same:
  fixes c :: InstructionContext and t j :: nat
  defines "b \<equiv> \<lparr>ba_context = c, ba_index_in_transaction = t, ba_index_in_instruction = j\<rparr>"
  shows "set_owner b (owner (accounts tc ! t)) tc = tc" and "set_lamports b (lamports (accounts tc ! t)) tc = tc"
    and "set_data b (data (accounts tc ! t)) tc = tc"
  by (simp_all add: set_owner_def set_lamports_def set_data_def update_borrowed_def b_def Let_def)

lemma restore_account_aligned_entry:
  assumes l: "loadable ctx tc" "i < length (instruction_accounts ctx)" and "\<And>n. length (pad n) = 4"
    and "length pre mod 8 = 0" and "length (data (account_at ctx tc i)) \<le> unat SystemProgram.MAX_PERMITTED_DATA_LENGTH"
  shows "restore_account_aligned ctx (pre @ aligned_entry pad ctx tc i @ rest) i (length (data (account_at ctx tc i)))
    (length pre) tc = (Inr (length (pre @ aligned_entry pad ctx tc i)), tc)"
proof (cases "callee ctx i = i")
  case False
  then show ?thesis
    by (simp add: restore_account_aligned_def sbind_def duplicate_to_restore_def sread_def duplicate_Inr [OF l(2)]
        sret_def aligned_entry_def)
next
  case True
  let ?k = "length pre" and ?buf = "pre @ aligned_entry pad ctx tc i @ rest" and ?a = "account_at ctx tc i"
  let ?n = "length (data ?a)"
  have o: "?k + 1 + (1 + 1 + 1 + 4 + 32) = ?k + 40" "?k + 40 + 32 = ?k + 72" "?k + 72 + 8 = ?k + 80" "?k + 80 + 8 = ?k + 88"
    by simp_all
  have u: "unat (word_of_nat ?n :: u64) = ?n" using loadableD(2) [OF l] by (simp add: unat_of_nat)
  note f = entry_fields [OF True, of pad pre tc rest, OF assms(3)]
  note reads = buffer_reads(1) [OF f(5)] buffer_reads(2) [OF f(6)] buffer_reads(2) [OF f(7)] buffer_reads(1) [OF f(8)]
  show ?thesis
    unfolding restore_account_aligned_def Let_def o from_buffer_def
    using True assms(5)
    by (simp add: sbind_def duplicate_to_restore_def borrow_to_restore_def sread_def smodify_def sret_def
        duplicate_Inr [OF l(2)] borrow_Inr [OF l] reads u set_same entry_end_aligned [OF assms(4)]
        length_aligned_entry [OF assms(3)])
qed

lemma restore_accounts_entries:
  assumes l: "loadable ctx tc" and pad: "\<And>n. length (pad n) = 4"
    and fit: "\<forall>a\<in>set (accounts tc). length (data a) \<le> unat SystemProgram.MAX_PERMITTED_DATA_LENGTH"
    and "i + k \<le> length (instruction_accounts ctx)" and "length pre mod 8 = 0"
  shows "restore_accounts (restore_account_aligned ctx (pre @ concat (map (aligned_entry pad ctx tc) [i..<i + k]) @ rest))
    (map (\<lambda>j. (j, length (data (account_at ctx tc j)))) [i..<i + k]) (length pre) tc = (Inr (), tc)"
  using assms(4-)
proof (induction k arbitrary: i pre)
  case 0
  then show ?case by (simp add: sret_def)
next
  case (Suc k)
  let ?pre = "pre @ aligned_entry pad ctx tc i"
  let ?more = "concat (map (aligned_entry pad ctx tc) [Suc i..<Suc i + k]) @ rest"
  have i: "i < length (instruction_accounts ctx)" using Suc.prems(1) by simp
  have upt: "[i..<i + Suc k] = i # [Suc i..<Suc i + k]" by (simp add: upt_rec)
  have "length ?pre mod 8 = 0" using mod_8_add [OF Suc.prems(2)] aligned_entry_mod [OF pad] by simp
  with Suc.IH [of "Suc i" ?pre] Suc.prems(1)
  have IH: "restore_accounts (restore_account_aligned ctx (pre @ aligned_entry pad ctx tc i @ ?more))
      (map (\<lambda>j. (j, length (data (account_at ctx tc j)))) [Suc i..<Suc i + k]) (length ?pre) tc = (Inr (), tc)" by simp
  have "length (data (account_at ctx tc i)) \<le> unat SystemProgram.MAX_PERMITTED_DATA_LENGTH"
    using fit loadableD(1) [OF l i] by simp
  note step = restore_account_aligned_entry [where rest = ?more, OF l i pad Suc.prems(2) this]
  show ?case
    unfolding upt list.map concat.simps restore_accounts.simps append_assoc sbind_def step prod.case sum.case
    using IH by simp
qed

lemma deserialize_aligned_input:
  assumes "loadable ctx tc" and "\<And>n. length (pad n) = 4"
    and "\<forall>a\<in>set (accounts tc). length (data a) \<le> unat SystemProgram.MAX_PERMITTED_DATA_LENGTH"
  shows "deserialize_parameters_aligned ctx (aligned_input pad ctx tc)
    (map (\<lambda>j. length (data (account_at ctx tc j))) [0..<length (instruction_accounts ctx)]) tc = (Inr (), tc)"
  using restore_accounts_entries [OF assms, of 0 "length (instruction_accounts ctx)" "u64_bytes (length (instruction_accounts ctx))"]
  by (simp add: deserialize_parameters_aligned_def aligned_input_def get_number_of_instruction_accounts_def
      zip_map2 zip_same_conv_map comp_def)

lemma account_lengths:
  assumes "loadable ctx tc"
  shows "for_each (account_length ctx tc) [0..<length (instruction_accounts ctx)] [] =
    Inr (map (\<lambda>j. length (data (account_at ctx tc j))) [0..<length (instruction_accounts ctx)])"
proof -
  have "for_each (account_length ctx tc) js ls = Inr (ls @ map (\<lambda>j. length (data (account_at ctx tc j))) js)"
    if "\<forall>j\<in>set js. j < length (instruction_accounts ctx)" for js ls
    using that by (induction js arbitrary: ls) (auto simp: account_length_def borrow_Inr [OF assms])
  from this [of "[0..<length (instruction_accounts ctx)]" "[]"] show ?thesis by auto
qed

lemma account_length_Inr_iff:
  "account_length ctx tc i ls = Inr r \<longleftrightarrow> i < length (instruction_accounts ctx) \<and>
     index_in_transaction (instruction_accounts ctx ! i) < length (accounts tc) \<and>
     r = ls @ [length (data (account_at ctx tc i))]"
  by (auto simp: account_length_def res_simps)

lemma account_length_Inr:
  assumes "for_each (account_length ctx tc) js ls = Inr ls'"
  shows "ls' = ls @ map (\<lambda>j. length (data (account_at ctx tc j))) js"
  using assms
proof (induction js arbitrary: ls)
  case (Cons j js)
  then have "for_each (account_length ctx tc) js (ls @ [length (data (account_at ctx tc j))]) = Inr ls'"
    by (auto simp: account_length_Inr_iff res_simps)
  from Cons.IH [OF this] show ?case by simp
qed simp


section \<open>What a program can change through the buffer\<close>

text \<open>
  \<open>restored ctx lens\<close> relates the transaction before and after the buffer is copied back: keys, the
  executable flag and the rent epoch stay, an account that is not passed to the instruction stays
  as it is, and the data of the others has a length within the bounds.
\<close>

definition length_allowed :: "nat \<Rightarrow> nat \<Rightarrow> bool" where
  "length_allowed old new \<longleftrightarrow>
     new \<le> old + MAX_PERMITTED_DATA_INCREASE \<and> (new = old \<or> new \<le> unat SystemProgram.MAX_PERMITTED_DATA_LENGTH)"

definition restored :: "InstructionContext \<Rightarrow> nat list \<Rightarrow> TransactionContext \<Rightarrow> TransactionContext \<Rightarrow> bool" where
  "restored ctx lens tc tc' \<longleftrightarrow>
     account_keys tc' = account_keys tc \<and> length (accounts tc') = length (accounts tc) \<and>
     (\<forall>t < length (accounts tc).
        executable (accounts tc' ! t) = executable (accounts tc ! t) \<and>
        rent_epoch (accounts tc' ! t) = rent_epoch (accounts tc ! t) \<and>
        (accounts tc' ! t = accounts tc ! t \<or> t \<in> index_in_transaction ` set (instruction_accounts ctx)) \<and>
        (data (accounts tc' ! t) = data (accounts tc ! t) \<or>
         (\<exists>i < length lens. i < length (instruction_accounts ctx) \<and> index_in_transaction (instruction_accounts ctx ! i) = t \<and>
            length_allowed (lens ! i) (length (data (accounts tc' ! t))))))"

interpretation restored: state_preorder "restored ctx lens" for ctx lens
proof
  show "restored ctx lens s s" for s by (simp add: restored_def)
  show "restored ctx lens s s''" if "restored ctx lens s s'" "restored ctx lens s' s''" for s s' s''
    using that unfolding restored_def by (metis (no_types, lifting))
qed

lemma stable_sread_sbind:
  assumes "\<And>s. R s s" and "\<And>x s. g s = Inr x \<Longrightarrow> stable R (f x)"
  shows "stable R (sbind (sread g) f)"
  using assms by (auto simp: stable_def sbind_def sread_def split: sum.splits)

lemma restored_update:
  assumes "i < length (instruction_accounts ctx)"
    and "\<And>a. executable (f a) = executable a" "\<And>a. rent_epoch (f a) = rent_epoch a" "\<And>a. data (f a) = data a"
  shows "restored ctx lens tc (update_borrowed \<lparr>ba_context = ctx,
    ba_index_in_transaction = index_in_transaction (instruction_accounts ctx ! i), ba_index_in_instruction = j\<rparr> f tc)"
  using assms
  by (cases "index_in_transaction (instruction_accounts ctx ! i) < length (accounts tc)")
    (auto simp: restored_def update_borrowed_def nth_list_update)

lemma restored_set_data:
  assumes "i < length (instruction_accounts ctx)" "i < length lens" and "length_allowed (lens ! i) (length bs)"
  shows "restored ctx lens tc (set_data \<lparr>ba_context = ctx,
    ba_index_in_transaction = index_in_transaction (instruction_accounts ctx ! i), ba_index_in_instruction = j\<rparr> bs tc)"
  using assms
  by (cases "index_in_transaction (instruction_accounts ctx ! i) < length (accounts tc)")
    (auto simp: restored_def update_borrowed_def nth_list_update)

lemma stable_if_cases:
  "(b \<Longrightarrow> stable R m) \<Longrightarrow> (\<not> b \<Longrightarrow> stable R m') \<Longrightarrow> stable R (if b then m else m')"
  by simp

lemma restored_smodify_sbind:
  assumes "\<And>s. restored ctx lens s (f s)" and "stable (restored ctx lens) m"
  shows "stable (restored ctx lens) (sbind (smodify f) (\<lambda>_. m))"
  using assms by (intro restored.stable_sbind restored.stable_smodify)

lemmas restored_intros =
  stable_sread_sbind [where R = "restored ctx lens" for ctx lens, OF restored.refl] restored_smodify_sbind
  restored.stable_sret restored.stable_sfail stable_if_cases

lemma buffer_get_length: "buffer_get buf k n = Inr bs \<Longrightarrow> length bs = n"
  by (auto simp: buffer_get_def split: if_splits)

lemma stable_case_option:
  "stable R f \<Longrightarrow> (\<And>x. stable R (g x)) \<Longrightarrow> stable R (case d of None \<Rightarrow> f | Some x \<Rightarrow> g x)"
  by (cases d) auto

lemma restore_account_aligned_stable:
  assumes "i < length lens"
  shows "stable (restored ctx lens) (restore_account_aligned ctx buffer i (lens ! i) start)"
  unfolding restore_account_aligned_def duplicate_to_restore_def borrow_to_restore_def from_buffer_def Let_def
  using assms
  by (intro stable_case_option restored_intros)
    (auto simp: res_simps set_owner_def set_lamports_def length_allowed_def dest!: buffer_get_length
      intro!: restored_update restored_set_data)

lemma restore_account_unaligned_stable:
  assumes "i < length lens"
  shows "stable (restored ctx lens) (restore_account_unaligned ctx buffer i (lens ! i) start)"
  unfolding restore_account_unaligned_def duplicate_to_restore_def borrow_to_restore_def from_buffer_def Let_def
  using assms
  by (intro stable_case_option restored_intros)
    (auto simp: res_simps set_owner_def set_lamports_def length_allowed_def dest!: buffer_get_length
      intro!: restored_update restored_set_data)

lemma restore_accounts_stable:
  assumes "\<And>i start. i < length lens \<Longrightarrow> stable (restored ctx lens) (f i (lens ! i) start)"
    and "\<forall>(i, n)\<in>set ps. i < length lens \<and> n = lens ! i"
  shows "stable (restored ctx lens) (restore_accounts f ps start)"
  using assms(2)
  by (induction ps arbitrary: start) (auto intro!: restored.stable_sret restored.stable_sbind assms(1))

lemma deserialize_parameters_stable: "stable (restored ctx lens) (deserialize_parameters ctx buffer lens)"
proof -
  have "\<forall>(i, n)\<in>set (zip [0..<get_number_of_instruction_accounts ctx] lens). i < length lens \<and> n = lens ! i"
    by (auto simp: in_set_zip)
  then show ?thesis
    unfolding deserialize_parameters_def deserialize_parameters_aligned_def deserialize_parameters_unaligned_def
    by (intro restored_intros restore_accounts_stable restore_account_aligned_stable restore_account_unaligned_stable)
qed

lemma consistent_callee:
  assumes "consistent_accounts (instruction_accounts ctx)" and "i < length (instruction_accounts ctx)"
  shows "callee ctx i \<le> i" and "callee ctx (callee ctx i) = callee ctx i"
    and "index_in_transaction (instruction_accounts ctx ! callee ctx i) = index_in_transaction (instruction_accounts ctx ! i)"
proof -
  let ?ias = "instruction_accounts ctx"
  have first: "find_position (\<lambda>x. index_in_transaction x = index_in_transaction (?ias ! j)) ?ias = Some (callee ctx j)"
    if "j < length ?ias" for j
    using assms(1) that by (simp add: consistent_accounts_def)
  note f = find_position_Some [OF first [OF assms(2)]]
  from f show "callee ctx i \<le> i" using leI by blast
  from f show same: "index_in_transaction (?ias ! callee ctx i) = index_in_transaction (?ias ! i)" by blast
  from f first [of "callee ctx i"] first [OF assms(2)] same show "callee ctx (callee ctx i) = callee ctx i" by simp
qed

lemma not_deprecated:
  assumes "loadable ctx tc" and "owner (accounts tc ! last (program_accounts ctx)) \<noteq> bpf_loader_deprecated_id"
  shows "is_loader_deprecated ctx tc = Inr False"
  using assms last_program_account [OF assms(1)] by (simp add: is_loader_deprecated_def)

text \<open>
  C16: The loader and the entrypoint of a program agree. Take an instruction with at most 255
  accounts that runs under a loader other than the deprecated one, whose indices are in range and
  refer duplicates to their first position, in a transaction with accounts of at most ten megabytes.
  If the allocator places the vector of the buffer at a multiple of 8 (\<open>unaligned_base_fails\<close> shows that
  this matters), then serialization succeeds, the program decodes the buffer without leaving it, gets
  its own program id and instruction data, and reads at every position the key and the account that
  the transaction holds there, with the privileges of the first position of that account. If the
  program changes nothing, copying the buffer back succeeds and leaves the transaction as it was.
\<close>

theorem loader_abi_roundtrip:
  assumes "base mod 8 = 0" and "loadable ctx tc" and "consistent_accounts (instruction_accounts ctx)"
    and "length (instruction_accounts ctx) \<le> 255"
    and "owner (accounts tc ! last (program_accounts ctx)) \<noteq> bpf_loader_deprecated_id"
    and "\<forall>a\<in>set (accounts tc). length (data a) \<le> unat SystemProgram.MAX_PERMITTED_DATA_LENGTH"
  shows "\<exists>m lens infos buf.
    serialize_parameters base ctx tc = Inr (m, lens) \<and>
    entrypoint_deserialize (as_slice m) = Some (program_key ctx tc, infos, instruction_data ctx, buf) \<and>
    length infos = length (instruction_accounts ctx) \<and>
    (\<forall>i < length (instruction_accounts ctx).
       info_view buf (infos ! i) =
         (\<lparr>key = account_keys tc ! index_in_transaction (instruction_accounts ctx ! i),
           is_signer = ia_is_signer (instruction_accounts ctx ! index_in_callee (instruction_accounts ctx ! i)),
           is_writable = ia_is_writable (instruction_accounts ctx ! index_in_callee (instruction_accounts ctx ! i))\<rparr>,
          accounts tc ! index_in_transaction (instruction_accounts ctx ! i))) \<and>
    deserialize_parameters ctx buf lens tc = (Inr (), tc)"
proof -
  let ?n = "length (instruction_accounts ctx)"
  let ?lens = "map (\<lambda>j. length (data (account_at ctx tc j))) [0..<?n]"
  let ?seen = "\<lambda>i. account_view ctx tc (callee ctx i)"
  note c = consistent_callee [OF assms(3)]
  have "callee ctx i mod 256 = callee ctx i" "callee ctx i < 255" if "i < ?n" for i
    using c(1) [OF that] that assms(4) by simp_all
  then have "shows_position ctx tc ?seen"
    unfolding shows_position_def using c(1,2) by (auto simp: order_less_le)
  from entrypoint_sees [OF assms(2) this] obtain infos where infos:
    "entrypoint_deserialize (aligned_input zero_pad ctx tc) =
      Some (program_key ctx tc, infos, instruction_data ctx, aligned_input len_pad ctx tc)"
    "length infos = ?n" "\<forall>i < ?n. info_view (aligned_input len_pad ctx tc) (infos ! i) = ?seen i" by blast
  obtain m where m: "serialize_parameters_aligned base ctx tc = Inr m" "as_slice m = aligned_input zero_pad ctx tc"
    using serialize_aligned_input [OF assms(1,2)] by blast
  note dep = not_deprecated [OF assms(2,5)]
  have "serialize_parameters base ctx tc = Inr (m, ?lens)"
    by (simp add: serialize_parameters_def dep m(1) get_number_of_instruction_accounts_def account_lengths [OF assms(2)])
  moreover have "deserialize_parameters ctx (aligned_input len_pad ctx tc) ?lens tc = (Inr (), tc)"
    using deserialize_aligned_input [OF assms(2) _ assms(6), of len_pad]
    by (simp add: deserialize_parameters_def sbind_def sread_def dep)
  moreover have "?seen i = (\<lparr>key = key_of ctx tc i, is_signer = ia_is_signer (instruction_accounts ctx ! callee ctx i),
      is_writable = ia_is_writable (instruction_accounts ctx ! callee ctx i)\<rparr>, account_at ctx tc i)" if "i < ?n" for i
    by (simp add: account_view_def c(3) [OF that])
  ultimately show ?thesis using infos m(2)
    by (intro exI [of _ m] exI [of _ ?lens] exI [of _ infos] exI [of _ "aligned_input len_pad ctx tc"]) simp
qed

text \<open>An instruction of a program at address 33 with two accounts, the first of them passed twice.\<close>

definition loader_sample_ctx :: InstructionContext where
  "loader_sample_ctx =
     \<lparr>nesting_level = 0, program_accounts = [2],
      instruction_accounts =
        [\<lparr>index_in_transaction = 0, index_in_caller = 0, index_in_callee = 0, ia_is_signer = True, ia_is_writable = True\<rparr>,
         \<lparr>index_in_transaction = 1, index_in_caller = 1, index_in_callee = 1, ia_is_signer = False, ia_is_writable = True\<rparr>,
         \<lparr>index_in_transaction = 0, index_in_caller = 0, index_in_callee = 0, ia_is_signer = True, ia_is_writable = True\<rparr>],
      instruction_data = [7]\<rparr>"

definition loader_sample_tc :: TransactionContext where
  "loader_sample_tc =
     transaction_context_new
       [(11, default_account\<lparr>lamports := 100\<rparr>), (22, default_account\<lparr>data := [1, 2, 3], owner := 33\<rparr>),
        (33, default_account\<lparr>executable := True, owner := bpf_loader_upgradeable_id\<rparr>)] 5 1 0"

lemma loader_sample_facts:
  "loadable loader_sample_ctx loader_sample_tc"
  "consistent_accounts (instruction_accounts loader_sample_ctx)"
  "length (instruction_accounts loader_sample_ctx) = 3"
  "owner (accounts loader_sample_tc ! last (program_accounts loader_sample_ctx)) \<noteq> bpf_loader_deprecated_id"
  "\<forall>a\<in>set (accounts loader_sample_tc). length (data a) \<le> unat SystemProgram.MAX_PERMITTED_DATA_LENGTH"
  by (simp_all add: loader_sample_ctx_def loader_sample_tc_def transaction_context_new_def loadable_def
      consistent_accounts_def default_account_def bpf_loader_upgradeable_id_def bpf_loader_deprecated_id_def
      SystemProgram.MAX_PERMITTED_DATA_LENGTH_def)

theorem loader_abi_roundtrip_witness:
  "\<exists>m lens infos buf. serialize_parameters 0 loader_sample_ctx loader_sample_tc = Inr (m, lens) \<and>
    entrypoint_deserialize (as_slice m) = Some (33, infos, [7], buf) \<and> length infos = 3 \<and>
    key (fst (info_view buf (infos ! 2))) = 11 \<and> data (snd (info_view buf (infos ! 1))) = [1, 2, 3] \<and>
    deserialize_parameters loader_sample_ctx buf lens loader_sample_tc = (Inr (), loader_sample_tc)"
proof -
  have k: "program_key loader_sample_ctx loader_sample_tc = 33" "instruction_data loader_sample_ctx = [7]"
      "account_keys loader_sample_tc ! index_in_transaction (instruction_accounts loader_sample_ctx ! 2) = 11"
      "data (accounts loader_sample_tc ! index_in_transaction (instruction_accounts loader_sample_ctx ! 1)) = [1, 2, 3]"
    by (simp_all add: program_key_def loader_sample_ctx_def loader_sample_tc_def transaction_context_new_def)
  obtain m lens infos buf where r: "serialize_parameters 0 loader_sample_ctx loader_sample_tc = Inr (m, lens)"
      "entrypoint_deserialize (as_slice m) = Some (program_key loader_sample_ctx loader_sample_tc, infos,
         instruction_data loader_sample_ctx, buf)" "length infos = length (instruction_accounts loader_sample_ctx)"
      "\<forall>i < length (instruction_accounts loader_sample_ctx). info_view buf (infos ! i) =
         (\<lparr>key = account_keys loader_sample_tc ! index_in_transaction (instruction_accounts loader_sample_ctx ! i),
           is_signer = ia_is_signer (instruction_accounts loader_sample_ctx ! index_in_callee (instruction_accounts loader_sample_ctx ! i)),
           is_writable = ia_is_writable (instruction_accounts loader_sample_ctx ! index_in_callee (instruction_accounts loader_sample_ctx ! i))\<rparr>,
          accounts loader_sample_tc ! index_in_transaction (instruction_accounts loader_sample_ctx ! i))"
      "deserialize_parameters loader_sample_ctx buf lens loader_sample_tc = (Inr (), loader_sample_tc)"
    using loader_abi_roundtrip [of 0, OF _ loader_sample_facts(1,2) _ loader_sample_facts(4,5)] loader_sample_facts(3)
    by auto
  have "key (fst (info_view buf (infos ! 2))) = 11" "data (snd (info_view buf (infos ! 1))) = [1, 2, 3]"
    using r(4) k(3,4) loader_sample_facts(3) by simp_all
  with r k loader_sample_facts(3) show ?thesis by auto
qed

text \<open>
  C17: Whatever a program writes into its buffer, copying it back keeps the keys, the executable
  flags and the rent epochs, leaves every account alone that the instruction does not list, and
  gives an account new data only of a length within the bounds: at most 10240 bytes more than the
  account had when the buffer was made, and beyond its old length at most ten megabytes. This holds
  on success and on failure.
\<close>

theorem loader_restores_within_bounds:
  assumes "serialize_parameters base ctx tc0 = Inr (m, lens)"
    and "deserialize_parameters ctx buffer lens tc = (r, tc')"
  shows "account_keys tc' = account_keys tc \<and> length (accounts tc') = length (accounts tc) \<and>
    (\<forall>t < length (accounts tc).
       let a = accounts tc ! t; a' = accounts tc' ! t; n = length (data (accounts tc0 ! t))
       in executable a' = executable a \<and> rent_epoch a' = rent_epoch a \<and>
          (t \<notin> index_in_transaction ` set (instruction_accounts ctx) \<longrightarrow> a' = a) \<and>
          (data a' = data a \<or>
           length (data a') \<le> n + 10240 \<and> (length (data a') = n \<or> length (data a') \<le> 10 * 1024 * 1024)))"
proof -
  from assms(1) have "for_each (account_length ctx tc0) [0..<length (instruction_accounts ctx)] [] = Inr lens"
    by (auto simp: serialize_parameters_def get_number_of_instruction_accounts_def res_simps)
  from account_length_Inr [OF this]
  have lens: "lens ! i = length (data (account_at ctx tc0 i))" if "i < length (instruction_accounts ctx)" for i
    using that by simp
  have R: "restored ctx lens tc tc'" using deserialize_parameters_stable assms(2) by (rule stableD)
  have b: "length (data (accounts tc' ! t)) \<le> length (data (accounts tc0 ! t)) + 10240 \<and>
      (length (data (accounts tc' ! t)) = length (data (accounts tc0 ! t)) \<or> length (data (accounts tc' ! t)) \<le> 10 * 1024 * 1024)"
    if "t < length (accounts tc)" "data (accounts tc' ! t) \<noteq> data (accounts tc ! t)" for t
    using R that lens unfolding restored_def length_allowed_def MAX_PERMITTED_DATA_INCREASE_def
      SystemProgram.MAX_PERMITTED_DATA_LENGTH_def by fastforce
  show ?thesis using R b unfolding Let_def restored_def by blast
qed

lemma loader_sample_runs:
  "\<exists>m lens. serialize_parameters 0 loader_sample_ctx loader_sample_tc = Inr (m, lens) \<and>
    deserialize_parameters loader_sample_ctx (aligned_input len_pad loader_sample_ctx loader_sample_tc) lens loader_sample_tc =
      (Inr (), loader_sample_tc)"
proof -
  note f = loader_sample_facts
  note dep = not_deprecated [OF f(1,4)]
  obtain m where "serialize_parameters_aligned 0 loader_sample_ctx loader_sample_tc = Inr m"
    using serialize_aligned_input [OF _ f(1), of 0] by auto
  then show ?thesis
    using deserialize_aligned_input [OF f(1) _ f(5), of len_pad]
    by (simp add: serialize_parameters_def deserialize_parameters_def dep account_lengths [OF f(1)]
        get_number_of_instruction_accounts_def sbind_def sread_def)
qed

theorem loader_restores_within_bounds_witness:
  "\<exists>m lens tc'. serialize_parameters 0 loader_sample_ctx loader_sample_tc = Inr (m, lens) \<and>
    deserialize_parameters loader_sample_ctx (aligned_input len_pad loader_sample_ctx loader_sample_tc) lens loader_sample_tc =
      (Inr (), tc') \<and> account_keys tc' = [11, 22, 33] \<and> length (data (accounts tc' ! 1)) \<le> 3 + 10240"
proof -
  obtain m lens where r: "serialize_parameters 0 loader_sample_ctx loader_sample_tc = Inr (m, lens)"
    "deserialize_parameters loader_sample_ctx (aligned_input len_pad loader_sample_ctx loader_sample_tc) lens loader_sample_tc =
      (Inr (), loader_sample_tc)" using loader_sample_runs by blast
  have k: "account_keys loader_sample_tc = [11, 22, 33]" "length (accounts loader_sample_tc) = 3"
      "length (data (accounts loader_sample_tc ! 1)) = 3"
    by (simp_all add: loader_sample_tc_def transaction_context_new_def)
  from loader_restores_within_bounds [OF r] k have "length (data (accounts loader_sample_tc ! 1)) \<le> 3 + 10240"
    by (auto simp: Let_def)
  with r k show ?thesis by blast
qed


section \<open>Duplicate markers\<close>

text \<open>
  The position of the first occurrence of an account is written in one byte. A position from
  256 on is cut to its low byte: the program then reads, at the position of the duplicate, an account
  with another key than the one the transaction holds there.
\<close>

theorem duplicate_marker_truncates:
  assumes "base mod 8 = 0" and "loadable ctx tc" and "consistent_accounts (instruction_accounts ctx)"
    and "distinct (account_keys tc)"
    and "\<forall>j < length (instruction_accounts ctx). callee ctx j \<noteq> j \<longrightarrow>
      callee ctx j mod 256 \<noteq> 255 \<and> callee ctx (callee ctx j mod 256) = callee ctx j mod 256"
    and i: "i < length (instruction_accounts ctx)" "256 \<le> callee ctx i" "callee ctx i \<noteq> i"
  shows "\<exists>m infos buf. serialize_parameters_aligned base ctx tc = Inr m \<and>
    entrypoint_deserialize (as_slice m) = Some (program_key ctx tc, infos, instruction_data ctx, buf) \<and>
    info_view buf (infos ! i) = account_view ctx tc (callee ctx i mod 256) \<and>
    key (fst (info_view buf (infos ! i))) \<noteq> key_of ctx tc i"
proof -
  let ?n = "length (instruction_accounts ctx)" and ?p = "callee ctx i mod 256"
  let ?seen = "\<lambda>j. account_view ctx tc (if callee ctx j = j then j else callee ctx j mod 256)"
  note c = consistent_callee [OF assms(3)]
  have low: "callee ctx j mod 256 \<noteq> 255 \<and> callee ctx (callee ctx j mod 256) = callee ctx j mod 256"
    if "j < ?n" "callee ctx j \<noteq> j" for j using assms(5) that by blast
  have below: "callee ctx j mod 256 < j" if "j < ?n" "callee ctx j \<noteq> j" for j
    using c(1) [OF that(1)] that(2) by (meson le_neq_implies_less mod_less_eq_dividend order_le_less_trans)
  have "shows_position ctx tc ?seen"
    unfolding shows_position_def using low below by auto
  from entrypoint_sees [OF assms(2) this] obtain infos where infos:
    "entrypoint_deserialize (aligned_input zero_pad ctx tc) =
      Some (program_key ctx tc, infos, instruction_data ctx, aligned_input len_pad ctx tc)"
    "info_view (aligned_input len_pad ctx tc) (infos ! i) = account_view ctx tc ?p" using i by auto
  obtain m where m: "serialize_parameters_aligned base ctx tc = Inr m" "as_slice m = aligned_input zero_pad ctx tc"
    using serialize_aligned_input [OF assms(1,2)] by blast
  have p: "?p < ?n" using below [OF i(1,3)] i(1) by simp
  have "index_in_transaction (instruction_accounts ctx ! ?p) \<noteq> index_in_transaction (instruction_accounts ctx ! i)"
  proof
    assume "index_in_transaction (instruction_accounts ctx ! ?p) = index_in_transaction (instruction_accounts ctx ! i)"
    with assms(3) i(1) p have "callee ctx ?p = callee ctx i"
      unfolding consistent_accounts_def by (metis nth_mem option.inject)
    with low [OF i(1,3)] have "?p = callee ctx i" by simp
    with i(2) show False by (metis mod_less_divisor not_le zero_less_numeral)
  qed
  with assms(2,4) loadableD(1) [OF assms(2) p] loadableD(1) [OF assms(2) i(1)]
  have "key_of ctx tc ?p \<noteq> key_of ctx tc i" by (simp add: nth_eq_iff_index_eq loadable_def)
  then have "key (fst (account_view ctx tc ?p)) \<noteq> key_of ctx tc i" by (simp add: account_view_def)
  with infos m show ?thesis by auto
qed

text \<open>An instruction that lists its first account \<open>n\<close> times and then its second account twice.\<close>

definition marker_first :: InstructionAccount where
  "marker_first =
     \<lparr>index_in_transaction = 0, index_in_caller = 0, index_in_callee = 0, ia_is_signer = True, ia_is_writable = True\<rparr>"

definition marker_second :: "nat \<Rightarrow> InstructionAccount" where
  "marker_second n =
     \<lparr>index_in_transaction = 1, index_in_caller = 1, index_in_callee = n, ia_is_signer = False, ia_is_writable = True\<rparr>"

definition marker_ctx :: "nat \<Rightarrow> InstructionContext" where
  "marker_ctx n = loader_sample_ctx\<lparr>instruction_accounts := replicate n marker_first @ [marker_second n, marker_second n]\<rparr>"

lemma find_position_skip:
  "\<forall>x\<in>set xs. \<not> P x \<Longrightarrow> find_position P (xs @ ys) = map_option (\<lambda>k. length xs + k) (find_position P ys)"
  by (induction xs) (cases "find_position P ys"; simp)+

lemma marker_ctx_nth:
  "j < n + 2 \<Longrightarrow> instruction_accounts (marker_ctx n) ! j = (if j < n then marker_first else marker_second n)"
  by (auto simp: marker_ctx_def nth_append less_Suc_eq)

lemma marker_ctx_facts:
  assumes "0 < n" and "n < 1000"
  shows "loadable (marker_ctx n) loader_sample_tc" and "consistent_accounts (instruction_accounts (marker_ctx n))"
    and "length (instruction_accounts (marker_ctx n)) = n + 2"
proof -
  from assms obtain k where k: "n = Suc k" by (cases n) auto
  have "find_position (\<lambda>x. index_in_transaction x = 1) (replicate n marker_first @ [marker_second n, marker_second n]) = Some n"
    by (subst find_position_skip) (auto simp: marker_first_def marker_second_def)
  moreover have "find_position (\<lambda>x. index_in_transaction x = 0) (replicate n marker_first @ [marker_second n, marker_second n]) = Some 0"
    by (simp add: k marker_first_def)
  ultimately show "consistent_accounts (instruction_accounts (marker_ctx n))"
    by (auto simp: consistent_accounts_def marker_ctx_def marker_first_def marker_second_def)
  show "length (instruction_accounts (marker_ctx n)) = n + 2" by (simp add: marker_ctx_def)
  show "loadable (marker_ctx n) loader_sample_tc"
    using assms by (auto simp: loadable_def marker_ctx_def loader_sample_ctx_def loader_sample_tc_def
        transaction_context_new_def default_account_def marker_first_def marker_second_def)
qed

theorem duplicate_marker_truncates_witness:
  "\<exists>m infos buf. serialize_parameters_aligned 0 (marker_ctx 256) loader_sample_tc = Inr m \<and>
    entrypoint_deserialize (as_slice m) = Some (33, infos, [7], buf) \<and>
    key (fst (info_view buf (infos ! 257))) = 11 \<and> key_of (marker_ctx 256) loader_sample_tc 257 = 22"
proof -
  let ?ctx = "marker_ctx 256"
  have f: "loadable ?ctx loader_sample_tc" "consistent_accounts (instruction_accounts ?ctx)"
      "length (instruction_accounts ?ctx) = 258" using marker_ctx_facts [of 256] by simp_all
  have c: "callee ?ctx j = (if j < 256 then 0 else 256)" if "j < 258" for j
    using that marker_ctx_nth [of j 256] by (simp add: marker_first_def marker_second_def)
  have low: "\<forall>j < length (instruction_accounts ?ctx). callee ?ctx j \<noteq> j \<longrightarrow>
      callee ?ctx j mod 256 \<noteq> 255 \<and> callee ?ctx (callee ?ctx j mod 256) = callee ?ctx j mod 256"
    unfolding f(3) by (simp add: c)
  have d: "distinct (account_keys loader_sample_tc)" "instruction_data ?ctx = [7]" "program_key ?ctx loader_sample_tc = 33"
      "key_of ?ctx loader_sample_tc 257 = 22" "account_view ?ctx loader_sample_tc (256 mod 256) = account_view ?ctx loader_sample_tc 0"
      "key (fst (account_view ?ctx loader_sample_tc 0)) = 11"
    using marker_ctx_nth [of 257 256] marker_ctx_nth [of 0 256]
    by (simp_all add: loader_sample_tc_def transaction_context_new_def program_key_def marker_first_def marker_second_def
        account_view_def) (simp_all add: marker_ctx_def loader_sample_ctx_def)
  have i: "257 < length (instruction_accounts ?ctx)" "callee ?ctx 257 = 256" "256 \<le> callee ?ctx 257" "callee ?ctx 257 \<noteq> 257"
    unfolding f(3) by (simp_all add: c)
  obtain m infos buf where r: "serialize_parameters_aligned 0 ?ctx loader_sample_tc = Inr m"
      "entrypoint_deserialize (as_slice m) = Some (program_key ?ctx loader_sample_tc, infos, instruction_data ?ctx, buf)"
      "info_view buf (infos ! 257) = account_view ?ctx loader_sample_tc (callee ?ctx 257 mod 256)"
    using duplicate_marker_truncates [OF _ f(1,2) d(1) low i(1,3,4), of 0] by auto
  then show ?thesis using d unfolding i(2) by auto
qed


section \<open>Unaligned buffers\<close>

text \<open>
  The alignment of the buffer is a necessary assumption. The serializer reserves the padding after the
  data of an account from the length of the data, and writes it from the index into its vector, which
  includes the distance from the start of the vector to the aligned buffer. With a vector at the address
  15 that distance is 1, and for an account without data the padding has seven bytes instead of none:
  they do not fit, and the serialization fails.
\<close>

lemma write_seq_length:
  assumes "write_seq bss m = Inr m'"
  shows "length (mem m') = length (mem m) + length (concat bss) \<and> am_align_offset m' = am_align_offset m \<and> max_len m' = max_len m \<and>
    (0 < length (concat bss) \<longrightarrow> length (mem m') \<le> am_align_offset m + max_len m)"
  using assms
proof (induction bss arbitrary: m)
  case (Cons bs bss)
  then obtain m1 where m1: "write_all bs m = Some m1" and rest: "write_seq bss m1 = Inr m'" by (auto simp: res_simps)
  from m1 have "length (mem m1) = length (mem m) + length bs \<and> am_align_offset m1 = am_align_offset m \<and> max_len m1 = max_len m \<and>
      (0 < length bs \<longrightarrow> length (mem m1) \<le> am_align_offset m + max_len m)"
    by (auto simp: write_all_def am_write_def split: if_splits)
  with Cons.IH [OF rest] show ?case unfolding concat.simps length_append by linarith
qed auto

lemma resize_length:
  "resize n m = Inr m' \<Longrightarrow> length (mem m') = length (mem m) + n \<and> am_align_offset m' = am_align_offset m \<and> max_len m' = max_len m"
  by (auto simp: resize_def am_resize_def res_simps split: if_splits)

definition unaligned_ctx :: InstructionContext where
  "unaligned_ctx = loader_sample_ctx\<lparr>instruction_accounts := [marker_first]\<rparr>"

lemma unaligned_loadable: "loadable unaligned_ctx loader_sample_tc"
  by (simp add: loadable_def unaligned_ctx_def loader_sample_ctx_def loader_sample_tc_def transaction_context_new_def
      default_account_def marker_first_def)

lemma unaligned_base_fails: "serialize_parameters_aligned 15 unaligned_ctx loader_sample_tc \<noteq> Inr m"
proof
  let ?ctx = "unaligned_ctx" and ?tc = loader_sample_tc
  let ?fresh = "am_new 15 10385 HOST_ALIGN"
  have n: "length (instruction_accounts ?ctx) = 1" "instruction_data ?ctx = [7]" "callee ?ctx 0 = 0" "data (account_at ?ctx ?tc 0) = []"
    by (simp_all add: unaligned_ctx_def loader_sample_ctx_def marker_first_def loader_sample_tc_def transaction_context_new_def default_account_def)
  note borrow = borrow_Inr [OF unaligned_loadable, of 0] and dup = duplicate_Inr [of 0 ?ctx]
  have sz: "aligned_account_size ?ctx ?tc 0 8 = Inr 10344"
    by (simp add: aligned_size [OF unaligned_loadable] n length_aligned_entry align_offset_def BPF_ALIGN_OF_U128_def
        MAX_PERMITTED_DATA_INCREASE_def)
  assume "serialize_parameters_aligned 15 ?ctx ?tc = Inr m"
  then obtain v1 v2 v3 where 1: "write_seq [u64_bytes 1] ?fresh = Inr v1"
    and 2: "serialize_account_aligned ?ctx ?tc 0 v1 = Inr v2"
    and 3: "write_seq [u64_bytes (length [7 :: u8]), [7]] v2 = Inr v3"
    and 4: "\<exists>k. write_seq [to_bytes k] v3 = Inr m"
    by (auto simp: serialize_parameters_aligned_def serialize_with_def Let_def get_number_of_instruction_accounts_def n sz
        and_then_Inr_iff simp del: write_seq.simps)
  let ?a = "account_at ?ctx ?tc 0"
  from 2 obtain head u1 u2 where h: "write_seq head v1 = Inr u1"
      "resize (MAX_PERMITTED_DATA_INCREASE + align_offset (write_index u1) BPF_ALIGN_OF_U128) u1 = Inr u2"
      "write_seq [u64_to_le_bytes (rent_epoch ?a)] u2 = Inr v2" "length (concat head) = 88"
    by (clarsimp simp: serialize_account_aligned_def dup borrow n Let_def and_then_Inr_iff simp del: write_seq.simps)
  have f: "length (mem ?fresh) = 1" "am_align_offset ?fresh = 1" "max_len ?fresh = 10385"
    by (simp_all add: am_new_def get_mem_def Let_def align_offset_def HOST_ALIGN_def)
  have u1: "length (mem u1) = 97" using write_seq_length [OF 1] write_seq_length [OF h(1)] f h(4) by simp
  then have "length (mem u2) = 10344"
    using resize_length [OF h(2)] by (simp add: write_index_def align_offset_def BPF_ALIGN_OF_U128_def MAX_PERMITTED_DATA_INCREASE_def)
  then have "length (mem v3) = 10361" "am_align_offset v3 = 1" "max_len v3 = 10385"
    using write_seq_length [OF 1] write_seq_length [OF h(1)] resize_length [OF h(2)] write_seq_length [OF h(3)] write_seq_length [OF 3] f
    by simp_all
  moreover from 4 obtain k where k: "write_seq [to_bytes k] v3 = Inr m" by blast
  moreover have "length (concat [to_bytes k]) = 32" by simp
  ultimately show False using write_seq_length [OF k] by linarith
qed

end
