(* ===== verification/Ebpf.thy ===== *)
theory Ebpf
  imports Prelude
begin

text \<open>
  The instruction set of \<open>solana_rbpf/src/ebpf.rs\<close>, the configuration of the virtual machine
  (\<open>vm.rs\<close>) and its errors (\<open>error.rs\<close>).

  An operation code of the source is a bitwise or of a class, a size, mode or source modifier and
  an operation. The type \<open>opcode\<close> has one value per operation code that the verifier and the
  interpreter match on, \<open>opcode_byte\<close> is the constant of the source, and \<open>decode\<close> finds the
  match arm of a byte. Signed integers are words read with \<^term>\<open>sint\<close>; \<open>usize\<close> is 64 bits wide.
\<close>

unbundle bit_operations_syntax

section \<open>Constants\<close>

definition INSN_SIZE :: u64 where "INSN_SIZE = 8"
definition FRAME_PTR_REG :: nat where "FRAME_PTR_REG = 10"
definition STACK_PTR_REG :: nat where "STACK_PTR_REG = 11"
definition FIRST_SCRATCH_REG :: nat where "FIRST_SCRATCH_REG = 6"
definition SCRATCH_REGS :: nat where "SCRATCH_REGS = 4"
definition ELF_INSN_DUMP_OFFSET :: u64 where "ELF_INSN_DUMP_OFFSET = 29"
definition VIRTUAL_ADDRESS_BITS :: nat where "VIRTUAL_ADDRESS_BITS = 32"
definition MM_PROGRAM_START :: u64 where "MM_PROGRAM_START = 0x100000000"
definition MM_STACK_START :: u64 where "MM_STACK_START = 0x200000000"
definition MM_HEAP_START :: u64 where "MM_HEAP_START = 0x300000000"
definition MM_INPUT_START :: u64 where "MM_INPUT_START = 0x400000000"


section \<open>Operation codes\<close>

definition BPF_LD :: u8 where "BPF_LD = 0x00"
definition BPF_LDX :: u8 where "BPF_LDX = 0x01"
definition BPF_ST :: u8 where "BPF_ST = 0x02"
definition BPF_STX :: u8 where "BPF_STX = 0x03"
definition BPF_ALU :: u8 where "BPF_ALU = 0x04"
definition BPF_JMP :: u8 where "BPF_JMP = 0x05"
definition BPF_ALU64 :: u8 where "BPF_ALU64 = 0x07"

datatype bpf_size = BPF_W | BPF_H | BPF_B | BPF_DW

fun size_bits :: "bpf_size \<Rightarrow> u8" where
  "size_bits BPF_W = 0x00"
| "size_bits BPF_H = 0x08"
| "size_bits BPF_B = 0x10"
| "size_bits BPF_DW = 0x18"

definition BPF_IMM :: u8 where "BPF_IMM = 0x00"
definition BPF_ABS :: u8 where "BPF_ABS = 0x20"
definition BPF_IND :: u8 where "BPF_IND = 0x40"
definition BPF_MEM :: u8 where "BPF_MEM = 0x60"

datatype bpf_src = BPF_K | BPF_X

fun src_bits :: "bpf_src \<Rightarrow> u8" where
  "src_bits BPF_K = 0x00"
| "src_bits BPF_X = 0x08"

datatype bpf_alu =
  BPF_ADD | BPF_SUB | BPF_MUL | BPF_DIV | BPF_OR | BPF_AND | BPF_LSH | BPF_RSH | BPF_MOD | BPF_XOR
| BPF_MOV | BPF_ARSH | BPF_SDIV

fun alu_bits :: "bpf_alu \<Rightarrow> u8" where
  "alu_bits BPF_ADD = 0x00"
| "alu_bits BPF_SUB = 0x10"
| "alu_bits BPF_MUL = 0x20"
| "alu_bits BPF_DIV = 0x30"
| "alu_bits BPF_OR = 0x40"
| "alu_bits BPF_AND = 0x50"
| "alu_bits BPF_LSH = 0x60"
| "alu_bits BPF_RSH = 0x70"
| "alu_bits BPF_MOD = 0x90"
| "alu_bits BPF_XOR = 0xa0"
| "alu_bits BPF_MOV = 0xb0"
| "alu_bits BPF_ARSH = 0xc0"
| "alu_bits BPF_SDIV = 0xe0"

definition BPF_NEG :: u8 where "BPF_NEG = 0x80"
definition BPF_END :: u8 where "BPF_END = 0xd0"

datatype bpf_jmp =
  BPF_JEQ | BPF_JGT | BPF_JGE | BPF_JSET | BPF_JNE | BPF_JSGT | BPF_JSGE | BPF_JLT | BPF_JLE | BPF_JSLT | BPF_JSLE

fun jmp_bits :: "bpf_jmp \<Rightarrow> u8" where
  "jmp_bits BPF_JEQ = 0x10"
| "jmp_bits BPF_JGT = 0x20"
| "jmp_bits BPF_JGE = 0x30"
| "jmp_bits BPF_JSET = 0x40"
| "jmp_bits BPF_JNE = 0x50"
| "jmp_bits BPF_JSGT = 0x60"
| "jmp_bits BPF_JSGE = 0x70"
| "jmp_bits BPF_JLT = 0xa0"
| "jmp_bits BPF_JLE = 0xb0"
| "jmp_bits BPF_JSLT = 0xc0"
| "jmp_bits BPF_JSLE = 0xd0"

definition BPF_JA :: u8 where "BPF_JA = 0x00"
definition BPF_CALL :: u8 where "BPF_CALL = 0x80"
definition BPF_EXIT :: u8 where "BPF_EXIT = 0x90"

datatype opcode =
  LD_ABS bpf_size | LD_IND bpf_size | LD_DW_IMM | LD_REG bpf_size | ST_IMM bpf_size | ST_REG bpf_size
| ALU32 bpf_alu bpf_src | NEG32 | LE | BE | ALU64 bpf_alu bpf_src | NEG64
| JA | JMP bpf_jmp bpf_src | CALL_IMM | CALL_REG | EXIT

fun opcode_byte :: "opcode \<Rightarrow> u8" where
  "opcode_byte (LD_ABS s) = BPF_LD OR BPF_ABS OR size_bits s"
| "opcode_byte (LD_IND s) = BPF_LD OR BPF_IND OR size_bits s"
| "opcode_byte LD_DW_IMM = BPF_LD OR BPF_IMM OR size_bits BPF_DW"
| "opcode_byte (LD_REG s) = BPF_LDX OR BPF_MEM OR size_bits s"
| "opcode_byte (ST_IMM s) = BPF_ST OR BPF_MEM OR size_bits s"
| "opcode_byte (ST_REG s) = BPF_STX OR BPF_MEM OR size_bits s"
| "opcode_byte (ALU32 f s) = BPF_ALU OR src_bits s OR alu_bits f"
| "opcode_byte NEG32 = BPF_ALU OR BPF_NEG"
| "opcode_byte LE = BPF_ALU OR src_bits BPF_K OR BPF_END"
| "opcode_byte BE = BPF_ALU OR src_bits BPF_X OR BPF_END"
| "opcode_byte (ALU64 f s) = BPF_ALU64 OR src_bits s OR alu_bits f"
| "opcode_byte NEG64 = BPF_ALU64 OR BPF_NEG"
| "opcode_byte JA = BPF_JMP OR BPF_JA"
| "opcode_byte (JMP c s) = BPF_JMP OR src_bits s OR jmp_bits c"
| "opcode_byte CALL_IMM = BPF_JMP OR BPF_CALL"
| "opcode_byte CALL_REG = BPF_JMP OR src_bits BPF_X OR BPF_CALL"
| "opcode_byte EXIT = BPF_JMP OR BPF_EXIT"

definition all_sizes :: "bpf_size list" where
  "all_sizes = [BPF_B, BPF_H, BPF_W, BPF_DW]"

definition all_alu :: "bpf_alu list" where
  "all_alu = [BPF_ADD, BPF_SUB, BPF_MUL, BPF_DIV, BPF_SDIV, BPF_OR, BPF_AND, BPF_LSH, BPF_RSH, BPF_MOD, BPF_XOR,
     BPF_MOV, BPF_ARSH]"

definition all_jmp :: "bpf_jmp list" where
  "all_jmp = [BPF_JEQ, BPF_JGT, BPF_JGE, BPF_JLT, BPF_JLE, BPF_JSET, BPF_JNE, BPF_JSGT, BPF_JSGE, BPF_JSLT, BPF_JSLE]"

definition all_opcodes :: "opcode list" where
  "all_opcodes =
     map LD_ABS all_sizes @ map LD_IND all_sizes @ [LD_DW_IMM] @ map LD_REG all_sizes @ map ST_IMM all_sizes @
     map ST_REG all_sizes @ concat (map (\<lambda>f. [ALU32 f BPF_K, ALU32 f BPF_X]) all_alu) @ [NEG32, LE, BE] @
     concat (map (\<lambda>f. [ALU64 f BPF_K, ALU64 f BPF_X]) all_alu) @ [NEG64, JA] @
     concat (map (\<lambda>c. [JMP c BPF_K, JMP c BPF_X]) all_jmp) @ [CALL_IMM, CALL_REG, EXIT]"

definition decode :: "u8 \<Rightarrow> opcode option" where
  "decode opc = find (\<lambda>o'. opcode_byte o' = opc) all_opcodes"


section \<open>Instructions\<close>

record Insn =
  ptr :: u64
  opc :: u8
  dst :: u8
  src :: u8
  off :: "16 word"
  imm :: u64

definition to_array :: "Insn \<Rightarrow> bytes" where
  "to_array insn =
     [opc insn,
      push_bit 4 (src insn) OR dst insn,
      ucast (off insn AND 0xff),
      ucast (signed_drop_bit 8 (off insn)),
      ucast (imm insn AND 0xff),
      ucast (signed_drop_bit 8 (imm insn AND 0xff00)),
      ucast (drop_bit 16 ((ucast (imm insn) :: u32) AND 0xff0000)),
      ucast (drop_bit 24 ((ucast (imm insn) :: u32) AND 0xff000000))]"

text \<open>Indexing panics outside the program: \<^term>\<open>None\<close>.\<close>

definition get_insn_unchecked :: "bytes \<Rightarrow> u64 \<Rightarrow> Insn option" where
  "get_insn_unchecked prog pc =
     (let k = unat (INSN_SIZE * pc)
      in if k + 8 \<le> length prog
         then Some \<lparr>ptr = pc, opc = prog ! k, dst = prog ! (k + 1) AND 0x0f,
                    src = drop_bit 4 (prog ! (k + 1) AND 0xf0),
                    off = u16_from_le_bytes (slice (k + 2) 2 prog),
                    imm = scast (u32_from_le_bytes (slice (k + 4) 4 prog))\<rparr>
         else None)"

text \<open>\<open>get_insn\<close> adds a debug assertion only.\<close>

definition get_insn :: "bytes \<Rightarrow> u64 \<Rightarrow> Insn option" where
  "get_insn prog pc = get_insn_unchecked prog pc"

definition augment_lddw_unchecked :: "bytes \<Rightarrow> Insn \<Rightarrow> Insn option" where
  "augment_lddw_unchecked prog insn =
     (let k = unat ((ptr insn + 1) * INSN_SIZE + 4)
      in if k + 4 \<le> length prog
         then Some (insn\<lparr>imm := (imm insn AND 0xffffffff) OR
                      push_bit 32 (scast (u32_from_le_bytes (slice k 4 prog)))\<rparr>)
         else None)"


section \<open>Configuration and errors\<close>

text \<open>The fields of \<open>Config\<close> that the verifier, the memory mapping and the interpreter read.\<close>

record Config =
  max_call_depth :: u64
  stack_frame_size :: u64
  enable_stack_frame_gaps :: bool
  enable_instruction_meter :: bool
  enable_instruction_tracing :: bool
  disable_unresolved_symbols_at_runtime :: bool
  disable_deprecated_load_instructions :: bool
  reject_callx_r10 :: bool
  dynamic_stack_frames :: bool
  enable_sdiv :: bool
  static_syscalls :: bool

definition stack_size :: "Config \<Rightarrow> u64" where
  "stack_size c = stack_frame_size c * max_call_depth c"

definition default_config :: Config where
  "default_config =
     \<lparr>max_call_depth = 20, stack_frame_size = 4096, enable_stack_frame_gaps = True, enable_instruction_meter = True,
      enable_instruction_tracing = False, disable_unresolved_symbols_at_runtime = True,
      disable_deprecated_load_instructions = True, reject_callx_r10 = True, dynamic_stack_frames = True,
      enable_sdiv = True, static_syscalls = True\<rparr>"

datatype AccessType = Load | Store

text \<open>The errors of \<open>error.rs\<close> that the modelled code raises; \<open>'e\<close> is the error type of the syscalls.\<close>

datatype ElfError = InvalidEntrypoint | UnknownSymbol u64 | UnresolvedSymbol string u64 u64

datatype 'e EbpfError =
  UserError 'e
| ElfFailure ElfError
| CallDepthExceeded u64 nat
| ExitRootCallFrame
| DivideByZero u64
| DivideOverflow u64
| ExecutionOverrun u64
| CallOutsideTextSegment u64 u64
| ExceededMaxInstructions u64 u64
| InvalidVirtualAddress u64
| InvalidMemoryRegion nat
| AccessViolation u64 AccessType u64 u64 string
| StackAccessViolation u64 AccessType u64 u64 int
| InvalidInstruction u64
| UnsupportedInstruction u64


section \<open>Facts on codes and instructions\<close>

lemma decode_Some: "decode b = Some x \<Longrightarrow> opcode_byte x = b"
  by (auto simp: decode_def find_Some_iff)

lemma opcode_byte_nonzero: "opcode_byte x \<noteq> 0"
proof (cases x)
  case (ALU32 f s)
  then show ?thesis by (cases f; cases s) (simp_all add: BPF_ALU_def)
next
  case (ALU64 f s)
  then show ?thesis by (cases f; cases s) (simp_all add: BPF_ALU64_def)
next
  case (JMP c s)
  then show ?thesis by (cases c; cases s) (simp_all add: BPF_JMP_def)
next
  case (LD_ABS s)
  then show ?thesis by (cases s) (simp_all add: BPF_LD_def BPF_ABS_def)
next
  case (LD_IND s)
  then show ?thesis by (cases s) (simp_all add: BPF_LD_def BPF_IND_def)
next
  case (LD_REG s)
  then show ?thesis by (cases s) (simp_all add: BPF_LDX_def BPF_MEM_def)
next
  case (ST_IMM s)
  then show ?thesis by (cases s) (simp_all add: BPF_ST_def BPF_MEM_def)
next
  case (ST_REG s)
  then show ?thesis by (cases s) (simp_all add: BPF_STX_def BPF_MEM_def)
qed (simp_all add: BPF_LD_def BPF_IMM_def BPF_ALU_def BPF_ALU64_def BPF_JMP_def BPF_NEG_def BPF_END_def BPF_JA_def
    BPF_CALL_def BPF_EXIT_def)

lemma decode_zero: "decode 0 = None"
  using opcode_byte_nonzero by (auto simp: decode_def find_None_iff)

end
