(* ===== verification/MemoryRegion.thy ===== *)
theory MemoryRegion
  imports Ebpf
begin

text \<open>
  The memory of the virtual machine (\<open>solana_rbpf/src/memory_region.rs\<close>): regions, the
  translation of virtual to host addresses with its optional gaps, and the mapping that finds the
  region of an access in the upper half of the address.
\<close>

record MemoryRegion =
  host_addr :: u64
  vm_addr :: u64
  mr_len :: u64
  vm_gap_shift :: nat
  mr_is_writable :: bool

definition leading_zeros :: "u64 \<Rightarrow> nat" where
  "leading_zeros w = length (takeWhile (\<lambda>i. \<not> bit w i) (rev [0..<64]))"

text \<open>\<open>MemoryRegion::new\<close>; the slice is its address and its length.\<close>

definition region_new :: "u64 \<Rightarrow> u64 \<Rightarrow> u64 \<Rightarrow> u64 \<Rightarrow> bool \<Rightarrow> MemoryRegion" where
  "region_new slice_addr slice_len addr vm_gap_size writable =
     \<lparr>host_addr = slice_addr, vm_addr = addr, mr_len = slice_len,
      vm_gap_shift = (if 0 < vm_gap_size then 63 - leading_zeros vm_gap_size else 63),
      mr_is_writable = writable\<rparr>"

definition new_readonly :: "u64 \<Rightarrow> u64 \<Rightarrow> u64 \<Rightarrow> MemoryRegion" where
  "new_readonly slice_addr slice_len addr = region_new slice_addr slice_len addr 0 False"

definition new_writable :: "u64 \<Rightarrow> u64 \<Rightarrow> u64 \<Rightarrow> MemoryRegion" where
  "new_writable slice_addr slice_len addr = region_new slice_addr slice_len addr 0 True"

definition new_writable_gapped :: "u64 \<Rightarrow> u64 \<Rightarrow> u64 \<Rightarrow> u64 \<Rightarrow> MemoryRegion" where
  "new_writable_gapped slice_addr slice_len addr vm_gap_size = region_new slice_addr slice_len addr vm_gap_size True"

definition checked_shr :: "u64 \<Rightarrow> nat \<Rightarrow> u64 option" where
  "checked_shr w n = (if n < 64 then Some (drop_bit n w) else None)"

definition checked_shl :: "u64 \<Rightarrow> nat \<Rightarrow> u64 option" where
  "checked_shl w n = (if n < 64 then Some (push_bit n w) else None)"

fun unwrap_or :: "'a option \<Rightarrow> 'a \<Rightarrow> 'a" where
  "unwrap_or None d = d"
| "unwrap_or (Some x) d = x"

definition vm_to_host :: "MemoryRegion \<Rightarrow> u64 \<Rightarrow> u64 \<Rightarrow> 'e EbpfError + u64" where
  "vm_to_host region addr len =
     (if addr < vm_addr region then Inl (InvalidVirtualAddress addr)
      else
        let begin_offset = saturating_sub addr (vm_addr region);
            is_in_gap = (unwrap_or (checked_shr begin_offset (vm_gap_shift region)) 0 AND 1 = 1);
            gap_mask = unwrap_or (checked_shl (- 1) (vm_gap_shift region)) 0;
            gapped_offset =
              unwrap_or (checked_shr (begin_offset AND gap_mask) 1) 0 OR (begin_offset AND NOT gap_mask)
        in case checked_add gapped_offset len of
             Some end_offset \<Rightarrow>
               if end_offset \<le> mr_len region \<and> \<not> is_in_gap
               then Ok (saturating_add (host_addr region) gapped_offset)
               else Inl (InvalidVirtualAddress addr)
           | None \<Rightarrow> Inl (InvalidVirtualAddress addr))"


section \<open>Mappings\<close>

record MemoryMapping =
  regions :: "MemoryRegion list"
  mm_config :: Config

definition region_index :: "u64 \<Rightarrow> nat" where
  "region_index addr = unat (unwrap_or (checked_shr addr VIRTUAL_ADDRESS_BITS) 0)"

definition first_misplaced :: "MemoryRegion list \<Rightarrow> nat option" where
  "first_misplaced rs = find (\<lambda>i. region_index (vm_addr (rs ! i)) \<noteq> i) [0..<length rs]"

definition mapping_new :: "MemoryRegion list \<Rightarrow> Config \<Rightarrow> 'e EbpfError + MemoryMapping" where
  "mapping_new rs config =
     (let rs = sort_key vm_addr rs
      in case first_misplaced rs of
           Some i \<Rightarrow> Inl (InvalidMemoryRegion i)
         | None \<Rightarrow> Ok \<lparr>regions = rs, mm_config = config\<rparr>)"

text \<open>Signed 64-bit arithmetic: saturation and division towards zero.\<close>

definition saturate_i64 :: "int \<Rightarrow> int" where
  "saturate_i64 x = max (- (2 ^ 63)) (min (2 ^ 63 - 1) x)"

definition div_trunc :: "int \<Rightarrow> int \<Rightarrow> int" where
  "div_trunc a b = sgn a * sgn b * (\<bar>a\<bar> div \<bar>b\<bar>)"

definition checked_div_i64 :: "int \<Rightarrow> int \<Rightarrow> int option" where
  "checked_div_i64 a b =
     (if b = 0 \<or> a = - (2 ^ 63) \<and> b = - 1 then None else Some (div_trunc a b))"

definition region_name :: "u64 \<Rightarrow> string" where
  "region_name addr =
     (let b = addr AND NOT (MM_PROGRAM_START - 1)
      in if b = MM_PROGRAM_START then ''program''
         else if b = MM_STACK_START then ''stack''
         else if b = MM_HEAP_START then ''heap''
         else if b = MM_INPUT_START then ''input''
         else ''unknown'')"

definition generate_access_violation :: "MemoryMapping \<Rightarrow> AccessType \<Rightarrow> u64 \<Rightarrow> u64 \<Rightarrow> 'e EbpfError + u64" where
  "generate_access_violation mm access addr len =
     (let config = mm_config mm;
          stack_frame = unwrap_or (checked_div_i64 (saturate_i64 (sint addr - sint MM_STACK_START))
                          (sint (stack_frame_size config))) 0
      in if \<not> dynamic_stack_frames config \<and> - 1 \<le> stack_frame \<and>
            stack_frame < saturate_i64 (sint (max_call_depth config) + 1)
         then Inl (StackAccessViolation 0 access addr len stack_frame)
         else Inl (AccessViolation 0 access addr len (region_name addr)))"

definition mapping_map :: "MemoryMapping \<Rightarrow> AccessType \<Rightarrow> u64 \<Rightarrow> u64 \<Rightarrow> 'e EbpfError + u64" where
  "mapping_map mm access addr len =
     (let index = region_index addr
      in if 1 \<le> index \<and> index < length (regions mm)
         then let region = regions mm ! index
              in if access = Load \<or> mr_is_writable region
                 then case (vm_to_host region addr len :: 'e EbpfError + u64) of
                        Inr h \<Rightarrow> Ok h
                      | Inl e \<Rightarrow> generate_access_violation mm access addr len
                 else generate_access_violation mm access addr len
         else generate_access_violation mm access addr len)"

definition replace_region :: "nat \<Rightarrow> MemoryRegion \<Rightarrow> MemoryMapping \<Rightarrow> 'e EbpfError + MemoryMapping" where
  "replace_region index region mm =
     (if length (regions mm) \<le> index then Inl (InvalidMemoryRegion index)
      else
        let begin_index = region_index (vm_addr region);
            end_index = region_index (saturating_add (vm_addr region) (saturating_sub (mr_len region) 1))
        in if begin_index \<noteq> index \<or> end_index \<noteq> index then Inl (InvalidMemoryRegion index)
           else Ok (mm\<lparr>regions := (regions mm)[index := region]\<rparr>))"


section \<open>Translation\<close>

text \<open>
  With gaps of size \<open>2 ^ s\<close>, frame \<open>2 * k\<close> of the virtual region is frame \<open>k\<close> of the host slice and
  the odd frames are gaps. \<open>gapped s b\<close> is the offset in the host slice of the virtual offset \<open>b\<close>.
\<close>

definition gapped :: "nat \<Rightarrow> nat \<Rightarrow> nat" where
  "gapped s b = b div 2 ^ (s + 1) * 2 ^ s + b mod 2 ^ s"

lemma and_mask_push:
  fixes w :: u64
  shows "w AND push_bit s (- 1) = push_bit s (drop_bit s w)" and "w AND NOT (push_bit s (- 1)) = take_bit s w"
  by (rule bit_word_eqI, auto simp: bit_simps)+

lemma unat_drop_bit_u64: "unat (drop_bit s (w :: u64)) = unat w div 2 ^ s"
proof -
  have "take_bit 64 (unat w) = unat w" using unsigned_less [of w] by (simp add: take_bit_nat_eq_self)
  then show ?thesis unfolding unsigned_drop_bit_eq by (simp add: drop_bit_eq_div)
qed

lemma unat_push_drop:
  fixes w :: u64
  assumes "s < 64"
  shows "unat (push_bit s (drop_bit s w)) = unat w div 2 ^ s * 2 ^ s"
proof -
  have "unat w div 2 ^ s * 2 ^ s \<le> unat w" by (rule div_times_less_eq_dividend)
  also have "unat w < 2 ^ 64" using unsigned_less [of w] by simp
  finally have lt: "unat w div 2 ^ s * 2 ^ s < 2 ^ 64" .
  have "unat (push_bit s (drop_bit s w)) = take_bit 64 (push_bit s (unat (drop_bit s w)))"
    by (simp add: unsigned_push_bit_eq)
  also have "\<dots> = take_bit 64 (unat w div 2 ^ s * 2 ^ s)"
    unfolding unat_drop_bit_u64 by (simp add: push_bit_eq_mult)
  also have "\<dots> = unat w div 2 ^ s * 2 ^ s" using lt by (simp add: take_bit_nat_eq_self)
  finally show ?thesis .
qed

lemma bit_u64_iff: "s < 64 \<Longrightarrow> bit (w :: u64) s \<longleftrightarrow> odd (unat w div 2 ^ s)"
  using bit_iff_odd [of "unat w" s] by (simp add: bit_unsigned_iff)

lemma gapped_le: "gapped s b \<le> b"
proof -
  have "b div 2 ^ (s + 1) * 2 ^ s \<le> b div 2 ^ s * 2 ^ s"
    by (intro mult_right_mono div_le_mono2) simp_all
  then have "gapped s b \<le> b div 2 ^ s * 2 ^ s + b mod 2 ^ s" by (simp add: gapped_def)
  then show ?thesis unfolding div_mult_mod_eq .
qed

lemma unat_gapped_offset:
  fixes w :: u64
  assumes "s < 64" and "even (unat w div 2 ^ s)"
  shows "unat (drop_bit 1 (push_bit s (drop_bit s w)) OR take_bit s w) = gapped s (unat w)"
proof -
  let ?x = "drop_bit 1 (push_bit s (drop_bit s w))" and ?q = "unat w div 2 ^ s"
  from assms have "\<not> bit w s" by (simp add: bit_u64_iff)
  then have "\<not> bit ?x n \<or> \<not> bit (take_bit s w) n" for n
    by (cases "n + 1 = s") (auto simp: bit_simps)
  then have or: "?x OR take_bit s w = ?x + take_bit s w" by (simp add: disjunctive_add)
  from assms(2) obtain k where k: "?q = 2 * k" by blast
  have "unat ?x = ?q * 2 ^ s div 2"
    unfolding unat_drop_bit_u64 unat_push_drop [OF assms(1)] by simp
  also have "\<dots> = k * 2 ^ s" using k by simp
  also have "k = ?q div 2" using k by simp
  also have "?q div 2 = unat w div 2 ^ (s + 1)" by (simp only: power_add power_one_right div_mult2_eq)
  finally have x: "unat ?x = unat w div 2 ^ (s + 1) * 2 ^ s" .
  have t: "unat (take_bit s w) = unat w mod 2 ^ s"
    unfolding unsigned_take_bit_eq by (simp add: take_bit_eq_mod)
  have "unat ?x + unat (take_bit s w) = gapped s (unat w)" by (simp only: x t gapped_def)
  moreover have "gapped s (unat w) < 2 ^ 64"
    using order.strict_trans1 [OF gapped_le [of s "unat w"] unat_less_2_64] by simp
  ultimately show ?thesis unfolding or by (simp add: unat_add_no_overflow)
qed

lemma vm_to_host_Inr:
  assumes "vm_gap_shift r < 64"
  shows "vm_to_host r a n = Inr h \<longleftrightarrow>
    vm_addr r \<le> a \<and>
    (let b = unat a - unat (vm_addr r); s = vm_gap_shift r
     in even (b div 2 ^ s) \<and> gapped s b + unat n \<le> unat (mr_len r) \<and>
        h = saturating_add (host_addr r) (word_of_nat (gapped s b)))"
proof (cases "vm_addr r \<le> a")
  case False
  then show ?thesis by (simp add: vm_to_host_def not_le)
next
  case True
  let ?s = "vm_gap_shift r" and ?w = "a - vm_addr r"
  let ?g = "drop_bit 1 (push_bit ?s (drop_bit ?s ?w)) OR take_bit ?s ?w"
  have u: "unat ?w = unat a - unat (vm_addr r)" using True by (rule unat_sub)
  have gap: "drop_bit ?s ?w AND 1 = 1 \<longleftrightarrow> odd (unat ?w div 2 ^ ?s)"
    using bit_u64_iff [OF assms, of ?w] by (simp add: and_one_eq bit_iff_odd_drop_bit odd_iff_mod_2_eq_one)
  have c: "checked_shr w ?s = Some (drop_bit ?s w)" "checked_shl w ?s = Some (push_bit ?s w)"
      "checked_shr w 1 = Some (drop_bit 1 w)" "saturating_sub a (vm_addr r) = ?w" "a < vm_addr r \<longleftrightarrow> False" for w
    using True assms by (auto simp: checked_shr_def checked_shl_def saturating_sub_def)
  have eq: "vm_to_host r a n = (case checked_add ?g n of
       Some e \<Rightarrow> if e \<le> mr_len r \<and> \<not> odd (unat ?w div 2 ^ ?s) then Ok (saturating_add (host_addr r) ?g)
                 else Inl (InvalidVirtualAddress a)
     | None \<Rightarrow> Inl (InvalidVirtualAddress a))"
    unfolding vm_to_host_def Let_def c unwrap_or.simps and_mask_push gap if_False by (rule refl)
  show ?thesis
  proof (cases "even (unat ?w div 2 ^ ?s)")
    case False
    then show ?thesis using u by (auto simp: eq Let_def split: option.splits)
  next
    case even: True
    note g = unat_gapped_offset [OF assms even]
    then have "?g = word_of_nat (gapped ?s (unat ?w))" by (simp flip: g)
    moreover have "(\<exists>e. checked_add ?g n = Some e \<and> e \<le> mr_len r) \<longleftrightarrow> gapped ?s (unat ?w) + unat n \<le> unat (mr_len r)"
      using g by (auto simp: checked_add_def unat_add_no_overflow word_le_nat_alt
          dest: order_le_less_trans [OF _ unat_less_2_64])
    ultimately show ?thesis using True even u by (auto simp: eq Let_def split: option.splits)
  qed
qed

text \<open>A well-formed region: a shift of at most 63 and a host slice that does not wrap around.\<close>

definition wf_region :: "MemoryRegion \<Rightarrow> bool" where
  "wf_region r \<longleftrightarrow> vm_gap_shift r < 64 \<and> unat (host_addr r) + unat (mr_len r) < 2 ^ 64"

definition wf_mapping :: "MemoryMapping \<Rightarrow> bool" where
  "wf_mapping mm \<longleftrightarrow> (\<forall>r\<in>set (regions mm). wf_region r)"

lemma vm_to_host_bounds:
  assumes "wf_region r" and "vm_to_host r a n = Inr h"
  shows "unat (host_addr r) \<le> unat h" and "unat h + unat n \<le> unat (host_addr r) + unat (mr_len r)"
proof -
  let ?b = "unat a - unat (vm_addr r)"
  let ?g = "gapped (vm_gap_shift r) ?b"
  from assms have g: "?g + unat n \<le> unat (mr_len r)" "h = saturating_add (host_addr r) (word_of_nat ?g)"
    by (simp_all add: wf_region_def vm_to_host_Inr Let_def)
  have lt: "unat (host_addr r) + ?g < 2 ^ 64" using g(1) assms(1) by (simp add: wf_region_def)
  then have "unat (word_of_nat ?g :: u64) = ?g" by (intro unat_word_of_nat_id) simp
  with lt g(2) have "unat h = unat (host_addr r) + ?g"
    by (simp add: saturating_add_def unat_add_no_overflow)
  with g(1) show "unat (host_addr r) \<le> unat h" "unat h + unat n \<le> unat (host_addr r) + unat (mr_len r)" by simp_all
qed

lemma mapping_map_Inr:
  "mapping_map mm access a n = (Inr h :: 'e EbpfError + u64) \<longleftrightarrow>
     (let i = region_index a
      in 1 \<le> i \<and> i < length (regions mm) \<and> (access = Load \<or> mr_is_writable (regions mm ! i)) \<and>
         vm_to_host (regions mm ! i) a n = (Inr h :: 'e EbpfError + u64))"
  by (auto simp: mapping_map_def generate_access_violation_def Let_def split: sum.splits)

end
