(* ===== verification/CallFrames.thy ===== *)
theory CallFrames
  imports MemoryRegion
begin

text \<open>
  The call frames of the virtual machine (\<open>solana_rbpf/src/call_frames.rs\<close>). The backing memory of
  the stack is in the host memory; \<open>CallFrames\<close> keeps its address and length. \<open>VmPanic\<close> is a panic
  of the host.
\<close>

datatype 'e vm_failure = VmErr "'e EbpfError" | VmPanic

record CallFrame =
  frame_ptr :: u64
  saved_reg :: "u64 list"
  return_ptr :: u64

record CallFrames =
  cf_config :: Config
  stack_addr :: u64
  stack_len :: u64
  stack_ptr :: u64
  frame_index :: nat
  frame_index_max :: nat
  frames :: "CallFrame list"

text \<open>\<open>addr\<close> is the address that the allocation of the stack gets.\<close>

definition call_frames_new :: "u64 \<Rightarrow> Config \<Rightarrow> 'e vm_failure + CallFrames" where
  "call_frames_new addr config =
     (let n = stack_size config;
          fs = replicate (unat (max_call_depth config)) \<lparr>frame_ptr = 0, saved_reg = replicate SCRATCH_REGS 0, return_ptr = 0\<rparr>
      in if fs = [] then Inl VmPanic
         else
           let fp = (if dynamic_stack_frames config then MM_STACK_START + n
                     else MM_STACK_START + stack_frame_size config)
           in Ok \<lparr>cf_config = config, stack_addr = addr, stack_len = n,
                  stack_ptr = (if dynamic_stack_frames config then fp else MM_STACK_START),
                  frame_index = 0, frame_index_max = 0, frames = fs[0 := (fs ! 0)\<lparr>frame_ptr := fp\<rparr>]\<rparr>)"

definition get_memory_region :: "CallFrames \<Rightarrow> MemoryRegion" where
  "get_memory_region cf =
     new_writable_gapped (stack_addr cf) (stack_len cf) MM_STACK_START
       (if \<not> dynamic_stack_frames (cf_config cf) \<and> enable_stack_frame_gaps (cf_config cf)
        then stack_frame_size (cf_config cf) else 0)"

definition get_frame_pointers :: "CallFrames \<Rightarrow> u64 list" where
  "get_frame_pointers cf = map frame_ptr (take (frame_index cf + 1) (frames cf))"

definition get_frame_ptr :: "CallFrames \<Rightarrow> u64" where
  "get_frame_ptr cf = frame_ptr (frames cf ! frame_index cf)"

definition frames_push :: "u64 list \<Rightarrow> u64 \<Rightarrow> (CallFrames, 'e vm_failure, u64) action" where
  "frames_push saved ret cf =
     (let i = frame_index cf; config = cf_config cf
      in if length (frames cf) \<le> i + 1
         then (Inl (VmErr (CallDepthExceeded (ret + ELF_INSN_DUMP_OFFSET - 1) (length (frames cf)))), cf)
         else if length saved \<noteq> length (saved_reg (frames cf ! i)) then (Inl VmPanic, cf)
         else
           let fs = (frames cf)[i := (frames cf ! i)\<lparr>saved_reg := saved, return_ptr := ret\<rparr>];
               new_ptr = (if dynamic_stack_frames config then stack_ptr cf
                          else frame_ptr (frames cf ! i) +
                               stack_frame_size config * (if enable_stack_frame_gaps config then 2 else 1));
               fs = fs[i + 1 := (fs ! (i + 1))\<lparr>frame_ptr := new_ptr\<rparr>];
               sp = (if dynamic_stack_frames config then stack_ptr cf else new_ptr - stack_frame_size config);
               cf = cf\<lparr>frames := fs, frame_index := i + 1, stack_ptr := sp,
                       frame_index_max := max (frame_index_max cf) (i + 1)\<rparr>
           in (Ok (get_frame_ptr cf), cf))"

definition frames_pop :: "(CallFrames, 'e vm_failure, u64 list \<times> u64 \<times> u64) action" where
  "frames_pop cf =
     (if frame_index cf = 0 then (Inl (VmErr ExitRootCallFrame), cf)
      else
        let cf = cf\<lparr>frame_index := frame_index cf - 1\<rparr>
        in if frame_index cf < length (frames cf)
           then (Ok (saved_reg (frames cf ! frame_index cf), get_frame_ptr cf,
                     return_ptr (frames cf ! frame_index cf)), cf)
           else (Inl VmPanic, cf))"

definition resize_stack :: "u64 \<Rightarrow> CallFrames \<Rightarrow> CallFrames" where
  "resize_stack amt cf = cf\<lparr>stack_ptr := stack_ptr cf + amt\<rparr>"


section \<open>Frames\<close>

definition wf_frames :: "CallFrames \<Rightarrow> bool" where
  "wf_frames cf \<longleftrightarrow> frame_index cf < length (frames cf) \<and> (\<forall>f\<in>set (frames cf). length (saved_reg f) = 4)"

lemma call_frames_new_wf:
  "call_frames_new addr config = Inr cf \<Longrightarrow> wf_frames cf \<and> frame_index cf = 0 \<and> length (frames cf) = unat (max_call_depth config)"
  by (auto simp: call_frames_new_def wf_frames_def SCRATCH_REGS_def Let_def set_update_subset_insert [THEN subsetD]
      dest!: subsetD [OF set_update_subset_insert] split: if_splits)

lemma frames_push_cases:
  assumes "wf_frames cf" and "length saved = 4"
  shows "(frame_index cf + 1 = length (frames cf) \<and>
      frames_push saved ret cf =
        (Inl (VmErr (CallDepthExceeded (ret + ELF_INSN_DUMP_OFFSET - 1) (length (frames cf)))) :: 'e vm_failure + u64, cf)) \<or>
    (\<exists>fp cf'. frames_push saved ret cf = (Inr fp :: 'e vm_failure + u64, cf') \<and> wf_frames cf' \<and> frame_index cf' = frame_index cf + 1 \<and>
       length (frames cf') = length (frames cf) \<and> fp = get_frame_ptr cf' \<and> cf_config cf' = cf_config cf \<and>
       frames cf' ! frame_index cf = (frames cf ! frame_index cf)\<lparr>saved_reg := saved, return_ptr := ret\<rparr>)"
proof (cases "frame_index cf + 1 = length (frames cf)")
  case True
  then show ?thesis by (simp add: frames_push_def Let_def)
next
  case False
  with assms(1) have i: "frame_index cf + 1 < length (frames cf)" by (simp add: wf_frames_def)
  then have l: "length (saved_reg (frames cf ! frame_index cf)) = 4" "length (saved_reg (frames cf ! (frame_index cf + 1))) = 4"
    using assms(1) by (simp_all add: wf_frames_def)
  then show ?thesis
    using i assms
    by (auto simp: frames_push_def Let_def wf_frames_def get_frame_ptr_def nth_list_update
        dest!: subsetD [OF set_update_subset_insert])
qed

text \<open>Returning from a call gives back the registers, the frame pointer and the return address of the call.\<close>

lemma pop_after_push:
  assumes "wf_frames cf" and "length saved = 4" and "frames_push saved ret cf = (Inr fp :: 'e vm_failure + u64, cf')"
  shows "\<exists>cf''. frames_pop cf' = (Inr (saved, get_frame_ptr cf, ret), cf'') \<and> frame_index cf'' = frame_index cf"
proof -
  from frames_push_cases [OF assms(1,2), of ret, where 'e = 'e] assms(3)
  have c: "frame_index cf' = frame_index cf + 1" "frame_index cf' < length (frames cf')"
      "frames cf' ! frame_index cf = (frames cf ! frame_index cf)\<lparr>saved_reg := saved, return_ptr := ret\<rparr>"
    by (auto simp: wf_frames_def)
  then show ?thesis by (simp add: frames_pop_def Let_def get_frame_ptr_def)
qed

end
