(* ===== verification/Interpreter.thy ===== *)
theory Interpreter
  imports CallFrames ComputeBudget
begin

text \<open>
  The interpreter of \<open>solana_rbpf/src/interpreter.rs\<close> and the loop around it in \<open>vm.rs\<close>.

  The memory of the host is a function from addresses to bytes; the regions of the memory mapping
  lie in it. The instruction meter is the one of the loader, the compute meter of the transaction.
  The functions registered as syscalls are a parameter (a map from symbol hashes to functions on
  the memory, the mapping and the meter), as are the table of functions of the executable and the
  error that it reports for an unresolved symbol. A step is an action on the interpreter that
  leaves a state behind on errors as well; \<open>VmPanic\<close> is a panic of the host (an index out of bounds,
  an integer division by zero or one that overflows). The host is little-endian.
\<close>

record Machine =
  host :: "u64 \<Rightarrow> u8"
  memory_mapping :: MemoryMapping
  insn_meter :: u64

type_synonym 'e syscall = "u64 list \<Rightarrow> (Machine, 'e EbpfError, u64) action"

record 'e Executable =
  text_bytes :: bytes
  text_vaddr :: u64
  bpf_functions :: "u32 \<Rightarrow> u64 option"
  entrypoint_hash :: u32
  syscall_registry :: "u32 \<Rightarrow> 'e syscall option"
  unresolved_symbol :: "u64 \<Rightarrow> ElfError"
  ex_config :: Config

record Interpreter =
  machine :: Machine
  vm_stack :: CallFrames
  tracer :: "u64 list list"
  initial_insn_count :: u64
  remaining_insn_count :: u64
  due_insn_count :: u64
  reg :: "u64 list"
  vm_pc :: u64

type_synonym ('e, 'a) vm = "(Interpreter, 'e vm_failure, 'a) action"

text \<open>\<open>ThisInstructionMeter\<close> of the loader: the error of the compute meter is ignored.\<close>

definition meter_consume :: "u64 \<Rightarrow> u64 \<Rightarrow> u64" where
  "meter_consume amt m = snd (compute_meter_consume amt m)"

definition meter_get_remaining :: "u64 \<Rightarrow> u64" where
  "meter_get_remaining m = m"


section \<open>State access\<close>

definition read_reg :: "nat \<Rightarrow> ('e, u64) vm" where
  "read_reg r = sread (\<lambda>s. ok_or (get (reg s) r) VmPanic)"

definition write_reg :: "nat \<Rightarrow> u64 \<Rightarrow> ('e, unit) vm" where
  "write_reg r v s = (if r < length (reg s) then (Ok (), s\<lparr>reg := (reg s)[r := v]\<rparr>) else (Inl VmPanic, s))"

definition set_pc :: "u64 \<Rightarrow> ('e, unit) vm" where
  "set_pc p = smodify (\<lambda>s. s\<lparr>vm_pc := p\<rparr>)"

definition on_stack :: "(CallFrames, 'e vm_failure, 'a) action \<Rightarrow> ('e, 'a) vm" where
  "on_stack f s = (case f (vm_stack s) of (r, cf) \<Rightarrow> (r, s\<lparr>vm_stack := cf\<rparr>))"

fun size_bytes :: "bpf_size \<Rightarrow> nat" where
  "size_bytes BPF_B = 1"
| "size_bytes BPF_H = 2"
| "size_bytes BPF_W = 4"
| "size_bytes BPF_DW = 8"

definition host_load :: "(u64 \<Rightarrow> u8) \<Rightarrow> u64 \<Rightarrow> nat \<Rightarrow> u64" where
  "host_load h a n = word_of_nat (le_to_nat (map (\<lambda>i. h (a + word_of_nat i)) [0..<n]))"

text \<open>\<open>*host_ptr = v as T\<close>: the \<open>n\<close> low bytes of \<open>v\<close>, the lowest first.\<close>

definition host_store :: "u64 \<Rightarrow> nat \<Rightarrow> u64 \<Rightarrow> (u64 \<Rightarrow> u8) \<Rightarrow> u64 \<Rightarrow> u8" where
  "host_store a n v h x = (if unat (x - a) < n then nat_to_le n (unat v) ! unat (x - a) else h x)"

text \<open>The macro \<open>translate_memory_access\<close>.\<close>

definition translate_memory_access :: "AccessType \<Rightarrow> u64 \<Rightarrow> bpf_size \<Rightarrow> u64 \<Rightarrow> ('e, u64) vm" where
  "translate_memory_access access addr sz pc = sread (\<lambda>s.
     case (mapping_map (memory_mapping (machine s)) access addr (word_of_nat (size_bytes sz)) :: 'e EbpfError + u64) of
       Inr h \<Rightarrow> Ok h
     | Inl (AccessViolation _ a v l rs) \<Rightarrow> Inl (VmErr (AccessViolation (pc + ELF_INSN_DUMP_OFFSET) a v l rs))
     | Inl (StackAccessViolation _ a v l fr) \<Rightarrow> Inl (VmErr (StackAccessViolation (pc + ELF_INSN_DUMP_OFFSET) a v l fr))
     | Inl _ \<Rightarrow> Inl VmPanic)"

definition vm_load :: "u64 \<Rightarrow> bpf_size \<Rightarrow> u64 \<Rightarrow> nat \<Rightarrow> ('e, unit) vm" where
  "vm_load addr sz pc r =
     sbind (translate_memory_access Load addr sz pc) (\<lambda>h.
     sbind (sread (\<lambda>s. Ok (host_load (host (machine s)) h (size_bytes sz)))) (write_reg r))"

definition vm_store :: "u64 \<Rightarrow> bpf_size \<Rightarrow> u64 \<Rightarrow> ('e, u64) vm \<Rightarrow> ('e, unit) vm" where
  "vm_store addr sz pc val =
     sbind (translate_memory_access Store addr sz pc) (\<lambda>h.
     sbind val (\<lambda>v.
     smodify (\<lambda>s. s\<lparr>machine := (machine s)\<lparr>host := host_store h (size_bytes sz) v (host (machine s))\<rparr>\<rparr>)))"


section \<open>Arithmetic\<close>

definition sdiv_word :: "'a::len word \<Rightarrow> 'a word \<Rightarrow> 'a word" where
  "sdiv_word a b = word_of_int (div_trunc (sint a) (sint b))"

definition int_min :: "'a::len word" where
  "int_min = word_of_int (- (2 ^ (LENGTH('a) - 1)))"

text \<open>
  The division arms. With an immediate operand there is no check for zero, so a zero operand
  panics; a register operand is checked.
\<close>

definition checked_operand :: "bpf_src \<Rightarrow> bool \<Rightarrow> u64 \<Rightarrow> 'e vm_failure + unit" where
  "checked_operand s zero pc =
     (if zero then Inl (case s of BPF_X \<Rightarrow> VmErr (DivideByZero (pc + ELF_INSN_DUMP_OFFSET)) | BPF_K \<Rightarrow> VmPanic)
      else Ok ())"

definition signed_division :: "bpf_src \<Rightarrow> bool \<Rightarrow> u64 \<Rightarrow> 'a::len word \<Rightarrow> 'a word \<Rightarrow> 'e vm_failure + 'a word" where
  "signed_division s is_minus_one pc d v =
     (if s = BPF_X \<and> v = 0 then Inl (VmErr (DivideByZero (pc + ELF_INSN_DUMP_OFFSET)))
      else if d = int_min \<and> is_minus_one then Inl (VmErr (DivideOverflow (pc + ELF_INSN_DUMP_OFFSET)))
      else if v = 0 \<or> d = int_min \<and> v = - 1 then Inl VmPanic
      else Ok (sdiv_word d v))"

definition alu32 :: "bpf_alu \<Rightarrow> bpf_src \<Rightarrow> u64 \<Rightarrow> u64 \<Rightarrow> u64 \<Rightarrow> 'e vm_failure + u64" where
  "alu32 f s pc a b =
     (let d = ucast a :: u32; v = ucast b :: u32; k = unat (v AND 31)
      in case f of
           BPF_ADD \<Rightarrow> Ok (scast (d + v))
         | BPF_SUB \<Rightarrow> Ok (scast (d - v))
         | BPF_MUL \<Rightarrow> Ok (scast (d * v))
         | BPF_DIV \<Rightarrow> and_then (checked_operand s (v = 0) pc) (\<lambda>_. Ok (ucast (d div v)))
         | BPF_SDIV \<Rightarrow> and_then (signed_division s (case s of BPF_X \<Rightarrow> v = - 1 | BPF_K \<Rightarrow> b = - 1) pc d v)
                        (\<lambda>x. Ok (scast x))
         | BPF_OR \<Rightarrow> Ok (ucast (d OR v))
         | BPF_AND \<Rightarrow> Ok (ucast (d AND v))
         | BPF_LSH \<Rightarrow> Ok (ucast (push_bit k d))
         | BPF_RSH \<Rightarrow> Ok (ucast (drop_bit k d))
         | BPF_MOD \<Rightarrow> and_then (checked_operand s (v = 0) pc) (\<lambda>_. Ok (ucast (d mod v)))
         | BPF_XOR \<Rightarrow> Ok (ucast (d XOR v))
         | BPF_MOV \<Rightarrow> Ok (ucast v)
         | BPF_ARSH \<Rightarrow> Ok (scast (signed_drop_bit k d) AND 0xffffffff))"

definition alu64 :: "bpf_alu \<Rightarrow> bpf_src \<Rightarrow> u64 \<Rightarrow> u64 \<Rightarrow> u64 \<Rightarrow> 'e vm_failure + u64" where
  "alu64 f s pc d v =
     (let k = unat ((ucast v :: u32) AND 63)
      in case f of
           BPF_ADD \<Rightarrow> Ok (d + v)
         | BPF_SUB \<Rightarrow> Ok (d - v)
         | BPF_MUL \<Rightarrow> Ok (d * v)
         | BPF_DIV \<Rightarrow> and_then (checked_operand s (v = 0) pc) (\<lambda>_. Ok (d div v))
         | BPF_SDIV \<Rightarrow> signed_division s (v = - 1) pc d v
         | BPF_OR \<Rightarrow> Ok (d OR v)
         | BPF_AND \<Rightarrow> Ok (d AND v)
         | BPF_LSH \<Rightarrow> Ok (push_bit k d)
         | BPF_RSH \<Rightarrow> Ok (drop_bit k d)
         | BPF_MOD \<Rightarrow> and_then (checked_operand s (v = 0) pc) (\<lambda>_. Ok (d mod v))
         | BPF_XOR \<Rightarrow> Ok (d XOR v)
         | BPF_MOV \<Rightarrow> Ok v
         | BPF_ARSH \<Rightarrow> Ok (signed_drop_bit k d))"

text \<open>Byte order conversion; \<open>to_le\<close> is the identity on the host.\<close>

definition to_le :: "u64 \<Rightarrow> u64 \<Rightarrow> u64 option" where
  "to_le bits a =
     (if bits = 16 then Some (ucast (ucast a :: u16))
      else if bits = 32 then Some (ucast (ucast a :: u32))
      else if bits = 64 then Some a else None)"

definition to_be :: "u64 \<Rightarrow> u64 \<Rightarrow> u64 option" where
  "to_be bits a =
     (if bits = 16 then Some (ucast (u16_from_le_bytes (rev (u16_to_le_bytes (ucast a)))))
      else if bits = 32 then Some (ucast (u32_from_le_bytes (rev (u32_to_le_bytes (ucast a)))))
      else if bits = 64 then Some (u64_from_le_bytes (rev (u64_to_le_bytes a))) else None)"

definition jump_taken :: "bpf_jmp \<Rightarrow> u64 \<Rightarrow> u64 \<Rightarrow> bool" where
  "jump_taken c d v =
     (case c of
        BPF_JEQ \<Rightarrow> d = v
      | BPF_JGT \<Rightarrow> v < d
      | BPF_JGE \<Rightarrow> v \<le> d
      | BPF_JLT \<Rightarrow> d < v
      | BPF_JLE \<Rightarrow> d \<le> v
      | BPF_JSET \<Rightarrow> d AND v \<noteq> 0
      | BPF_JNE \<Rightarrow> d \<noteq> v
      | BPF_JSGT \<Rightarrow> sint v < sint d
      | BPF_JSGE \<Rightarrow> sint v \<le> sint d
      | BPF_JSLT \<Rightarrow> sint d < sint v
      | BPF_JSLE \<Rightarrow> sint d \<le> sint v)"


section \<open>Instructions\<close>

definition check_pc :: "'e Executable \<Rightarrow> u64 \<Rightarrow> u64 \<Rightarrow> 'e vm_failure + u64" where
  "check_pc ex current_pc target_pc =
     (if unat target_pc * 8 < 2 ^ 64 \<and> unat target_pc * 8 + 8 \<le> length (text_bytes ex) then Ok target_pc
      else Inl (VmErr (CallOutsideTextSegment (current_pc + ELF_INSN_DUMP_OFFSET) (text_vaddr ex + target_pc * INSN_SIZE))))"

definition push_frame :: "('e, unit) vm" where
  "push_frame =
     (\<lambda>s. sbind (on_stack (frames_push (slice FIRST_SCRATCH_REG SCRATCH_REGS (reg s)) (vm_pc s)))
            (write_reg FRAME_PTR_REG) s)"

text \<open>The operand of an arithmetic or jump instruction.\<close>

definition operand :: "bpf_src \<Rightarrow> Insn \<Rightarrow> ('e, u64) vm" where
  "operand s insn = (case s of BPF_K \<Rightarrow> sret (imm insn) | BPF_X \<Rightarrow> read_reg (unat (src insn)))"

text \<open>An instruction that does not end the program reports its width.\<close>

datatype outcome = Next u64 | Exit u64

definition exec_call_reg :: "'e Executable \<Rightarrow> Insn \<Rightarrow> u64 \<Rightarrow> ('e, outcome) vm" where
  "exec_call_reg ex insn pc =
     sbind (read_reg (unat (imm insn))) (\<lambda>target_address.
     sbind push_frame (\<lambda>_.
     if target_address < text_vaddr ex
     then sfail (VmErr (CallOutsideTextSegment (pc + ELF_INSN_DUMP_OFFSET) (target_address div INSN_SIZE * INSN_SIZE)))
     else sbind (sread (\<lambda>_. check_pc ex pc ((target_address - text_vaddr ex) div INSN_SIZE))) (\<lambda>p.
          sbind (set_pc p) (\<lambda>_. sret (Next 1)))))"

definition run_syscall :: "'e Executable \<Rightarrow> 'e syscall \<Rightarrow> ('e, unit) vm" where
  "run_syscall ex f =
     (let config = ex_config ex
      in sbind (smodify (\<lambda>s. (if enable_instruction_meter config
             then s\<lparr>machine := (machine s)\<lparr>insn_meter := meter_consume (due_insn_count s) (insn_meter (machine s))\<rparr>\<rparr>
             else s)\<lparr>due_insn_count := 0\<rparr>)) (\<lambda>_.
         sbind (\<lambda>s. case f (slice 1 5 (reg s)) (machine s) of
                      (Inr v, m) \<Rightarrow> (Ok v, s\<lparr>machine := m\<rparr>)
                    | (Inl e, m) \<Rightarrow> (Inl (VmErr e), s\<lparr>machine := m\<rparr>)) (\<lambda>v.
         sbind (write_reg 0 v) (\<lambda>_.
         smodify (\<lambda>s. if enable_instruction_meter config
             then s\<lparr>remaining_insn_count := meter_get_remaining (insn_meter (machine s))\<rparr> else s)))))"

definition exec_call_imm :: "'e Executable \<Rightarrow> Insn \<Rightarrow> u64 \<Rightarrow> ('e, outcome) vm" where
  "exec_call_imm ex insn pc =
     (let config = ex_config ex; hash = ucast (imm insn) :: u32;
          is_syscall = (if static_syscalls config then src insn = 0 else True);
          is_call = (if static_syscalls config then src insn \<noteq> 0 else True);
          sys = (if is_syscall then syscall_registry ex hash else None);
          func = (if is_call then bpf_functions ex hash else None)
      in sbind (case sys of Some f \<Rightarrow> run_syscall ex f | None \<Rightarrow> sret ()) (\<lambda>_.
         sbind (case func of
                  Some target_pc \<Rightarrow>
                    sbind push_frame (\<lambda>_. sbind (sread (\<lambda>_. check_pc ex pc target_pc)) set_pc)
                | None \<Rightarrow> sret ()) (\<lambda>_.
         if sys = None \<and> func = None
         then if disable_unresolved_symbols_at_runtime config
              then sfail (VmErr (UnsupportedInstruction (pc + ELF_INSN_DUMP_OFFSET)))
              else sfail (VmErr (ElfFailure (unresolved_symbol ex pc)))
         else sret (Next 1))))"

definition restore_scratch :: "u64 list \<Rightarrow> ('e, unit) vm" where
  "restore_scratch saved s =
     (if FIRST_SCRATCH_REG + length saved \<le> length (reg s) \<and> length saved = SCRATCH_REGS
      then (Ok (), s\<lparr>reg := take FIRST_SCRATCH_REG (reg s) @ saved @ drop (FIRST_SCRATCH_REG + SCRATCH_REGS) (reg s)\<rparr>)
      else (Inl VmPanic, s))"

definition exec_exit :: "'e Executable \<Rightarrow> u64 \<Rightarrow> ('e, outcome) vm" where
  "exec_exit ex pc s =
     (case (on_stack frames_pop :: ('e, u64 list \<times> u64 \<times> u64) vm) s of
        (Inr (saved, fp, ret), s) \<Rightarrow>
          sbind (restore_scratch saved) (\<lambda>_.
          sbind (write_reg FRAME_PTR_REG fp) (\<lambda>_.
          sbind (sread (\<lambda>_. check_pc ex pc ret)) (\<lambda>p.
          sbind (set_pc p) (\<lambda>_. sret (Next 1))))) s
      | (Inl VmPanic, s) \<Rightarrow> (Inl VmPanic, s)
      | (Inl (VmErr _), s) \<Rightarrow> sbind (read_reg 0) (\<lambda>v. sret (Exit v)) s)"

definition exec_code :: "'e Executable \<Rightarrow> Insn \<Rightarrow> u64 \<Rightarrow> opcode \<Rightarrow> ('e, outcome) vm" where
  "exec_code ex insn pc code =
     (let d = unat (dst insn); r = unat (src insn); next1 = (\<lambda>_. sret (Next 1));
          imm32 = ucast (ucast (imm insn) :: u32) :: u64;
          jump = (\<lambda>s. (set_pc (vm_pc s + scast (off insn)) :: ('e, unit) vm) s)
      in case code of
           LD_ABS sz \<Rightarrow> sbind (vm_load (MM_INPUT_START + imm32) sz pc 0) next1
         | LD_IND sz \<Rightarrow> sbind (read_reg r) (\<lambda>v. sbind (vm_load (MM_INPUT_START + v + imm32) sz pc 0) next1)
         | LD_DW_IMM \<Rightarrow>
             sbind (sread (\<lambda>_. ok_or (augment_lddw_unchecked (text_bytes ex) insn) VmPanic)) (\<lambda>insn.
             sbind (\<lambda>s. set_pc (vm_pc s + 1) s) (\<lambda>_.
             sbind (write_reg d (imm insn)) (\<lambda>_. sret (Next 2))))
         | LD_REG sz \<Rightarrow> sbind (read_reg r) (\<lambda>v. sbind (vm_load (v + scast (off insn)) sz pc d) next1)
         | ST_IMM sz \<Rightarrow> sbind (read_reg d) (\<lambda>v. sbind (vm_store (v + scast (off insn)) sz pc (sret (imm insn))) next1)
         | ST_REG sz \<Rightarrow> sbind (read_reg d) (\<lambda>v. sbind (vm_store (v + scast (off insn)) sz pc (read_reg r)) next1)
         | ALU32 f s \<Rightarrow>
             sbind (read_reg d) (\<lambda>a. sbind (operand s insn) (\<lambda>b.
             sbind (sread (\<lambda>_. alu32 f s pc a b)) (\<lambda>v. sbind (write_reg d v) next1)))
         | NEG32 \<Rightarrow>
             sbind (read_reg d) (\<lambda>a. sbind (write_reg d (scast (- (ucast a :: u32)) AND 0xffffffff)) next1)
         | LE \<Rightarrow>
             sbind (read_reg d) (\<lambda>a.
             sbind (sread (\<lambda>_. ok_or (to_le (imm insn) a) (VmErr (InvalidInstruction (pc + ELF_INSN_DUMP_OFFSET))))) (\<lambda>v.
             sbind (write_reg d v) next1))
         | BE \<Rightarrow>
             sbind (read_reg d) (\<lambda>a.
             sbind (sread (\<lambda>_. ok_or (to_be (imm insn) a) (VmErr (InvalidInstruction (pc + ELF_INSN_DUMP_OFFSET))))) (\<lambda>v.
             sbind (write_reg d v) next1))
         | ALU64 f s \<Rightarrow>
             sbind (read_reg d) (\<lambda>a. sbind (operand s insn) (\<lambda>b.
             sbind (sread (\<lambda>_. alu64 f s pc a b)) (\<lambda>v. sbind (write_reg d v) next1)))
         | NEG64 \<Rightarrow> sbind (read_reg d) (\<lambda>a. sbind (write_reg d (- a)) next1)
         | JA \<Rightarrow> sbind jump next1
         | JMP c s \<Rightarrow>
             sbind (read_reg d) (\<lambda>a. sbind (operand s insn) (\<lambda>b.
             sbind (if jump_taken c a b then jump else sret ()) next1))
         | CALL_REG \<Rightarrow> exec_call_reg ex insn pc
         | CALL_IMM \<Rightarrow> exec_call_imm ex insn pc
         | EXIT \<Rightarrow> exec_exit ex pc)"

definition exec_insn :: "'e Executable \<Rightarrow> Insn \<Rightarrow> u64 \<Rightarrow> ('e, outcome) vm" where
  "exec_insn ex insn pc =
     (if unat (dst insn) = STACK_PTR_REG \<and> dynamic_stack_frames (ex_config ex)
      then sbind (smodify (\<lambda>s.
             if opc insn = opcode_byte (ALU64 BPF_SUB BPF_K) then s\<lparr>vm_stack := resize_stack (- imm insn) (vm_stack s)\<rparr>
             else if opc insn = opcode_byte (ALU64 BPF_ADD BPF_K) then s\<lparr>vm_stack := resize_stack (imm insn) (vm_stack s)\<rparr>
             else s)) (\<lambda>_. sret (Next 1))
      else case decode (opc insn) of
             None \<Rightarrow> sfail (VmErr (UnsupportedInstruction (pc + ELF_INSN_DUMP_OFFSET)))
           | Some code \<Rightarrow> exec_code ex insn pc code)"

text \<open>After the instruction: the end of the program, or the check of the instruction meter.\<close>

definition finish_step :: "'e Executable \<Rightarrow> u64 \<Rightarrow> outcome \<Rightarrow> ('e, u64 option) vm" where
  "finish_step ex pc out =
     (case out of
        Exit v \<Rightarrow> sret (Some v)
      | Next width \<Rightarrow>
          (\<lambda>s. if enable_instruction_meter (ex_config ex) \<and> remaining_insn_count s \<le> due_insn_count s
               then (Inl (VmErr (ExceededMaxInstructions (pc + width + ELF_INSN_DUMP_OFFSET) (initial_insn_count s))), s)
               else (Ok None, s)))"

definition vm_step :: "'e Executable \<Rightarrow> ('e, u64 option) vm" where
  "vm_step ex s =
     (let pc = vm_pc s;
          s = s\<lparr>due_insn_count := due_insn_count s + 1, vm_pc := pc + 1\<rparr>
      in if length (text_bytes ex) < unat (vm_pc s * INSN_SIZE)
         then (Inl (VmErr (ExecutionOverrun (pc + ELF_INSN_DUMP_OFFSET))), s)
         else case get_insn_unchecked (text_bytes ex) pc of
                None \<Rightarrow> (Inl VmPanic, s)
              | Some insn \<Rightarrow>
                  let s = (if enable_instruction_tracing (ex_config ex)
                           then s\<lparr>tracer := tracer s @ [reg s @ [pc]]\<rparr> else s)
                  in sbind (exec_insn ex insn pc) (finish_step ex pc) s)"


section \<open>Running a program\<close>

text \<open>
  \<open>EbpfVm::new\<close>: the stack and the memory mapping. \<open>ro_region\<close> is the region of the read-only sections of
  the executable, \<open>addr\<close> the address of the stack, \<open>heap_addr\<close> and \<open>heap_len\<close> the slice of the heap and
  \<open>dangling\<close> the address of the empty slice of the first region.
\<close>

definition vm_new ::
  "'e Executable \<Rightarrow> u64 \<Rightarrow> MemoryRegion \<Rightarrow> u64 \<Rightarrow> u64 \<Rightarrow> u64 \<Rightarrow> MemoryRegion list \<Rightarrow>
   'e vm_failure + MemoryMapping \<times> CallFrames" where
  "vm_new ex dangling ro_region addr heap_addr heap_len additional_regions =
     and_then (call_frames_new addr (ex_config ex)) (\<lambda>cf.
     and_then (map_err VmErr (mapping_new
       ([new_readonly dangling 0 0, ro_region, get_memory_region cf, new_writable heap_addr heap_len MM_HEAP_START] @
        additional_regions) (ex_config ex))) (\<lambda>mm.
     Ok (mm, cf)))"

definition interpreter_new :: "'e Executable \<Rightarrow> Machine \<Rightarrow> CallFrames \<Rightarrow> 'e EbpfError + Interpreter" where
  "interpreter_new ex m cf =
     (let n = (if enable_instruction_meter (ex_config ex) then meter_get_remaining (insn_meter m) else 0)
      in and_then (ok_or (bpf_functions ex (entrypoint_hash ex)) (ElfFailure InvalidEntrypoint)) (\<lambda>p.
         Ok \<lparr>machine = m, vm_stack = cf, tracer = [], initial_insn_count = n, remaining_insn_count = n,
             due_insn_count = 0, reg = [0, MM_INPUT_START, 0, 0, 0, 0, 0, 0, 0, 0, get_frame_ptr cf], vm_pc = p\<rparr>))"

partial_function (option) vm_loop ::
  "'e Executable \<Rightarrow> Interpreter \<Rightarrow> (('e vm_failure + u64) \<times> Interpreter) option" where
  "vm_loop ex s =
     (case vm_step ex s of
        (Inl e, s) \<Rightarrow> Some (Inl e, s)
      | (Inr (Some v), s) \<Rightarrow> Some (Inr v, s)
      | (Inr None, s) \<Rightarrow> vm_loop ex s)"

text \<open>The last component is the count of executed instructions, \<open>total_insn_count\<close>.\<close>

definition execute_program_interpreted ::
  "'e Executable \<Rightarrow> Machine \<Rightarrow> CallFrames \<Rightarrow> (('e vm_failure + u64) \<times> Machine \<times> u64) option" where
  "execute_program_interpreted ex m cf =
     (case interpreter_new ex m cf of
        Inl e \<Rightarrow> Some (Inl (VmErr e), m, 0)
      | Inr s \<Rightarrow>
          map_option (\<lambda>(r, s).
            if enable_instruction_meter (ex_config ex)
            then let m = (machine s)\<lparr>insn_meter := meter_consume (due_insn_count s) (insn_meter (machine s))\<rparr>
                 in (r, m, initial_insn_count s - meter_get_remaining (insn_meter m))
            else (r, machine s, 0)) (vm_loop ex s))"

end
