(* ===== verification/Verifier.thy ===== *)
theory Verifier
  imports Ebpf
begin

text \<open>
  The static verifier of \<open>solana_rbpf/src/verifier.rs\<close> that every on-chain program passes before it
  runs. An out-of-bounds access of the program would panic: \<open>VerifierPanic\<close>.
\<close>

datatype VerifierError =
  ProgramLengthNotMultiple
| NoProgram
| DivisionByZero nat
| UnsupportedLEBEArgument nat
| LDDWCannotBeLast
| IncompleteLDDW nat
| JumpOutOfCode u64 nat
| JumpToMiddleOfLDDW u64 nat
| InvalidSourceRegister nat
| CannotWriteR10 nat
| InvalidDestinationRegister nat
| UnknownOpCode u8 nat
| ShiftWithOverflow u64 u64 nat
| InvalidRegister nat

datatype verifier_failure = Rejected VerifierError | VerifierPanic

type_synonym 'a VResult = "verifier_failure + 'a"

definition adj_insn_ptr :: "nat \<Rightarrow> nat" where
  "adj_insn_ptr p = p + unat ELF_INSN_DUMP_OFFSET"

definition fetch :: "bytes \<Rightarrow> nat \<Rightarrow> Insn VResult" where
  "fetch prog p = ok_or (get_insn prog (word_of_nat p)) VerifierPanic"

definition check_prog_len :: "bytes \<Rightarrow> unit VResult" where
  "check_prog_len prog =
     (if length prog mod 8 \<noteq> 0 then Inl (Rejected ProgramLengthNotMultiple)
      else if prog = [] then Inl (Rejected NoProgram)
      else Ok ())"

definition check_imm_nonzero :: "Insn \<Rightarrow> nat \<Rightarrow> unit VResult" where
  "check_imm_nonzero insn p =
     (if imm insn = 0 then Inl (Rejected (DivisionByZero (adj_insn_ptr p))) else Ok ())"

definition check_imm_endian :: "Insn \<Rightarrow> nat \<Rightarrow> unit VResult" where
  "check_imm_endian insn p =
     (if imm insn = 16 \<or> imm insn = 32 \<or> imm insn = 64 then Ok ()
      else Inl (Rejected (UnsupportedLEBEArgument (adj_insn_ptr p))))"

definition check_load_dw :: "bytes \<Rightarrow> nat \<Rightarrow> unit VResult" where
  "check_load_dw prog p =
     (if length prog \<le> (p + 1) * 8 then Inl (Rejected LDDWCannotBeLast)
      else and_then (fetch prog (p + 1)) (\<lambda>next_insn.
           if opc next_insn \<noteq> 0 then Inl (Rejected (IncompleteLDDW (adj_insn_ptr p))) else Ok ()))"

definition check_jmp_offset :: "bytes \<Rightarrow> nat \<Rightarrow> unit VResult" where
  "check_jmp_offset prog p =
     and_then (fetch prog p) (\<lambda>insn.
     let d = int p + 1 + sint (off insn)
     in if d < 0 \<or> length prog \<le> nat d * 8
        then Inl (Rejected (JumpOutOfCode (word_of_int d) (adj_insn_ptr p)))
        else and_then (fetch prog (nat d)) (\<lambda>dst_insn.
             if opc dst_insn = 0 then Inl (Rejected (JumpToMiddleOfLDDW (word_of_int d) (adj_insn_ptr p))) else Ok ()))"

definition check_registers :: "Insn \<Rightarrow> bool \<Rightarrow> nat \<Rightarrow> bool \<Rightarrow> unit VResult" where
  "check_registers insn store p enable_stack_ptr =
     (if 10 < src insn then Inl (Rejected (InvalidSourceRegister (adj_insn_ptr p)))
      else if dst insn \<le> 9 \<or> dst insn = 10 \<and> store then Ok ()
      else if dst insn = 11 \<and> enable_stack_ptr \<and>
        (opc insn = opcode_byte (ALU64 BPF_SUB BPF_K) \<or> opc insn = opcode_byte (ALU64 BPF_ADD BPF_K)) then Ok ()
      else if dst insn = 10 then Inl (Rejected (CannotWriteR10 (adj_insn_ptr p)))
      else Inl (Rejected (InvalidDestinationRegister (adj_insn_ptr p))))"

definition check_imm_shift :: "Insn \<Rightarrow> nat \<Rightarrow> u64 \<Rightarrow> unit VResult" where
  "check_imm_shift insn p imm_bits =
     (if sint (imm insn) < 0 \<or> imm_bits \<le> imm insn
      then Inl (Rejected (ShiftWithOverflow (imm insn) imm_bits (adj_insn_ptr p))) else Ok ())"

definition check_imm_register :: "Insn \<Rightarrow> nat \<Rightarrow> Config \<Rightarrow> unit VResult" where
  "check_imm_register insn p config =
     (if sint (imm insn) < 0 \<or> 10 < sint (imm insn) \<or> sint (imm insn) = 10 \<and> reject_callx_r10 config
      then Inl (Rejected (InvalidRegister (adj_insn_ptr p))) else Ok ())"

text \<open>
  The match on the operation code. The first component of the result is the flag \<open>store\<close>, the
  second the number of instructions that the arm skips.
\<close>

definition check_alu :: "Config \<Rightarrow> Insn \<Rightarrow> nat \<Rightarrow> bpf_alu \<Rightarrow> bpf_src \<Rightarrow> u64 \<Rightarrow> unit VResult" where
  "check_alu config insn p f s bits =
     (if f = BPF_SDIV \<and> \<not> enable_sdiv config then Inl (Rejected (UnknownOpCode (opc insn) (adj_insn_ptr p)))
      else if s = BPF_X then Ok ()
      else if f = BPF_DIV \<or> f = BPF_SDIV \<or> f = BPF_MOD then check_imm_nonzero insn p
      else if f = BPF_LSH \<or> f = BPF_RSH \<or> f = BPF_ARSH then check_imm_shift insn p bits
      else Ok ())"

definition check_insn :: "Config \<Rightarrow> bytes \<Rightarrow> nat \<Rightarrow> Insn \<Rightarrow> (bool \<times> nat) VResult" where
  "check_insn config prog p insn =
     (let unknown = Inl (Rejected (UnknownOpCode (opc insn) (adj_insn_ptr p)))
      in case decode (opc insn) of
           None \<Rightarrow> unknown
         | Some code \<Rightarrow>
             (case code of
                LD_ABS _ \<Rightarrow> if disable_deprecated_load_instructions config then unknown else Ok (False, 0)
              | LD_IND _ \<Rightarrow> if disable_deprecated_load_instructions config then unknown else Ok (False, 0)
              | LD_DW_IMM \<Rightarrow> and_then (check_load_dw prog p) (\<lambda>_. Ok (False, 1))
              | LD_REG _ \<Rightarrow> Ok (False, 0)
              | ST_IMM _ \<Rightarrow> Ok (True, 0)
              | ST_REG _ \<Rightarrow> Ok (True, 0)
              | ALU32 f s \<Rightarrow> and_then (check_alu config insn p f s 32) (\<lambda>_. Ok (False, 0))
              | NEG32 \<Rightarrow> Ok (False, 0)
              | LE \<Rightarrow> and_then (check_imm_endian insn p) (\<lambda>_. Ok (False, 0))
              | BE \<Rightarrow> and_then (check_imm_endian insn p) (\<lambda>_. Ok (False, 0))
              | ALU64 f s \<Rightarrow> and_then (check_alu config insn p f s 64) (\<lambda>_. Ok (False, 0))
              | NEG64 \<Rightarrow> Ok (False, 0)
              | JA \<Rightarrow> and_then (check_jmp_offset prog p) (\<lambda>_. Ok (False, 0))
              | JMP _ _ \<Rightarrow> and_then (check_jmp_offset prog p) (\<lambda>_. Ok (False, 0))
              | CALL_IMM \<Rightarrow> Ok (False, 0)
              | CALL_REG \<Rightarrow> and_then (check_imm_register insn p config) (\<lambda>_. Ok (False, 0))
              | EXIT \<Rightarrow> Ok (False, 0)))"

function verify_from :: "Config \<Rightarrow> bytes \<Rightarrow> nat \<Rightarrow> nat VResult" where
  "verify_from config prog p =
     (if (p + 1) * 8 \<le> length prog
      then and_then (fetch prog p) (\<lambda>insn.
           and_then (check_insn config prog p insn) (\<lambda>(store, skip).
           and_then (check_registers insn store (p + skip) (dynamic_stack_frames config)) (\<lambda>_.
           verify_from config prog (p + skip + 1))))
      else Ok p)"
  by pat_completeness auto

termination by (relation "measure (\<lambda>(config, prog, p). length prog - p)") auto

declare verify_from.simps [simp del]

definition verify_program :: "bytes \<Rightarrow> Config \<Rightarrow> unit VResult" where
  "verify_program prog config =
     and_then (check_prog_len prog) (\<lambda>_.
     and_then (verify_from config prog 0) (\<lambda>p.
     if p \<noteq> length prog div 8
     then Inl (Rejected (JumpOutOfCode (word_of_nat (adj_insn_ptr p)) (adj_insn_ptr p))) else Ok ()))"


section \<open>What the verifier establishes\<close>

text \<open>
  Every slot of a verified program passed the checks or is the second half of a wide load, which
  has operation code 0.
\<close>

definition checked_slot :: "Config \<Rightarrow> bytes \<Rightarrow> nat \<Rightarrow> Insn \<Rightarrow> bool" where
  "checked_slot config prog p insn \<longleftrightarrow>
     (\<exists>store skip. check_insn config prog p insn = Inr (store, skip) \<and>
        check_registers insn store (p + skip) (dynamic_stack_frames config) = Inr ())"

lemma fetch_Inr: "fetch prog p = Inr insn \<longleftrightarrow> get_insn prog (word_of_nat p) = Some insn"
  by (simp add: fetch_def ok_or_Inr_iff)

lemma check_insn_skip:
  assumes "check_insn config prog p insn = Inr (store, skip)"
  shows "skip = 0 \<or> skip = 1 \<and> (\<exists>next. fetch prog (p + 1) = Inr next \<and> opc next = 0)"
  using assms
  by (auto simp: check_insn_def check_load_dw_def res_simps Let_def split: option.splits opcode.splits if_splits)

lemma verify_from_slots:
  assumes "verify_from config prog p = Inr q" and "p \<le> k" and "(k + 1) * 8 \<le> length prog"
  shows "\<exists>insn. get_insn prog (word_of_nat k) = Some insn \<and> (checked_slot config prog k insn \<or> opc insn = 0)"
  using assms
proof (induction config prog p rule: verify_from.induct)
  case (1 config prog p)
  from "1.prems"(2,3) have "(p + 1) * 8 \<le> length prog" by simp
  with "1.prems"(1) obtain insn store skip where s:
    "fetch prog p = Inr insn" "check_insn config prog p insn = Inr (store, skip)"
    "check_registers insn store (p + skip) (dynamic_stack_frames config) = Inr ()"
    "verify_from config prog (p + skip + 1) = Inr q"
    by (subst (asm) verify_from.simps) (auto simp: res_simps)
  from s(2,3) have c: "checked_slot config prog p insn" unfolding checked_slot_def by blast
  from check_insn_skip [OF s(2)] consider "k = p" | "skip = 1" "k = p + 1" | "p + skip + 1 \<le> k"
    using "1.prems"(2) by (cases "k = p"; cases "k = p + 1") auto
  then show ?case
  proof cases
    case 1
    with s(1) c show ?thesis by (auto simp: fetch_Inr)
  next
    case 2
    with check_insn_skip [OF s(2)] show ?thesis by (auto simp: fetch_Inr)
  next
    case 3
    with "1.IH" [OF \<open>(p + 1) * 8 \<le> length prog\<close> s(1,2) _ s(3,4)] "1.prems"(3) show ?thesis by simp
  qed
qed

lemma verify_program_slots:
  assumes "verify_program prog config = Inr ()" and "(k + 1) * 8 \<le> length prog"
  shows "\<exists>insn. get_insn prog (word_of_nat k) = Some insn \<and> (checked_slot config prog k insn \<or> opc insn = 0)"
proof -
  from assms(1) obtain q where "verify_from config prog 0 = Inr q"
    by (auto simp: verify_program_def res_simps)
  from verify_from_slots [OF this _ assms(2)] show ?thesis by simp
qed

lemma verify_program_length: "verify_program prog config = Inr () \<Longrightarrow> length prog mod 8 = 0"
  by (auto simp: verify_program_def check_prog_len_def res_simps split: if_splits)

end
