(* ===== verification/VmSafety.thy ===== *)
theory VmSafety
  imports Interpreter Verifier
begin

text \<open>
  Safety of the virtual machine: a verified program never makes the interpreter panic, the meter
  bounds every run, and a program writes only to the writable regions of its mapping.
\<close>

section \<open>Actions that do not panic\<close>

text \<open>
  \<open>vm_safe P m Q\<close>: from a state with \<open>P\<close> the action \<open>m\<close> does not panic, and if it succeeds its result
  and the state it leaves satisfy \<open>Q\<close>.
\<close>

definition vm_safe :: "('s \<Rightarrow> bool) \<Rightarrow> ('s, 'e vm_failure, 'a) action \<Rightarrow> ('a \<Rightarrow> 's \<Rightarrow> bool) \<Rightarrow> bool" where
  "vm_safe P m Q \<longleftrightarrow> (\<forall>s r s'. P s \<longrightarrow> m s = (r, s') \<longrightarrow> r \<noteq> Inl VmPanic \<and> (\<forall>x. r = Inr x \<longrightarrow> Q x s'))"

lemma vm_safeI:
  "(\<And>s r s'. P s \<Longrightarrow> m s = (r, s') \<Longrightarrow> r \<noteq> Inl VmPanic \<and> (\<forall>x. r = Inr x \<longrightarrow> Q x s')) \<Longrightarrow> vm_safe P m Q"
  unfolding vm_safe_def by blast

lemma vm_safe_sbind:
  assumes "vm_safe P m R" and "\<And>x. vm_safe (R x) (f x) Q"
  shows "vm_safe P (sbind m f) Q"
proof (rule vm_safeI)
  fix s r s' assume "P s" "sbind m f s = (r, s')"
  from this(2) show "r \<noteq> Inl VmPanic \<and> (\<forall>x. r = Inr x \<longrightarrow> Q x s')"
  proof (cases rule: sbind_cases)
    case (fail e)
    with assms(1) \<open>P s\<close> show ?thesis unfolding vm_safe_def by blast
  next
    case (step x s1)
    with assms(1) \<open>P s\<close> have "R x s1" unfolding vm_safe_def by blast
    with step assms(2) [of x] show ?thesis unfolding vm_safe_def by blast
  qed
qed

lemma vm_safe_keep:
  "vm_safe P m (\<lambda>_. P) \<Longrightarrow> (\<And>x. vm_safe P (f x) Q) \<Longrightarrow> vm_safe P (sbind m f) Q"
  by (rule vm_safe_sbind)

lemma vm_safe_sret: "(\<And>s. P s \<Longrightarrow> Q x s) \<Longrightarrow> vm_safe P (sret x) Q"
  by (auto simp: vm_safe_def sret_def)

lemma vm_safe_sfail: "vm_safe P (sfail (VmErr e)) Q"
  by (auto simp: vm_safe_def sfail_def)

lemma vm_safe_sread:
  "(\<And>s. P s \<Longrightarrow> f s \<noteq> Inl VmPanic \<and> (\<forall>x. f s = Inr x \<longrightarrow> Q x s)) \<Longrightarrow> vm_safe P (sread f) Q"
  by (auto simp: vm_safe_def sread_def)

lemma vm_safe_smodify: "(\<And>s. P s \<Longrightarrow> Q () (f s)) \<Longrightarrow> vm_safe P (smodify f) Q"
  by (auto simp: vm_safe_def smodify_def)

lemma vm_safe_state: "(\<And>s0. P s0 \<Longrightarrow> vm_safe (\<lambda>s. P s \<and> s = s0) (m s0) Q) \<Longrightarrow> vm_safe P (\<lambda>s. m s s) Q"
  by (auto simp: vm_safe_def)

lemma vm_safe_mono:
  "vm_safe P m Q \<Longrightarrow> (\<And>s. P' s \<Longrightarrow> P s) \<Longrightarrow> (\<And>x s. Q x s \<Longrightarrow> Q' x s) \<Longrightarrow> vm_safe P' m Q'"
  unfolding vm_safe_def by blast

text \<open>
  \<open>running p\<close>: eleven registers, well-formed frames, and the program counter at \<open>p\<close>; \<open>in_code n\<close>: the
  program counter is at most \<open>n\<close>.
\<close>

definition vm_ok :: "Interpreter \<Rightarrow> bool" where
  "vm_ok s \<longleftrightarrow> length (reg s) = 11 \<and> wf_frames (vm_stack s)"

definition running :: "u64 \<Rightarrow> Interpreter \<Rightarrow> bool" where
  "running p s \<longleftrightarrow> vm_ok s \<and> vm_pc s = p"

definition in_code :: "nat \<Rightarrow> Interpreter \<Rightarrow> bool" where
  "in_code n s \<longleftrightarrow> vm_ok s \<and> unat (vm_pc s) \<le> n"

lemma read_reg_safe: "r < 11 \<Longrightarrow> vm_safe (running p) (read_reg r) (\<lambda>_. running p)"
  unfolding read_reg_def by (rule vm_safe_sread) (auto simp: running_def vm_ok_def get_def)

lemma write_reg_safe: "r < 11 \<Longrightarrow> vm_safe (running p) (write_reg r v) (\<lambda>_. running p)"
  by (rule vm_safeI) (auto simp: write_reg_def running_def vm_ok_def)

lemma write_reg_in_code: "r < 11 \<Longrightarrow> vm_safe (in_code n) (write_reg r v) (\<lambda>_. in_code n)"
  by (rule vm_safeI) (auto simp: write_reg_def in_code_def vm_ok_def)

lemma mapping_map_error:
  assumes "mapping_map mm access a n = Inl e"
  shows "(\<exists>p c v l x. e = AccessViolation p c v l x) \<or> (\<exists>p c v l x. e = StackAccessViolation p c v l x)"
  using assms by (auto simp: mapping_map_def generate_access_violation_def Let_def split: if_splits sum.splits)

lemma translate_safe: "vm_safe (running p) (translate_memory_access access a sz pc :: ('e, u64) vm) (\<lambda>_. running p)"
  unfolding translate_memory_access_def
proof (rule vm_safe_sread, goal_cases)
  case (1 s)
  then show ?case
    by (cases "mapping_map (memory_mapping (machine s)) access a (word_of_nat (size_bytes sz)) :: 'e EbpfError + u64")
      (auto dest: mapping_map_error)
qed

lemma vm_load_safe: "r < 11 \<Longrightarrow> vm_safe (running p) (vm_load a sz pc r) (\<lambda>_. running p)"
  unfolding vm_load_def
  by (intro vm_safe_keep translate_safe vm_safe_sread write_reg_safe) auto

lemma vm_store_safe:
  "vm_safe (running p) v (\<lambda>_. running p) \<Longrightarrow> vm_safe (running p) (vm_store a sz pc v) (\<lambda>_. running p)"
  unfolding vm_store_def
  by (intro vm_safe_keep translate_safe vm_safe_smodify) (auto simp: running_def vm_ok_def)

lemma operand_safe: "unat (src insn) < 11 \<Longrightarrow> vm_safe (running p) (operand s insn) (\<lambda>_. running p)"
  unfolding operand_def by (cases s) (auto intro: vm_safe_sret read_reg_safe)

lemma check_pc_Inr: "check_pc ex c t = Inr p \<Longrightarrow> p = t \<and> unat p < length (text_bytes ex) div 8"
  by (auto simp: check_pc_def split: if_splits)

lemma goto_safe:
  assumes "length (text_bytes ex) div 8 = n"
  shows "vm_safe (in_code n) (sbind (sread (\<lambda>_. check_pc ex c t)) set_pc) (\<lambda>_. in_code n)"
  unfolding set_pc_def
  by (rule vm_safe_sbind [where R = "\<lambda>p s. in_code n s \<and> unat p < n"], rule vm_safe_sread)
    (use assms in \<open>auto simp: in_code_def vm_ok_def check_pc_def intro!: vm_safe_smodify split: if_splits\<close>)

lemma push_frame_safe: "vm_safe (in_code n) (push_frame :: ('e, unit) vm) (\<lambda>_. in_code n)"
proof (rule vm_safeI)
  fix s r s' assume s: "in_code n s" and run: "(push_frame :: ('e, unit) vm) s = (r, s')"
  let ?saved = "slice FIRST_SCRATCH_REG SCRATCH_REGS (reg s)"
  have wf: "wf_frames (vm_stack s)" "length ?saved = 4"
    using s by (simp_all add: in_code_def vm_ok_def FIRST_SCRATCH_REG_def SCRATCH_REGS_def)
  from frames_push_cases [OF wf, of "vm_pc s", where 'e = 'e] run s
  show "r \<noteq> Inl VmPanic \<and> (\<forall>x. r = Inr x \<longrightarrow> in_code n s')"
    by (auto simp: push_frame_def sbind_def on_stack_def write_reg_def in_code_def vm_ok_def FRAME_PTR_REG_def
        split: prod.splits)
qed

text \<open>\<open>after n\<close>: the outcome of an instruction keeps the state in order unless it ends the program.\<close>

definition after :: "nat \<Rightarrow> outcome \<Rightarrow> Interpreter \<Rightarrow> bool" where
  "after n out s \<longleftrightarrow> (\<forall>w. out = Next w \<longrightarrow> in_code n s)"

lemma next_safe: "vm_safe (in_code n) (sret (Next w)) (after n)"
  by (rule vm_safe_sret) (simp add: after_def)

lemma next_running: "unat p \<le> n \<Longrightarrow> vm_safe (running p) (sret (Next w)) (after n)"
  by (rule vm_safe_sret) (simp add: after_def running_def in_code_def)

lemma running_in_code: "unat p \<le> n \<Longrightarrow> vm_safe (in_code n) m Q \<Longrightarrow> vm_safe (running p) m Q"
  by (erule vm_safe_mono) (auto simp: running_def in_code_def)

lemma goto_next_safe:
  assumes "length (text_bytes ex) div 8 = n"
  shows "vm_safe (in_code n) (sbind (sread (\<lambda>_. check_pc ex c t)) (\<lambda>p. sbind (set_pc p) (\<lambda>_. sret (Next 1)))) (after n)"
  unfolding set_pc_def
  by (rule vm_safe_sbind [where R = "\<lambda>p s. in_code n s \<and> unat p < n"], rule vm_safe_sread,
      use assms in \<open>auto simp: check_pc_def split: if_splits\<close>,
      rule vm_safe_sbind [where R = "\<lambda>_. in_code n"], auto intro!: vm_safe_smodify next_safe simp: in_code_def vm_ok_def)

lemma read_reg_in_code: "r < 11 \<Longrightarrow> vm_safe (in_code n) (read_reg r) (\<lambda>_. in_code n)"
  unfolding read_reg_def by (rule vm_safe_sread) (auto simp: in_code_def vm_ok_def get_def)

lemma exec_call_reg_safe:
  assumes "length (text_bytes ex) div 8 = n" and "unat (imm insn) < 11"
  shows "vm_safe (in_code n) (exec_call_reg ex insn pc) (after n)"
  unfolding exec_call_reg_def
  by (intro vm_safe_keep read_reg_in_code push_frame_safe) (auto simp: assms intro: vm_safe_sfail goto_next_safe)

lemma run_syscall_safe: "vm_safe (in_code n) (run_syscall ex f) (\<lambda>_. in_code n)"
  unfolding run_syscall_def Let_def
proof (intro vm_safe_keep write_reg_in_code)
  show "vm_safe (in_code n) (\<lambda>s. case f (slice 1 5 (reg s)) (machine s) of
       (Inr v, m) \<Rightarrow> (Ok v, s\<lparr>machine := m\<rparr>)
     | (Inl e, m) \<Rightarrow> (Inl (VmErr e), s\<lparr>machine := m\<rparr>)) (\<lambda>_. in_code n)"
    by (rule vm_safeI) (auto simp: in_code_def vm_ok_def split: prod.splits sum.splits)
qed (auto intro!: vm_safe_smodify simp: in_code_def vm_ok_def)

lemma exec_call_imm_safe:
  assumes "length (text_bytes ex) div 8 = n"
  shows "vm_safe (in_code n) (exec_call_imm ex insn pc) (after n)"
  unfolding exec_call_imm_def Let_def
  by (intro vm_safe_keep)
    (auto intro!: run_syscall_safe vm_safe_sret vm_safe_keep push_frame_safe goto_safe [OF assms] vm_safe_sfail next_safe
      simp: after_def split: option.splits)

lemma restore_scratch_safe: "length saved = 4 \<Longrightarrow> vm_safe (in_code n) (restore_scratch saved) (\<lambda>_. in_code n)"
  by (rule vm_safeI) (auto simp: restore_scratch_def in_code_def vm_ok_def FIRST_SCRATCH_REG_def SCRATCH_REGS_def)

lemma frames_pop_cases:
  assumes "wf_frames cf"
  shows "frames_pop cf = (Inl (VmErr ExitRootCallFrame) :: 'e vm_failure + u64 list \<times> u64 \<times> u64, cf) \<or>
    (\<exists>saved fp ret cf'. frames_pop cf = (Inr (saved, fp, ret) :: 'e vm_failure + u64 list \<times> u64 \<times> u64, cf') \<and>
       length saved = 4 \<and> wf_frames cf')"
  using assms by (auto simp: frames_pop_def wf_frames_def Let_def)

lemma exec_exit_safe:
  assumes "length (text_bytes ex) div 8 = n"
  shows "vm_safe (in_code n) (exec_exit ex pc :: ('e, outcome) vm) (after n)"
proof (rule vm_safeI)
  fix s r s' assume s: "in_code n s" and run: "(exec_exit ex pc :: ('e, outcome) vm) s = (r, s')"
  have wf: "wf_frames (vm_stack s)" "length (reg s) = 11" using s by (simp_all add: in_code_def vm_ok_def)
  then have nonempty: "reg s \<noteq> []" by auto
  from frames_pop_cases [OF wf(1), where 'e = 'e]
  show "r \<noteq> Inl VmPanic \<and> (\<forall>x. r = Inr x \<longrightarrow> after n x s')"
  proof (elim disjE exE conjE)
    assume "frames_pop (vm_stack s) = (Inl (VmErr ExitRootCallFrame) :: 'e vm_failure + u64 list \<times> u64 \<times> u64, vm_stack s)"
    with run nonempty show ?thesis
      by (auto simp: exec_exit_def on_stack_def sbind_def read_reg_def sread_def sret_def get_def after_def)
  next
    fix saved fp ret cf
    assume p: "frames_pop (vm_stack s) = (Inr (saved, fp, ret) :: 'e vm_failure + u64 list \<times> u64 \<times> u64, cf)"
      and len: "length saved = 4" and cf: "wf_frames cf"
    let ?rest = "sbind (restore_scratch saved) (\<lambda>_. sbind (write_reg FRAME_PTR_REG fp) (\<lambda>_.
      sbind (sread (\<lambda>_. check_pc ex pc ret)) (\<lambda>p. sbind (set_pc p) (\<lambda>_. sret (Next 1))))) :: ('e, outcome) vm"
    have "vm_safe (in_code n) ?rest (after n)"
      by (intro vm_safe_keep restore_scratch_safe [OF len] write_reg_in_code goto_next_safe [OF assms])
        (simp add: FRAME_PTR_REG_def)
    moreover have "in_code n (s\<lparr>vm_stack := cf\<rparr>)" using s cf by (simp add: in_code_def vm_ok_def)
    moreover have "?rest (s\<lparr>vm_stack := cf\<rparr>) = (r, s')" using run by (simp add: exec_exit_def on_stack_def p)
    ultimately show ?thesis unfolding vm_safe_def by blast
  qed
qed


section \<open>Verified instructions\<close>

lemma checked_regs:
  assumes "checked_slot config prog p insn"
  shows "unat (src insn) < 11" and "unat (dst insn) < 11 \<or> unat (dst insn) = 11 \<and> dynamic_stack_frames config"
proof -
  have c: "\<not> 10 < src insn" "dst insn \<le> 9 \<or> dst insn = 10 \<or> dst insn = 11 \<and> dynamic_stack_frames config"
    using assms by (auto simp: checked_slot_def check_registers_def split: if_splits)
  from c(1) show "unat (src insn) < 11" by (simp add: word_less_nat_alt)
  from c(2) show "unat (dst insn) < 11 \<or> unat (dst insn) = 11 \<and> dynamic_stack_frames config"
    by (elim disjE) (simp_all add: word_le_nat_alt)
qed

lemma get_insn_imm: "get_insn prog pc = Some insn \<Longrightarrow> \<exists>x :: u32. imm insn = scast x"
  by (auto simp: get_insn_def get_insn_unchecked_def Let_def split: if_splits)

lemma ucast_scast_u32 [simp]: "ucast (scast (x :: u32) :: u64) = x"
  by (rule bit_word_eqI) (auto simp: bit_simps)

lemma jump_target:
  fixes pc :: u64 and w :: "16 word"
  assumes "d = int (unat pc) + 1 + sint w" and "0 \<le> d" and "d < 2 ^ 64"
  shows "unat (pc + 1 + scast w) = nat d"
proof -
  have "pc + 1 + scast w = word_of_int d"
    unfolding assms(1) scast_eq of_int_add of_int_1 by simp
  moreover have "unat (word_of_int d :: u64) = nat (d mod 2 ^ 64)" by (simp add: unat_eq_nat_uint uint_word_of_int)
  ultimately show ?thesis using assms(2,3) by simp
qed

lemma signed_division_safe:
  assumes "s = BPF_K \<Longrightarrow> v \<noteq> 0" and "v = - 1 \<Longrightarrow> minus_one"
  shows "signed_division s minus_one pc d v \<noteq> Inl VmPanic"
  using assms by (cases s) (auto simp: signed_division_def)

lemma check_alu_nonzero:
  "check_alu config insn p f BPF_K bits = Inr () \<Longrightarrow> f = BPF_DIV \<or> f = BPF_MOD \<or> f = BPF_SDIV \<Longrightarrow> imm insn \<noteq> 0"
  by (auto simp: check_alu_def check_imm_nonzero_def split: if_splits)

lemma alu32_safe:
  assumes "s = BPF_K \<Longrightarrow> \<exists>x :: u32. b = scast x"
    and "s = BPF_K \<Longrightarrow> f = BPF_DIV \<or> f = BPF_MOD \<or> f = BPF_SDIV \<Longrightarrow> b \<noteq> 0"
  shows "alu32 f s pc a b \<noteq> Inl VmPanic"
proof -
  have nz: "(ucast b :: u32) \<noteq> 0" if "s = BPF_K" "f = BPF_DIV \<or> f = BPF_MOD \<or> f = BPF_SDIV"
  proof -
    obtain x :: u32 where x: "b = scast x" using assms(1) [OF \<open>s = BPF_K\<close>] by blast
    moreover have "b \<noteq> 0" using assms(2) that by blast
    ultimately show ?thesis by auto
  qed
  have m: "b = - 1" if "s = BPF_K" "(ucast b :: u32) = - 1"
    using assms(1) that by auto
  show ?thesis
  proof (cases f)
    case BPF_SDIV
    have "signed_division s (case s of BPF_X \<Rightarrow> (ucast b :: u32) = - 1 | BPF_K \<Rightarrow> b = - 1) pc (ucast a :: u32) (ucast b) \<noteq> Inl VmPanic"
      by (rule signed_division_safe) (use nz m BPF_SDIV in \<open>auto split: bpf_src.splits\<close>)
    then show ?thesis using BPF_SDIV by (auto simp: alu32_def Let_def and_then_Inl_iff)
  next
    case BPF_DIV
    then show ?thesis using nz by (cases s) (auto simp: alu32_def Let_def checked_operand_def)
  next
    case BPF_MOD
    then show ?thesis using nz by (cases s) (auto simp: alu32_def Let_def checked_operand_def)
  qed (simp_all add: alu32_def Let_def)
qed

lemma alu64_safe:
  assumes "s = BPF_K \<Longrightarrow> f = BPF_DIV \<or> f = BPF_MOD \<or> f = BPF_SDIV \<Longrightarrow> b \<noteq> 0"
  shows "alu64 f s pc a b \<noteq> Inl VmPanic"
proof (cases f)
  case BPF_SDIV
  have "signed_division s (b = - 1) pc a b \<noteq> Inl VmPanic"
    by (rule signed_division_safe) (use assms BPF_SDIV in auto)
  then show ?thesis using BPF_SDIV by (simp add: alu64_def Let_def)
next
  case BPF_DIV
  then show ?thesis using assms by (cases s) (auto simp: alu64_def Let_def checked_operand_def)
next
  case BPF_MOD
  then show ?thesis using assms by (cases s) (auto simp: alu64_def Let_def checked_operand_def)
qed (simp_all add: alu64_def Let_def)

lemma jump_safe:
  assumes "get_insn prog pc = Some insn" and "check_jmp_offset prog (unat pc) = Inr ()"
    and "length prog mod 8 = 0" and "length prog < 2 ^ 63"
  shows "vm_safe (running (pc + 1)) (\<lambda>s. set_pc (vm_pc s + scast (off insn)) s) (\<lambda>_. in_code (length prog div 8))"
proof -
  let ?d = "int (unat pc) + 1 + sint (off insn)"
  have "fetch prog (unat pc) = Inr insn" using assms(1) by (simp add: fetch_Inr)
  with assms(2) have d: "0 \<le> ?d" "nat ?d * 8 < length prog"
    by (auto simp: check_jmp_offset_def Let_def not_less not_le split: if_splits)
  have "?d < 2 ^ 64" using d assms(4) by simp
  from jump_target [OF refl d(1) this] d(2) assms(3) have "unat (pc + 1 + scast (off insn)) \<le> length prog div 8" by simp
  then show ?thesis
    by (intro vm_safeI) (auto simp: set_pc_def smodify_def running_def in_code_def vm_ok_def)
qed

lemma wide_load_safe:
  assumes "check_load_dw prog (unat pc) = Inr ()" and "get_insn prog pc = Some insn" and "length prog < 2 ^ 63" and "d < 11"
    and "length prog mod 8 = 0"
  shows "vm_safe (running (pc + 1))
    (sbind (sread (\<lambda>_. ok_or (augment_lddw_unchecked prog insn) VmPanic)) (\<lambda>insn.
     sbind (\<lambda>s. set_pc (vm_pc s + 1) s) (\<lambda>_. sbind (write_reg d (imm insn)) (\<lambda>_. sret (Next 2)))))
    (after (length prog div 8))"
proof -
  let ?k = "unat pc"
  have ptr: "ptr insn = pc" using assms(2) by (auto simp: get_insn_def get_insn_unchecked_def Let_def split: if_splits)
  from assms(1) obtain second where lt: "(?k + 1) * 8 < length prog" and "fetch prog (?k + 1) = Inr second"
    by (auto simp: check_load_dw_def not_le res_simps split: if_splits)
  then have "get_insn prog (pc + 1) = Some second" by (simp add: fetch_Inr add.commute)
  then have fit: "unat (8 * (pc + 1)) + 8 \<le> length prog"
    by (auto simp: get_insn_def get_insn_unchecked_def INSN_SIZE_def Let_def split: if_splits)
  have k: "?k + 2 < 2 ^ 61" using lt assms(3) by simp
  have p: "unat (pc + 1) = ?k + 1" "unat (pc + 1 + 1) = ?k + 2"
    using unat_add_no_overflow [of pc 1] unat_add_no_overflow [of "pc + 1" 1] k by simp_all
  have "unat ((pc + 1) * INSN_SIZE + 4) = unat (8 * (pc + 1)) + 4"
    using unat_add_no_overflow [of "8 * (pc + 1)" 4] fit assms(3) by (simp add: INSN_SIZE_def mult.commute)
  then have aug: "augment_lddw_unchecked prog insn \<noteq> None"
    using fit by (simp add: augment_lddw_unchecked_def ptr Let_def)
  have "unat (pc + 1 + 1) \<le> length prog div 8" unfolding p(2) using lt assms(5) by presburger
  then have w: "vm_safe (running (pc + 1 + 1)) (sbind (write_reg d v) (\<lambda>_. sret (Next 2))) (after (length prog div 8))" for v
    by (intro vm_safe_keep write_reg_safe assms(4) next_running)
  have goto: "vm_safe (running (pc + 1)) (\<lambda>s. set_pc (vm_pc s + 1) s) (\<lambda>_. running (pc + 1 + 1))"
    by (intro vm_safeI) (auto simp: set_pc_def smodify_def running_def vm_ok_def)
  have a: "vm_safe (running (pc + 1)) (sread (\<lambda>_. ok_or (augment_lddw_unchecked prog insn) VmPanic)) (\<lambda>_. running (pc + 1))"
    using aug by (intro vm_safe_sread) auto
  show ?thesis by (rule vm_safe_keep [OF a vm_safe_sbind [OF goto w]])
qed

lemma ok_or_safe: "vm_safe P (sread (\<lambda>_. ok_or x (VmErr e))) (\<lambda>_. P)"
  by (intro vm_safe_sread) (cases x; simp)

lemma result_safe: "r \<noteq> Inl VmPanic \<Longrightarrow> vm_safe P (sread (\<lambda>_. r)) (\<lambda>_. P)"
  by (intro vm_safe_sread) simp

lemmas safe_intros = vm_safe_keep vm_load_safe vm_store_safe read_reg_safe write_reg_safe operand_safe ok_or_safe

lemma small_imm:
  fixes w :: u64
  assumes "0 \<le> sint w" and "sint w \<le> 10"
  shows "unat w < 11"
proof -
  have "uint w = uint (of_int (sint w) :: u64)" by simp
  also have "\<dots> = sint w mod 2 ^ 64" by (simp only: uint_word_of_int) simp
  also have "\<dots> = sint w" using assms by simp
  finally show ?thesis using assms by (simp add: unat_eq_nat_uint)
qed

lemma sbind_sret: "sbind (sret x) f = f x"
  by (rule ext) (simp add: sbind_def sret_def)

lemma alu_safe:
  assumes regs: "unat (src insn) < 11" "d < 11" and p: "unat p \<le> n"
    and op: "\<And>a b. (s = BPF_K \<Longrightarrow> b = imm insn) \<Longrightarrow> g a b \<noteq> Inl VmPanic"
  shows "vm_safe (running p) (sbind (read_reg d) (\<lambda>a. sbind (operand s insn) (\<lambda>b.
    sbind (sread (\<lambda>_. g a b)) (\<lambda>v. sbind (write_reg d v) (\<lambda>_. sret (Next 1)))))) (after n)"
proof (rule vm_safe_keep [OF read_reg_safe [OF regs(2)]])
  fix a
  have w: "vm_safe (running p) (sbind (write_reg d v) (\<lambda>_. sret (Next 1))) (after n)" for v
    by (intro safe_intros regs next_running p)
  show "vm_safe (running p) (sbind (operand s insn) (\<lambda>b.
      sbind (sread (\<lambda>_. g a b)) (\<lambda>v. sbind (write_reg d v) (\<lambda>_. sret (Next 1))))) (after n)"
  proof (cases s)
    case BPF_K
    show ?thesis unfolding BPF_K operand_def bpf_src.case sbind_sret
      by (rule vm_safe_keep [OF result_safe w], rule op) (rule refl)
  next
    case BPF_X
    then show ?thesis
      by (intro vm_safe_keep operand_safe regs result_safe op w) simp_all
  qed
qed

lemma exec_code_safe:
  fixes ex :: "'e Executable"
  defines "prog \<equiv> text_bytes ex" and "config \<equiv> ex_config ex"
  assumes get: "get_insn prog pc = Some insn" and chk: "check_insn config prog (unat pc) insn = Inr (store, skip)"
    and code: "decode (opc insn) = Some code" and regs: "unat (src insn) < 11" "unat (dst insn) < 11"
    and len: "length prog mod 8 = 0" "length prog < 2 ^ 63" and pc: "unat (pc + 1) \<le> length prog div 8"
  shows "vm_safe (running (pc + 1)) (exec_code ex insn pc code) (after (length prog div 8))"
proof -
  let ?n = "length prog div 8"
  note next' = next_running [OF pc]
  note c = chk [unfolded check_insn_def code Let_def option.case]
  have zero: "(0 :: nat) < 11" by simp
  have n: "length (text_bytes ex) div 8 = ?n" by (simp add: prog_def)
  note in_code = running_in_code [OF pc]
  note unfold = exec_code_def Let_def opcode.case
  have imm_nonzero: "imm insn \<noteq> 0" if "check_alu config insn (unat pc) f s bits = Inr ()" "s = BPF_K"
      "f = BPF_DIV \<or> f = BPF_MOD \<or> f = BPF_SDIV" for f s bits
    using check_alu_nonzero that by blast
  show ?thesis
  proof (cases code)
    case (ALU32 f s)
    then have k: "check_alu config insn (unat pc) f s 32 = Inr ()" using c by (auto simp: res_simps)
    show ?thesis unfolding unfold ALU32
      by (rule alu_safe [OF regs pc], rule alu32_safe) (use get_insn_imm [OF get] imm_nonzero [OF k] in auto)
  next
    case (ALU64 f s)
    then have k: "check_alu config insn (unat pc) f s 64 = Inr ()" using c by (auto simp: res_simps)
    show ?thesis unfolding unfold ALU64
      by (rule alu_safe [OF regs pc], rule alu64_safe) (use imm_nonzero [OF k] in auto)
  next
    case JA
    then have "check_jmp_offset prog (unat pc) = Inr ()" using c by (auto simp: res_simps)
    from jump_safe [OF get this len] show ?thesis
      unfolding unfold JA by (rule vm_safe_sbind) (rule next_safe)
  next
    case (JMP c' s)
    then have "check_jmp_offset prog (unat pc) = Inr ()" using c by (auto simp: res_simps)
    note j = jump_safe [OF get this len]
    have "vm_safe (running (pc + 1)) (if jump_taken c' a b then \<lambda>s. set_pc (vm_pc s + scast (off insn)) s else sret ()) (\<lambda>_. in_code ?n)" for a b
      using j pc by (auto intro!: vm_safe_sret simp: running_def in_code_def)
    from vm_safe_sbind [OF this next_safe] show ?thesis
      unfolding unfold JMP
      by (rule vm_safe_keep [OF read_reg_safe [OF regs(2)] vm_safe_keep [OF operand_safe [OF regs(1)]]])
  next
    case LD_DW_IMM
    then have "check_load_dw prog (unat pc) = Inr ()" using c by (auto simp: res_simps)
    from wide_load_safe [OF this get len(2) regs(2) len(1)] show ?thesis unfolding unfold LD_DW_IMM prog_def .
  next
    case CALL_REG
    then have "check_imm_register insn (unat pc) config = Inr ()" using c by (auto simp: res_simps)
    then have "unat (imm insn) < 11"
      by (intro small_imm) (auto simp: check_imm_register_def not_le not_less split: if_splits)
    then show ?thesis unfolding unfold CALL_REG by (intro in_code exec_call_reg_safe n)
  next
    case CALL_IMM
    then show ?thesis unfolding unfold CALL_IMM by (intro in_code exec_call_imm_safe n)
  next
    case EXIT
    then show ?thesis unfolding unfold EXIT by (intro in_code exec_exit_safe n)
  next
    case (LD_ABS sz)
    show ?thesis unfolding unfold LD_ABS by (rule vm_safe_keep [OF vm_load_safe [OF zero] next'])
  next
    case (LD_IND sz)
    show ?thesis unfolding unfold LD_IND
      by (rule vm_safe_keep [OF read_reg_safe [OF regs(1)] vm_safe_keep [OF vm_load_safe [OF zero] next']])
  next
    case (LD_REG sz)
    show ?thesis unfolding unfold LD_REG
      by (rule vm_safe_keep [OF read_reg_safe [OF regs(1)] vm_safe_keep [OF vm_load_safe [OF regs(2)] next']])
  next
    case (ST_IMM sz)
    show ?thesis unfolding unfold ST_IMM
      by (rule vm_safe_keep [OF read_reg_safe [OF regs(2)] vm_safe_keep [OF vm_store_safe [OF vm_safe_sret] next']])
  next
    case (ST_REG sz)
    show ?thesis unfolding unfold ST_REG
      by (rule vm_safe_keep [OF read_reg_safe [OF regs(2)]
            vm_safe_keep [OF vm_store_safe [OF read_reg_safe [OF regs(1)]] next']])
  next
    case NEG32
    show ?thesis unfolding unfold NEG32
      by (rule vm_safe_keep [OF read_reg_safe [OF regs(2)] vm_safe_keep [OF write_reg_safe [OF regs(2)] next']])
  next
    case NEG64
    show ?thesis unfolding unfold NEG64
      by (rule vm_safe_keep [OF read_reg_safe [OF regs(2)] vm_safe_keep [OF write_reg_safe [OF regs(2)] next']])
  next
    case LE
    show ?thesis unfolding unfold LE
      by (rule vm_safe_keep [OF read_reg_safe [OF regs(2)] vm_safe_keep [OF ok_or_safe
            vm_safe_keep [OF write_reg_safe [OF regs(2)] next']]])
  next
    case BE
    show ?thesis unfolding unfold BE
      by (rule vm_safe_keep [OF read_reg_safe [OF regs(2)] vm_safe_keep [OF ok_or_safe
            vm_safe_keep [OF write_reg_safe [OF regs(2)] next']]])
  qed
qed

lemma exec_insn_safe:
  fixes ex :: "'e Executable"
  assumes v: "verify_program (text_bytes ex) (ex_config ex) = Inr ()" and len: "length (text_bytes ex) < 2 ^ 63"
    and pc: "(unat pc + 1) * 8 \<le> length (text_bytes ex)" and get: "get_insn (text_bytes ex) pc = Some insn"
  shows "vm_safe (running (pc + 1)) (exec_insn ex insn pc) (after (length (text_bytes ex) div 8))"
proof -
  let ?n = "length (text_bytes ex) div 8"
  note mod8 = verify_program_length [OF v]
  from verify_program_slots [OF v pc] get
  have slot: "checked_slot (ex_config ex) (text_bytes ex) (unat pc) insn \<or> opc insn = 0" by auto
  have "unat (pc + 1) = unat pc + 1" using unat_add_no_overflow [of pc 1] pc len by simp
  then have next_pc: "unat (pc + 1) \<le> ?n" using pc by simp
  show ?thesis
  proof (cases "unat (dst insn) = STACK_PTR_REG \<and> dynamic_stack_frames (ex_config ex)")
    case True
    then show ?thesis unfolding exec_insn_def
      by simp (rule vm_safe_keep [OF vm_safe_smodify next_running [OF next_pc]],
          auto simp: running_def vm_ok_def resize_stack_def wf_frames_def)
  next
    case False
    then have exec: "exec_insn ex insn pc =
        (case decode (opc insn) of
           None \<Rightarrow> sfail (VmErr (UnsupportedInstruction (pc + ELF_INSN_DUMP_OFFSET)))
         | Some code \<Rightarrow> exec_code ex insn pc code)"
      by (auto simp: exec_insn_def)
    show ?thesis
    proof (cases "decode (opc insn)")
      case None
      then show ?thesis unfolding exec by (simp add: vm_safe_sfail)
    next
      case (Some code)
      with slot decode_zero have c: "checked_slot (ex_config ex) (text_bytes ex) (unat pc) insn" by auto
      then obtain store skip where chk: "check_insn (ex_config ex) (text_bytes ex) (unat pc) insn = Inr (store, skip)"
        unfolding checked_slot_def by blast
      have "unat (dst insn) < 11" using checked_regs(2) [OF c] False by (auto simp: STACK_PTR_REG_def)
      from exec_code_safe [OF get chk Some checked_regs(1) [OF c] this mod8 len next_pc] Some
      show ?thesis unfolding exec by simp
    qed
  qed
qed

lemma finish_step_safe: "vm_safe (after n out) (finish_step ex pc out) (\<lambda>r s. r = None \<longrightarrow> in_code n s)"
  by (rule vm_safeI) (auto simp: finish_step_def sret_def after_def split: outcome.splits if_splits)

lemma vm_step_safe:
  fixes ex :: "'e Executable"
  assumes v: "verify_program (text_bytes ex) (ex_config ex) = Inr ()" and len: "length (text_bytes ex) < 2 ^ 63"
  shows "vm_safe (in_code (length (text_bytes ex) div 8)) (vm_step ex) (\<lambda>r s. r = None \<longrightarrow> in_code (length (text_bytes ex) div 8) s)"
proof (rule vm_safeI)
  let ?n = "length (text_bytes ex) div 8"
  fix s r s' assume s: "in_code ?n s" and run: "vm_step ex s = (r, s')"
  let ?pc = "vm_pc s"
  let ?s1 = "s\<lparr>due_insn_count := due_insn_count s + 1, vm_pc := ?pc + 1\<rparr>"
  let ?s2 = "if enable_instruction_tracing (ex_config ex) then ?s1\<lparr>tracer := tracer s @ [reg s @ [?pc]]\<rparr> else ?s1"
  have "unat ?pc \<le> ?n" using s by (simp add: in_code_def)
  then have small: "unat ?pc * 8 \<le> length (text_bytes ex)" by simp
  then have "unat (?pc + 1) = unat ?pc + 1" using unat_add_no_overflow [of ?pc 1] len by simp
  moreover from this have "unat ((?pc + 1) * INSN_SIZE) = unat (?pc + 1) * 8"
    using unat_mult_no_overflow [of "?pc + 1" INSN_SIZE] small len by (simp add: INSN_SIZE_def)
  ultimately have fits: "length (text_bytes ex) < unat ((?pc + 1) * INSN_SIZE) \<longleftrightarrow> length (text_bytes ex) < (unat ?pc + 1) * 8" by simp
  show "r \<noteq> Inl VmPanic \<and> (\<forall>x. r = Inr x \<longrightarrow> x = None \<longrightarrow> in_code ?n s')"
  proof (cases "(unat ?pc + 1) * 8 \<le> length (text_bytes ex)")
    case False
    then show ?thesis using run fits by (auto simp: vm_step_def Let_def)
  next
    case True
    from verify_program_slots [OF v True] obtain insn where get: "get_insn (text_bytes ex) ?pc = Some insn" by auto
    then have "get_insn_unchecked (text_bytes ex) ?pc = Some insn" by (auto simp: get_insn_def split: if_splits)
    then have "sbind (exec_insn ex insn ?pc) (finish_step ex ?pc) ?s2 = (r, s')"
      using run True fits by (simp add: vm_step_def Let_def split: if_splits)
    moreover have "running (?pc + 1) ?s2" using s by (simp add: running_def in_code_def vm_ok_def)
    ultimately show ?thesis
      using vm_safe_sbind [OF exec_insn_safe [OF v len True get] finish_step_safe [where ex = ex and pc = ?pc]] unfolding vm_safe_def by blast
  qed
qed

end
