(* ===== verification/VmProperties.thy ===== *)
theory VmProperties
  imports VmSafety
begin

text \<open>
  Properties of whole runs of the virtual machine: relations between states that every instruction
  keeps, the instruction meter as the bound of every run, and the confinement of a program to the
  writable regions of its memory mapping.
\<close>

unbundle bit_operations_syntax

section \<open>Instruction encoding\<close>

lemma byte_masks: "(0x0f :: u8) = mask 4" "(0xf0 :: u8) = push_bit 4 (mask 4)" "(0xff :: u16) = mask 8"
   "(0xff :: u64) = mask 8" "(0xff00 :: u64) = push_bit 8 (mask 8)" "(0xff0000 :: u32) = push_bit 16 (mask 8)"
   "(0xff000000 :: u32) = push_bit 24 (mask 8)"
  by (simp_all add: mask_eq_exp_minus_1 push_bit_eq_mult)

lemma unat_drop_bit: "unat (drop_bit n (w :: 'a::len word)) = unat w div 2 ^ n"
  unfolding unsigned_drop_bit_eq by (simp add: drop_bit_eq_div take_bit_eq_mod mod_less unsigned_less)

lemma ucast_drop: "(ucast (drop_bit n w) :: u8) = word_of_nat (unat (w :: 'a::len word) div 2 ^ n)"
  by (metis unat_drop_bit of_nat_unat)

lemma u16_bytes: "u16_to_le_bytes w = [ucast w, ucast (drop_bit 8 w)]"
proof -
  have "nat_to_le 2 n = nat_to_le (Suc (Suc 0)) n" for n by (simp only: numeral_2_eq_2)
  then show ?thesis unfolding u16_to_le_bytes_def ucast_drop by simp
qed

lemma u32_bytes: "u32_to_le_bytes w = [ucast w, ucast (drop_bit 8 w), ucast (drop_bit 16 w), ucast (drop_bit 24 w)]"
proof -
  have "(4::nat) = Suc (Suc (Suc (Suc 0)))" by simp
  then show ?thesis unfolding u32_to_le_bytes_def
    by (simp only: nat_to_le.simps ucast_drop div_mult2_eq [symmetric]) simp
qed

lemma byte_off1: "(ucast (w AND 0xff) :: u8) = ucast (w :: u16)"
  unfolding byte_masks by (rule bit_word_eqI) (simp add: bit_simps)

lemma byte_off2: "(ucast (signed_drop_bit 8 w) :: u8) = ucast (drop_bit 8 (w :: u16))"
  by (rule bit_word_eqI) (auto simp: bit_simps min_def)

lemma byte_imm: "(ucast ((scast w :: u64) AND 0xff) :: u8) = ucast (w :: u32)"
   "ucast (signed_drop_bit 8 ((scast w :: u64) AND 0xff00)) = (ucast (drop_bit 8 w) :: u8)"
   "ucast (drop_bit 16 (w AND 0xff0000)) = (ucast (drop_bit 16 w) :: u8)"
   "ucast (drop_bit 24 (w AND 0xff000000)) = (ucast (drop_bit 24 w) :: u8)"
  unfolding byte_masks
  by ((rule bit_word_eqI; auto simp: bit_simps min_def))+

lemma nibbles:
  assumes "unat d < 16" and "unat s < 16"
  shows "(push_bit 4 s OR d) AND 0x0f = (d :: u8)" and "drop_bit 4 ((push_bit 4 s OR d) AND 0xf0) = s"
proof -
  have "take_bit 4 d = d" "take_bit 4 s = s" using assms 
    by (simp_all only: word_unat_eq_iff unsigned_take_bit_eq) (simp_all add: take_bit_eq_mod)
  then have b: "bit d i \<Longrightarrow> i < 4" "bit s i \<Longrightarrow> i < 4" for i by (metis bit_take_bit_iff)+
  then have b': "bit d (4 + i) = False" for i by fastforce
  show "(push_bit 4 s OR d) AND 0x0f = (d :: u8)"
    unfolding byte_masks by (rule bit_word_eqI) (auto simp: bit_simps dest: b)
  show "drop_bit 4 ((push_bit 4 s OR d) AND 0xf0) = s"
    unfolding byte_masks by (rule bit_word_eqI) (auto simp: bit_simps b' dest: b)
qed

lemma slice_mid: "length a = k \<Longrightarrow> length b = n \<Longrightarrow> slice k n (a @ b @ c) = b"
  by (simp add: slice_def)

text \<open>
  C32: Encoding an instruction and decoding it at its place in a program gives the instruction back,
  for registers of four bits and an immediate that is sign-extended from 32 bits.
\<close>

theorem insn_roundtrip:
  fixes x :: u32
  assumes "unat (dst insn) < 16" and "unat (src insn) < 16" and "imm insn = scast x"
    and "unat (INSN_SIZE * ptr insn) = length before"
  shows "get_insn (before @ to_array insn @ rest) (ptr insn) = Some insn"
proof -
  let ?b = "push_bit 4 (src insn) OR dst insn"
  have arr: "to_array insn = [opc insn, ?b] @ u16_to_le_bytes (off insn) @ u32_to_le_bytes x"
    by (simp only: to_array_def u16_bytes u32_bytes byte_off1 byte_off2 assms(3) byte_imm ucast_scast_u32) simp
  let ?p = "before @ to_array insn @ rest" and ?k = "length before"
  have n: "?p ! ?k = opc insn" "?p ! (?k + 1) = ?b" unfolding arr by (simp_all add: nth_append)
  have s: "slice (?k + 2) 2 ?p = u16_to_le_bytes (off insn)" "slice (?k + 4) 4 ?p = u32_to_le_bytes x"
    using slice_mid [of "before @ [opc insn, ?b]" "?k + 2" "u16_to_le_bytes (off insn)" 2 "u32_to_le_bytes x @ rest"]
      slice_mid [of "before @ [opc insn, ?b] @ u16_to_le_bytes (off insn)" "?k + 4" "u32_to_le_bytes x" 4 "rest"]
    unfolding arr by simp_all
  have l: "?k + 8 \<le> length ?p" by (simp add: to_array_def)
  show ?thesis
    unfolding get_insn_def get_insn_unchecked_def Let_def assms(4) n s nibbles [OF assms(1,2)]
    using l assms(3) by simp
qed


section \<open>Induction over a run\<close>

lemma vm_loop_induct [consumes 1, case_names stop exit step]:
  assumes "vm_loop ex s = Some (r, s')"
    and "\<And>s e s'. vm_step ex s = (Inl e, s') \<Longrightarrow> P s (Inl e) s'"
    and "\<And>s v s'. vm_step ex s = (Inr (Some v), s') \<Longrightarrow> P s (Inr v) s'"
    and "\<And>s s1 r s'. vm_step ex s = (Inr None, s1) \<Longrightarrow> P s1 r s' \<Longrightarrow> P s r s'"
  shows "P s r s'"
proof -
  have "ex' = ex \<longrightarrow> P s (fst y) (snd y)" if "vm_loop ex' s = Some y" for ex' s y
    using that
  proof (rule vm_loop.raw_induct [rotated], goal_cases)
    case (1 f ex' s y)
    then show ?case using assms(2-) by (fastforce split: prod.splits sum.splits option.splits)
  qed
  from this [OF assms(1)] show ?thesis by simp
qed


section \<open>Relations kept by instructions\<close>

text \<open>
  A preorder on interpreter states that does not look at the registers and the program counter, and
  that a store respects, is kept by every instruction that is not a call or a return.
\<close>

locale vm_local = state_preorder R
  for R :: "Interpreter \<Rightarrow> Interpreter \<Rightarrow> bool" +
  fixes ex :: "'e Executable"
  assumes local: "R s (s\<lparr>reg := r, vm_pc := p\<rparr>)"
    and store: "(\<And>s. snd (v s) = s) \<Longrightarrow> stable R (vm_store a sz pc (v :: ('e, u64) vm))"
begin

lemma local_reg: "R s (s\<lparr>reg := r\<rparr>)"
  using local [of s "vm_pc s" r] by simp

lemma local_pc: "R s (s\<lparr>vm_pc := p\<rparr>)"
  using local [of s p "reg s"] by simp

lemma stable_set_pc: "stable R (set_pc p :: ('e, unit) vm)"
  unfolding set_pc_def
  by (rule stable_smodify) (rule local_pc)

lemma stable_read_reg: "stable R (read_reg r :: ('e, u64) vm)"
  unfolding read_reg_def by (rule stable_sread)

lemma stable_write_reg: "stable R (write_reg r v :: ('e, unit) vm)"
  by (auto simp: stable_def write_reg_def intro: local_reg refl split: if_splits)

lemma stable_load: "stable R (vm_load a sz pc r :: ('e, unit) vm)"
  unfolding vm_load_def translate_memory_access_def by (intro stable_intros stable_write_reg)

lemma stable_operand: "stable R (operand s insn :: ('e, u64) vm)"
  unfolding operand_def by (cases s) (simp_all add: stable_sret stable_read_reg)

lemma stable_goto: "stable R (\<lambda>s. (set_pc (f (vm_pc s)) :: ('e, unit) vm) s)"
  by (rule stable_apply) (rule stable_set_pc)

lemma stable_restore_scratch: "stable R (restore_scratch saved :: ('e, unit) vm)"
  by (auto simp: stable_def restore_scratch_def intro: local_reg refl split: if_splits)

lemmas stable_regs = stable_sread stable_sret stable_sfail stable_sbind stable_if stable_set_pc stable_read_reg
  stable_write_reg stable_load stable_operand stable_goto stable_restore_scratch

lemma stable_exec_local:
  assumes "code \<noteq> CALL_IMM" and "code \<noteq> CALL_REG" and "code \<noteq> EXIT"
  shows "stable R (exec_code ex insn pc code)"
proof (cases code)
  case (ST_IMM sz)
  show ?thesis unfolding exec_code_def Let_def ST_IMM opcode.case
    by (intro stable_regs store) (simp add: sret_def)
next
  case (ST_REG sz)
  show ?thesis unfolding exec_code_def Let_def ST_REG opcode.case
    by (intro stable_regs store) (simp add: read_reg_def sread_def)
qed (use assms in simp_all, unfold exec_code_def Let_def, simp_all only: opcode.case, (intro stable_regs)+)

end

text \<open>A relation that does not look at the stack either is kept by calls and returns.\<close>

locale vm_preorder = vm_local R ex
  for R :: "Interpreter \<Rightarrow> Interpreter \<Rightarrow> bool" and ex :: "'e Executable" +
  assumes local_stack: "R s (s\<lparr>vm_stack := cf\<rparr>)"
begin

lemma stable_on_stack: "stable R (on_stack f :: ('e, 'a) vm)"
  by (auto simp: stable_def on_stack_def intro: local_stack split: prod.splits)

lemma stable_push_frame: "stable R (push_frame :: ('e, unit) vm)"
  unfolding push_frame_def by (rule stable_apply, rule stable_sbind [OF stable_on_stack stable_write_reg])

lemmas stable_vm = stable_regs stable_on_stack stable_push_frame

lemma stable_exec_call_reg: "stable R (exec_call_reg ex insn pc)"
  unfolding exec_call_reg_def by (intro stable_vm)

lemma stable_exec_exit: "stable R (exec_exit ex pc)"
proof -
  have rest: "stable R (sbind (restore_scratch saved) (\<lambda>_. sbind (write_reg FRAME_PTR_REG fp) (\<lambda>_.
      sbind (sread (\<lambda>_. check_pc ex pc ret)) (\<lambda>p. sbind (set_pc p) (\<lambda>_. sret (Next 1))))))" for saved fp ret
    by (intro stable_vm)
  have final: "stable R (sbind (read_reg 0) (\<lambda>v. sret (Exit v)) :: ('e, outcome) vm)" by (intro stable_vm)
  show ?thesis
    unfolding stable_def exec_exit_def
    by (auto split: prod.splits sum.splits vm_failure.splits
        dest!: stableD [OF stable_on_stack] stableD [OF rest] stableD [OF final] intro: trans)
qed

lemma stable_exec_code:
  assumes "code \<noteq> CALL_IMM"
  shows "stable R (exec_code ex insn pc code)"
proof -
  consider "code = CALL_REG" | "code = EXIT" | "code \<noteq> CALL_REG" "code \<noteq> EXIT" by blast
  then show ?thesis
    by cases (simp_all add: exec_code_def stable_exec_call_reg stable_exec_exit stable_exec_local [OF assms, unfolded exec_code_def])
qed

lemma stable_exec_insn:
  assumes "decode (opc insn) \<noteq> Some CALL_IMM"
  shows "stable R (exec_insn ex insn pc)"
  unfolding exec_insn_def
  using assms by (auto intro!: stable_vm stable_smodify stable_exec_code refl local_stack split: option.split)

text \<open>The part of a call that follows the system call.\<close>

lemma stable_call_rest:
  "stable R (sbind (case func of
       Some target_pc \<Rightarrow> sbind push_frame (\<lambda>_. sbind (sread (\<lambda>_. check_pc ex pc target_pc)) set_pc)
     | None \<Rightarrow> sret ()) (\<lambda>_.
     if b then if b' then sfail e else sfail e' else sret out) :: ('e, outcome) vm)"
  by (cases func) (auto intro!: stable_vm)

end

text \<open>A relation that the system calls of the executable and the start of a step keep is kept by every step.\<close>

locale vm_step_preorder = vm_preorder +
  assumes syscall: "syscall_registry ex h = Some f \<Longrightarrow> stable R (run_syscall ex f)"
    and tick: "R s (s\<lparr>due_insn_count := d, vm_pc := p, tracer := tr\<rparr>)"
begin

lemma stable_exec_call_imm: "stable R (exec_call_imm ex insn pc)"
  unfolding exec_call_imm_def Let_def
  by (intro stable_sbind stable_call_rest) (auto intro: stable_sret syscall split: option.split if_splits)

lemma stable_finish: "stable R (finish_step ex pc out)"
  by (auto simp: finish_step_def stable_def sret_def intro: refl split: outcome.splits if_splits)

lemma stable_exec: "stable R (exec_insn ex insn pc)"
proof (cases "decode (opc insn) = Some CALL_IMM")
  case True
  then show ?thesis unfolding exec_insn_def
    by (auto intro!: stable_sbind stable_sret stable_smodify refl local_stack stable_exec_call_imm simp: exec_code_def Let_def)
next
  case False
  then show ?thesis by (rule stable_exec_insn)
qed

lemma stable_vm_step: "stable R (vm_step ex)"
  unfolding stable_def
proof (intro allI impI)
  fix s r s' assume run: "vm_step ex s = (r, s')"
  let ?s1 = "s\<lparr>due_insn_count := due_insn_count s + 1, vm_pc := vm_pc s + 1\<rparr>"
  let ?s2 = "if enable_instruction_tracing (ex_config ex) then ?s1\<lparr>tracer := tracer s @ [reg s @ [vm_pc s]]\<rparr> else ?s1"
  have t1: "R s ?s1" using tick [of s "tracer s" "vm_pc s + 1" "due_insn_count s + 1"] by simp
  have t2: "R s ?s2" using tick [of s _ "vm_pc s + 1" "due_insn_count s + 1"] t1 by simp
  from run consider "s' = ?s1" | insn where "sbind (exec_insn ex insn (vm_pc s)) (finish_step ex (vm_pc s)) ?s2 = (r, s')"
    by (auto simp: vm_step_def Let_def split: if_splits option.splits)
  then show "R s s'"
  proof cases
    case 1
    with t1 show ?thesis by simp
  next
    case 2
    from stableD [OF stable_sbind [OF stable_exec stable_finish] 2] t2 show ?thesis by (rule trans [rotated])
  qed
qed

lemma vm_loop_related: "vm_loop ex s = Some (r, s') \<Longrightarrow> R s s'"
  by (induction rule: vm_loop_induct [where ex = ex]) (auto dest: stableD [OF stable_vm_step] intro: trans)

end


section \<open>Calls\<close>

text \<open>
  What one instruction does to the call frames: it keeps them, or it pushes one frame, which saves
  the scratch registers and the return address in the frame of the caller, or it pops one.
\<close>

definition keeps_stack :: "Interpreter \<Rightarrow> Interpreter \<Rightarrow> bool" where
  "keeps_stack s s' \<longleftrightarrow> vm_stack s' = vm_stack s"

interpretation keeps_stack: vm_local keeps_stack ex for ex :: "'e Executable"
proof unfold_locales
  fix v :: "('e, u64) vm" and a sz pc
  assume v: "\<And>s. snd (v s) = s"
  then show "stable keeps_stack (vm_store a sz pc v)"
    by (auto simp: stable_def keeps_stack_def vm_store_def translate_memory_access_def sread_def smodify_def
        elim!: sbind_cases) (metis snd_conv)+
qed (auto simp: keeps_stack_def)

definition same_frames :: "Interpreter \<Rightarrow> Interpreter \<Rightarrow> bool" where
  "same_frames s s' \<longleftrightarrow>
     frames (vm_stack s') = frames (vm_stack s) \<and> frame_index (vm_stack s') = frame_index (vm_stack s)"

definition called :: "Interpreter \<Rightarrow> u64 \<Rightarrow> Interpreter \<Rightarrow> bool" where
  "called s ret s' \<longleftrightarrow>
     (let i = frame_index (vm_stack s); fs = frames (vm_stack s); fs' = frames (vm_stack s')
      in frame_index (vm_stack s') = Suc i \<and>
         fs' ! i = (fs ! i)\<lparr>saved_reg := slice 6 4 (reg s), return_ptr := ret\<rparr> \<and> (\<forall>j < i. fs' ! j = fs ! j))"

definition returned :: "Interpreter \<Rightarrow> Interpreter \<Rightarrow> bool" where
  "returned s s' \<longleftrightarrow>
     (let i = frame_index (vm_stack s'); f = frames (vm_stack s) ! i
      in frame_index (vm_stack s) = Suc i \<and> frames (vm_stack s') = frames (vm_stack s) \<and>
         slice 6 4 (reg s') = saved_reg f \<and> reg s' ! 10 = frame_ptr f \<and> vm_pc s' = return_ptr f)"

lemma push_frame_called:
  "(push_frame :: ('e, unit) vm) s = (Inr x, s') \<Longrightarrow> called s (vm_pc s) s'"
  by (auto simp: push_frame_def on_stack_def sbind_Inr_iff write_reg_def frames_push_def called_def Let_def
      FIRST_SCRATCH_REG_def SCRATCH_REGS_def split: prod.splits if_splits)

lemma called_cong:
  "called s ret s' \<Longrightarrow> vm_stack t = vm_stack s \<Longrightarrow> slice 6 4 (reg t) = slice 6 4 (reg s) \<Longrightarrow>
     vm_stack t' = vm_stack s' \<Longrightarrow> called t ret t'"
  by (simp add: called_def)

lemma slice_update: "k < i \<Longrightarrow> slice i n (xs[k := v]) = slice i n xs"
  by (simp add: slice_def drop_update_swap)

lemma run_syscall_frames:
  assumes "run_syscall ex f s = (Inr x, s')"
  shows "vm_stack s' = vm_stack s \<and> slice 6 4 (reg s') = slice 6 4 (reg s) \<and> vm_pc s' = vm_pc s"
  using assms
  by (auto simp: run_syscall_def Let_def sbind_Inr_iff smodify_def write_reg_def slice_update
      split: prod.splits sum.splits if_splits)

lemma exec_call_imm_frames:
  fixes ex :: "'e Executable"
  assumes "exec_call_imm ex insn pc s = (Inr out, s')"
  shows "same_frames s s' \<or> called s (vm_pc s) s'"
proof -
  define sys where "sys = (if if static_syscalls (ex_config ex) then src insn = 0 else True then syscall_registry ex (ucast (imm insn)) else None)"
  define func where "func = (if if static_syscalls (ex_config ex) then src insn \<noteq> 0 else True then bpf_functions ex (ucast (imm insn)) else None)"
  from assms [unfolded exec_call_imm_def Let_def, folded sys_def func_def] obtain s1 s2
    where 1: "(case sys of Some f \<Rightarrow> run_syscall ex f | None \<Rightarrow> sret ()) s = (Inr (), s1)"
      and 2: "(case func of Some target_pc \<Rightarrow> sbind push_frame (\<lambda>_. sbind (sread (\<lambda>_. check_pc ex pc target_pc)) set_pc)
         | None \<Rightarrow> sret ()) s1 = (Inr (), s2)" and 3: "s' = s2"
    by (auto simp: sbind_Inr_iff sfail_iff sret_Inr_iff split: if_splits)
  have s1: "vm_stack s = vm_stack s1 \<and> slice 6 4 (reg s) = slice 6 4 (reg s1) \<and> vm_pc s1 = vm_pc s"
    using 1 run_syscall_frames [of ex _ s "()" s1] by (cases sys) (auto simp: sret_Inr_iff)
  show ?thesis
  proof (cases func)
    case None
    with 2 3 s1 show ?thesis by (simp add: sret_Inr_iff same_frames_def)
  next
    case (Some p)
    with 2 obtain s3 where "(push_frame :: ('e, unit) vm) s1 = (Inr (), s3)" "vm_stack s2 = vm_stack s3"
      by (auto simp: sbind_Inr_iff sread_Inr_iff set_pc_def smodify_def)
    with push_frame_called [of s1 "()" s3] s1 3 show ?thesis using called_cong [of s1 _ s3 s s'] by auto
  qed
qed

lemma exec_call_reg_frames:
  fixes ex :: "'e Executable"
  assumes "exec_call_reg ex insn pc s = (Inr out, s')"
  shows "called s (vm_pc s) s'"
proof -
  from assms obtain s1 where "(push_frame :: ('e, unit) vm) s = (Inr (), s1)" "vm_stack s' = vm_stack s1"
    by (auto simp: exec_call_reg_def sbind_Inr_iff sread_Inr_iff read_reg_def set_pc_def smodify_def sret_Inr_iff sfail_iff split: if_splits)
  with push_frame_called [of s "()" s1] show ?thesis using called_cong [of s _ s1 s s'] by auto
qed

lemma exec_exit_frames:
  assumes "exec_exit ex pc s = (Inr (Next w), s')"
  shows "returned s s'"
proof -
  have len: "slice 6 4 ((take 6 xs @ saved @ drop 10 xs)[10 := v]) = saved \<and> (take 6 xs @ saved @ drop 10 xs)[10 := v] ! 10 = v"
    if "10 < length xs" "length saved = 4" for xs saved :: "u64 list" and v
    using that by (simp add: slice_def drop_update_swap)
  show ?thesis
    using assms
    by (auto simp: exec_exit_def on_stack_def frames_pop_def returned_def Let_def sbind_Inr_iff restore_scratch_def
        write_reg_def sread_Inr_iff check_pc_def set_pc_def smodify_def sret_Inr_iff read_reg_def get_frame_ptr_def
        FIRST_SCRATCH_REG_def SCRATCH_REGS_def FRAME_PTR_REG_def len split: prod.splits sum.splits vm_failure.splits if_splits)
qed

lemma exec_insn_frames:
  assumes "exec_insn ex insn pc s = (Inr (Next w), s')"
  shows "same_frames s s' \<or> called s (vm_pc s) s' \<or> returned s s'"
proof (cases "unat (dst insn) = STACK_PTR_REG \<and> dynamic_stack_frames (ex_config ex)")
  case True
  with assms show ?thesis
    by (auto simp: exec_insn_def sbind_Inr_iff smodify_def sret_Inr_iff same_frames_def resize_stack_def)
next
  case False
  with assms obtain code where run: "exec_code ex insn pc code s = (Inr (Next w), s')"
    by (auto simp: exec_insn_def sfail_iff split: option.splits)
  consider "code = CALL_IMM" | "code = CALL_REG" | "code = EXIT" | "code \<noteq> CALL_IMM" "code \<noteq> CALL_REG" "code \<noteq> EXIT" by blast
  then show ?thesis
  proof cases
    case 4
    from stableD [OF keeps_stack.stable_exec_local [OF 4] run] show ?thesis by (simp add: keeps_stack_def same_frames_def)
  qed (use run in \<open>auto simp: exec_code_def dest: exec_call_imm_frames exec_call_reg_frames exec_exit_frames\<close>)
qed

lemma finish_step_Next:
  "finish_step ex pc out s = (Inr None, s') \<Longrightarrow> s' = s \<and> (\<exists>w. out = Next w)"
  by (auto simp: finish_step_def sret_def split: outcome.splits if_splits)

lemma vm_step_frames:
  assumes "vm_step ex s = (Inr None, u)"
  shows "same_frames s u \<or> called s (vm_pc s + 1) u \<or> returned s u"
proof -
  let ?s1 = "s\<lparr>due_insn_count := due_insn_count s + 1, vm_pc := vm_pc s + 1\<rparr>"
  let ?s2 = "if enable_instruction_tracing (ex_config ex) then ?s1\<lparr>tracer := tracer s @ [reg s @ [vm_pc s]]\<rparr> else ?s1"
  from assms obtain insn out s3 where "exec_insn ex insn (vm_pc s) ?s2 = (Inr out, s3)" "finish_step ex (vm_pc s) out s3 = (Inr None, u)"
    by (auto simp: vm_step_def Let_def sbind_Inr_iff split: if_splits option.splits)
  with finish_step_Next obtain w where "exec_insn ex insn (vm_pc s) ?s2 = (Inr (Next w), u)" by metis
  from exec_insn_frames [OF this] show ?thesis by (simp add: same_frames_def called_def returned_def split: if_splits)
qed

text \<open>A run that stays inside the calls above depth \<open>d\<close>.\<close>

inductive callee_run :: "'e Executable \<Rightarrow> nat \<Rightarrow> Interpreter \<Rightarrow> Interpreter \<Rightarrow> bool"
  for ex d s where
  start: "d < frame_index (vm_stack s) \<Longrightarrow> callee_run ex d s s"
| step: "callee_run ex d s t \<Longrightarrow> vm_step ex t = (Inr None, u) \<Longrightarrow> d < frame_index (vm_stack u) \<Longrightarrow> callee_run ex d s u"

lemma callee_run_frames:
  assumes "callee_run ex d s t"
  shows "d < frame_index (vm_stack t) \<and> (\<forall>j \<le> d. frames (vm_stack t) ! j = frames (vm_stack s) ! j)"
  using assms
proof induction
  case (step t u)
  from vm_step_frames [OF step(2)] step(3,4) show ?case
    by (auto simp: same_frames_def called_def returned_def Let_def)
qed simp

text \<open>
  C31: A call that returns gives the caller back its scratch registers and its frame pointer and
  goes on after the call, and the frames of the caller and of its callers are as they were, whatever
  the callee did in between: any instructions, stores, system calls and further calls that the
  interpreter executed while the frame of the callee was on the stack.
\<close>

theorem call_return_roundtrip:
  fixes ex :: "'e Executable"
  assumes "vm_step ex s = (Inr None, s1)" and "frame_index (vm_stack s1) = Suc (frame_index (vm_stack s))"
    and "callee_run ex (frame_index (vm_stack s)) s1 t"
    and "vm_step ex t = (Inr None, u)" and "frame_index (vm_stack u) = frame_index (vm_stack s)"
  shows "slice 6 4 (reg u) = slice 6 4 (reg s) \<and> reg u ! 10 = get_frame_ptr (vm_stack s) \<and> vm_pc u = vm_pc s + 1 \<and>
    get_frame_ptr (vm_stack u) = get_frame_ptr (vm_stack s) \<and>
    (\<forall>j < frame_index (vm_stack s). frames (vm_stack u) ! j = frames (vm_stack s) ! j)"
proof -
  have "called s (vm_pc s + 1) s1"
    using vm_step_frames [OF assms(1)] assms(2) by (auto simp: same_frames_def returned_def Let_def)
  moreover note callee_run_frames [OF assms(3)]
  moreover have "returned t u"
    using vm_step_frames [OF assms(4)] assms(5) calculation(2) by (auto simp: same_frames_def called_def Let_def)
  ultimately show ?thesis using assms(5) by (auto simp: called_def returned_def get_frame_ptr_def Let_def)
qed


section \<open>The instruction meter\<close>

text \<open>An instruction that is not a system call leaves the counters of the meter alone.\<close>

definition quiet :: "Interpreter \<Rightarrow> Interpreter \<Rightarrow> bool" where
  "quiet s s' \<longleftrightarrow> insn_meter (machine s') = insn_meter (machine s) \<and> initial_insn_count s' = initial_insn_count s \<and>
     remaining_insn_count s' = remaining_insn_count s \<and> due_insn_count s' = due_insn_count s"

interpretation quiet: vm_preorder quiet ex for ex :: "'e Executable"
proof unfold_locales
  fix v :: "('e, u64) vm" and a sz pc
  assume v: "\<And>s. snd (v s) = s"
  then show "stable quiet (vm_store a sz pc v)"
    by (auto simp: stable_def quiet_def vm_store_def translate_memory_access_def sread_def smodify_def
        elim!: sbind_cases) (metis snd_conv)+
qed (auto simp: quiet_def)

text \<open>The system calls do not give instructions back.\<close>

definition syscalls_metered :: "'e Executable \<Rightarrow> bool" where
  "syscalls_metered ex \<longleftrightarrow> (\<forall>h f args m r m'. syscall_registry ex h = Some f \<longrightarrow> f args m = (r, m') \<longrightarrow>
     unat (insn_meter m') \<le> unat (insn_meter m))"

definition metered :: "Interpreter \<Rightarrow> bool" where
  "metered s \<longleftrightarrow> insn_meter (machine s) = remaining_insn_count s"

definition credit :: "Interpreter \<Rightarrow> nat" where
  "credit s = unat (remaining_insn_count s) - unat (due_insn_count s)"

lemma unat_meter_consume: "unat (meter_consume a m) = unat m - unat a"
  by (simp add: meter_consume_def compute_meter_consume_def unat_saturating_sub)

lemma run_syscall_machine:
  assumes "run_syscall ex f s = (r, s')"
  shows "initial_insn_count s' = initial_insn_count s \<and> (\<exists>r'. f (slice 1 5 (reg s)) (if enable_instruction_meter (ex_config ex)
      then (machine s)\<lparr>insn_meter := meter_consume (due_insn_count s) (insn_meter (machine s))\<rparr> else machine s) = (r', machine s'))"
  using assms
  by (auto simp: run_syscall_def Let_def sbind_def smodify_def write_reg_def split: prod.splits sum.splits if_splits)

lemma run_syscall_spends:
  assumes "enable_instruction_meter (ex_config ex)" and "syscalls_metered ex" and "syscall_registry ex h = Some f"
    and "metered s" and "run_syscall ex f s = (Inr x, s')"
  shows "metered s' \<and> due_insn_count s' = 0 \<and> unat (remaining_insn_count s') \<le> credit s"
proof -
  let ?m = "(machine s)\<lparr>insn_meter := meter_consume (due_insn_count s) (insn_meter (machine s))\<rparr>"
  from assms(1,5) obtain v m where f: "f (slice 1 5 (reg s)) ?m = (Inr v, m)" and m: "machine s' = m" "due_insn_count s' = 0"
      "remaining_insn_count s' = insn_meter m"
    by (auto simp: run_syscall_def Let_def res_simps smodify_def write_reg_def meter_get_remaining_def
        split: prod.splits sum.splits if_splits)
  from assms(2,3) f have "unat (insn_meter m) \<le> unat (insn_meter ?m)" unfolding syscalls_metered_def by blast
  then have "unat (insn_meter m) \<le> unat (insn_meter (machine s)) - unat (due_insn_count s)" by (simp add: unat_meter_consume)
  with m assms(4) show ?thesis by (simp add: metered_def credit_def)
qed

lemma exec_call_imm_cases:
  assumes "exec_call_imm ex insn pc s = (Inr out, s')"
  shows "quiet s s' \<or> (\<exists>h f x s1. syscall_registry ex h = Some f \<and> run_syscall ex f s = (Inr x, s1) \<and> quiet s1 s')"
  using assms unfolding exec_call_imm_def Let_def
proof (cases rule: sbind_cases)
  case (fail e)
  then show ?thesis by simp
next
  case (step x s1)
  from stableD [OF quiet.stable_call_rest step(2)] have "quiet s1 s'" .
  with step(1) show ?thesis by (auto simp: sret_def split: option.splits if_splits)
qed

lemma exec_insn_spends:
  fixes ex :: "'e Executable"
  assumes "enable_instruction_meter (ex_config ex)" and "syscalls_metered ex" and "metered s"
    and run: "exec_insn ex insn pc s = (Inr out, s')"
  shows "metered s' \<and> (quiet s s' \<or> due_insn_count s' = 0 \<and> unat (remaining_insn_count s') \<le> credit s)"
proof -
  consider "quiet s s'" | h f x s1 where "syscall_registry ex h = Some f" "run_syscall ex f s = (Inr x, s1)" "quiet s1 s'"
  proof (cases "decode (opc insn) = Some CALL_IMM")
    case False
    from stableD [OF quiet.stable_exec_insn [OF this] run] that show thesis by blast
  next
    case True
    show thesis
    proof (cases "unat (dst insn) = STACK_PTR_REG \<and> dynamic_stack_frames (ex_config ex)")
      case True
      with run have "quiet s s'" by (auto simp: exec_insn_def res_simps smodify_def sret_def quiet_def split: if_splits)
      with that show thesis by blast
    next
      case False
      with run \<open>decode (opc insn) = Some CALL_IMM\<close> have "exec_call_imm ex insn pc s = (Inr out, s')"
        by (auto simp: exec_insn_def exec_code_def Let_def)
      from exec_call_imm_cases [OF this] that show thesis by blast
    qed
  qed
  then show ?thesis
  proof cases
    case 1
    with assms(3) show ?thesis by (simp add: quiet_def metered_def)
  next
    case 2
    from run_syscall_spends [OF assms(1,2) 2(1) assms(3) 2(2)] 2(3) show ?thesis by (simp add: quiet_def metered_def)
  qed
qed

lemma finish_step_None:
  "enable_instruction_meter (ex_config ex) \<Longrightarrow> finish_step ex pc out s = (Inr None, s') \<Longrightarrow>
     s' = s \<and> due_insn_count s < remaining_insn_count s"
  by (auto simp: finish_step_def sret_def not_le split: outcome.splits if_splits)

text \<open>Between steps the instructions that are due are fewer than the remaining ones, or none are due.\<close>

definition solvent :: "Interpreter \<Rightarrow> bool" where
  "solvent s \<longleftrightarrow> metered s \<and> (due_insn_count s < remaining_insn_count s \<or> due_insn_count s = 0)"

lemma vm_step_spends:
  assumes e: "enable_instruction_meter (ex_config ex)" and "syscalls_metered ex" and s: "solvent s"
    and run: "vm_step ex s = (Inr None, s')"
  shows "solvent s' \<and> credit s' < credit s"
proof -
  let ?s1 = "s\<lparr>due_insn_count := due_insn_count s + 1, vm_pc := vm_pc s + 1\<rparr>"
  let ?s2 = "if enable_instruction_tracing (ex_config ex) then ?s1\<lparr>tracer := tracer s @ [reg s @ [vm_pc s]]\<rparr> else ?s1"
  from run obtain insn where "sbind (exec_insn ex insn (vm_pc s)) (finish_step ex (vm_pc s)) ?s2 = (Inr None, s')"
    by (auto simp: vm_step_def Let_def split: if_splits option.splits)
  then obtain out where x: "exec_insn ex insn (vm_pc s) ?s2 = (Inr out, s')" and lt: "due_insn_count s' < remaining_insn_count s'"
    unfolding sbind_Inr_iff using finish_step_None [OF e] by blast
  have "metered ?s2" using s by (simp add: solvent_def metered_def)
  note sp = exec_insn_spends [OF e assms(2) this x]
  have due: "unat (due_insn_count s + 1) = unat (due_insn_count s) + 1"
    using s unat_add_no_overflow [of "due_insn_count s" 1]
      order.strict_trans1 [OF _ unat_less_2_64, of "unat (due_insn_count s) + 1" "remaining_insn_count s"]
    by (auto simp: solvent_def word_less_nat_alt)
  have sel: "remaining_insn_count ?s2 = remaining_insn_count s" "due_insn_count ?s2 = due_insn_count s + 1" by simp_all
  have "credit s' < credit s"
    using sp [unfolded quiet_def credit_def sel due] lt s due by (auto simp: credit_def solvent_def word_less_nat_alt)
  with sp lt show ?thesis by (simp add: solvent_def)
qed

lemma vm_loop_returns:
  assumes "enable_instruction_meter (ex_config ex)" and "syscalls_metered ex" and "solvent s"
  shows "\<exists>r s'. vm_loop ex s = Some (r, s')"
  using assms(3)
proof (induction "credit s" arbitrary: s rule: less_induct)
  case less
  show ?case
  proof (cases "vm_step ex s")
    case (Pair r s1)
    consider e where "r = Inl e" | v where "r = Inr (Some v)" | "r = Inr None" by (cases r) auto
    then show ?thesis
    proof cases
      case 3
      with vm_step_spends [OF assms(1,2) less.prems] Pair less.hyps [of s1] show ?thesis
        by (subst vm_loop.simps) simp
    qed (subst vm_loop.simps, simp add: Pair)+
  qed
qed

text \<open>The meter never rises and the initial count is kept, on failing paths too.\<close>

definition meter_falls :: "'e Executable \<Rightarrow> Interpreter \<Rightarrow> Interpreter \<Rightarrow> bool" where
  "meter_falls ex s s' \<longleftrightarrow> initial_insn_count s' = initial_insn_count s \<and>
     (syscalls_metered ex \<longrightarrow> unat (insn_meter (machine s')) \<le> unat (insn_meter (machine s)))"

lemma meter_falls_syscall:
  assumes "syscall_registry ex h = Some f" and "run_syscall ex f s = (r, s')"
  shows "meter_falls ex s s'"
  unfolding meter_falls_def
proof (intro conjI impI)
  show "initial_insn_count s' = initial_insn_count s" by (rule conjunct1 [OF run_syscall_machine [OF assms(2)]])
next
  assume sm: "syscalls_metered ex"
  let ?m = "if enable_instruction_meter (ex_config ex)
    then (machine s)\<lparr>insn_meter := meter_consume (due_insn_count s) (insn_meter (machine s))\<rparr> else machine s"
  have "unat (insn_meter ?m) \<le> unat (insn_meter (machine s))" by (simp add: unat_meter_consume)
  moreover from run_syscall_machine [OF assms(2)] obtain r' where "f (slice 1 5 (reg s)) ?m = (r', machine s')" by blast
  with sm assms(1) have "unat (insn_meter (machine s')) \<le> unat (insn_meter ?m)" unfolding syscalls_metered_def by blast
  ultimately show "unat (insn_meter (machine s')) \<le> unat (insn_meter (machine s))" by (rule order_trans [rotated])
qed

interpretation meter_falls: vm_step_preorder "meter_falls ex" ex for ex :: "'e Executable"
proof unfold_locales
  fix v :: "('e, u64) vm" and a sz pc
  assume "\<And>s. snd (v s) = s"
  from quiet.store [OF this] show "stable (meter_falls ex) (vm_store a sz pc v)"
    by (auto simp: stable_def quiet_def meter_falls_def)
next
  fix h f assume "syscall_registry ex h = Some f"
  then show "stable (meter_falls ex) (run_syscall ex f)"
    unfolding stable_def using meter_falls_syscall by blast
qed (auto simp: meter_falls_def)


section \<open>Confinement\<close>

definition in_slice :: "u64 \<Rightarrow> u64 \<Rightarrow> u64 \<Rightarrow> bool" where
  "in_slice a n x \<longleftrightarrow> unat a \<le> unat x \<and> unat x < unat a + unat n"

definition writable_addr :: "MemoryMapping \<Rightarrow> u64 \<Rightarrow> bool" where
  "writable_addr mm x \<longleftrightarrow> (\<exists>r\<in>set (regions mm). mr_is_writable r \<and> in_slice (host_addr r) (mr_len r) x)"

text \<open>The mapping is kept, and so is every byte of the host outside its writable regions.\<close>

definition confined :: "Machine \<Rightarrow> Machine \<Rightarrow> bool" where
  "confined m m' \<longleftrightarrow> memory_mapping m' = memory_mapping m \<and>
     (wf_mapping (memory_mapping m) \<longrightarrow> (\<forall>x. \<not> writable_addr (memory_mapping m) x \<longrightarrow> host m' x = host m x))"

definition syscalls_confined :: "'e Executable \<Rightarrow> bool" where
  "syscalls_confined ex \<longleftrightarrow> (\<forall>h f args m r m'. syscall_registry ex h = Some f \<longrightarrow> f args m = (r, m') \<longrightarrow> confined m m')"

definition confines :: "'e Executable \<Rightarrow> Interpreter \<Rightarrow> Interpreter \<Rightarrow> bool" where
  "confines ex s s' \<longleftrightarrow> (syscalls_confined ex \<longrightarrow> confined (machine s) (machine s'))"

lemma store_in_region:
  assumes "wf_mapping mm" and "mapping_map mm Store a n = (Inr h :: 'e EbpfError + u64)" and "unat (x - h) < unat n"
  shows "writable_addr mm x"
proof -
  let ?r = "regions mm ! region_index a"
  from assms(2) have m: "?r \<in> set (regions mm)" "mr_is_writable ?r" "vm_to_host ?r a n = (Inr h :: 'e EbpfError + u64)"
    by (auto simp: mapping_map_Inr Let_def)
  with assms(1) have w: "wf_region ?r" by (simp add: wf_mapping_def)
  note b = vm_to_host_bounds [OF w m(3)]
  have "unat h + unat (x - h) < 2 ^ 64" using b(2) assms(3) w by (simp add: wf_region_def)
  then have "unat x = unat h + unat (x - h)" using unat_add_no_overflow [of h "x - h"] by simp
  with b assms(3) have "in_slice (host_addr ?r) (mr_len ?r) x" by (simp add: in_slice_def)
  with m show ?thesis unfolding writable_addr_def by blast
qed

lemma translate_Inr:
  assumes "(translate_memory_access access a sz pc :: ('e, u64) vm) s = (r, s')"
  shows "s' = s \<and> (\<forall>h. r = Inr h \<longrightarrow>
    mapping_map (memory_mapping (machine s)) access a (word_of_nat (size_bytes sz)) = (Inr h :: 'e EbpfError + u64))"
  using assms by (auto simp: translate_memory_access_def sread_def split: sum.splits EbpfError.splits)

lemma vm_store_confined:
  fixes v :: "('e, u64) vm"
  assumes v: "\<And>s. snd (v s) = s" and run: "vm_store a sz pc v s = (r, s')"
  shows "confined (machine s) (machine s')"
proof -
  let ?mm = "memory_mapping (machine s)"
  let ?n = "size_bytes sz"
  have n: "unat (word_of_nat ?n :: u64) = ?n" by (cases sz) simp_all
  from run consider "machine s' = machine s" | h x where "mapping_map ?mm Store a (word_of_nat ?n) = (Inr h :: 'e EbpfError + u64)"
      "machine s' = (machine s)\<lparr>host := host_store h ?n x (host (machine s))\<rparr>"
    unfolding vm_store_def
  proof (cases rule: sbind_cases)
    case (fail e)
    with translate_Inr that(1) show thesis by blast
  next
    case (step h s1)
    note t = translate_Inr [OF step(1)]
    from step(2) show thesis
    proof (cases rule: sbind_cases)
      case (fail e)
      with v [of s1] t that(1) show thesis by simp
    next
      case (step x s2)
      with v [of s1] t that(2) [of h x] show thesis by (auto simp: smodify_def)
    qed
  qed
  then show ?thesis
  proof cases
    case 1
    then show ?thesis by (simp add: confined_def)
  next
    case 2
    with n store_in_region [OF _ 2(1)] show ?thesis by (auto simp: confined_def host_store_def)
  qed
qed

lemma confined_trans: "confined a b \<Longrightarrow> confined b c \<Longrightarrow> confined a c"
  by (auto simp: confined_def)

lemma confines_syscall:
  assumes "syscall_registry ex h = Some f" and "run_syscall ex f s = (r, s')"
  shows "confines ex s s'"
  unfolding confines_def
proof
  assume sm: "syscalls_confined ex"
  let ?m = "if enable_instruction_meter (ex_config ex)
    then (machine s)\<lparr>insn_meter := meter_consume (due_insn_count s) (insn_meter (machine s))\<rparr> else machine s"
  have "confined (machine s) ?m" by (simp add: confined_def)
  moreover from run_syscall_machine [OF assms(2)] obtain r' where "f (slice 1 5 (reg s)) ?m = (r', machine s')" by blast
  with sm assms(1) have "confined ?m (machine s')" unfolding syscalls_confined_def by blast
  ultimately show "confined (machine s) (machine s')" by (rule confined_trans)
qed

interpretation confines: vm_step_preorder "confines ex" ex for ex :: "'e Executable"
proof unfold_locales
  fix v :: "('e, u64) vm" and a sz pc
  assume "\<And>s. snd (v s) = s"
  from vm_store_confined [OF this] show "stable (confines ex) (vm_store a sz pc v)"
    by (auto simp: stable_def confines_def)
next
  fix h f assume "syscall_registry ex h = Some f"
  then show "stable (confines ex) (run_syscall ex f)"
    unfolding stable_def using confines_syscall by blast
next
  fix s t u assume "confines ex s t" "confines ex t u"
  then show "confines ex s u" unfolding confines_def using confined_trans by blast
qed (simp_all add: confines_def confined_def)


section \<open>Whole runs\<close>

lemma vm_loop_no_panic:
  assumes v: "verify_program (text_bytes ex) (ex_config ex) = Inr ()" and len: "length (text_bytes ex) < 2 ^ 63"
    and "vm_loop ex s = Some (r, s')" and "in_code (length (text_bytes ex) div 8) s"
  shows "r \<noteq> Inl VmPanic"
  using assms(3,4)
proof (induction rule: vm_loop_induct)
  case (stop s e s')
  with vm_step_safe [OF v len] show ?case unfolding vm_safe_def by fastforce
next
  case (step s s1 r s')
  with vm_step_safe [OF v len] show ?case unfolding vm_safe_def by blast
qed simp

lemma interpreter_new_Inr:
  assumes "interpreter_new ex m cf = Inr s"
  obtains p where "bpf_functions ex (entrypoint_hash ex) = Some p" "vm_pc s = p" "length (reg s) = 11" "vm_stack s = cf"
    "machine s = m" "due_insn_count s = 0"
    "enable_instruction_meter (ex_config ex) \<Longrightarrow> initial_insn_count s = insn_meter m \<and> remaining_insn_count s = insn_meter m"
  using assms by (auto simp: interpreter_new_def Let_def meter_get_remaining_def res_simps ok_or_Inr_iff)

lemma vm_new_Inr:
  assumes "vm_new ex dangling ro_region addr heap_addr heap_len additional = Inr (mm, cf)"
  shows "wf_frames cf"
    and "set (regions mm) = {new_readonly dangling 0 0, ro_region, get_memory_region cf,
           new_writable heap_addr heap_len MM_HEAP_START} \<union> set additional"
    and "stack_addr cf = addr" and "stack_len cf = stack_size (ex_config ex)"
proof -
  let ?rs = "[new_readonly dangling 0 0, ro_region, get_memory_region cf, new_writable heap_addr heap_len MM_HEAP_START] @ additional"
  from assms have c: "call_frames_new addr (ex_config ex) = (Inr cf :: 'a vm_failure + CallFrames)"
    and m: "mapping_new ?rs (ex_config ex) = (Inr mm :: 'a EbpfError + MemoryMapping)"
    by (auto simp: vm_new_def res_simps)
  from call_frames_new_wf [OF c] show "wf_frames cf" by simp
  from c show "stack_addr cf = addr" "stack_len cf = stack_size (ex_config ex)"
    by (auto simp: call_frames_new_def Let_def split: if_splits)
  from m have "regions mm = sort_key vm_addr ?rs" by (auto simp: mapping_new_def Let_def simp del: sort_key_simps split: option.splits)
  then have "set (regions mm) = set ?rs" by (simp only: set_sort)
  then show "set (regions mm) = {new_readonly dangling 0 0, ro_region, get_memory_region cf,
      new_writable heap_addr heap_len MM_HEAP_START} \<union> set additional" by auto
qed

lemmas region_constructors = new_readonly_def new_writable_def new_writable_gapped_def

lemma execute_confined:
  assumes "execute_program_interpreted ex m cf = Some (r, m', n)" and "syscalls_confined ex"
  shows "confined m m'"
proof (cases "interpreter_new ex m cf")
  case (Inl e)
  with assms(1) show ?thesis by (auto simp: execute_program_interpreted_def confined_def)
next
  case (Inr s)
  with assms(1) obtain r' s' where l: "vm_loop ex s = Some (r', s')" and m': "memory_mapping m' = memory_mapping (machine s')" "host m' = host (machine s')"
    by (auto simp: execute_program_interpreted_def Let_def split: if_splits)
  from confines.vm_loop_related [OF l] assms(2) have "confined (machine s) (machine s')" by (simp add: confines_def)
  moreover have "machine s = m" using interpreter_new_Inr [OF Inr] by blast
  ultimately show ?thesis using m' by (simp add: confined_def)
qed

lemma execute_returns:
  assumes "enable_instruction_meter (ex_config ex)" and "syscalls_metered ex"
  shows "\<exists>r m' n. execute_program_interpreted ex m cf = Some (r, m', n)"
proof (cases "interpreter_new ex m cf")
  case (Inr s)
  from interpreter_new_Inr [OF Inr] assms(1) have "machine s = m" "due_insn_count s = 0" "remaining_insn_count s = insn_meter m" by auto
  then have "solvent s" by (simp add: solvent_def metered_def)
  from vm_loop_returns [OF assms this] obtain r s' where "vm_loop ex s = Some (r, s')" by blast
  with Inr assms(1) show ?thesis by (simp add: execute_program_interpreted_def Let_def)
qed (simp add: execute_program_interpreted_def)

lemma program_start:
  assumes "interpreter_new ex m cf = Inr s" and "wf_frames cf"
    and "\<And>p. bpf_functions ex (entrypoint_hash ex) = Some p \<Longrightarrow> unat p \<le> n"
  shows "in_code n s"
  using assms(2,3) interpreter_new_Inr [OF assms(1)] by (auto simp: in_code_def vm_ok_def)

text \<open>
  C14: A program that the verifier accepts, run with the instruction meter on the machine that
  \<open>EbpfVm::new\<close> sets up, always returns and never makes the interpreter panic; the executed
  instructions and what is left on the meter add up to what was there at the start. The hypotheses
  on code outside the machine are that the entry point lies in the text and that the system calls
  do not raise the meter.
\<close>

theorem verified_program_returns:
  fixes ex :: "'e Executable"
  assumes "verify_program (text_bytes ex) (ex_config ex) = Inr ()" and "length (text_bytes ex) < 2 ^ 63"
    and e: "enable_instruction_meter (ex_config ex)" and sm: "syscalls_metered ex"
    and "\<And>p. bpf_functions ex (entrypoint_hash ex) = Some p \<Longrightarrow> unat p \<le> length (text_bytes ex) div 8"
    and new: "vm_new ex dangling ro_region addr heap_addr heap_len additional = Inr (mm, cf)"
  shows "\<exists>r m' n. execute_program_interpreted ex m cf = Some (r, m', n) \<and> r \<noteq> Inl VmPanic \<and>
    unat n + unat (insn_meter m') = unat (insn_meter m)"
proof (cases "interpreter_new ex m cf")
  case (Inl err)
  then show ?thesis by (auto simp: execute_program_interpreted_def)
next
  case (Inr s)
  from interpreter_new_Inr [OF Inr] e have c: "machine s = m" "due_insn_count s = 0" "initial_insn_count s = insn_meter m"
      "remaining_insn_count s = insn_meter m" by auto
  then have "solvent s" by (simp add: solvent_def metered_def)
  from vm_loop_returns [OF e sm this] obtain r s' where l: "vm_loop ex s = Some (r, s')" by blast
  from vm_loop_no_panic [OF assms(1,2) l program_start [OF Inr vm_new_Inr(1) [OF new] assms(5)]]
  have np: "r \<noteq> Inl VmPanic" .
  let ?left = "meter_consume (due_insn_count s') (insn_meter (machine s'))"
  have "initial_insn_count s' = insn_meter m" and "unat (insn_meter (machine s')) \<le> unat (insn_meter m)"
    using meter_falls.vm_loop_related [OF l] sm c by (simp_all add: meter_falls_def)
  moreover from this have "?left \<le> insn_meter m" by (simp add: word_le_nat_alt unat_meter_consume)
  ultimately show ?thesis
    using Inr l np e by (simp add: execute_program_interpreted_def Let_def meter_get_remaining_def unat_sub word_le_nat_alt)
qed

text \<open>
  C15: A program writes only to its stack, its heap and the writable regions that the caller gave it:
  every other byte of the host is what it was before the run, however the run ends, and the memory
  mapping is the one the machine was set up with. The hypotheses are that the regions are
  allocations of the host and that the system calls are confined in the same way.
\<close>

theorem program_confined:
  fixes ex :: "'e Executable"
  assumes "vm_new ex dangling ro_region addr heap_addr heap_len additional = Inr (mm, cf)" and "memory_mapping m = mm"
    and "execute_program_interpreted ex m cf = Some (r, m', n)" and sc: "syscalls_confined ex"
    and "wf_region ro_region" and "\<not> mr_is_writable ro_region" and "\<forall>r\<in>set additional. wf_region r"
    and "unat addr + unat (stack_size (ex_config ex)) < 2 ^ 64" and "unat heap_addr + unat heap_len < 2 ^ 64"
  shows "memory_mapping m' = mm \<and>
    (in_slice addr (stack_size (ex_config ex)) x \<or> in_slice heap_addr heap_len x \<or>
     (\<exists>r\<in>set additional. mr_is_writable r \<and> in_slice (host_addr r) (mr_len r) x) \<or> host m' x = host m x)"
proof -
  note regs = vm_new_Inr [OF assms(1)]
  have wf: "wf_mapping mm"
    using assms(5,7,8,9) regs by (auto simp: wf_mapping_def wf_region_def get_memory_region_def region_constructors region_new_def)
  have writable: "in_slice addr (stack_size (ex_config ex)) x \<or> in_slice heap_addr heap_len x \<or>
      (\<exists>r\<in>set additional. mr_is_writable r \<and> in_slice (host_addr r) (mr_len r) x)" if "writable_addr mm x"
    using that assms(6) regs by (auto simp: writable_addr_def get_memory_region_def region_constructors region_new_def)
  from execute_confined [OF assms(3) sc] have "confined m m'" .
  with wf writable assms(2) show ?thesis by (auto simp: confined_def)
qed


section \<open>A sample program\<close>

text \<open>
  The program \<open>stw [r10 - 8], 7; syscall 2; exit\<close> with a system call that costs five instructions.
\<close>

definition sample_program :: bytes where
  "sample_program =
     [0x62, 0x0a, 0xf8, 0xff, 7, 0, 0, 0,
      0x85, 0, 0, 0, 2, 0, 0, 0,
      0x95, 0, 0, 0, 0, 0, 0, 0]"

definition sample_syscall :: "unit syscall" where
  "sample_syscall args m = (Inr 0, m\<lparr>insn_meter := meter_consume 5 (insn_meter m)\<rparr>)"

definition sample_executable :: "unit Executable" where
  "sample_executable =
     \<lparr>text_bytes = sample_program, text_vaddr = MM_PROGRAM_START,
      bpf_functions = (\<lambda>h. if h = 1 then Some 0 else None), entrypoint_hash = 1,
      syscall_registry = (\<lambda>h. if h = 2 then Some sample_syscall else None),
      unresolved_symbol = UnknownSymbol, ex_config = default_config\<rparr>"

lemmas opcode_consts = BPF_LD_def BPF_LDX_def BPF_ST_def BPF_STX_def BPF_ALU_def BPF_JMP_def BPF_ALU64_def BPF_IMM_def BPF_ABS_def
  BPF_IND_def BPF_MEM_def BPF_NEG_def BPF_END_def BPF_JA_def BPF_CALL_def BPF_EXIT_def

lemma sample_decode: "decode 0x62 = Some (ST_IMM BPF_W)" "decode 0x85 = Some CALL_IMM" "decode 0x95 = Some EXIT"
  by (simp_all add: decode_def all_opcodes_def all_sizes_def all_alu_def all_jmp_def opcode_consts)

lemma sample_get:
  "get_insn sample_program 0 = Some \<lparr>ptr = 0, opc = 0x62, dst = 10, src = 0, off = - 8, imm = 7\<rparr>"
  "get_insn sample_program 1 = Some \<lparr>ptr = 1, opc = 0x85, dst = 0, src = 0, off = 0, imm = 2\<rparr>"
  "get_insn sample_program 2 = Some \<lparr>ptr = 2, opc = 0x95, dst = 0, src = 0, off = 0, imm = 0\<rparr>"
  by (simp_all add: sample_program_def get_insn_def get_insn_unchecked_def Let_def INSN_SIZE_def slice_def u16_from_le_bytes_def u32_from_le_bytes_def)

lemma sample_length: "length sample_program = 24"
  by (simp add: sample_program_def)

lemma sample_verifies: "verify_program sample_program default_config = Inr ()"
proof -
  have 0: "verify_from default_config sample_program (Suc (Suc (Suc 0))) = Inr 3"
    by (subst verify_from.simps) (simp add: sample_length)
  have 1: "verify_from default_config sample_program 2 = Inr 3"
    by (subst verify_from.simps) (simp add: sample_length fetch_def sample_get check_insn_def sample_decode check_registers_def 0)
  have 2: "verify_from default_config sample_program 1 = Inr 3"
    by (subst verify_from.simps) (simp add: sample_length fetch_def sample_get check_insn_def sample_decode check_registers_def 1 [unfolded numeral_2_eq_2])
  have "verify_from default_config sample_program 0 = Inr 3"
    by (subst verify_from.simps) (simp add: sample_length fetch_def sample_get check_insn_def sample_decode check_registers_def 2 [unfolded One_nat_def])
  then show ?thesis by (simp add: verify_program_def check_prog_len_def sample_length flip: length_0_conv)
qed

lemma sample_metered: "syscalls_metered sample_executable"
  by (auto simp: syscalls_metered_def sample_executable_def sample_syscall_def unat_meter_consume split: if_splits)

lemma sample_confined: "syscalls_confined sample_executable"
  by (auto simp: syscalls_confined_def sample_executable_def sample_syscall_def confined_def split: if_splits)

definition sample_machine :: "MemoryMapping \<Rightarrow> Machine" where
  "sample_machine mm = \<lparr>host = (\<lambda>_. 0), memory_mapping = mm, insn_meter = 100\<rparr>"

lemma sample_vm: "\<exists>mm cf. vm_new sample_executable 8 (new_readonly 0x10000 24 MM_PROGRAM_START) 0x20000 0x40000 0x8000 [] = Inr (mm, cf)"
proof -
  have "first_misplaced (sort_key vm_addr [new_readonly 8 0 0, new_readonly 0x10000 24 MM_PROGRAM_START, get_memory_region cf,
      new_writable 0x40000 0x8000 MM_HEAP_START]) = None" for cf
    by (simp add: first_misplaced_def region_constructors region_new_def get_memory_region_def MM_PROGRAM_START_def
        MM_HEAP_START_def MM_STACK_START_def region_index_def checked_shr_def VIRTUAL_ADDRESS_BITS_def upt_rec drop_bit_eq_div
        del: upt_Suc)
  then show ?thesis
    by (simp add: vm_new_def call_frames_new_def Let_def sample_executable_def default_config_def mapping_new_def del: sort_key_simps)
qed

lemma sample_fields:
  "text_bytes sample_executable = sample_program" "ex_config sample_executable = default_config"
  "bpf_functions sample_executable (entrypoint_hash sample_executable) = Some 0"
  "enable_instruction_meter default_config" "stack_size default_config = 81920"
  by (simp_all add: sample_executable_def default_config_def stack_size_def)

theorem verified_program_returns_witness:
  "\<exists>mm cf r m n. vm_new sample_executable 8 (new_readonly 0x10000 24 MM_PROGRAM_START) 0x20000 0x40000 0x8000 [] = Inr (mm, cf) \<and>
     execute_program_interpreted sample_executable (sample_machine mm) cf = Some (r, m, n) \<and> r \<noteq> Inl VmPanic \<and>
     unat n + unat (insn_meter m) = 100"
proof -
  obtain mm cf where vm: "vm_new sample_executable 8 (new_readonly 0x10000 24 MM_PROGRAM_START) 0x20000 0x40000 0x8000 [] = Inr (mm, cf)"
    using sample_vm by blast
  have "\<exists>r m n. execute_program_interpreted sample_executable (sample_machine mm) cf = Some (r, m, n) \<and> r \<noteq> Inl VmPanic \<and>
     unat n + unat (insn_meter m) = unat (insn_meter (sample_machine mm))"
    by (rule verified_program_returns [OF _ _ _ sample_metered _ vm])
      (simp_all add: sample_fields sample_verifies sample_length)
  with vm show ?thesis by (auto simp: sample_machine_def)
qed

theorem program_confined_witness:
  "\<exists>mm cf r m n. vm_new sample_executable 8 (new_readonly 0x10000 24 MM_PROGRAM_START) 0x20000 0x40000 0x8000 [] = Inr (mm, cf) \<and>
     execute_program_interpreted sample_executable (sample_machine mm) cf = Some (r, m, n) \<and> memory_mapping m = mm \<and>
     host m 0x10000 = 0 \<and> host m 0x50000 = 0"
proof -
  obtain mm cf where vm: "vm_new sample_executable 8 (new_readonly 0x10000 24 MM_PROGRAM_START) 0x20000 0x40000 0x8000 [] = Inr (mm, cf)"
    using sample_vm by blast
  obtain r m n where run: "execute_program_interpreted sample_executable (sample_machine mm) cf = Some (r, m, n)"
    using execute_returns [OF _ sample_metered, of "sample_machine mm" cf] by (auto simp: sample_fields)
  have c: "memory_mapping m = mm \<and> (in_slice 0x20000 (stack_size (ex_config sample_executable)) x \<or> in_slice 0x40000 0x8000 x \<or>
     host m x = host (sample_machine mm) x)" for x
    using program_confined [OF vm _ run sample_confined, of x]
    by (simp add: sample_fields sample_machine_def region_constructors region_new_def wf_region_def)
  from c [of "0x10000"] c [of "0x50000"] vm run show ?thesis
    by (auto simp: sample_machine_def sample_fields in_slice_def)
qed

theorem insn_roundtrip_witness:
  "get_insn (sample_program @ to_array \<lparr>ptr = 3, opc = 0x55, dst = 1, src = 2, off = - 4, imm = - 1\<rparr> @ []) 3 =
     Some \<lparr>ptr = 3, opc = 0x55, dst = 1, src = 2, off = - 4, imm = - 1\<rparr>"
  using insn_roundtrip [of "\<lparr>ptr = 3, opc = 0x55, dst = 1, src = 2, off = - 4, imm = - 1\<rparr>" "- 1" sample_program "[]"]
  by (simp add: sample_length INSN_SIZE_def)

text \<open>
  A program with a call: \<open>call 3; exit\<close>, and the function \<open>mov r6, 5; exit\<close>, which overwrites a scratch
  register of its caller.
\<close>

definition call_program :: bytes where
  "call_program =
     [0x85, 0x10, 0, 0, 3, 0, 0, 0,
      0x95, 0, 0, 0, 0, 0, 0, 0,
      0xb7, 6, 0, 0, 5, 0, 0, 0,
      0x95, 0, 0, 0, 0, 0, 0, 0]"

definition call_executable :: "unit Executable" where
  "call_executable = sample_executable\<lparr>text_bytes := call_program, bpf_functions := (\<lambda>h. if h = 3 then Some 2 else None)\<rparr>"

definition call_state :: "CallFrames \<Rightarrow> u64 list \<Rightarrow> u64 \<Rightarrow> u64 \<Rightarrow> Interpreter" where
  "call_state cf regs due p =
     \<lparr>machine = sample_machine \<lparr>regions = [], mm_config = default_config\<rparr>, vm_stack = cf, tracer = [],
      initial_insn_count = 100, remaining_insn_count = 100, due_insn_count = due, reg = regs, vm_pc = p\<rparr>"

lemma call_get:
  "get_insn_unchecked call_program 0 = Some \<lparr>ptr = 0, opc = 0x85, dst = 0, src = 1, off = 0, imm = 3\<rparr>"
  "get_insn_unchecked call_program 2 = Some \<lparr>ptr = 2, opc = 0xb7, dst = 6, src = 0, off = 0, imm = 5\<rparr>"
  "get_insn_unchecked call_program 3 = Some \<lparr>ptr = 3, opc = 0x95, dst = 0, src = 0, off = 0, imm = 0\<rparr>"
  by (simp_all add: call_program_def get_insn_unchecked_def Let_def INSN_SIZE_def slice_def u16_from_le_bytes_def u32_from_le_bytes_def)

lemma call_decode: "decode 0xb7 = Some (ALU64 BPF_MOV BPF_K)"
  by (simp add: decode_def all_opcodes_def all_sizes_def all_alu_def all_jmp_def opcode_consts)

lemma call_length: "length call_program = 32"
  by (simp add: call_program_def)

lemmas call_simps = vm_step_def Let_def call_executable_def sample_executable_def call_state_def default_config_def call_get call_length
  exec_insn_def STACK_PTR_REG_def exec_code_def sample_decode call_decode sbind_def sret_def sread_def smodify_def set_pc_def
  INSN_SIZE_def write_reg_def read_reg_def get_def finish_step_def check_pc_def operand_def on_stack_def
  FIRST_SCRATCH_REG_def SCRATCH_REGS_def FRAME_PTR_REG_def

lemma call_enters:
  assumes "frames_push [6, 7, 8, 9] 1 cf = (Inr fp :: unit vm_failure + u64, cf')"
  shows "vm_step call_executable (call_state cf [0, 1, 2, 3, 4, 5, 6, 7, 8, 9, 10] 0 0) =
    (Inr None, call_state cf' [0, 1, 2, 3, 4, 5, 6, 7, 8, 9, fp] 1 2)"
  using assms by (simp add: call_simps exec_call_imm_def push_frame_def slice_def word_le_nat_alt)

lemma call_overwrites:
  "vm_step call_executable (call_state cf [0, 1, 2, 3, 4, 5, 6, 7, 8, 9, fp] 1 2) =
    (Inr None, call_state cf [0, 1, 2, 3, 4, 5, 5, 7, 8, 9, fp] 2 3)"
  by (simp add: call_simps alu64_def)

lemma call_leaves:
  assumes "frames_pop cf = (Inr ([6, 7, 8, 9], fp', 1) :: unit vm_failure + u64 list \<times> u64 \<times> u64, cf')"
  shows "vm_step call_executable (call_state cf [0, 1, 2, 3, 4, 5, 5, 7, 8, 9, fp] 2 3) =
    (Inr None, call_state cf' [0, 1, 2, 3, 4, 5, 6, 7, 8, 9, fp'] 3 1)"
  using assms by (simp add: call_simps exec_exit_def restore_scratch_def)

theorem call_return_roundtrip_witness:
  "\<exists>s s1 t u. vm_step call_executable s = (Inr None, s1) \<and> callee_run call_executable 0 s1 t \<and>
     reg t ! 6 = 5 \<and> vm_step call_executable t = (Inr None, u) \<and> slice 6 4 (reg u) = slice 6 4 (reg s) \<and> reg s ! 6 = 6 \<and>
     reg u ! 10 = get_frame_ptr (vm_stack s) \<and> vm_pc u = vm_pc s + 1"
proof -
  obtain cf where "call_frames_new 0x20000 default_config = (Inr cf :: unit vm_failure + CallFrames)"
    by (simp add: call_frames_new_def Let_def default_config_def)
  from call_frames_new_wf [OF this] have cf: "wf_frames cf" "frame_index cf = 0" "length (frames cf) = 20"
    by (simp_all add: default_config_def)
  from frames_push_cases [OF cf(1), of "[6, 7, 8, 9]" 1, where 'e = unit] cf obtain fp cf' where
    push: "frames_push [6, 7, 8, 9] 1 cf = (Inr fp :: unit vm_failure + u64, cf')" and i: "frame_index cf' = 1" by auto
  from pop_after_push [OF cf(1) _ push] obtain cf'' where
    pop: "frames_pop cf' = (Inr ([6, 7, 8, 9], get_frame_ptr cf, 1) :: unit vm_failure + u64 list \<times> u64 \<times> u64, cf'')"
    and i': "frame_index cf'' = 0" using cf(2) by auto
  let ?s = "call_state cf [0, 1, 2, 3, 4, 5, 6, 7, 8, 9, 10] 0 0"
  let ?s1 = "call_state cf' [0, 1, 2, 3, 4, 5, 6, 7, 8, 9, fp] 1 2" and ?t = "call_state cf' [0, 1, 2, 3, 4, 5, 5, 7, 8, 9, fp] 2 3"
  have idx: "frame_index (vm_stack (call_state c r d p)) = frame_index c" for c r d p by (simp add: call_state_def)
  have "callee_run call_executable 0 ?s1 ?t"
    by (rule callee_run.step [OF callee_run.start call_overwrites]) (simp_all add: idx i)
  moreover note call_enters [OF push] call_leaves [OF pop, of fp]
  moreover from call_return_roundtrip [OF call_enters [OF push] _ _ call_leaves [OF pop, of fp]] calculation(1)
  have "slice 6 4 (reg (call_state cf'' [0, 1, 2, 3, 4, 5, 6, 7, 8, 9, get_frame_ptr cf] 3 1)) = slice 6 4 (reg ?s) \<and>
      reg (call_state cf'' [0, 1, 2, 3, 4, 5, 6, 7, 8, 9, get_frame_ptr cf] 3 1) ! 10 = get_frame_ptr (vm_stack ?s) \<and>
      vm_pc (call_state cf'' [0, 1, 2, 3, 4, 5, 6, 7, 8, 9, get_frame_ptr cf] 3 1) = vm_pc ?s + 1"
    by (simp add: idx i i' cf(2))
  moreover have "reg ?t ! 6 = 5" "reg ?s ! 6 = 6" by (simp_all add: call_state_def)
  ultimately show ?thesis by blast
qed


section \<open>Address translation\<close>

text \<open>
  The layout of a mapping as \<open>memory_region.rs\<close> describes it, on unbounded numbers and byte by byte. The
  upper half of a virtual address selects the region. A region is cut into frames of \<open>2 ^ s\<close> bytes: the
  even frames of its virtual addresses are mapped, back to back, to the host, and the odd ones are gaps,
  which no access may touch. A region without gaps is a single frame.
\<close>

definition host_byte :: "MemoryMapping \<Rightarrow> AccessType \<Rightarrow> nat \<Rightarrow> nat option" where
  "host_byte mm access a =
     (let i = a div 2 ^ 32; r = regions mm ! i; frame_size = 2 ^ vm_gap_shift r;
          frame = (a - unat (vm_addr r)) div frame_size; offset = (a - unat (vm_addr r)) mod frame_size;
          pos = frame div 2 * frame_size + offset
      in if 1 \<le> i \<and> i < length (regions mm) \<and> (access = Load \<or> mr_is_writable r) \<and> unat (vm_addr r) \<le> a \<and>
            even frame \<and> pos < unat (mr_len r)
         then Some (unat (host_addr r) + pos) else None)"

text \<open>An access that lies in one frame of one region: its first and its last byte do.\<close>

definition in_one_frame :: "MemoryMapping \<Rightarrow> nat \<Rightarrow> nat \<Rightarrow> bool" where
  "in_one_frame mm a n =
     (let r = regions mm ! (a div 2 ^ 32); frame_size = 2 ^ vm_gap_shift r; b = a - unat (vm_addr r)
      in (a + n - 1) div 2 ^ 32 = a div 2 ^ 32 \<and> b mod frame_size + n \<le> frame_size)"

lemma region_index_div: "region_index a = unat a div 2 ^ 32"
  by (simp add: region_index_def checked_shr_def VIRTUAL_ADDRESS_BITS_def unat_drop_bit_u64)

lemma mapped_address:
  assumes "wf_region r" and "gapped s b + n \<le> unat (mr_len r)"
  shows "unat (saturating_add (host_addr r) (word_of_nat (gapped s b))) = unat (host_addr r) + gapped s b"
proof -
  have lt: "unat (host_addr r) + gapped s b < 2 ^ 64" using assms by (simp add: wf_region_def)
  then have "unat (word_of_nat (gapped s b) :: u64) = gapped s b" by (intro unat_word_of_nat_id) simp
  with lt show ?thesis by (simp add: saturating_add_def unat_add_no_overflow)
qed

text \<open>The code, exactly: only the first byte of an access is kept out of the gaps.\<close>

lemma mapping_map_exact:
  assumes "wf_mapping mm"
  shows "mapping_map mm access a n = (Inr h :: 'e EbpfError + u64) \<longleftrightarrow>
    (let i = unat a div 2 ^ 32; r = regions mm ! i; s = vm_gap_shift r; b = unat a - unat (vm_addr r)
     in 1 \<le> i \<and> i < length (regions mm) \<and> (access = Load \<or> mr_is_writable r) \<and> unat (vm_addr r) \<le> unat a \<and>
        even (b div 2 ^ s) \<and> gapped s b + unat n \<le> unat (mr_len r) \<and> unat h = unat (host_addr r) + gapped s b)"
proof (cases "1 \<le> unat a div 2 ^ 32 \<and> unat a div 2 ^ 32 < length (regions mm)")
  case True
  then have wf: "wf_region (regions mm ! (unat a div 2 ^ 32))" using assms by (simp add: wf_mapping_def)
  then have "vm_gap_shift (regions mm ! (unat a div 2 ^ 32)) < 64" by (simp add: wf_region_def)
  then show ?thesis
    using True mapped_address [OF wf]
    by (auto simp: mapping_map_Inr region_index_div Let_def vm_to_host_Inr word_le_nat_alt word_unat_eq_iff)
qed (auto simp: mapping_map_Inr region_index_div Let_def)

lemma gapped_frame: "gapped s b = b div 2 ^ s div 2 * 2 ^ s + b mod 2 ^ s"
  by (simp only: gapped_def power_add power_one_right div_mult2_eq)

lemma frame_offset:
  fixes F :: nat
  assumes "b mod F + j < F"
  shows "(b + j) div F = b div F" and "(b + j) mod F = b mod F + j"
proof -
  have e: "b + j = (b mod F + j) + b div F * F" by (metis add.assoc add.commute div_mult_mod_eq)
  have q: "(x + q * F) div F = q \<and> (x + q * F) mod F = x" if "x < F" for x q using that by simp
  show "(b + j) div F = b div F" "(b + j) mod F = b mod F + j"
    unfolding e using q [OF assms, of "b div F"] by (rule conjunct1, rule conjunct2)
qed

lemma host_byte_offset:
  assumes "in_one_frame mm a n" and "j < n" and "unat (vm_addr (regions mm ! (a div 2 ^ 32))) \<le> a"
  shows "host_byte mm access (a + j) =
    (let i = a div 2 ^ 32; r = regions mm ! i; s = vm_gap_shift r; b = a - unat (vm_addr r)
     in if 1 \<le> i \<and> i < length (regions mm) \<and> (access = Load \<or> mr_is_writable r) \<and> even (b div 2 ^ s) \<and>
           gapped s b + j < unat (mr_len r)
        then Some (unat (host_addr r) + gapped s b + j) else None)"
proof -
  let ?i = "a div 2 ^ 32"
  let ?r = "regions mm ! ?i"
  let ?F = "2 ^ vm_gap_shift ?r :: nat" and ?b = "a - unat (vm_addr ?r)"
  have hi: "(a + n - 1) div 2 ^ 32 = ?i" and fr: "?b mod ?F + n \<le> ?F" using assms(1) unfolding in_one_frame_def Let_def by blast+
  have "(a + j) div 2 ^ 32 \<le> (a + n - 1) div 2 ^ 32" by (rule div_le_mono) (use assms(2) in linarith)
  moreover have "?i \<le> (a + j) div 2 ^ 32" by (rule div_le_mono) (rule le_add1)
  ultimately have i: "(a + j) div 2 ^ 32 = ?i" using hi by linarith
  have b: "a + j - unat (vm_addr ?r) = ?b + j" using assms(3) by linarith
  have le: "(unat (vm_addr ?r) \<le> a + j) = True" by (rule eqTrueI) (use assms(3) in linarith)
  have "?b mod ?F + j < ?F" using fr assms(2) by linarith
  note fo = frame_offset [OF this]
  show ?thesis unfolding host_byte_def Let_def i b gapped_frame fo le by (simp only: simp_thms add.assoc)
qed

lemma byte_range:
  fixes L :: nat
  assumes "\<And>j. j < n \<Longrightarrow> f j = (if P \<and> g + j < L then Some (H + g + j) else None)" and "0 < n"
  shows "(\<forall>j < n. f j = Some (h + j)) \<longleftrightarrow> P \<and> g + n \<le> L \<and> h = H + g"
proof
  assume all: "\<forall>j < n. f j = Some (h + j)"
  from all assms(2) have "f 0 = Some (h + 0)" "f (n - 1) = Some (h + (n - 1))" by auto
  then show "P \<and> g + n \<le> L \<and> h = H + g" using assms(1) [of 0] assms(1) [of "n - 1"] assms(2) by (auto split: if_splits)
qed (use assms(1) in auto)

text \<open>
  C30: The translation of an address by the memory mapping, with its masks, shifts, checked and
  saturating operations on 64-bit words, is the byte-wise translation of the described layout, for an
  access that lies in one frame: it succeeds with the host address \<open>h\<close> if and only if every byte of the
  access is mapped, the j-th one to \<open>h + j\<close>. (An access that starts in a frame and runs into the gap
  behind it is outside of this statement: see the lemma below.)
\<close>

theorem translation_exact:
  assumes "wf_mapping mm" and "0 < n" and "in_one_frame mm (unat a) (unat n)"
  shows "mapping_map mm access a n = (Inr h :: 'e EbpfError + u64) \<longleftrightarrow>
    (\<forall>j < unat n. host_byte mm access (unat a + j) = Some (unat h + j))"
proof (cases "unat (vm_addr (regions mm ! (unat a div 2 ^ 32))) \<le> unat a")
  case True
  let ?r = "regions mm ! (unat a div 2 ^ 32)"
  let ?g = "gapped (vm_gap_shift ?r) (unat a - unat (vm_addr ?r))"
  have n: "0 < unat n" using assms(2) by (simp add: word_less_nat_alt)
  have "(\<forall>j < unat n. host_byte mm access (unat a + j) = Some (unat h + j)) \<longleftrightarrow>
    (1 \<le> unat a div 2 ^ 32 \<and> unat a div 2 ^ 32 < length (regions mm) \<and> (access = Load \<or> mr_is_writable ?r) \<and>
     even ((unat a - unat (vm_addr ?r)) div 2 ^ vm_gap_shift ?r)) \<and>
    ?g + unat n \<le> unat (mr_len ?r) \<and> unat h = unat (host_addr ?r) + ?g"
    by (rule byte_range [OF _ n]) (simp only: host_byte_offset [OF assms(3) _ True] Let_def conj_assoc)
  then show ?thesis unfolding mapping_map_exact [OF assms(1)] Let_def by (simp only: True simp_thms conj_assoc)
next
  case False
  have "host_byte mm access (unat a) = None" using False by (simp add: host_byte_def Let_def)
  moreover have "0 < unat n" using assms(2) by (simp add: word_less_nat_alt)
  ultimately have "\<not> (\<forall>j < unat n. host_byte mm access (unat a + j) = Some (unat h + j))"
    by (intro notI) (drule spec [of _ 0], simp)
  then show ?thesis unfolding mapping_map_exact [OF assms(1)] Let_def by (simp only: False simp_thms)
qed

definition gapped_mapping :: MemoryMapping where
  "gapped_mapping =
     \<lparr>regions = [new_readonly 8 0 0, new_readonly 0x10000 24 MM_PROGRAM_START,
                 new_writable_gapped 0x20000 0x4000 MM_STACK_START 0x1000], mm_config = default_config\<rparr>"

lemma gapped_mapping_wf: "wf_mapping gapped_mapping"
  by (auto simp: gapped_mapping_def wf_mapping_def wf_region_def region_constructors region_new_def)

lemma gap_shift: "leading_zeros 0x1000 = 51"
  by (simp add: leading_zeros_def upt_rec)

lemmas gapped_simps = gapped_mapping_def region_constructors region_new_def gap_shift MM_STACK_START_def Let_def

theorem translation_exact_witness:
  "mapping_map gapped_mapping Store 0x200002008 8 = (Inr 0x21008 :: unit EbpfError + u64) \<and>
   (\<forall>h. mapping_map gapped_mapping Store 0x200001008 8 \<noteq> (Inr h :: unit EbpfError + u64))"
proof -
  have fr: "in_one_frame gapped_mapping (unat (0x200002008 :: u64)) (unat (8 :: u64))"
    "in_one_frame gapped_mapping (unat (0x200001008 :: u64)) (unat (8 :: u64))"
    by (simp_all add: in_one_frame_def gapped_simps)
  have "host_byte gapped_mapping Store (unat (0x200002008 :: u64) + j) = Some (unat (0x21008 :: u64) + j)" if "j < 8" for j
    using host_byte_offset [OF fr(1), of j Store] that by (simp add: gapped_simps gapped_def)
  then have "mapping_map gapped_mapping Store 0x200002008 8 = (Inr 0x21008 :: unit EbpfError + u64)"
    using translation_exact [OF gapped_mapping_wf _ fr(1), of Store "0x21008", where 'e = unit] by simp
  moreover have "host_byte gapped_mapping Store (unat (0x200001008 :: u64) + 0) = None"
    using host_byte_offset [OF fr(2), of 0 Store] by (simp add: gapped_simps)
  then have "\<not> (\<forall>j < unat (8 :: u64). host_byte gapped_mapping Store (unat (0x200001008 :: u64) + j) = Some (unat h + j))" for h :: u64
    by (intro notI) (drule spec [of _ 0], simp)
  then have "mapping_map gapped_mapping Store 0x200001008 8 \<noteq> (Inr h :: unit EbpfError + u64)" for h
    using translation_exact [OF gapped_mapping_wf _ fr(2), of Store h, where 'e = unit] by simp
  ultimately show ?thesis by blast
qed

text \<open>
  An access that straddles the end of a frame is accepted, although its later bytes lie in a gap: eight
  bytes at \<open>0x200000ffc\<close> are mapped to \<open>0x20ffc\<close>. The fifth byte has no place in the layout, and the host
  byte that it gets is the first one of the next frame.
\<close>

lemma straddling_access_accepted:
  "mapping_map gapped_mapping Store 0x200000ffc 8 = (Inr 0x20ffc :: unit EbpfError + u64)"
  "host_byte gapped_mapping Store 0x200001000 = None"
  "host_byte gapped_mapping Store 0x200002000 = Some (0x20ffc + 4)"
  unfolding mapping_map_exact [OF gapped_mapping_wf]
  by (simp_all add: host_byte_def gapped_simps gapped_def)

end
