(* ===== verification/Level0.thy ===== *)
theory Level0
  imports Contract Rent
begin

text \<open>
  The contract \<open>level0\<close>: a personal wallet whose vault is a program-derived address
  (\<open>contracts/level0/src/lib.rs\<close>, \<open>processor.rs\<close>).
\<close>

datatype WalletInstruction = Initialize | Deposit u64 | Withdraw u64

record Wallet =
  wallet_authority :: Pubkey
  wallet_vault :: Pubkey

record level0_codec =
  decode_wallet_instruction :: "bytes \<Rightarrow> string + WalletInstruction"
  encode_wallet_instruction :: "WalletInstruction \<Rightarrow> bytes"
  decode_wallet :: "bytes \<Rightarrow> string + Wallet"
  encode_wallet :: "Wallet \<Rightarrow> bytes"

definition WALLET_LEN :: u64 where "WALLET_LEN = 32 + 32"

definition wallet_seeds :: "Pubkey \<Rightarrow> bytes list" where
  "wallet_seeds auth = [to_bytes auth]"

definition vault_seeds :: "Pubkey \<Rightarrow> bytes list" where
  "vault_seeds auth = [to_bytes auth, ascii ''VAULT'']"

definition get_wallet_address :: "crypto \<Rightarrow> Pubkey \<Rightarrow> Pubkey \<Rightarrow> Pubkey ProgramResult" where
  "get_wallet_address cr auth wallet_program =
     and_then (find_program_address cr (wallet_seeds auth) wallet_program) (\<lambda>(a, _). Ok a)"

definition get_vault_address :: "crypto \<Rightarrow> Pubkey \<Rightarrow> Pubkey \<Rightarrow> Pubkey ProgramResult" where
  "get_vault_address cr auth wallet_program =
     and_then (find_program_address cr (vault_seeds auth) wallet_program) (\<lambda>(a, _). Ok a)"


section \<open>Instructions\<close>

definition initialize_ix :: "crypto \<Rightarrow> level0_codec \<Rightarrow> Pubkey \<Rightarrow> Pubkey \<Rightarrow> Instruction ProgramResult" where
  "initialize_ix cr cd wallet_program authority_address =
     and_then (get_wallet_address cr authority_address wallet_program) (\<lambda>wallet_address.
     and_then (get_vault_address cr authority_address wallet_program) (\<lambda>vault_address.
       Ok \<lparr>instr_program_id = wallet_program,
           instr_accounts = [meta_new wallet_address False, meta_new vault_address False,
             meta_new authority_address True, meta_new_readonly rent_sysvar_id False,
             meta_new_readonly system_program_id False],
           instr_data = encode_wallet_instruction cd Initialize\<rparr>))"

definition deposit_ix :: "crypto \<Rightarrow> level0_codec \<Rightarrow> Pubkey \<Rightarrow> Pubkey \<Rightarrow> Pubkey \<Rightarrow> u64 \<Rightarrow> Instruction ProgramResult" where
  "deposit_ix cr cd wallet_program authority_address source amount =
     and_then (get_wallet_address cr authority_address wallet_program) (\<lambda>wallet_address.
     and_then (get_vault_address cr authority_address wallet_program) (\<lambda>vault_address.
       Ok \<lparr>instr_program_id = wallet_program,
           instr_accounts = [meta_new wallet_address False, meta_new vault_address False,
             meta_new source True, meta_new_readonly system_program_id False],
           instr_data = encode_wallet_instruction cd (Deposit amount)\<rparr>))"

definition withdraw_ix :: "crypto \<Rightarrow> level0_codec \<Rightarrow> Pubkey \<Rightarrow> Pubkey \<Rightarrow> Pubkey \<Rightarrow> u64 \<Rightarrow> Instruction ProgramResult" where
  "withdraw_ix cr cd wallet_program authority_address destination amount =
     and_then (get_wallet_address cr authority_address wallet_program) (\<lambda>wallet_address.
     and_then (get_vault_address cr authority_address wallet_program) (\<lambda>vault_address.
       Ok \<lparr>instr_program_id = wallet_program,
           instr_accounts = [meta_new wallet_address False, meta_new vault_address False,
             meta_new authority_address True, meta_new destination False,
             meta_new_readonly system_program_id False],
           instr_data = encode_wallet_instruction cd (Withdraw amount)\<rparr>))"


section \<open>Handlers\<close>

definition level0_initialize ::
  "crypto \<Rightarrow> system_codec \<Rightarrow> level0_codec \<Rightarrow> Pubkey \<Rightarrow> AccountInfo list \<Rightarrow> store \<Rightarrow> script" where
  "level0_initialize cr bc cd program_id infos st =
     attempt (next_account_info infos) (\<lambda>(wallet_info, it).
     attempt (next_account_info it) (\<lambda>(vault_info, it).
     attempt (next_account_info it) (\<lambda>(authority_info, it).
     attempt (next_account_info it) (\<lambda>(rent_info, it).
     attempt (find_program_address cr (wallet_seeds (key authority_info)) program_id) (\<lambda>(wallet_address, wallet_seed).
     attempt (find_program_address cr (vault_seeds (key authority_info)) program_id) (\<lambda>(vault_address, vault_seed).
     attempt (rent_from_account_info st rent_info) (\<lambda>rent.
     attempt (assert (key wallet_info = wallet_address)) (\<lambda>_.
     attempt (assert (info_data st wallet_info = [])) (\<lambda>_.
     invoke_signed
       (create_account_ix bc (key authority_info) wallet_address (minimum_balance rent (unat WALLET_LEN)) WALLET_LEN program_id)
       [authority_info, wallet_info] [wallet_seeds (key authority_info) @ [[wallet_seed]]] st (\<lambda>st.
     invoke_signed
       (create_account_ix bc (key authority_info) vault_address (minimum_balance rent 0) 0 program_id)
       [authority_info, vault_info] [vault_seeds (key authority_info) @ [[vault_seed]]] st (\<lambda>st.
     Finish (serialize_into
       (encode_wallet cd \<lparr>wallet_authority = key authority_info, wallet_vault = vault_address\<rparr>) wallet_info st))))))))))))"

definition level0_deposit :: "system_codec \<Rightarrow> level0_codec \<Rightarrow> AccountInfo list \<Rightarrow> u64 \<Rightarrow> store \<Rightarrow> script" where
  "level0_deposit bc cd infos amount st =
     attempt (next_account_info infos) (\<lambda>(wallet_info, it).
     attempt (next_account_info it) (\<lambda>(vault_info, it).
     attempt (next_account_info it) (\<lambda>(source_info, it).
     attempt (borsh_result (decode_wallet cd (info_data st wallet_info))) (\<lambda>wallet.
     attempt (assert (wallet_vault wallet = key vault_info)) (\<lambda>_.
     invoke (SystemProgram.transfer_ix bc (key source_info) (key vault_info) amount) [vault_info, source_info] st (\<lambda>st.
     Finish (Ok st)))))))"

definition level0_withdraw :: "level0_codec \<Rightarrow> AccountInfo list \<Rightarrow> u64 \<Rightarrow> store \<Rightarrow> script" where
  "level0_withdraw cd infos amount st =
     attempt (next_account_info infos) (\<lambda>(wallet_info, it).
     attempt (next_account_info it) (\<lambda>(vault_info, it).
     attempt (next_account_info it) (\<lambda>(authority_info, it).
     attempt (next_account_info it) (\<lambda>(destination_info, it).
     attempt (borsh_result (decode_wallet cd (info_data st wallet_info))) (\<lambda>wallet.
     attempt (assert (is_signer authority_info)) (\<lambda>_.
     attempt (assert (wallet_authority wallet = key authority_info)) (\<lambda>_.
     attempt (assert (wallet_vault wallet = key vault_info)) (\<lambda>_.
     if info_lamports st vault_info < amount then Finish (err ProgramError.InsufficientFunds)
     else Finish (Ok (credit destination_info amount (debit vault_info amount st)))))))))))"

definition level0_process_instruction ::
  "crypto \<Rightarrow> system_codec \<Rightarrow> level0_codec \<Rightarrow> Pubkey \<Rightarrow> AccountInfo list \<Rightarrow> bytes \<Rightarrow> store \<Rightarrow> script" where
  "level0_process_instruction cr bc cd program_id infos input st =
     attempt (borsh_result (decode_wallet_instruction cd input)) (\<lambda>instruction.
       case instruction of
         Initialize \<Rightarrow> level0_initialize cr bc cd program_id infos st
       | Deposit amount \<Rightarrow> level0_deposit bc cd infos amount st
       | Withdraw amount \<Rightarrow> level0_withdraw cd infos amount st)"


section \<open>Properties\<close>

lemma level0_withdraw_Inr:
  "run_script sys (level0_withdraw cd infos amount st) = Inr st' \<longleftrightarrow>
     (\<exists>wallet_info vault_info authority_info destination_info rest wallet.
        infos = wallet_info # vault_info # authority_info # destination_info # rest \<and>
        decode_wallet cd (info_data st wallet_info) = Inr wallet \<and> is_signer authority_info \<and>
        wallet_authority wallet = key authority_info \<and> wallet_vault wallet = key vault_info \<and>
        amount \<le> info_lamports st vault_info \<and>
        st' = credit destination_info amount (debit vault_info amount st))"
  by (auto simp: level0_withdraw_def run_script_attempt res_simps not_less split: prod.splits if_splits)

text \<open>
  C35: the vault of \<open>level0\<close> can be emptied by anyone, because \<open>withdraw\<close> never looks at the owner
  of the wallet account: whatever program owns an account, if its data reads as a wallet that names
  the attacker as authority and the victim's vault, then a withdrawal signed by the attacker
  succeeds and pays the amount out of the vault.
\<close>

theorem level0_forged_wallet:
  assumes "decode_wallet cd (data forged) = Inr \<lparr>wallet_authority = attacker, wallet_vault = vault\<rparr>"
    and "distinct [wallet, vault, destination]"
    and "amount \<le> lamports (st vault)"
  shows "\<exists>st'. run_script sys (level0_withdraw cd
      [\<lparr>key = wallet, is_signer = False, is_writable = w\<rparr>, \<lparr>key = vault, is_signer = False, is_writable = True\<rparr>,
       \<lparr>key = attacker, is_signer = True, is_writable = w'\<rparr>, \<lparr>key = destination, is_signer = False, is_writable = True\<rparr>]
      amount (st(wallet := forged\<lparr>owner := any_program\<rparr>))) = Inr st' \<and>
    lamports (st' vault) = lamports (st vault) - amount \<and>
    lamports (st' destination) = lamports (st destination) + amount"
  using assms by (auto simp: level0_withdraw_Inr debit_apply credit_apply)

theorem level0_forged_wallet_witness:
  "\<exists>st'. run_script (\<lambda>_ _ _ st. Inr st) (level0_withdraw
      \<lparr>decode_wallet_instruction = (\<lambda>_. Inr Initialize), encode_wallet_instruction = (\<lambda>_. []),
       decode_wallet = (\<lambda>_. Inr \<lparr>wallet_authority = 66, wallet_vault = 2\<rparr>), encode_wallet = (\<lambda>_. [])\<rparr>
      [\<lparr>key = 1, is_signer = False, is_writable = False\<rparr>, \<lparr>key = 2, is_signer = False, is_writable = True\<rparr>,
       \<lparr>key = 66, is_signer = True, is_writable = False\<rparr>, \<lparr>key = 3, is_signer = False, is_writable = True\<rparr>]
      5 (((\<lambda>_. default_account)(2 := default_account\<lparr>lamports := 7\<rparr>))(1 := default_account\<lparr>owner := 66\<rparr>))) = Inr st' \<and>
    lamports (st' 2) = 2 \<and> lamports (st' 3) = 5"
  using level0_forged_wallet [of "\<lparr>decode_wallet_instruction = (\<lambda>_. Inr Initialize), encode_wallet_instruction = (\<lambda>_. []),
       decode_wallet = (\<lambda>_. Inr \<lparr>wallet_authority = 66, wallet_vault = 2\<rparr>), encode_wallet = (\<lambda>_. [])\<rparr>"
      default_account 66 2 1 3 5 "(\<lambda>_. default_account)(2 := default_account\<lparr>lamports := 7\<rparr>)" "\<lambda>_ _ _ st. Inr st" False False 66]
  by (simp add: default_account_def)

end
