(* ===== verification/Level1.thy ===== *)
theory Level1
  imports Contract Rent
begin

text \<open>
  The contract \<open>level1\<close>: the wallet account holds the lamports itself
  (\<open>contracts/level1/src/lib.rs\<close>, \<open>processor.rs\<close>).
\<close>

datatype WalletInstruction = Initialize | Deposit u64 | Withdraw u64

record Wallet =
  wallet_authority :: Pubkey

record level1_codec =
  decode_wallet_instruction :: "bytes \<Rightarrow> string + WalletInstruction"
  encode_wallet_instruction :: "WalletInstruction \<Rightarrow> bytes"
  decode_wallet :: "bytes \<Rightarrow> string + Wallet"
  encode_wallet :: "Wallet \<Rightarrow> bytes"

definition WALLET_LEN :: u64 where "WALLET_LEN = 32"

definition wallet_seeds :: "Pubkey \<Rightarrow> bytes list" where
  "wallet_seeds auth = [to_bytes auth]"

definition get_wallet_address :: "crypto \<Rightarrow> Pubkey \<Rightarrow> Pubkey \<Rightarrow> Pubkey ProgramResult" where
  "get_wallet_address cr auth wallet_program =
     and_then (find_program_address cr (wallet_seeds auth) wallet_program) (\<lambda>(a, _). Ok a)"


section \<open>Instructions\<close>

definition initialize_ix :: "crypto \<Rightarrow> level1_codec \<Rightarrow> Pubkey \<Rightarrow> Pubkey \<Rightarrow> Instruction ProgramResult" where
  "initialize_ix cr cd wallet_program authority_address =
     and_then (get_wallet_address cr authority_address wallet_program) (\<lambda>wallet_address.
       Ok \<lparr>instr_program_id = wallet_program,
           instr_accounts = [meta_new wallet_address False, meta_new authority_address True,
             meta_new_readonly rent_sysvar_id False, meta_new_readonly system_program_id False],
           instr_data = encode_wallet_instruction cd Initialize\<rparr>)"

definition deposit_ix :: "crypto \<Rightarrow> level1_codec \<Rightarrow> Pubkey \<Rightarrow> Pubkey \<Rightarrow> Pubkey \<Rightarrow> u64 \<Rightarrow> Instruction ProgramResult" where
  "deposit_ix cr cd wallet_program authority_address source amount =
     and_then (get_wallet_address cr authority_address wallet_program) (\<lambda>wallet_address.
       Ok \<lparr>instr_program_id = wallet_program,
           instr_accounts = [meta_new wallet_address False, meta_new source True,
             meta_new_readonly system_program_id False],
           instr_data = encode_wallet_instruction cd (Deposit amount)\<rparr>)"

definition withdraw_ix :: "crypto \<Rightarrow> level1_codec \<Rightarrow> Pubkey \<Rightarrow> Pubkey \<Rightarrow> Pubkey \<Rightarrow> u64 \<Rightarrow> Instruction ProgramResult" where
  "withdraw_ix cr cd wallet_program authority_address destination amount =
     and_then (get_wallet_address cr authority_address wallet_program) (\<lambda>wallet_address.
       Ok \<lparr>instr_program_id = wallet_program,
           instr_accounts = [meta_new wallet_address False, meta_new authority_address True,
             meta_new destination False, meta_new_readonly system_program_id False],
           instr_data = encode_wallet_instruction cd (Withdraw amount)\<rparr>)"


section \<open>Handlers\<close>

definition level1_initialize ::
  "crypto \<Rightarrow> system_codec \<Rightarrow> level1_codec \<Rightarrow> Pubkey \<Rightarrow> AccountInfo list \<Rightarrow> store \<Rightarrow> script" where
  "level1_initialize cr bc cd program_id infos st =
     attempt (next_account_info infos) (\<lambda>(wallet_info, it).
     attempt (next_account_info it) (\<lambda>(authority_info, it).
     attempt (next_account_info it) (\<lambda>(rent_info, it).
     attempt (find_program_address cr (wallet_seeds (key authority_info)) program_id) (\<lambda>(wallet_address, wallet_seed).
     attempt (rent_from_account_info st rent_info) (\<lambda>rent.
     attempt (assert (key wallet_info = wallet_address)) (\<lambda>_.
     attempt (assert (info_data st wallet_info = [])) (\<lambda>_.
     attempt (assert (is_signer authority_info)) (\<lambda>_.
     invoke_signed
       (create_account_ix bc (key authority_info) wallet_address (minimum_balance rent (unat WALLET_LEN)) WALLET_LEN program_id)
       [authority_info, wallet_info] [wallet_seeds (key authority_info) @ [[wallet_seed]]] st (\<lambda>st.
     Finish (serialize_into (encode_wallet cd \<lparr>wallet_authority = key authority_info\<rparr>) wallet_info st))))))))))"

definition level1_deposit :: "system_codec \<Rightarrow> Pubkey \<Rightarrow> AccountInfo list \<Rightarrow> u64 \<Rightarrow> store \<Rightarrow> script" where
  "level1_deposit bc program_id infos amount st =
     attempt (next_account_info infos) (\<lambda>(wallet_info, it).
     attempt (next_account_info it) (\<lambda>(source_info, it).
     attempt (assert (info_owner st wallet_info = program_id)) (\<lambda>_.
     invoke (SystemProgram.transfer_ix bc (key source_info) (key wallet_info) amount) [wallet_info, source_info] st (\<lambda>st.
     Finish (Ok st)))))"

definition level1_withdraw :: "level1_codec \<Rightarrow> Pubkey \<Rightarrow> AccountInfo list \<Rightarrow> u64 \<Rightarrow> store \<Rightarrow> script" where
  "level1_withdraw cd program_id infos amount st =
     attempt (next_account_info infos) (\<lambda>(wallet_info, it).
     attempt (next_account_info it) (\<lambda>(authority_info, it).
     attempt (next_account_info it) (\<lambda>(destination_info, it).
     attempt (borsh_result (decode_wallet cd (info_data st wallet_info))) (\<lambda>wallet.
     attempt (assert (info_owner st wallet_info = program_id)) (\<lambda>_.
     attempt (assert (wallet_authority wallet = key authority_info)) (\<lambda>_.
     if info_lamports st wallet_info < amount then Finish (err ProgramError.InsufficientFunds)
     else
       let st = credit destination_info amount (debit wallet_info amount st)
       in Finish (serialize_into (encode_wallet cd wallet) wallet_info st)))))))"

definition level1_process_instruction ::
  "crypto \<Rightarrow> system_codec \<Rightarrow> level1_codec \<Rightarrow> Pubkey \<Rightarrow> AccountInfo list \<Rightarrow> bytes \<Rightarrow> store \<Rightarrow> script" where
  "level1_process_instruction cr bc cd program_id infos input st =
     attempt (borsh_result (decode_wallet_instruction cd input)) (\<lambda>instruction.
       case instruction of
         Initialize \<Rightarrow> level1_initialize cr bc cd program_id infos st
       | Deposit amount \<Rightarrow> level1_deposit bc program_id infos amount st
       | Withdraw amount \<Rightarrow> level1_withdraw cd program_id infos amount st)"


section \<open>Properties\<close>

lemma level1_withdraw_Inr:
  "run_script sys (level1_withdraw cd program_id infos amount st) = Inr st' \<longleftrightarrow>
     (\<exists>wallet_info authority_info destination_info rest wallet.
        infos = wallet_info # authority_info # destination_info # rest \<and>
        decode_wallet cd (info_data st wallet_info) = Inr wallet \<and>
        info_owner st wallet_info = program_id \<and> wallet_authority wallet = key authority_info \<and>
        amount \<le> info_lamports st wallet_info \<and>
        serialize_into (encode_wallet cd wallet) wallet_info
          (credit destination_info amount (debit wallet_info amount st)) = Inr st')"
  by (auto simp: level1_withdraw_def run_script_attempt Let_def and_then_Inr_iff next_account_info_Inr_iff
      assert_Inr_iff borsh_result_Inr not_less split: prod.splits if_splits)

text \<open>
  C36: a wallet of \<open>level1\<close> can be emptied without the signature of its authority: \<open>withdraw\<close> compares
  the key of the authority account with the wallet, but never asks whether it signed. A withdrawal
  that passes the authority as an account that did not sign succeeds and pays out the amount.
\<close>

theorem level1_withdraw_unsigned:
  assumes "decode_wallet cd (data (st wallet)) = Inr \<lparr>wallet_authority = victim\<rparr>"
    and "owner (st wallet) = program_id" and "wallet \<noteq> destination" and "amount \<le> lamports (st wallet)"
    and "length (encode_wallet cd \<lparr>wallet_authority = victim\<rparr>) \<le> length (data (st wallet))"
  shows "\<exists>st'. run_script sys (level1_withdraw cd program_id
      [\<lparr>key = wallet, is_signer = False, is_writable = True\<rparr>, \<lparr>key = victim, is_signer = False, is_writable = False\<rparr>,
       \<lparr>key = destination, is_signer = True, is_writable = True\<rparr>] amount st) = Inr st' \<and>
    lamports (st' wallet) = lamports (st wallet) - amount \<and>
    lamports (st' destination) = lamports (st destination) + amount"
  using assms by (auto simp: level1_withdraw_Inr serialize_into_Inr debit_apply credit_apply store_apply)

theorem level1_withdraw_unsigned_witness:
  "\<exists>st'. run_script (\<lambda>_ _ _ st. Inr st) (level1_withdraw
      \<lparr>decode_wallet_instruction = (\<lambda>_. Inr Initialize), encode_wallet_instruction = (\<lambda>_. []),
       decode_wallet = (\<lambda>_. Inr \<lparr>wallet_authority = 5\<rparr>), encode_wallet = (\<lambda>_. [])\<rparr> 77
      [\<lparr>key = 1, is_signer = False, is_writable = True\<rparr>, \<lparr>key = 5, is_signer = False, is_writable = False\<rparr>,
       \<lparr>key = 3, is_signer = True, is_writable = True\<rparr>]
      4 ((\<lambda>_. default_account)(1 := default_account\<lparr>lamports := 7, owner := 77\<rparr>))) = Inr st' \<and>
    lamports (st' 1) = 3 \<and> lamports (st' 3) = 4"
  using level1_withdraw_unsigned [of "\<lparr>decode_wallet_instruction = (\<lambda>_. Inr Initialize), encode_wallet_instruction = (\<lambda>_. []),
       decode_wallet = (\<lambda>_. Inr \<lparr>wallet_authority = 5\<rparr>), encode_wallet = (\<lambda>_. [])\<rparr>"
      "(\<lambda>_. default_account)(1 := default_account\<lparr>lamports := 7, owner := 77\<rparr>)" 1 5 77 3 4 "\<lambda>_ _ _ st. Inr st"]
  by (simp add: default_account_def)

end
