(* ===== verification/Level2.thy ===== *)
theory Level2
  imports Contract Rent
begin

text \<open>
  The contract \<open>level2\<close>: as \<open>level1\<close>, with the missing signature check and a reserve that has to
  stay in the wallet (\<open>contracts/level2/src/lib.rs\<close>, \<open>processor.rs\<close>). The arithmetic is that of a
  release build, which wraps.
\<close>

datatype WalletInstruction = Initialize | Deposit u64 | Withdraw u64

record Wallet =
  wallet_authority :: Pubkey

record level2_codec =
  decode_wallet_instruction :: "bytes \<Rightarrow> string + WalletInstruction"
  encode_wallet_instruction :: "WalletInstruction \<Rightarrow> bytes"
  decode_wallet :: "bytes \<Rightarrow> string + Wallet"
  encode_wallet :: "Wallet \<Rightarrow> bytes"

definition WALLET_LEN :: u64 where "WALLET_LEN = 32"

definition wallet_seeds :: "Pubkey \<Rightarrow> bytes list" where
  "wallet_seeds auth = [to_bytes auth]"

definition get_wallet_address :: "crypto \<Rightarrow> Pubkey \<Rightarrow> Pubkey \<Rightarrow> Pubkey ProgramResult" where
  "get_wallet_address cr auth wallet_program =
     and_then (find_program_address cr (wallet_seeds auth) wallet_program) (\<lambda>(a, _). Ok a)"


section \<open>Instructions\<close>

definition initialize_ix :: "crypto \<Rightarrow> level2_codec \<Rightarrow> Pubkey \<Rightarrow> Pubkey \<Rightarrow> Instruction ProgramResult" where
  "initialize_ix cr cd wallet_program authority_address =
     and_then (get_wallet_address cr authority_address wallet_program) (\<lambda>wallet_address.
       Ok \<lparr>instr_program_id = wallet_program,
           instr_accounts = [meta_new wallet_address False, meta_new authority_address True,
             meta_new_readonly rent_sysvar_id False, meta_new_readonly system_program_id False],
           instr_data = encode_wallet_instruction cd Initialize\<rparr>)"

definition deposit_ix :: "crypto \<Rightarrow> level2_codec \<Rightarrow> Pubkey \<Rightarrow> Pubkey \<Rightarrow> Pubkey \<Rightarrow> u64 \<Rightarrow> Instruction ProgramResult" where
  "deposit_ix cr cd wallet_program authority_address source amount =
     and_then (get_wallet_address cr authority_address wallet_program) (\<lambda>wallet_address.
       Ok \<lparr>instr_program_id = wallet_program,
           instr_accounts = [meta_new wallet_address False, meta_new source True,
             meta_new_readonly system_program_id False],
           instr_data = encode_wallet_instruction cd (Deposit amount)\<rparr>)"

definition withdraw_ix :: "crypto \<Rightarrow> level2_codec \<Rightarrow> Pubkey \<Rightarrow> Pubkey \<Rightarrow> Pubkey \<Rightarrow> u64 \<Rightarrow> Instruction ProgramResult" where
  "withdraw_ix cr cd wallet_program authority_address destination amount =
     and_then (get_wallet_address cr authority_address wallet_program) (\<lambda>wallet_address.
       Ok \<lparr>instr_program_id = wallet_program,
           instr_accounts = [meta_new wallet_address False, meta_new authority_address True,
             meta_new destination False, meta_new_readonly rent_sysvar_id False, meta_new_readonly system_program_id False],
           instr_data = encode_wallet_instruction cd (Withdraw amount)\<rparr>)"


section \<open>Handlers\<close>

definition level2_initialize ::
  "crypto \<Rightarrow> system_codec \<Rightarrow> level2_codec \<Rightarrow> Pubkey \<Rightarrow> AccountInfo list \<Rightarrow> store \<Rightarrow> script" where
  "level2_initialize cr bc cd program_id infos st =
     attempt (next_account_info infos) (\<lambda>(wallet_info, it).
     attempt (next_account_info it) (\<lambda>(authority_info, it).
     attempt (next_account_info it) (\<lambda>(rent_info, it).
     attempt (find_program_address cr (wallet_seeds (key authority_info)) program_id) (\<lambda>(wallet_address, wallet_seed).
     attempt (rent_from_account_info st rent_info) (\<lambda>rent.
     attempt (assert (key wallet_info = wallet_address)) (\<lambda>_.
     attempt (assert (info_data st wallet_info = [])) (\<lambda>_.
     attempt (assert (is_signer authority_info)) (\<lambda>_.
     invoke_signed
       (create_account_ix bc (key authority_info) wallet_address (minimum_balance rent (unat WALLET_LEN)) WALLET_LEN program_id)
       [authority_info, wallet_info] [wallet_seeds (key authority_info) @ [[wallet_seed]]] st (\<lambda>st.
     Finish (serialize_into (encode_wallet cd \<lparr>wallet_authority = key authority_info\<rparr>) wallet_info st))))))))))"

definition level2_deposit :: "system_codec \<Rightarrow> Pubkey \<Rightarrow> AccountInfo list \<Rightarrow> u64 \<Rightarrow> store \<Rightarrow> script" where
  "level2_deposit bc program_id infos amount st =
     attempt (next_account_info infos) (\<lambda>(wallet_info, it).
     attempt (next_account_info it) (\<lambda>(source_info, it).
     attempt (assert (info_owner st wallet_info = program_id)) (\<lambda>_.
     invoke (SystemProgram.transfer_ix bc (key source_info) (key wallet_info) amount) [wallet_info, source_info] st (\<lambda>st.
     Finish (Ok st)))))"

definition level2_withdraw :: "level2_codec \<Rightarrow> Pubkey \<Rightarrow> AccountInfo list \<Rightarrow> u64 \<Rightarrow> store \<Rightarrow> script" where
  "level2_withdraw cd program_id infos amount st =
     attempt (next_account_info infos) (\<lambda>(wallet_info, it).
     attempt (next_account_info it) (\<lambda>(authority_info, it).
     attempt (next_account_info it) (\<lambda>(destination_info, it).
     attempt (next_account_info it) (\<lambda>(rent_info, it).
     attempt (borsh_result (decode_wallet cd (info_data st wallet_info))) (\<lambda>wallet.
     attempt (rent_from_account_info st rent_info) (\<lambda>rent.
     attempt (assert (info_owner st wallet_info = program_id)) (\<lambda>_.
     attempt (assert (wallet_authority wallet = key authority_info)) (\<lambda>_.
     attempt (assert (is_signer authority_info)) (\<lambda>_.
     let min_balance = minimum_balance rent (unat WALLET_LEN)
     in if info_lamports st wallet_info < min_balance + amount then Finish (err ProgramError.InsufficientFunds)
        else
          let st = credit destination_info amount (debit wallet_info amount st)
          in Finish (serialize_into (encode_wallet cd wallet) wallet_info st))))))))))"

definition level2_process_instruction ::
  "crypto \<Rightarrow> system_codec \<Rightarrow> level2_codec \<Rightarrow> Pubkey \<Rightarrow> AccountInfo list \<Rightarrow> bytes \<Rightarrow> store \<Rightarrow> script" where
  "level2_process_instruction cr bc cd program_id infos input st =
     attempt (borsh_result (decode_wallet_instruction cd input)) (\<lambda>instruction.
       case instruction of
         Initialize \<Rightarrow> level2_initialize cr bc cd program_id infos st
       | Deposit amount \<Rightarrow> level2_deposit bc program_id infos amount st
       | Withdraw amount \<Rightarrow> level2_withdraw cd program_id infos amount st)"


section \<open>Properties\<close>

lemma level2_withdraw_Inr:
  "run_script sys (level2_withdraw cd program_id infos amount st) = Inr st' \<longleftrightarrow>
     (\<exists>wallet_info authority_info destination_info rent_info rest wallet rent.
        infos = wallet_info # authority_info # destination_info # rent_info # rest \<and>
        decode_wallet cd (info_data st wallet_info) = Inr wallet \<and>
        rent_from_account_info st rent_info = Inr rent \<and>
        info_owner st wallet_info = program_id \<and> wallet_authority wallet = key authority_info \<and>
        is_signer authority_info \<and>
        minimum_balance rent (unat WALLET_LEN) + amount \<le> info_lamports st wallet_info \<and>
        serialize_into (encode_wallet cd wallet) wallet_info
          (credit destination_info amount (debit wallet_info amount st)) = Inr st')"
  by (auto simp: level2_withdraw_def run_script_attempt Let_def and_then_Inr_iff next_account_info_Inr_iff
      assert_Inr_iff borsh_result_Inr not_less split: prod.splits if_splits)

definition level2_sample_codec :: level2_codec where
  "level2_sample_codec =
     \<lparr>decode_wallet_instruction = (\<lambda>_. Inr Initialize), encode_wallet_instruction = (\<lambda>_. []),
      decode_wallet = (\<lambda>bs. Inr \<lparr>wallet_authority = new_from_array (take 32 bs)\<rparr>),
      encode_wallet = (\<lambda>w. to_bytes (wallet_authority w))\<rparr>"

definition level2_sample_store :: store where
  "level2_sample_store = (\<lambda>_. default_account)
     (1 := default_account\<lparr>lamports := 2000000, data := to_bytes 5, owner := 77\<rparr>,
      2 := default_account\<lparr>lamports := 3000000, data := to_bytes 6, owner := 77\<rparr>,
      rent_sysvar_id := default_account\<lparr>data := rent_serialize rent_default\<rparr>)"

definition level2_sample_infos :: "AccountInfo list" where
  "level2_sample_infos =
     [\<lparr>key = 1, is_signer = False, is_writable = True\<rparr>, \<lparr>key = 5, is_signer = True, is_writable = False\<rparr>,
      \<lparr>key = 2, is_signer = False, is_writable = True\<rparr>, \<lparr>key = rent_sysvar_id, is_signer = False, is_writable = False\<rparr>]"

lemma level2_sample_reserve: "unat (minimum_balance rent_default (unat WALLET_LEN)) = 1113600"
  by (subst minimum_balance_two_years) (simp_all add: rent_default_def WALLET_LEN_def)

lemma level2_sample_rent:
  "rent_from_account_info level2_sample_store \<lparr>key = rent_sysvar_id, is_signer = False, is_writable = False\<rparr> = Inr rent_default"
  using rent_deserialize_serialize [of rent_default "[]"] by (simp add: rent_from_account_info_Inr level2_sample_store_def)

lemmas level2_sample_defs = level2_sample_codec_def level2_sample_store_def level2_sample_infos_def default_account_def

text \<open>
  C33: as long as the reserve plus the amount fits into 64 bits, a withdrawal of \<open>level2\<close> is sound: it
  was signed by the authority of a wallet of the program, the wallet keeps its reserve, and the
  wallet and the destination change by exactly the amount.
\<close>

theorem level2_withdraw_sound:
  assumes "run_script sys (level2_withdraw cd program_id
      (wallet_info # authority_info # destination_info # rent_info # rest) amount st) = Inr st'"
    and "rent_from_account_info st rent_info = Inr rent"
    and "unat (minimum_balance rent (unat WALLET_LEN)) + unat amount < 2 ^ 64"
    and "key wallet_info \<noteq> key destination_info"
  shows "is_signer authority_info \<and> info_owner st wallet_info = program_id \<and>
    (\<exists>wallet. decode_wallet cd (info_data st wallet_info) = Inr wallet \<and> wallet_authority wallet = key authority_info) \<and>
    unat (info_lamports st' wallet_info) + unat amount = unat (info_lamports st wallet_info) \<and>
    unat (minimum_balance rent (unat WALLET_LEN)) \<le> unat (info_lamports st' wallet_info) \<and>
    info_lamports st' destination_info = info_lamports st destination_info + amount"
proof -
  from assms(1,2) obtain wallet where w: "decode_wallet cd (info_data st wallet_info) = Inr wallet"
      "info_owner st wallet_info = program_id" "wallet_authority wallet = key authority_info" "is_signer authority_info"
    and le: "minimum_balance rent (unat WALLET_LEN) + amount \<le> info_lamports st wallet_info"
    and s: "serialize_into (encode_wallet cd wallet) wallet_info
      (credit destination_info amount (debit wallet_info amount st)) = Inr st'"
    by (auto simp: level2_withdraw_Inr)
  have "unat (minimum_balance rent (unat WALLET_LEN)) + unat amount \<le> unat (info_lamports st wallet_info)"
    using le assms(3) by (simp add: word_le_nat_alt unat_add_no_overflow)
  moreover have "info_lamports st' wallet_info = info_lamports st wallet_info - amount"
    "info_lamports st' destination_info = info_lamports st destination_info + amount"
    using s assms(4) by (auto simp: serialize_into_Inr store_apply debit_apply credit_apply)
  moreover from calculation(1) have "unat (info_lamports st wallet_info - amount) = unat (info_lamports st wallet_info) - unat amount"
    by (intro unat_sub) (simp add: word_le_nat_alt)
  ultimately show ?thesis using w by auto
qed

lemma level2_sample_runs:
  "\<exists>st'. run_script (\<lambda>_ _ _ st. Inr st)
     (level2_withdraw level2_sample_codec 77 level2_sample_infos 500000 level2_sample_store) = Inr st'"
proof -
  have "minimum_balance rent_default (unat WALLET_LEN) + 500000 \<le> 2000000"
    by (simp add: word_le_nat_alt unat_add_no_overflow level2_sample_reserve)
  then show ?thesis
    using level2_sample_rent
    by (simp add: level2_withdraw_Inr level2_sample_infos_def serialize_into_Inr)
      (simp add: level2_sample_defs rent_sysvar_id_def debit_apply credit_apply)
qed

theorem level2_withdraw_sound_witness:
  "\<exists>st'. run_script (\<lambda>_ _ _ st. Inr st)
     (level2_withdraw level2_sample_codec 77 level2_sample_infos 500000 level2_sample_store) = Inr st' \<and>
     unat (lamports (st' 1)) + 500000 = 2000000 \<and> 1113600 \<le> unat (lamports (st' 1))"
proof -
  obtain st' where r: "run_script (\<lambda>_ _ _ st. Inr st)
      (level2_withdraw level2_sample_codec 77 level2_sample_infos 500000 level2_sample_store) = Inr st'"
    using level2_sample_runs by (elim exE)
  have "lamports (level2_sample_store 1) = 2000000"
    by (simp add: level2_sample_store_def rent_sysvar_id_def)
  with level2_withdraw_sound [OF r [unfolded level2_sample_infos_def] level2_sample_rent] r
  show ?thesis by (simp add: level2_sample_reserve)
qed

text \<open>
  C37: the check of \<open>level2\<close> can be wrapped around. Let the attacker's own wallet hold its reserve, and
  let \<open>x\<close> be a sum of at most the reserve that the victim's wallet has. Withdrawing the two's
  complement of \<open>x\<close> from the attacker's wallet with the victim's wallet as the destination, which
  signs nothing, passes the check: it takes \<open>x\<close> out of the victim's wallet and adds it to the attacker's.
\<close>

theorem level2_withdraw_wraps:
  assumes "decode_wallet cd (data (st mine)) = Inr \<lparr>wallet_authority = attacker\<rparr>"
    and "owner (st mine) = program_id" and "distinct [mine, victim]"
    and "rent_from_account_info st \<lparr>key = rent_key, is_signer = False, is_writable = False\<rparr> = Inr rent"
    and "length (encode_wallet cd \<lparr>wallet_authority = attacker\<rparr>) \<le> length (data (st mine))"
    and "x \<le> minimum_balance rent (unat WALLET_LEN)" and "minimum_balance rent (unat WALLET_LEN) \<le> lamports (st mine)"
    and "x \<le> lamports (st victim)"
  shows "\<exists>st'. run_script sys (level2_withdraw cd program_id
      [\<lparr>key = mine, is_signer = False, is_writable = True\<rparr>, \<lparr>key = attacker, is_signer = True, is_writable = False\<rparr>,
       \<lparr>key = victim, is_signer = False, is_writable = True\<rparr>, \<lparr>key = rent_key, is_signer = False, is_writable = False\<rparr>]
      (- x) st) = Inr st' \<and>
    lamports (st' mine) = lamports (st mine) + x \<and> unat (lamports (st' victim)) = unat (lamports (st victim)) - unat x"
proof -
  have "minimum_balance rent (unat WALLET_LEN) - x \<le> lamports (st mine)"
    using assms(6,7) by (simp add: word_le_nat_alt unat_sub)
  moreover have "unat (lamports (st victim) - x) = unat (lamports (st victim)) - unat x"
    using assms(8) by (intro unat_sub) simp
  ultimately show ?thesis
    using assms(1-5) by (auto simp: level2_withdraw_Inr serialize_into_Inr store_apply debit_apply credit_apply)
qed

theorem level2_withdraw_wraps_witness:
  "\<exists>st'. run_script (\<lambda>_ _ _ st. Inr st)
     (level2_withdraw level2_sample_codec 77 level2_sample_infos (- 1000000) level2_sample_store) = Inr st' \<and>
     lamports (st' 1) = 3000000 \<and> unat (lamports (st' 2)) = 2000000"
proof -
  have reserve: "1000000 \<le> minimum_balance rent_default (unat WALLET_LEN)"
      "minimum_balance rent_default (unat WALLET_LEN) \<le> 2000000"
    by (simp_all add: word_le_nat_alt level2_sample_reserve)
  have accounts: "level2_sample_store 1 = default_account\<lparr>lamports := 2000000, data := to_bytes 5, owner := 77\<rparr>"
      "level2_sample_store 2 = default_account\<lparr>lamports := 3000000, data := to_bytes 6, owner := 77\<rparr>"
    by (simp_all add: level2_sample_store_def rent_sysvar_id_def)
  show ?thesis
    using level2_withdraw_wraps [of level2_sample_codec level2_sample_store 1 5 77 2 rent_sysvar_id rent_default 1000000
        "\<lambda>_ _ _ st. Inr st"] level2_sample_rent reserve accounts
    by (simp add: level2_sample_infos_def level2_sample_codec_def)
qed

end
