(* ===== verification/Level3.thy ===== *)
theory Level3
  imports Contract Rent
begin

text \<open>
  The contract \<open>level3\<close>: tip pools that share a vault (\<open>contracts/level3/src/lib.rs\<close>,
  \<open>processor.rs\<close>). A binary64 number is its bit pattern.
\<close>

datatype TipInstruction =
    Initialize u8 f64 Pubkey
  | CreatePool
  | Tip u64
  | Withdraw u64

record TipPool =
  withdraw_authority :: Pubkey
  pool_value :: u64
  pool_vault :: Pubkey

definition TIP_POOL_LEN :: u64 where "TIP_POOL_LEN = 32 + 8 + 32"

record Vault =
  creator :: Pubkey
  vault_fee :: f64
  fee_recipient :: Pubkey
  vault_seed :: u8

definition VAULT_LEN :: u64 where "VAULT_LEN = 32 + 8 + 32 + 1"

text \<open>borsh refuses to write a \<open>f64\<close> that is not a number, so the encoders that write one may fail.\<close>

record level3_codec =
  decode_tip_instruction :: "bytes \<Rightarrow> string + TipInstruction"
  encode_tip_instruction :: "TipInstruction \<Rightarrow> bytes option"
  decode_pool :: "bytes \<Rightarrow> string + TipPool"
  encode_pool :: "TipPool \<Rightarrow> bytes"
  encode_vault :: "Vault \<Rightarrow> bytes option"


section \<open>Instructions\<close>

definition initialize_ix ::
  "level3_codec \<Rightarrow> Pubkey \<Rightarrow> Pubkey \<Rightarrow> Pubkey \<Rightarrow> u8 \<Rightarrow> f64 \<Rightarrow> Pubkey \<Rightarrow> Instruction ProgramResult" where
  "initialize_ix cd tip_program vault_address initializer_address seed fee_bits recipient =
     and_then (ok_or (encode_tip_instruction cd (Initialize seed fee_bits recipient)) Panic) (\<lambda>bytes. Ok
     \<lparr>instr_program_id = tip_program,
      instr_accounts = [meta_new vault_address False, meta_new initializer_address True,
        meta_new_readonly rent_sysvar_id False, meta_new_readonly system_program_id False],
      instr_data = bytes\<rparr>)"

definition create_pool_ix :: "level3_codec \<Rightarrow> Pubkey \<Rightarrow> Pubkey \<Rightarrow> Pubkey \<Rightarrow> Pubkey \<Rightarrow> Instruction ProgramResult" where
  "create_pool_ix cd tip_program vault_address authority_address pool_address =
     and_then (ok_or (encode_tip_instruction cd CreatePool) Panic) (\<lambda>bytes. Ok
     \<lparr>instr_program_id = tip_program,
      instr_accounts = [meta_new vault_address False, meta_new_readonly authority_address True,
        meta_new pool_address False],
      instr_data = bytes\<rparr>)"

definition tip_ix :: "level3_codec \<Rightarrow> Pubkey \<Rightarrow> Pubkey \<Rightarrow> Pubkey \<Rightarrow> Pubkey \<Rightarrow> u64 \<Rightarrow> Instruction ProgramResult" where
  "tip_ix cd tip_program vault_address pool_address source amount =
     and_then (ok_or (encode_tip_instruction cd (Tip amount)) Panic) (\<lambda>bytes. Ok
     \<lparr>instr_program_id = tip_program,
      instr_accounts = [meta_new vault_address False, meta_new pool_address False,
        meta_new source True, meta_new_readonly system_program_id False],
      instr_data = bytes\<rparr>)"

definition withdraw_ix :: "level3_codec \<Rightarrow> Pubkey \<Rightarrow> Pubkey \<Rightarrow> Pubkey \<Rightarrow> Pubkey \<Rightarrow> u64 \<Rightarrow> Instruction ProgramResult" where
  "withdraw_ix cd tip_program vault_address pool_address authority_address amount =
     and_then (ok_or (encode_tip_instruction cd (Withdraw amount)) Panic) (\<lambda>bytes. Ok
     \<lparr>instr_program_id = tip_program,
      instr_accounts = [meta_new vault_address False, meta_new pool_address False,
        meta_new authority_address True, meta_new_readonly system_program_id False],
      instr_data = bytes\<rparr>)"


section \<open>Handlers\<close>

definition level3_initialize ::
  "crypto \<Rightarrow> system_codec \<Rightarrow> level3_codec \<Rightarrow> Pubkey \<Rightarrow> AccountInfo list \<Rightarrow> u8 \<Rightarrow> f64 \<Rightarrow> Pubkey \<Rightarrow> store \<Rightarrow> script" where
  "level3_initialize cr bc cd program_id infos seed fee_bits recipient st =
     attempt (next_account_info infos) (\<lambda>(vault_info, it).
     attempt (next_account_info it) (\<lambda>(initializer_info, it).
     attempt (next_account_info it) (\<lambda>(rent_info, it).
     attempt (rent_from_account_info st rent_info) (\<lambda>rent.
     attempt (map_err (\<lambda>_. Panic) (create_program_address cr [[seed]] program_id)) (\<lambda>vault_address.
     attempt (assert (key vault_info = vault_address)) (\<lambda>_.
     attempt (assert (info_data st vault_info = [])) (\<lambda>_.
     attempt (assert (is_signer initializer_info)) (\<lambda>_.
     invoke_signed
       (create_account_ix bc (key initializer_info) vault_address (minimum_balance rent (unat VAULT_LEN)) VAULT_LEN program_id)
       [initializer_info, vault_info] [[[seed]]] st (\<lambda>st.
     attempt (ok_or (encode_vault cd
       \<lparr>creator = key initializer_info, vault_fee = fee_bits, fee_recipient = recipient, vault_seed = seed\<rparr>) Panic) (\<lambda>bytes.
     Finish (serialize_into bytes vault_info st)))))))))))"

definition level3_create_pool :: "level3_codec \<Rightarrow> Pubkey \<Rightarrow> AccountInfo list \<Rightarrow> store \<Rightarrow> script" where
  "level3_create_pool cd program_id infos st =
     attempt (next_account_info infos) (\<lambda>(vault_info, it).
     attempt (next_account_info it) (\<lambda>(withdraw_authority_info, it).
     attempt (next_account_info it) (\<lambda>(pool_info, it).
     attempt (assert (info_owner st vault_info = program_id)) (\<lambda>_.
     attempt (assert (is_signer withdraw_authority_info)) (\<lambda>_.
     attempt (assert (info_owner st pool_info = program_id)) (\<lambda>_.
     if list_ex (\<lambda>b. b \<noteq> 0) (info_data st pool_info) then Finish (err ProgramError.AccountAlreadyInitialized)
     else Finish (serialize_into (encode_pool cd
       \<lparr>withdraw_authority = key withdraw_authority_info, pool_value = 0, pool_vault = key vault_info\<rparr>) pool_info st)))))))"

definition level3_tip :: "system_codec \<Rightarrow> level3_codec \<Rightarrow> Pubkey \<Rightarrow> AccountInfo list \<Rightarrow> u64 \<Rightarrow> store \<Rightarrow> script" where
  "level3_tip bc cd program_id infos amount st =
     attempt (next_account_info infos) (\<lambda>(vault_info, it).
     attempt (next_account_info it) (\<lambda>(pool_info, it).
     attempt (next_account_info it) (\<lambda>(source_info, it).
     attempt (borsh_result (decode_pool cd (info_data st pool_info))) (\<lambda>pool.
     attempt (assert (info_owner st vault_info = program_id)) (\<lambda>_.
     attempt (assert (info_owner st pool_info = program_id)) (\<lambda>_.
     attempt (assert (pool_vault pool = key vault_info)) (\<lambda>_.
     invoke (SystemProgram.transfer_ix bc (key source_info) (key vault_info) amount) [vault_info, source_info] st (\<lambda>st.
     attempt (ok_or (checked_add (pool_value pool) amount) (Err ProgramError.InvalidArgument)) (\<lambda>v.
     Finish (serialize_into (encode_pool cd (pool\<lparr>pool_value := v\<rparr>)) pool_info st))))))))))"

definition level3_withdraw :: "level3_codec \<Rightarrow> Pubkey \<Rightarrow> AccountInfo list \<Rightarrow> u64 \<Rightarrow> store \<Rightarrow> script" where
  "level3_withdraw cd program_id infos amount st =
     attempt (next_account_info infos) (\<lambda>(vault_info, it).
     attempt (next_account_info it) (\<lambda>(pool_info, it).
     attempt (next_account_info it) (\<lambda>(withdraw_authority_info, it).
     attempt (borsh_result (decode_pool cd (info_data st pool_info))) (\<lambda>pool.
     attempt (assert (info_owner st vault_info = program_id)) (\<lambda>_.
     attempt (assert (info_owner st pool_info = program_id)) (\<lambda>_.
     attempt (assert (is_signer withdraw_authority_info)) (\<lambda>_.
     attempt (assert (pool_vault pool = key vault_info)) (\<lambda>_.
     attempt (assert (key withdraw_authority_info = withdraw_authority pool)) (\<lambda>_.
     attempt (ok_or (checked_sub (pool_value pool) amount) (Err ProgramError.InvalidArgument)) (\<lambda>v.
     let st = credit withdraw_authority_info amount (debit vault_info amount st)
     in Finish (serialize_into (encode_pool cd (pool\<lparr>pool_value := v\<rparr>)) pool_info st)))))))))))"

definition level3_process_instruction ::
  "crypto \<Rightarrow> system_codec \<Rightarrow> level3_codec \<Rightarrow> Pubkey \<Rightarrow> AccountInfo list \<Rightarrow> bytes \<Rightarrow> store \<Rightarrow> script" where
  "level3_process_instruction cr bc cd program_id infos input st =
     attempt (borsh_result (decode_tip_instruction cd input)) (\<lambda>instruction.
       case instruction of
         Initialize seed fee_bits recipient \<Rightarrow> level3_initialize cr bc cd program_id infos seed fee_bits recipient st
       | Tip amount \<Rightarrow> level3_tip bc cd program_id infos amount st
       | Withdraw amount \<Rightarrow> level3_withdraw cd program_id infos amount st
       | CreatePool \<Rightarrow> level3_create_pool cd program_id infos st)"


section \<open>Properties\<close>

text \<open>What the contract relies on of borsh: fields are written in declaration order, without tags.\<close>

definition pool_bytes :: "Pubkey \<Rightarrow> u64 \<Rightarrow> Pubkey \<Rightarrow> bytes" where
  "pool_bytes a v k = to_bytes a @ u64_to_le_bytes v @ to_bytes k"

definition tip_layout :: "level3_codec \<Rightarrow> bool" where
  "tip_layout cd \<longleftrightarrow>
     (\<forall>p. encode_pool cd p = pool_bytes (withdraw_authority p) (pool_value p) (pool_vault p)) \<and>
     (\<forall>a v k rest. decode_pool cd (pool_bytes a v k @ rest) =
        Inr \<lparr>withdraw_authority = a, pool_value = v, pool_vault = k\<rparr>) \<and>
     (\<forall>v bs. encode_vault cd v = Some bs \<longrightarrow>
        bs = pool_bytes (creator v) (vault_fee v) (fee_recipient v) @ [vault_seed v])"

lemma tip_layout_vault:
  "tip_layout cd \<Longrightarrow> encode_vault cd v = Some bs \<Longrightarrow>
     bs = pool_bytes (creator v) (vault_fee v) (fee_recipient v) @ [vault_seed v]"
  unfolding tip_layout_def by blast

lemma length_pool_bytes [simp]: "length (pool_bytes a v k) = 72"
  by (simp add: pool_bytes_def)

lemma level3_withdraw_Inr:
  "run_script sys (level3_withdraw cd program_id infos amount st) = Inr st' \<longleftrightarrow>
     (\<exists>vault_info pool_info authority_info rest pool v.
        infos = vault_info # pool_info # authority_info # rest \<and>
        decode_pool cd (info_data st pool_info) = Inr pool \<and>
        info_owner st vault_info = program_id \<and> info_owner st pool_info = program_id \<and>
        is_signer authority_info \<and> pool_vault pool = key vault_info \<and>
        key authority_info = withdraw_authority pool \<and> checked_sub (pool_value pool) amount = Some v \<and>
        serialize_into (encode_pool cd (pool\<lparr>pool_value := v\<rparr>)) pool_info
          (credit authority_info amount (debit vault_info amount st)) = Inr st')"
  by (auto simp: level3_withdraw_def run_script_attempt Let_def res_simps split: prod.splits)

definition level3_sample_codec :: level3_codec where
  "level3_sample_codec =
     \<lparr>decode_tip_instruction = (\<lambda>_. Inr CreatePool), encode_tip_instruction = (\<lambda>_. None),
      decode_pool = (\<lambda>bs. Inr \<lparr>withdraw_authority = new_from_array (take 32 bs),
        pool_value = u64_from_le_bytes (take 8 (drop 32 bs)), pool_vault = new_from_array (take 32 (drop 40 bs))\<rparr>),
      encode_pool = (\<lambda>p. pool_bytes (withdraw_authority p) (pool_value p) (pool_vault p)),
      encode_vault = (\<lambda>v. Some (pool_bytes (creator v) (vault_fee v) (fee_recipient v) @ [vault_seed v]))\<rparr>"

lemma level3_sample_layout: "tip_layout level3_sample_codec"
  by (simp add: tip_layout_def level3_sample_codec_def pool_bytes_def)

definition level3_sample_store :: store where
  "level3_sample_store = (\<lambda>_. default_account)
     (1 := default_account\<lparr>lamports := 900, owner := 77\<rparr>,
      2 := default_account\<lparr>lamports := 10, data := pool_bytes 5 100 1 @ [9], owner := 77\<rparr>)"

definition level3_sample_infos :: "AccountInfo list" where
  "level3_sample_infos =
     [\<lparr>key = 1, is_signer = False, is_writable = True\<rparr>, \<lparr>key = 2, is_signer = False, is_writable = True\<rparr>,
      \<lparr>key = 5, is_signer = True, is_writable = True\<rparr>]"

text \<open>
  C34: a withdrawal of \<open>level3\<close> that succeeds was signed by the withdraw authority of the pool, takes
  no more than the pool's value, lowers that value by exactly the amount, and moves the amount from
  the pool's vault to the authority; the bytes after the pool are kept.
\<close>

theorem level3_withdraw_sound:
  assumes "tip_layout cd"
    and "run_script sys (level3_withdraw cd program_id (vault_info # pool_info # authority_info # rest) amount st) = Inr st'"
    and "info_data st pool_info = pool_bytes a v k @ tail" and "key vault_info \<noteq> key authority_info"
  shows "is_signer authority_info \<and> key authority_info = a \<and> key vault_info = k \<and>
    info_owner st pool_info = program_id \<and> info_owner st vault_info = program_id \<and> amount \<le> v \<and>
    info_data st' pool_info = pool_bytes a (v - amount) k @ tail \<and>
    info_lamports st' vault_info = info_lamports st vault_info - amount \<and>
    info_lamports st' authority_info = info_lamports st authority_info + amount"
  using assms
  by (auto simp: level3_withdraw_Inr tip_layout_def checked_sub_def serialize_into_Inr store_apply
      debit_apply credit_apply split: if_splits)

lemma level3_sample_runs:
  "\<exists>st'. run_script (\<lambda>_ _ _ st. Inr st)
     (level3_withdraw level3_sample_codec 77 level3_sample_infos 40 level3_sample_store) = Inr st'"
  using level3_sample_layout
  by (simp add: level3_withdraw_Inr level3_sample_infos_def level3_sample_store_def tip_layout_def
      checked_sub_def serialize_into_Inr debit_apply credit_apply default_account_def)

theorem level3_withdraw_sound_witness:
  "\<exists>st'. run_script (\<lambda>_ _ _ st. Inr st)
     (level3_withdraw level3_sample_codec 77 level3_sample_infos 40 level3_sample_store) = Inr st' \<and>
     data (st' 2) = pool_bytes 5 60 1 @ [9] \<and> lamports (st' 1) = 860 \<and> lamports (st' 5) = 40"
proof -
  obtain st' where r: "run_script (\<lambda>_ _ _ st. Inr st)
      (level3_withdraw level3_sample_codec 77 level3_sample_infos 40 level3_sample_store) = Inr st'"
    using level3_sample_runs by (elim exE)
  show ?thesis
    using level3_withdraw_sound [OF level3_sample_layout r [unfolded level3_sample_infos_def], of 5 100 1 "[9]"] r
    by (simp add: level3_sample_store_def default_account_def)
qed

text \<open>
  C38: \<open>level3\<close> confuses its account types. A vault and a pool are both accounts of the program without
  a tag, and a vault that an attacker initialised reads as a pool: its creator as the withdraw
  authority, its fee as the value and its fee recipient as the vault. With the bits of the fee at
  least the amount and the victim's vault as the fee recipient, a withdrawal signed by the attacker
  succeeds and pays the amount out of the victim's vault, although no pool was ever tipped.
\<close>

theorem level3_vault_as_pool:
  assumes "tip_layout cd"
    and "encode_vault cd \<lparr>creator = attacker, vault_fee = fee_bits, fee_recipient = victim_vault, vault_seed = seed\<rparr> =
      Some (data (st own_vault))"
    and "owner (st own_vault) = program_id" and "owner (st victim_vault) = program_id"
    and "distinct [own_vault, victim_vault, attacker]" and "amount \<le> fee_bits"
  shows "\<exists>st'. run_script sys (level3_withdraw cd program_id
      [\<lparr>key = victim_vault, is_signer = False, is_writable = True\<rparr>, \<lparr>key = own_vault, is_signer = False, is_writable = True\<rparr>,
       \<lparr>key = attacker, is_signer = True, is_writable = True\<rparr>] amount st) = Inr st' \<and>
    lamports (st' victim_vault) = lamports (st victim_vault) - amount \<and>
    lamports (st' attacker) = lamports (st attacker) + amount"
proof -
  have "data (st own_vault) = pool_bytes attacker fee_bits victim_vault @ [seed]"
    using tip_layout_vault [OF assms(1,2)] by simp
  then show ?thesis
    using assms
    by (auto simp: level3_withdraw_Inr tip_layout_def checked_sub_def serialize_into_Inr store_apply
        debit_apply credit_apply)
qed

theorem level3_vault_as_pool_witness:
  "\<exists>st'. run_script (\<lambda>_ _ _ st. Inr st)
     (level3_withdraw level3_sample_codec 77 level3_sample_infos 100 level3_sample_store) = Inr st' \<and>
     lamports (st' 1) = 800 \<and> lamports (st' 5) = 100"
  using level3_vault_as_pool [OF level3_sample_layout, of 5 100 1 9 level3_sample_store 2 77 100 "\<lambda>_ _ _ st. Inr st"]
  by (simp add: level3_sample_infos_def level3_sample_store_def default_account_def level3_sample_codec_def)

end
