(* ===== verification/Level4.thy ===== *)
theory Level4
  imports Contract Rent TokenInstruction
begin

text \<open>
  The contract \<open>level4\<close>: a wallet for tokens (\<open>contracts/level4/src/lib.rs\<close>, \<open>processor.rs\<close>), with
  the two builders it uses of the vendored \<open>spl-token\<close> 3.1.0, which do not check the program they
  are given.
\<close>

datatype WalletInstruction = Initialize | Deposit u64 | Withdraw u64

record level4_codec =
  decode_wallet_instruction :: "bytes \<Rightarrow> string + WalletInstruction"
  encode_wallet_instruction :: "WalletInstruction \<Rightarrow> bytes"

definition get_wallet_address :: "crypto \<Rightarrow> Pubkey \<Rightarrow> Pubkey \<Rightarrow> (Pubkey \<times> u8) ProgramResult" where
  "get_wallet_address cr wallet_owner wallet_program = find_program_address cr [to_bytes wallet_owner] wallet_program"

definition get_authority :: "crypto \<Rightarrow> Pubkey \<Rightarrow> (Pubkey \<times> u8) ProgramResult" where
  "get_authority cr wallet_program = find_program_address cr [] wallet_program"


section \<open>Instructions\<close>

definition initialize_ix :: "crypto \<Rightarrow> level4_codec \<Rightarrow> Pubkey \<Rightarrow> Pubkey \<Rightarrow> Pubkey \<Rightarrow> Instruction ProgramResult" where
  "initialize_ix cr cd wallet_program owner_address mint_address =
     and_then (get_wallet_address cr owner_address wallet_program) (\<lambda>(wallet_address, _).
     and_then (get_authority cr wallet_program) (\<lambda>(authority_address, _).
       Ok \<lparr>instr_program_id = wallet_program,
           instr_accounts = [meta_new wallet_address False, meta_new_readonly authority_address False,
             meta_new owner_address True, meta_new mint_address False,
             meta_new_readonly rent_sysvar_id False, meta_new_readonly spl_token_id False,
             meta_new_readonly system_program_id False],
           instr_data = encode_wallet_instruction cd Initialize\<rparr>))"

definition deposit_ix ::
  "crypto \<Rightarrow> level4_codec \<Rightarrow> Pubkey \<Rightarrow> Pubkey \<Rightarrow> Pubkey \<Rightarrow> Pubkey \<Rightarrow> Pubkey \<Rightarrow> u64 \<Rightarrow> Instruction ProgramResult" where
  "deposit_ix cr cd wallet_program owner_address source source_authority mint_address amt =
     and_then (get_wallet_address cr owner_address wallet_program) (\<lambda>(wallet_address, _).
       Ok \<lparr>instr_program_id = wallet_program,
           instr_accounts = [meta_new wallet_address False, meta_new source False,
             meta_new_readonly source_authority True, meta_new_readonly mint_address False,
             meta_new_readonly spl_token_id False],
           instr_data = encode_wallet_instruction cd (Deposit amt)\<rparr>)"

definition withdraw_ix ::
  "crypto \<Rightarrow> level4_codec \<Rightarrow> Pubkey \<Rightarrow> Pubkey \<Rightarrow> Pubkey \<Rightarrow> Pubkey \<Rightarrow> u64 \<Rightarrow> Instruction ProgramResult" where
  "withdraw_ix cr cd wallet_program owner_address destination mint_address amt =
     and_then (get_wallet_address cr owner_address wallet_program) (\<lambda>(wallet_address, _).
     and_then (get_authority cr wallet_program) (\<lambda>(authority_address, _).
       Ok \<lparr>instr_program_id = wallet_program,
           instr_accounts = [meta_new wallet_address False, meta_new_readonly authority_address False,
             meta_new_readonly owner_address True, meta_new destination False,
             meta_new_readonly mint_address False, meta_new_readonly spl_token_id False],
           instr_data = encode_wallet_instruction cd (Withdraw amt)\<rparr>))"

text \<open>The builders of \<open>spl-token\<close> 3.1.0.\<close>

definition vendored_initialize_account :: "Pubkey \<Rightarrow> Pubkey \<Rightarrow> Pubkey \<Rightarrow> Pubkey \<Rightarrow> Instruction" where
  "vendored_initialize_account token_program_id account_pubkey mint_pubkey owner_pubkey =
     \<lparr>instr_program_id = token_program_id,
      instr_accounts = [meta_new account_pubkey False, meta_new_readonly mint_pubkey False,
        meta_new_readonly owner_pubkey False, meta_new_readonly rent_sysvar_id False],
      instr_data = token_instruction_pack InitializeAccount\<rparr>"

definition vendored_transfer_checked ::
  "Pubkey \<Rightarrow> Pubkey \<Rightarrow> Pubkey \<Rightarrow> Pubkey \<Rightarrow> Pubkey \<Rightarrow> Pubkey list \<Rightarrow> u64 \<Rightarrow> u8 \<Rightarrow> Instruction" where
  "vendored_transfer_checked token_program_id source_pubkey mint_pubkey destination_pubkey authority_pubkey signer_pubkeys amt dec =
     \<lparr>instr_program_id = token_program_id,
      instr_accounts = [meta_new source_pubkey False, meta_new_readonly mint_pubkey False,
        meta_new destination_pubkey False, meta_new_readonly authority_pubkey (signer_pubkeys = [])] @
        map (\<lambda>k. meta_new_readonly k True) signer_pubkeys,
      instr_data = token_instruction_pack (TransferChecked amt dec)\<rparr>"


section \<open>Handlers\<close>

text \<open>\<open>mint.data.borrow()[44]\<close>: the decimals of a mint, or a panic on shorter data.\<close>

definition mint_decimals :: "store \<Rightarrow> AccountInfo \<Rightarrow> u8 ProgramResult" where
  "mint_decimals st mint_info =
     (if 44 < length (info_data st mint_info) then Ok (info_data st mint_info ! 44) else Inl Panic)"

definition level4_initialize ::
  "crypto \<Rightarrow> system_codec \<Rightarrow> Pubkey \<Rightarrow> AccountInfo list \<Rightarrow> store \<Rightarrow> script" where
  "level4_initialize cr bc program_id infos st =
     attempt (next_account_info infos) (\<lambda>(wallet_info, it).
     attempt (next_account_info it) (\<lambda>(authority_info, it).
     attempt (next_account_info it) (\<lambda>(owner_info, it).
     attempt (next_account_info it) (\<lambda>(mint_info, it).
     attempt (next_account_info it) (\<lambda>(rent_info, it).
     attempt (next_account_info it) (\<lambda>(spl_token, it).
     attempt (get_wallet_address cr (key owner_info) program_id) (\<lambda>(wallet_address, wallet_seed).
     attempt (get_authority cr program_id) (\<lambda>(authority_address, _).
     attempt (rent_from_account_info st rent_info) (\<lambda>rent.
     attempt (assert (key wallet_info = wallet_address)) (\<lambda>_.
     attempt (assert (key authority_info = authority_address)) (\<lambda>_.
     attempt (assert (is_signer owner_info)) (\<lambda>_.
     invoke_signed
       (create_account_ix bc (key owner_info) wallet_address (minimum_balance rent 165) 165 (key spl_token))
       [owner_info, wallet_info] [[to_bytes (key owner_info), [wallet_seed]]] st (\<lambda>st.
     invoke (vendored_initialize_account (key spl_token) wallet_address (key mint_info) authority_address)
       [authority_info, wallet_info, mint_info, rent_info] st (\<lambda>st.
     Finish (Ok st)))))))))))))))"

definition level4_deposit :: "AccountInfo list \<Rightarrow> u64 \<Rightarrow> store \<Rightarrow> script" where
  "level4_deposit infos amt st =
     attempt (next_account_info infos) (\<lambda>(wallet_info, it).
     attempt (next_account_info it) (\<lambda>(source_info, it).
     attempt (next_account_info it) (\<lambda>(user_authority_info, it).
     attempt (next_account_info it) (\<lambda>(mint_info, it).
     attempt (next_account_info it) (\<lambda>(spl_token, it).
     attempt (mint_decimals st mint_info) (\<lambda>dec.
     invoke (vendored_transfer_checked (key spl_token) (key source_info) (key mint_info) (key wallet_info)
         (key user_authority_info) [] amt dec)
       [wallet_info, source_info, user_authority_info, mint_info] st (\<lambda>st.
     Finish (Ok st))))))))"

definition level4_withdraw :: "crypto \<Rightarrow> Pubkey \<Rightarrow> AccountInfo list \<Rightarrow> u64 \<Rightarrow> store \<Rightarrow> script" where
  "level4_withdraw cr program_id infos amt st =
     attempt (next_account_info infos) (\<lambda>(wallet_info, it).
     attempt (next_account_info it) (\<lambda>(authority_info, it).
     attempt (next_account_info it) (\<lambda>(owner_info, it).
     attempt (next_account_info it) (\<lambda>(destination_info, it).
     attempt (next_account_info it) (\<lambda>(mint_info, it).
     attempt (next_account_info it) (\<lambda>(spl_token, it).
     attempt (get_wallet_address cr (key owner_info) program_id) (\<lambda>(wallet_address, _).
     attempt (get_authority cr program_id) (\<lambda>(authority_address, authority_seed).
     attempt (assert (key wallet_info = wallet_address)) (\<lambda>_.
     attempt (assert (key authority_info = authority_address)) (\<lambda>_.
     attempt (assert (is_signer owner_info)) (\<lambda>_.
     attempt (mint_decimals st mint_info) (\<lambda>dec.
     invoke_signed (vendored_transfer_checked (key spl_token) (key wallet_info) (key mint_info) (key destination_info)
         (key authority_info) [] amt dec)
       [wallet_info, destination_info, authority_info, mint_info] [[[authority_seed]]] st (\<lambda>st.
     Finish (Ok st))))))))))))))"

definition level4_process_instruction ::
  "crypto \<Rightarrow> system_codec \<Rightarrow> level4_codec \<Rightarrow> Pubkey \<Rightarrow> AccountInfo list \<Rightarrow> bytes \<Rightarrow> store \<Rightarrow> script" where
  "level4_process_instruction cr bc cd program_id infos input st =
     attempt (borsh_result (decode_wallet_instruction cd input)) (\<lambda>instruction.
       case instruction of
         Initialize \<Rightarrow> level4_initialize cr bc program_id infos st
       | Deposit amt \<Rightarrow> level4_deposit infos amt st
       | Withdraw amt \<Rightarrow> level4_withdraw cr program_id infos amt st)"


section \<open>Properties\<close>

lemma level4_withdraw_Inr:
  "run_script sys (level4_withdraw cr program_id infos amt st) = Inr st' \<longleftrightarrow>
     (\<exists>wallet_info authority_info owner_info destination_info mint_info spl_token rest wallet_seed authority_seed dec.
        infos = wallet_info # authority_info # owner_info # destination_info # mint_info # spl_token # rest \<and>
        get_wallet_address cr (key owner_info) program_id = Inr (key wallet_info, wallet_seed) \<and>
        get_authority cr program_id = Inr (key authority_info, authority_seed) \<and> is_signer owner_info \<and>
        mint_decimals st mint_info = Inr dec \<and>
        sys (vendored_transfer_checked (key spl_token) (key wallet_info) (key mint_info) (key destination_info)
            (key authority_info) [] amt dec)
          [wallet_info, destination_info, authority_info, mint_info] [[[authority_seed]]] st = Inr st')"
  by (auto simp: level4_withdraw_def run_script_attempt invoke_signed_def res_simps split: prod.splits)

text \<open>
  C39: \<open>level4\<close> calls whatever program it is given. A withdrawal signed by the owner of any wallet, with
  a program of the caller's choice in place of the token program, is exactly one invocation of that
  program with the destination as a writable account and with the contract's authority, which owns
  every wallet, marked as a signer; the seeds that are passed derive the authority's address, so the
  signature is granted.
\<close>

theorem level4_calls_any_program:
  assumes "get_wallet_address cr attacker program_id = Inr (wallet, wallet_seed)"
    and "get_authority cr program_id = Inr (authority_key, bump)" and "44 < length (data (st mint_key))"
  shows "run_script sys (level4_withdraw cr program_id
      [\<lparr>key = wallet, is_signer = False, is_writable = True\<rparr>, \<lparr>key = authority_key, is_signer = False, is_writable = False\<rparr>,
       \<lparr>key = attacker, is_signer = True, is_writable = False\<rparr>, \<lparr>key = victim_wallet, is_signer = False, is_writable = True\<rparr>,
       \<lparr>key = mint_key, is_signer = False, is_writable = False\<rparr>, \<lparr>key = any_program, is_signer = False, is_writable = False\<rparr>]
      amt st) =
      sys \<lparr>instr_program_id = any_program,
           instr_accounts = [meta_new wallet False, meta_new_readonly mint_key False, meta_new victim_wallet False,
             meta_new_readonly authority_key True],
           instr_data = token_instruction_pack (TransferChecked amt (data (st mint_key) ! 44))\<rparr>
        [\<lparr>key = wallet, is_signer = False, is_writable = True\<rparr>, \<lparr>key = victim_wallet, is_signer = False, is_writable = True\<rparr>,
         \<lparr>key = authority_key, is_signer = False, is_writable = False\<rparr>, \<lparr>key = mint_key, is_signer = False, is_writable = False\<rparr>]
        [[[bump]]] st \<and>
    create_program_address cr [[bump]] program_id = Inr authority_key"
  using assms find_program_address_Inr [OF assms(2) [unfolded get_authority_def]]
  by (simp add: level4_withdraw_def invoke_signed_def mint_decimals_def vendored_transfer_checked_def assert_def)

definition level4_sample_crypto :: crypto where
  "level4_sample_crypto = \<lparr>sha256 = (\<lambda>bs. word_of_nat (length bs)), bytes_are_curve_point = (\<lambda>_. False)\<rparr>"

lemma level4_sample_addresses:
  "get_wallet_address level4_sample_crypto 66 77 = Inr (86, 255)" "get_authority level4_sample_crypto 77 = Inr (54, 255)"
  by (simp_all add: get_wallet_address_def get_authority_def find_program_address_first create_program_address_def
      level4_sample_crypto_def MAX_SEEDS_def MAX_SEED_LEN_def PDA_MARKER_def)

definition level4_sample_store :: store where
  "level4_sample_store = (\<lambda>_. default_account)(4 := default_account\<lparr>data := replicate 82 0\<rparr>, 3 := default_account\<lparr>lamports := 8\<rparr>)"

theorem level4_calls_any_program_witness:
  "run_script (\<lambda>ix _ _ st. if instr_program_id ix = 99 then Inr (st(3 := default_account)) else Inl Panic)
     (level4_withdraw level4_sample_crypto 77
      [\<lparr>key = 86, is_signer = False, is_writable = True\<rparr>, \<lparr>key = 54, is_signer = False, is_writable = False\<rparr>,
       \<lparr>key = 66, is_signer = True, is_writable = False\<rparr>, \<lparr>key = 3, is_signer = False, is_writable = True\<rparr>,
       \<lparr>key = 4, is_signer = False, is_writable = False\<rparr>, \<lparr>key = 99, is_signer = False, is_writable = False\<rparr>]
      5 level4_sample_store) = Inr (level4_sample_store(3 := default_account))"
  using level4_calls_any_program [OF level4_sample_addresses, of level4_sample_store 4
      "\<lambda>ix _ _ st. if instr_program_id ix = 99 then Inr (st(3 := default_account)) else Inl Panic" 3 99 5]
  by (simp add: level4_sample_store_def default_account_def)

end
