(* ===== verification/Spec2Isabelle.thy ===== *)
theory Spec2Isabelle
  imports TokenSafety SystemSafety RuntimeProperties ComponentProperties LoaderSafety VmProperties Level0 Level1 Level2 Level3 Level4
begin

text \<open>
  \<^bold>\<open>A verification of the program model of Solana, as this repository holds it.\<close>

  The repository is a course on the security of Solana programs: five contracts with planted bugs
  (\<open>src/neodyme-workshop/contracts/level0\<close> to \<open>level4\<close>) and, under \<open>src/neodyme-workshop/pocs\<close>, what they run on: Solana
  1.11.2 (\<open>solana-1.11.2\<close>: the SDK, the runtime, the loader and the virtual machine \<open>solana_rbpf-0.2.31\<close>) and the
  token program (\<open>spl-token-3.3.0\<close>, and the 3.1.0 that \<open>level4\<close> is built with). Paths below are relative to these
  directories. The development models the path of an instruction: from a message through the runtime
  into a program (a built-in one, the token program, a contract, or any byte code in the virtual machine)
  and back into the accounts of the transaction.

  \<^bold>\<open>Conventions.\<close> Integers have their width (\<open>u8\<close> to \<open>u64\<close> are words) and wrap as in a release build; \<open>usize\<close> is
  a natural number where it is the length of something in memory and a 64-bit word where the code does
  arithmetic on it. A fallible function returns a sum: \<^term>\<open>Inl\<close> is the error, and a panic is an error of its own
  (\<open>Panic\<close>, \<open>Panics\<close>, \<open>VmPanic\<close>, \<open>Panicked\<close>, or \<^term>\<open>None\<close> where nothing else can go wrong). A method on
  \<open>&mut self\<close> that returns a \<open>Result\<close> is an \<open>action\<close>: it returns the state it leaves on errors too. A program on chain
  works on a \<open>store\<close>, a map from keys to accounts, because the views of an instruction alias when a key is
  passed twice. Code outside of the repository is a parameter: SHA-256 and the curve test (\<open>crypto\<close>), bincode
  and borsh (records of codecs), the built-in programs of the runtime and its loader, the system calls
  and the tables of an executable, and the addresses that allocators choose. The theorems name what they
  need of them as hypotheses, and a witness instantiates them.

  \<^bold>\<open>The theories.\<close>

  \<^item> \<open>Prelude\<close>: results, actions and the locale \<open>state_preorder\<close> of relations that actions keep; checked and
    saturating arithmetic; little-endian encodings. The collections \<open>res_simps\<close> and \<open>codec_simps\<close>.
  \<^item> \<open>Sdk\<close> (\<open>sdk/program/src/pubkey.rs\<close>, \<open>program_error.rs\<close>, \<open>instruction.rs\<close>, \<open>account_info.rs\<close>), \<open>Float64\<close> and \<open>Rent\<close>
    (\<open>rent.rs\<close>, with the binary64 arithmetic it uses computed exactly).
  \<^item> \<open>TokenState\<close>, \<open>TokenInstruction\<close>, \<open>TokenProcessor\<close> (\<open>state.rs\<close>, \<open>instruction.rs\<close>, \<open>processor.rs\<close> of the token program): the
    byte layouts (locale \<open>packed_state\<close>, interpreted for the three of them), the wire format, every handler
    and the dispatch. \<open>TokenLedger\<close> abstracts the store to a ledger of accounts, mints and lamports with its
    steps, and shows that every handler refines one; \<open>TokenSafety\<close> classifies what an instruction can do to
    the data of one address and holds the properties: supply equals the sum of balances (C1), refinement
    (C2), authorisation (C3), frozen accounts (C4), fixed supplies (C5), lamports (C6), and exactly when a
    transfer succeeds and what it does (C7).
  \<^item> \<open>TransactionContext\<close> (\<open>sdk/src/transaction_context.rs\<close>), \<open>PreAccount\<close> (\<open>program-runtime/src/pre_account.rs\<close> and
    \<open>accounts_data_meter.rs\<close>), \<open>ComputeBudget\<close> (\<open>compute_budget.rs\<close>, \<open>prioritization_fee.rs\<close>), \<open>InvokeContext\<close>
    (\<open>invoke_context.rs\<close>), \<open>Message\<close> (\<open>sdk/program/src/message\<close>) and \<open>MessageProcessor\<close> (\<open>runtime/src/message_processor.rs\<close>): the
    runtime. What a program does is a tree of effects (\<open>prog\<close>), so that the theorems hold for every program.
    \<open>RuntimeStack\<close>, \<open>RuntimeMeter\<close> (locales \<open>outer_relation\<close> and \<open>instruction_relation\<close>) and \<open>RuntimeSafety\<close> hold the
    invariants of an instruction with all its cross-program invocations, \<open>RuntimeProperties\<close> the properties:
    conservation and read-only accounts of a message (C8), owners (C9), no escalation of privileges
    (C10), the recursion ends (C11), the stack is restored (C12), units are bounded (C13), and the growth
    of accounts that is not metered (C40).
  \<^item> \<open>SystemProgram\<close> (\<open>runtime/src/system_instruction_processor.rs\<close>, \<open>nonce_keyed_account.rs\<close>) and \<open>SystemSafety\<close>: lamports
    leave an account only with a signature (C18) and are conserved (C19); what happens to a nonce account is
    a step of a labelled transition system (C20) and a nonce advances once per blockhash (C21); an account can
    be created (C22).
  \<^item> \<open>AlignedMemory\<close>, \<open>LoaderAbi\<close> (\<open>programs/bpf_loader/src/serialization.rs\<close>, \<open>deserialize\<close> of \<open>sdk/program/src/entrypoint.rs\<close>) and
    \<open>LoaderSafety\<close>: the program reads what the loader serialized (C16), and whatever the program left in the
    buffer changes the accounts within bounds (C17).
  \<^item> \<open>Ebpf\<close>, \<open>Verifier\<close>, \<open>MemoryRegion\<close>, \<open>CallFrames\<close>, \<open>Interpreter\<close> (the files of these names in \<open>solana_rbpf-0.2.31/src\<close>, and \<open>vm.rs\<close>):
    the virtual machine. \<open>VmSafety\<close> is a logic for actions that do not panic and the proof that verified
    instructions do not; \<open>VmProperties\<close> has the locales \<open>vm_local\<close>, \<open>vm_preorder\<close> and \<open>vm_step_preorder\<close> of relations kept by
    instructions, and the properties: a verified program returns (C14) and is confined to its regions
    (C15); address translation (C30), calls and returns (C31), the encoding of instructions (C32).
  \<^item> \<open>Contract\<close> and \<open>Level0\<close> to \<open>Level4\<close> (\<open>lib.rs\<close> and \<open>processor.rs\<close> of the contracts): a handler is a script that may
    invoke other programs. What holds of the contracts (C33, C34) and the attacks on them (C35 to C39).
  \<^item> \<open>ComponentProperties\<close>: the check of an account after a program ran accepts exactly the allowed changes
    (C23), multisignatures (C24), round trips of messages, token accounts and token instructions (C25 to C27),
    the compute budget and the heap (C28), derived addresses (C29). \<open>Samples\<close> holds the concrete
    transactions on which the properties of the runtime and of the system program are evaluated.

  \<^bold>\<open>Termination and bounds.\<close> Cross-program invocations recurse in the source through \<open>native_invoke\<close>; the model
  recurses on the free places of the instruction stack, which is as deep as an invocation can go, and C11
  shows that with this bound it satisfies the unbounded equation of the source. The loop of the virtual machine
  is a \<open>partial_function\<close>: a run that does not end is \<^term>\<open>None\<close>, and C14 shows that under the instruction meter it
  always ends. The loops of the verifier and of the search for a bump seed have termination proofs.

  \<^bold>\<open>What modelling showed.\<close> Besides the planted bugs: short input makes the token program panic
  (\<open>token_unpack_short_panics\<close>), key positions and duplicate markers are cut to a byte (\<open>key_position_truncates\<close>,
  \<open>duplicate_marker_truncates\<close>), the growth of account data is not metered (C40), the serializer relies on the alignment
  of its allocation (\<open>unaligned_base_fails\<close>), and an access that runs from a stack frame into a gap is accepted
  (\<open>straddling_access_accepted\<close>).

  \<^bold>\<open>What is not modelled.\<close> Consensus, networking, storage, RPC and the command line: concurrent or I/O code without
  a functional contract. The just-in-time compiler and the ELF loader of the virtual machine: the text and the
  function table that the ELF loader yields are arguments of the interpreter. The system calls and the
  deployment instructions of the loader, and the stake, vote, config and lookup table programs, which enter as
  parameters. Versioned messages with lookup tables. Timings, logs and metrics. \<open>RefCell\<close> borrow states: a failed
  borrow needs two live borrows of one account, and the modelled code has none.
\<close>

end
